(* ===== verification/Prelude.thy ===== *)
theory Prelude
  imports Main "HOL-Library.Finite_Map" "HOL-Library.List_Lexorder" "HOL-Library.Char_ord"
    "HOL-Library.Word" "HOL-Library.Sublist" "HOL-Library.Multiset"
begin

text \<open>
  The prelude of the development: the names of the machine types, the representation of Go's
  maps, and the generic facts on lists and finite maps that several components use.

  A Go \<open>map[string]V\<close> is a finite map \<open>(string, 'v) fmap\<close>; where the code tells a nil map
  from an empty one the type is \<open>(string, string) fmap option\<close> with \<open>None\<close> for nil. Strings
  are byte strings (\<open>char list\<close>), as in Go, and are ordered bytewise. An \<open>int32\<close> is a 32-bit
  word, read with \<open>sint\<close>.
\<close>

named_theorems meta_simps "frame equations: which fields an operation leaves alone"

type_synonym int32 = "32 word"
type_synonym int64 = "64 word"
type_synonym strmap = "(string, string) fmap"
type_synonym gomap = "strmap option"

section \<open>Go maps\<close>

text \<open>Reading a map: a nil map reads as an empty one.\<close>

definition mval :: "('k, 'v) fmap option \<Rightarrow> ('k, 'v) fmap" where
  "mval m = (case m of None \<Rightarrow> fmempty | Some f \<Rightarrow> f)"

lemma mval_simps [simp]: "mval None = fmempty" "mval (Some f) = f"
  by (simp_all add: mval_def)

text \<open>
  \<open>range\<close> over a map visits the keys in an order the language leaves open. The order is a
  function on key lists that permutes its argument; a loop ranges over the pairs in that order.
\<close>

type_synonym map_order = "string list \<Rightarrow> string list"

definition is_order :: "map_order \<Rightarrow> bool" where
  "is_order ord \<longleftrightarrow> (\<forall>ks. mset (ord ks) = mset ks)"

definition go_keys :: "map_order \<Rightarrow> (string, 'v) fmap \<Rightarrow> string list" where
  "go_keys ord m = ord (sorted_list_of_fset (fmdom m))"

definition go_range :: "map_order \<Rightarrow> (string, 'v) fmap \<Rightarrow> (string \<times> 'v) list" where
  "go_range ord m = map (\<lambda>k. (k, the (fmlookup m k))) (go_keys ord m)"

lemma is_order_id [simp]: "is_order (\<lambda>ks. ks)" "is_order rev" "is_order id"
  by (simp_all add: is_order_def)

lemma go_keys_set [simp]: "is_order ord \<Longrightarrow> set (go_keys ord m) = fmdom' m"
  unfolding go_keys_def is_order_def fmdom'_alt_def
  by (metis set_mset_mset sorted_list_of_fset_simps(1))

lemma go_keys_distinct [simp]: "is_order ord \<Longrightarrow> distinct (go_keys ord m)"
  unfolding go_keys_def is_order_def
  by (metis distinct_sorted_list_of_set mset_eq_imp_distinct_iff sorted_list_of_fset.rep_eq)

lemma map_fst_go_range [simp]: "map fst (go_range ord m) = go_keys ord m"
  by (simp add: go_range_def comp_def)

lemma go_range_set:
  "is_order ord \<Longrightarrow> set (go_range ord m) = {(k, v). fmlookup m k = Some v}"
  by (force simp: go_range_def fmlookup_dom'_iff)

lemma go_range_values:
  "is_order ord \<Longrightarrow> v \<in> snd ` set (go_range ord m) \<longleftrightarrow> (\<exists>k. fmlookup m k = Some v)"
  by (force simp: go_range_set)

lemma go_range_map_of: "is_order ord \<Longrightarrow> map_of (go_range ord m) = fmlookup m"
proof
  fix k
  assume "is_order ord"
  then show "map_of (go_range ord m) k = fmlookup m k"
    by (cases "fmlookup m k")
       (auto simp: map_of_eq_None_iff go_range_set simp flip: set_map
             intro!: map_of_is_SomeI dest: fmdom'_notI)
qed

lemma go_range_empty [simp]: "is_order ord \<Longrightarrow> go_range ord fmempty = []"
  by (metis fmdom'_empty go_keys_set go_range_def list.map(1) set_empty2)

text \<open>\<open>maps.Copy(dst, src)\<close>: the entries of \<open>src\<close> are written into the non-nil map \<open>dst\<close>.\<close>

definition maps_Copy :: "('k, 'v) fmap \<Rightarrow> ('k, 'v) fmap option \<Rightarrow> ('k, 'v) fmap" where
  "maps_Copy dst src = dst ++\<^sub>f mval src"

lemma fmlookup_maps_Copy [simp]:
  "fmlookup (maps_Copy dst src) k =
     (case fmlookup (mval src) k of None \<Rightarrow> fmlookup dst k | Some v \<Rightarrow> Some v)"
  by (auto simp: maps_Copy_def fmlookup_dom_iff split: option.splits)

lemma maps_Copy_nil [simp]: "maps_Copy dst None = dst"
  by (simp add: maps_Copy_def)

lemma maps_Copy_absorb [simp]: "maps_Copy (maps_Copy m s) s = maps_Copy m s"
  by (rule fmap_ext) (simp split: option.splits)

lemma sorted_keys_empty [simp]: "sorted_list_of_fset {||} = []"
  by (simp add: sorted_list_of_fset.rep_eq)

lemma sorted_keys_finsert:
  "sorted_list_of_fset (finsert x A) = insort x (sorted_list_of_fset (A - {|x|}))"
  by (simp add: sorted_list_of_fset.rep_eq sorted_list_of_set_insert_remove)

section \<open>Lists\<close>

text \<open>The index of the first element with a property: a pointer into a slice.\<close>

fun find_idx :: "('a \<Rightarrow> bool) \<Rightarrow> 'a list \<Rightarrow> nat option" where
  "find_idx P [] = None"
| "find_idx P (x # xs) = (if P x then Some 0 else map_option Suc (find_idx P xs))"

lemma find_idx_Some:
  "find_idx P xs = Some i \<Longrightarrow> i < length xs \<and> P (xs ! i) \<and> (\<forall>j<i. \<not> P (xs ! j))"
proof (induction xs arbitrary: i)
  case (Cons x xs)
  then show ?case
    by (cases i) (auto simp: less_Suc_eq_0_disj split: if_splits)
qed simp

lemma find_idx_None: "find_idx P xs = None \<longleftrightarrow> (\<forall>x\<in>set xs. \<not> P x)"
  by (induction xs) auto

lemma find_idx_append_new:
  "find_idx P xs = None \<Longrightarrow> P y \<Longrightarrow> find_idx P (xs @ [y]) = Some (length xs)"
  by (induction xs) (auto split: if_splits)

lemma find_idx_update:
  "find_idx P xs = Some i \<Longrightarrow> P y \<Longrightarrow> find_idx P (xs[i := y]) = Some i"
proof (induction xs arbitrary: i)
  case (Cons x xs)
  then show ?case by (cases i) (auto split: if_splits)
qed simp

lemma mset_eq_length_sorted_unique:
  fixes f :: "'a \<Rightarrow> 'k::linorder"
  assumes "mset xs = mset ys" and "sorted (map f xs)" and "sorted (map f ys)"
    and "distinct (map f xs)"
  shows "xs = ys"
proof -
  have inj: "inj_on f (set xs)" using assms(4) by (simp add: distinct_map)
  have set: "set ys = set xs" using assms(1) by (metis set_mset_mset)
  have "mset (map f xs) = mset (map f ys)" using assms(1) by (metis mset_map)
  then have "map f xs = map f ys"
    using assms(2,3) by (metis sorted_list_of_multiset_mset sorted_sort_id)
  then show ?thesis
    using inj set by (metis map_inj_on sup.idem)
qed

lemma map_of_map_key:
  "map_of (map (\<lambda>e. (f e, e)) xs) k = find (\<lambda>e. f e = k) xs"
  by (induction xs) auto

lemma find_SomeD: "find P xs = Some x \<Longrightarrow> x \<in> set xs \<and> P x"
  by (induction xs) (auto split: if_splits)

lemma find_None: "find P xs = None \<longleftrightarrow> (\<forall>x\<in>set xs. \<not> P x)"
  by (induction xs) auto

end
