(* ===== verification/Go_Strings.thy ===== *)
theory Go_Strings
  imports Prelude
begin

text \<open>
  The part of Go's \<open>strings\<close>, \<open>strconv\<close>, \<open>unicode/utf8\<close> and \<open>fmt\<close> packages that the
  operator uses, on byte strings: iteration over runes, trimming, splitting, decimal formatting
  (\<open>%d\<close>), quoting (\<open>%q\<close>) and joining. The Unicode tables (which rune is printable, the lower
  case of a rune) are data of the standard library; they are the fields of a record and
  every definition that reads them takes it as an argument.
\<close>

section \<open>Bytes and runes\<close>

abbreviation byte :: "char \<Rightarrow> nat" where
  "byte c \<equiv> of_char c"

definition is_ascii :: "string \<Rightarrow> bool" where
  "is_ascii s \<longleftrightarrow> list_all (\<lambda>c. byte c < 128) s"

definition rune_error :: nat where
  "rune_error = 65533"

definition cont_byte :: "nat \<Rightarrow> bool" where
  "cont_byte b \<longleftrightarrow> 128 \<le> b \<and> b \<le> 191"

text \<open>
  \<open>utf8.DecodeRuneInString\<close>: the first rune of a non-empty string and its width in bytes; an
  ill-formed sequence is the replacement rune of width 1.
\<close>

definition decode2 :: "nat \<Rightarrow> nat \<Rightarrow> nat \<times> nat" where
  "decode2 b0 b1 =
     (if 194 \<le> b0 \<and> b0 \<le> 223 \<and> cont_byte b1 then ((b0 - 192) * 64 + (b1 - 128), 2)
      else (rune_error, 1))"

definition decode3 :: "nat \<Rightarrow> nat \<Rightarrow> nat \<Rightarrow> nat \<times> nat" where
  "decode3 b0 b1 b2 =
     (if 224 \<le> b0 \<and> b0 \<le> 239 \<and> cont_byte b1 \<and> cont_byte b2
         \<and> (b0 = 224 \<longrightarrow> 160 \<le> b1) \<and> (b0 = 237 \<longrightarrow> b1 \<le> 159)
      then ((b0 - 224) * 4096 + (b1 - 128) * 64 + (b2 - 128), 3)
      else decode2 b0 b1)"

definition decode4 :: "nat \<Rightarrow> nat \<Rightarrow> nat \<Rightarrow> nat \<Rightarrow> nat \<times> nat" where
  "decode4 b0 b1 b2 b3 =
     (if 240 \<le> b0 \<and> b0 \<le> 244 \<and> cont_byte b1 \<and> cont_byte b2 \<and> cont_byte b3
         \<and> (b0 = 240 \<longrightarrow> 144 \<le> b1) \<and> (b0 = 244 \<longrightarrow> b1 \<le> 143)
      then ((b0 - 240) * 262144 + (b1 - 128) * 4096 + (b2 - 128) * 64 + (b3 - 128), 4)
      else decode3 b0 b1 b2)"

definition decode_rune :: "string \<Rightarrow> nat \<times> nat" where
  "decode_rune s =
     (case map byte (take 4 s) of
        [] \<Rightarrow> (rune_error, 0)
      | b0 # bs \<Rightarrow>
          if b0 < 128 then (b0, 1)
          else (case bs of
              [] \<Rightarrow> (rune_error, 1)
            | [b1] \<Rightarrow> decode2 b0 b1
            | [b1, b2] \<Rightarrow> decode3 b0 b1 b2
            | b1 # b2 # b3 # _ \<Rightarrow> decode4 b0 b1 b2 b3))"

text \<open>\<open>for _, r := range s\<close>: the runes of a string, each with the bytes it was read from.\<close>

function runes :: "string \<Rightarrow> (nat \<times> string) list" where
  "runes [] = []"
| "runes (c # cs) =
     (let (r, w) = decode_rune (c # cs)
      in (r, c # take (w - 1) cs) # runes (drop (w - 1) cs))"
  by pat_completeness auto
termination
  by (relation "measure length") (auto simp: le_imp_less_Suc)

lemma decode_rune_ascii: "byte c < 128 \<Longrightarrow> decode_rune (c # cs) = (byte c, 1)"
  by (simp add: decode_rune_def)

lemma runes_ascii: "is_ascii s \<Longrightarrow> runes s = map (\<lambda>c. (byte c, [c])) s"
  by (induction s rule: runes.induct) (auto simp: is_ascii_def decode_rune_ascii)

lemma runes_bytes: "concat (map snd (runes s)) = s"
  by (induction s rule: runes.induct) (auto simp: Let_def split: prod.splits)

lemma runes_eq_Nil [simp]: "runes s = [] \<longleftrightarrow> s = []"
  by (cases s) (auto simp: Let_def split: prod.splits)

lemma decode2_high: "128 \<le> fst (decode2 b0 b1)"
  by (auto simp: decode2_def rune_error_def)

lemma decode3_high: "128 \<le> fst (decode3 b0 b1 b2)"
  by (auto simp: decode3_def decode2_high)

lemma decode4_high: "128 \<le> fst (decode4 b0 b1 b2 b3)"
  by (auto simp: decode4_def decode3_high)

text \<open>A rune below 128 is always the byte it was read from.\<close>

lemma decode_rune_high:
  assumes "\<not> byte c < 128"
  shows "128 \<le> fst (decode_rune (c # cs))"
proof -
  consider "cs = []" | b1 where "cs = [b1]" | b1 b2 where "cs = [b1, b2]"
    | b1 b2 b3 ds where "cs = b1 # b2 # b3 # ds"
    by (metis list.exhaust)
  then show ?thesis
    by cases
       (use assms decode2_high decode3_high decode4_high in
         \<open>simp_all add: decode_rune_def rune_error_def del: One_nat_def\<close>)
qed

lemma decode_rune_low:
  assumes "decode_rune (c # cs) = (r, w)" and "r < 128"
  shows "byte c = r \<and> w = 1"
proof (cases "byte c < 128")
  case True
  then show ?thesis using assms by (simp add: decode_rune_ascii)
next
  case False
  then show ?thesis using assms decode_rune_high[of c cs] by simp
qed

lemma runes_low: "(r, bs) \<in> set (runes s) \<Longrightarrow> r < 128 \<Longrightarrow> bs = [char_of r]"
proof (induction s rule: runes.induct)
  case (2 c cs)
  obtain r0 w0 where d: "decode_rune (c # cs) = (r0, w0)" by (cases "decode_rune (c # cs)")
  then have "(r, bs) = (r0, c # take (w0 - 1) cs) \<or> (r, bs) \<in> set (runes (drop (w0 - 1) cs))"
    using "2.prems"(1) by simp
  then show ?case
  proof
    assume hd: "(r, bs) = (r0, c # take (w0 - 1) cs)"
    then have "byte c = r \<and> w0 = 1" using d "2.prems"(2) decode_rune_low by simp
    then show ?thesis using hd by auto
  next
    assume "(r, bs) \<in> set (runes (drop (w0 - 1) cs))"
    then show ?thesis using "2.IH" d "2.prems"(2) by metis
  qed
qed simp

section \<open>Decimal numbers\<close>

fun show_nat :: "nat \<Rightarrow> string" where
  "show_nat n =
     (if n < 10 then [char_of (48 + n)] else show_nat (n div 10) @ [char_of (48 + n mod 10)])"

declare show_nat.simps [simp del]

definition show_int :: "int \<Rightarrow> string" where
  "show_int i = (if i < 0 then ''-'' @ show_nat (nat (- i)) else show_nat (nat i))"

text \<open>\<open>%d\<close> on an \<open>int32\<close>.\<close>

definition show_int32 :: "int32 \<Rightarrow> string" where
  "show_int32 w = show_int (sint w)"

definition is_digit :: "char \<Rightarrow> bool" where
  "is_digit c \<longleftrightarrow> CHR ''0'' \<le> c \<and> c \<le> CHR ''9''"

lemma digit_chars:
  "char_of (48::nat) = CHR ''0''" "char_of (49::nat) = CHR ''1''" "char_of (50::nat) = CHR ''2''"
  "char_of (51::nat) = CHR ''3''" "char_of (52::nat) = CHR ''4''" "char_of (53::nat) = CHR ''5''"
  "char_of (54::nat) = CHR ''6''" "char_of (55::nat) = CHR ''7''" "char_of (56::nat) = CHR ''8''"
  "char_of (57::nat) = CHR ''9''"
  by code_simp+

text \<open>The equations that evaluate a decimal number.\<close>

lemmas show_eval = show_nat.simps digit_chars

lemma char_of_digit: "d < (10::nat) \<Longrightarrow> is_digit (char_of (48 + d))"
  by (simp add: is_digit_def less_eq_char_def)

lemma show_nat_digits: "c \<in> set (show_nat n) \<Longrightarrow> is_digit c"
proof (induction n rule: show_nat.induct)
  case (1 n)
  then show ?case
    by (subst (asm) (2) show_nat.simps) (auto split: if_splits simp: char_of_digit)
qed

lemma show_nat_nonempty [simp]: "show_nat n \<noteq> []"
  by (subst show_nat.simps) simp

section \<open>Trimming, splitting, joining\<close>

definition has_prefix :: "string \<Rightarrow> string \<Rightarrow> bool" where
  "has_prefix s p \<longleftrightarrow> take (length p) s = p"

lemma has_prefix_iff: "has_prefix s p \<longleftrightarrow> prefix p s"
  unfolding has_prefix_def by (metis append_eq_conv_conj prefix_def)

text \<open>\<open>strings.Contains(s, c)\<close> for a one-character substring.\<close>

definition contains_char :: "string \<Rightarrow> char \<Rightarrow> bool" where
  "contains_char s c \<longleftrightarrow> list_ex (\<lambda>x. x = c) s"

lemma contains_char_iff [simp]: "contains_char s c \<longleftrightarrow> c \<in> set s"
  by (auto simp: contains_char_def list_ex_iff)

text \<open>\<open>strings.Join\<close>.\<close>

fun join :: "string list \<Rightarrow> string \<Rightarrow> string" where
  "join [] sep = []"
| "join [x] sep = x"
| "join (x # y # xs) sep = x @ sep @ join (y # xs) sep"

text \<open>Trimming one character off both ends: \<open>strings.Trim(s, "c")\<close>.\<close>

definition trim_char :: "char \<Rightarrow> string \<Rightarrow> string" where
  "trim_char c s = rev (dropWhile (\<lambda>x. x = c) (rev (dropWhile (\<lambda>x. x = c) s)))"

text \<open>\<open>unicode.IsSpace\<close>, and \<open>strings.TrimSpace\<close>, which drops runes at both ends.\<close>

definition is_space :: "nat \<Rightarrow> bool" where
  "is_space r \<longleftrightarrow>
     r \<in> {9, 10, 11, 12, 13, 32, 133, 160, 5760, 8232, 8233, 8239, 8287, 12288}
     \<or> 8192 \<le> r \<and> r \<le> 8202"

definition TrimSpace :: "string \<Rightarrow> string" where
  "TrimSpace s =
     concat (map snd
       (rev (dropWhile (is_space \<circ> fst) (rev (dropWhile (is_space \<circ> fst) (runes s))))))"

section \<open>Quoting\<close>

record unicode =
  uni_print :: "nat \<Rightarrow> bool"  \<comment> \<open>\<open>unicode.IsPrint\<close>, asked of runes from 128 on\<close>
  uni_lower :: "nat \<Rightarrow> string"  \<comment> \<open>the lower case of a rune from 128 on, encoded\<close>

definition hex_digit :: "nat \<Rightarrow> char" where
  "hex_digit d = (if d < 10 then char_of (48 + d) else char_of (87 + d))"

fun hex :: "nat \<Rightarrow> nat \<Rightarrow> string" where
  "hex 0 n = []"
| "hex (Suc k) n = hex k (n div 16) @ [hex_digit (n mod 16)]"

definition esc :: "char \<Rightarrow> string" where
  "esc c = [CHR 0x5C, c]"

text \<open>\<open>strconv.Quote\<close> (\<open>%q\<close>), rune by rune; an ill-formed byte is written \<open>\xHH\<close>.\<close>

definition quote_rune :: "unicode \<Rightarrow> nat \<times> string \<Rightarrow> string" where
  "quote_rune u rb = (case rb of (r, bs) \<Rightarrow>
     if r = rune_error \<and> length bs = 1 then esc (CHR ''x'') @ hex 2 (byte (hd bs))
     else if r = 34 \<or> r = 92 then CHR 0x5C # bs
     else if 32 \<le> r \<and> r < 127 \<or> 128 \<le> r \<and> uni_print u r then bs
     else if r = 7 then esc (CHR ''a'')
     else if r = 8 then esc (CHR ''b'')
     else if r = 12 then esc (CHR ''f'')
     else if r = 10 then esc (CHR ''n'')
     else if r = 13 then esc (CHR ''r'')
     else if r = 9 then esc (CHR ''t'')
     else if r = 11 then esc (CHR ''v'')
     else if r < 32 \<or> r = 127 then esc (CHR ''x'') @ hex 2 r
     else if r < 65536 then esc (CHR ''u'') @ hex 4 r
     else esc (CHR ''U'') @ hex 8 r)"

definition quote :: "unicode \<Rightarrow> string \<Rightarrow> string" where
  "quote u s = [CHR 0x22] @ concat (map (quote_rune u) (runes s)) @ [CHR 0x22]"

text \<open>\<open>%v\<close> on a slice of strings.\<close>

definition show_strings :: "string list \<Rightarrow> string" where
  "show_strings xs = ''['' @ join xs '' '' @ '']''"

end
