(* ===== verification/Go_Json.thy ===== *)
theory Go_Json
  imports Go_Strings
begin

text \<open>
  \<open>encoding/json\<close> as far as the operator uses it: \<open>json.Marshal\<close> of a map from strings to maps
  from strings to a string or a list of strings. Keys are written in sorted order; strings
  are escaped for JSON and HTML; an ill-formed byte is written as the replacement character.
\<close>

datatype jval = JString string | JStrings "string list"

definition json_rune :: "nat \<times> string \<Rightarrow> string" where
  "json_rune rb = (case rb of (r, bs) \<Rightarrow>
     if r < 128 then
       (if r = 34 \<or> r = 92 then CHR 0x5C # bs
        else if r = 8 then esc (CHR ''b'')
        else if r = 12 then esc (CHR ''f'')
        else if r = 10 then esc (CHR ''n'')
        else if r = 13 then esc (CHR ''r'')
        else if r = 9 then esc (CHR ''t'')
        else if r < 32 \<or> r = 60 \<or> r = 62 \<or> r = 38 then esc (CHR ''u'') @ hex 4 r
        else bs)
     else if r = rune_error \<and> length bs = 1 then esc (CHR ''u'') @ ''fffd''
     else if r = 8232 \<or> r = 8233 then esc (CHR ''u'') @ hex 4 r
     else bs)"

definition json_string :: "string \<Rightarrow> string" where
  "json_string s = [CHR 0x22] @ concat (map json_rune (runes s)) @ [CHR 0x22]"

definition json_object :: "('v \<Rightarrow> string) \<Rightarrow> (string, 'v) fmap \<Rightarrow> string" where
  "json_object f m =
     ''{'' @ join (map (\<lambda>k. json_string k @ '':'' @ f (the (fmlookup m k)))
                     (sorted_list_of_fset (fmdom m))) '','' @ ''}''"

fun json_value :: "jval \<Rightarrow> string" where
  "json_value (JString s) = json_string s"
| "json_value (JStrings ss) = ''['' @ join (map json_string ss) '','' @ '']''"

type_synonym json_map = "(string, (string, jval) fmap) fmap"

text \<open>Marshalling such a map never fails.\<close>

definition json_Marshal :: "json_map \<Rightarrow> string" where
  "json_Marshal m = json_object (json_object json_value) m"

lemma json_Marshal_empty: "json_Marshal fmempty = ''{}''"
  by (simp add: json_Marshal_def json_object_def)

end
