(* ===== verification/Kube_Types.thy ===== *)
theory Kube_Types
  imports Go_Strings
begin

text \<open>
  The Kubernetes objects the operator reads and writes, restricted to the fields the source
  names. What the operator carries through without looking into it (an environment
  variable's source, a volume's source, the remaining fields of a container) is one field of
  type \<open>opaque\<close>. A pointer field that may be nil is an \<open>option\<close>; a string field is empty when
  it is not set.
\<close>

type_synonym opaque = string

section \<open>Metadata\<close>

record ObjectReference =
  or_APIVersion :: string
  or_Kind :: string
  or_Name :: string
  or_Namespace :: string

record ObjectMeta =
  om_Name :: string
  om_Namespace :: string
  om_Labels :: gomap
  om_Annotations :: gomap
  om_Generation :: int64
  om_Created :: bool  \<comment> \<open>the negation of \<open>CreationTimestamp.IsZero()\<close>\<close>
  om_OwnerReferences :: "opaque list"
  om_ResourceVersion :: string

definition new_meta :: "string \<Rightarrow> string \<Rightarrow> ObjectMeta" where
  "new_meta name namespace =
     \<lparr>om_Name = name, om_Namespace = namespace, om_Labels = None, om_Annotations = None,
      om_Generation = 0, om_Created = False, om_OwnerReferences = [], om_ResourceVersion = []\<rparr>"

record NamespacedName =
  nn_Namespace :: string
  nn_Name :: string

abbreviation nsname :: "string \<Rightarrow> string \<Rightarrow> NamespacedName" where
  "nsname ns n \<equiv> \<lparr>nn_Namespace = ns, nn_Name = n\<rparr>"

text \<open>\<open>ctrl.Request\<close> wraps a namespaced name.\<close>

type_synonym Request = NamespacedName

definition request_of :: "ObjectMeta \<Rightarrow> Request" where
  "request_of m = nsname (om_Namespace m) (om_Name m)"

datatype ConditionStatus = ConditionTrue | ConditionFalse | ConditionUnknown

record Condition =
  c_Type :: string
  c_Status :: ConditionStatus
  c_ObservedGeneration :: int64
  c_LastTransitionTime :: opaque
  c_Reason :: string
  c_Message :: string

section \<open>Containers and pods\<close>

record EnvVar =
  ev_Name :: string
  ev_Value :: string
  ev_ValueFrom :: "opaque option"

record VolumeMount =
  vm_Name :: string
  vm_MountPath :: string
  vm_rest :: opaque

record Volume =
  vol_Name :: string
  vol_HostPath :: "string option"
  vol_rest :: opaque

text \<open>\<open>resource.MustParse\<close> is kept as a constructor on its literal.\<close>

datatype Quantity = MustParse string

record ResourceRequirements =
  rr_Requests :: "(string, Quantity) fmap"
  rr_Limits :: "(string, Quantity) fmap"
  rr_rest :: opaque

datatype Protocol = ProtocolTCP | ProtocolUDP

record ContainerPort =
  cp_Name :: string
  cp_ContainerPort :: int32
  cp_Protocol :: Protocol

text \<open>\<open>intstr.FromInt32\<close> makes the integer variant.\<close>

datatype IntOrString = FromInt32 int32 | FromString string

datatype ProbeHandler = HTTPGet string IntOrString | TCPSocket IntOrString

record Probe =
  pr_Handler :: ProbeHandler
  pr_InitialDelaySeconds :: int32
  pr_PeriodSeconds :: int32
  pr_TimeoutSeconds :: int32
  pr_SuccessThreshold :: int32
  pr_FailureThreshold :: int32

record Container =
  ct_Name :: string
  ct_Image :: string
  ct_Command :: "string list"
  ct_Args :: "string list"
  ct_Ports :: "ContainerPort list"
  ct_Env :: "EnvVar list"
  ct_EnvFrom :: "opaque list"
  ct_VolumeMounts :: "VolumeMount list"
  ct_ReadinessProbe :: "Probe option"
  ct_Resources :: ResourceRequirements
  ct_rest :: opaque

definition new_container :: "string \<Rightarrow> Container" where
  "new_container name =
     \<lparr>ct_Name = name, ct_Image = [], ct_Command = [], ct_Args = [], ct_Ports = [], ct_Env = [],
      ct_EnvFrom = [], ct_VolumeMounts = [], ct_ReadinessProbe = None,
      ct_Resources = \<lparr>rr_Requests = fmempty, rr_Limits = fmempty, rr_rest = []\<rparr>, ct_rest = []\<rparr>"

record PodSpec =
  ps_Containers :: "Container list"
  ps_Volumes :: "Volume list"
  ps_ImagePullSecrets :: "string list"
  ps_rest :: opaque

record PodTemplateSpec =
  pt_Labels :: gomap
  pt_Annotations :: gomap
  pt_Spec :: PodSpec

record DeploymentSpec =
  ds_Replicas :: "int32 option"
  ds_Selector :: gomap  \<comment> \<open>the \<open>MatchLabels\<close> of the selector, nil when it is not set\<close>
  ds_Template :: PodTemplateSpec
  ds_rest :: opaque

record Deployment =
  dp_Meta :: ObjectMeta
  dp_Spec :: DeploymentSpec

text \<open>The object both reconcilers hand to \<open>CreateOrUpdate\<close>: only the key is set.\<close>

definition new_deployment :: "string \<Rightarrow> string \<Rightarrow> Deployment" where
  "new_deployment name namespace =
     \<lparr>dp_Meta = new_meta name namespace,
      dp_Spec = \<lparr>ds_Replicas = None, ds_Selector = None,
        ds_Template = \<lparr>pt_Labels = None, pt_Annotations = None,
          pt_Spec = \<lparr>ps_Containers = [], ps_Volumes = [], ps_ImagePullSecrets = [], ps_rest = []\<rparr>\<rparr>,
        ds_rest = []\<rparr>\<rparr>"

section \<open>Services\<close>

record ServicePort =
  sp_Name :: string
  sp_Port :: int32
  sp_TargetPort :: IntOrString
  sp_Protocol :: Protocol

datatype ServiceType = ServiceTypeUnset | ServiceTypeClusterIP | ServiceTypeOther string

record ServiceSpec =
  ss_Ports :: "ServicePort list"
  ss_Selector :: gomap
  ss_Type :: ServiceType
  ss_rest :: opaque

record Service =
  sv_Meta :: ObjectMeta
  sv_Spec :: ServiceSpec

definition new_service :: "string \<Rightarrow> string \<Rightarrow> Service" where
  "new_service name namespace =
     \<lparr>sv_Meta = new_meta name namespace,
      sv_Spec = \<lparr>ss_Ports = [], ss_Selector = None, ss_Type = ServiceTypeUnset, ss_rest = []\<rparr>\<rparr>"

lemma new_meta_sel [simp]:
  "om_Name (new_meta n ns) = n" "om_Namespace (new_meta n ns) = ns"
  "om_Labels (new_meta n ns) = None" "om_Annotations (new_meta n ns) = None"
  "om_Created (new_meta n ns) = False" "om_OwnerReferences (new_meta n ns) = []"
  by (simp_all add: new_meta_def)

lemma new_container_sel [simp]: "ct_Name (new_container n) = n"
  by (simp add: new_container_def)

end
