(* ===== verification/Api_Types.thy ===== *)
theory Api_Types
  imports Kube_Types
begin

text \<open>
  The custom resources of \<open>api/v1alpha1\<close> as records, field by field: the specification a user
  writes and the status the controllers report. Optional pointers are \<open>option\<close>, optional
  strings are empty when not set, and the schema's markers (minimum, enum, pattern) are not
  part of the types: where a theorem relies on one it says so.
\<close>

section \<open>Shared types\<close>

record EmbeddedMetadata =
  em_Labels :: gomap
  em_Annotations :: gomap

record ExternalUpstream =
  eu_Url :: string

section \<open>Agent\<close>

definition A2AProtocol :: string where
  "A2AProtocol = ''A2A''"

record AgentProtocol =
  ap_Name :: string
  ap_Type :: string
  ap_Port :: int32
  ap_Path :: string

record SubAgent =
  sa_Name :: string
  sa_AgentRef :: "ObjectReference option"
  sa_Url :: string
  sa_InteractionType :: string

record AgentToolUpstream =
  tu_ToolRouteRef :: "ObjectReference option"
  tu_ToolServerRef :: "ObjectReference option"
  tu_External :: "ExternalUpstream option"

record AgentTool =
  at_Name :: string
  at_Upstream :: AgentToolUpstream
  at_PropagatedHeaders :: "string list"

record AgentSpec =
  as_Framework :: string
  as_Replicas :: "int32 option"
  as_Image :: string
  as_Description :: string
  as_Instruction :: string
  as_Model :: string
  as_SubAgents :: "SubAgent list"
  as_Tools :: "AgentTool list"
  as_Protocols :: "AgentProtocol list"
  as_Exposed :: bool
  as_AiGatewayRef :: "ObjectReference option"
  as_Env :: "EnvVar list"
  as_EnvFrom :: "opaque list"
  as_VolumeMounts :: "VolumeMount list"
  as_Volumes :: "Volume list"
  as_Resources :: "ResourceRequirements option"
  as_CommonMetadata :: "EmbeddedMetadata option"
  as_PodMetadata :: "EmbeddedMetadata option"

record AgentStatus =
  ast_Conditions :: "Condition list"
  ast_Url :: string
  ast_AiGatewayRef :: "ObjectReference option"

record Agent =
  ag_Meta :: ObjectMeta
  ag_Spec :: AgentSpec
  ag_Status :: AgentStatus

section \<open>AgenticWorkforce\<close>

record TransitiveAgent =
  ta_Name :: string
  ta_Namespace :: string
  ta_Url :: string

record AgenticWorkforceSpec =
  ws_Name :: string
  ws_Description :: string
  ws_Owner :: string
  ws_Tags :: "string list"
  ws_EntryPointAgents :: "ObjectReference option list"

record AgenticWorkforceStatus =
  wst_Conditions :: "Condition list"
  wst_TransitiveAgents :: "TransitiveAgent list"
  wst_TransitiveTools :: "string list"

record AgenticWorkforce =
  wf_Meta :: ObjectMeta
  wf_Spec :: AgenticWorkforceSpec
  wf_Status :: AgenticWorkforceStatus

section \<open>ToolServer and ToolRoute\<close>

record ToolServerSpec =
  ts_Protocol :: string
  ts_TransportType :: string
  ts_Image :: string
  ts_ImagePullSecrets :: "string list"
  ts_Command :: "string list"
  ts_Args :: "string list"
  ts_Port :: int32
  ts_Path :: string
  ts_Replicas :: "int32 option"
  ts_Env :: "EnvVar list"
  ts_EnvFrom :: "opaque list"
  ts_Resources :: "ResourceRequirements option"
  ts_CommonMetadata :: "EmbeddedMetadata option"
  ts_PodMetadata :: "EmbeddedMetadata option"

record ToolServerStatus =
  tst_Conditions :: "Condition list"
  tst_Url :: string

record ToolServer =
  tsv_Meta :: ObjectMeta
  tsv_Spec :: ToolServerSpec
  tsv_Status :: ToolServerStatus

record ToolRouteUpstream =
  tru_ToolServerRef :: "ObjectReference option"
  tru_External :: "ExternalUpstream option"

record ToolFilter =
  tf_Allow :: "string list"
  tf_Deny :: "string list"

record ToolRouteSpec =
  trs_ToolGatewayRef :: "ObjectReference option"
  trs_Upstream :: ToolRouteUpstream
  trs_ToolFilter :: "ToolFilter option"

record ToolRouteStatus =
  trst_Url :: string
  trst_Conditions :: "Condition list"

record ToolRoute =
  tr_Meta :: ObjectMeta
  tr_Spec :: ToolRouteSpec
  tr_Status :: ToolRouteStatus

section \<open>AiGateway and AgentGateway\<close>

record AiModel =
  am_Name :: string
  am_Provider :: string

record AiGatewaySpec =
  gs_AiGatewayClassName :: string
  gs_Port :: int32
  gs_AiModels :: "AiModel list"
  gs_Env :: "EnvVar list"
  gs_EnvFrom :: "opaque list"
  gs_Guardrails :: "ObjectReference list"
  gs_CommonMetadata :: "EmbeddedMetadata option"
  gs_PodMetadata :: "EmbeddedMetadata option"

record AiGateway =
  gw_APIVersion :: string
  gw_Kind :: string
  gw_Meta :: ObjectMeta
  gw_Spec :: AiGatewaySpec
  gw_Conditions :: "Condition list"

record AgentGatewaySpec =
  ags_AgentGatewayClassName :: string
  ags_Replicas :: "int32 option"
  ags_Timeout :: "int64 option"  \<comment> \<open>a \<open>metav1.Duration\<close>, in nanoseconds\<close>
  ags_Env :: "EnvVar list"
  ags_EnvFrom :: "opaque list"
  ags_CommonMetadata :: "EmbeddedMetadata option"
  ags_PodMetadata :: "EmbeddedMetadata option"
  ags_Guardrails :: "ObjectReference list"

record AgentGateway =
  agw_Meta :: ObjectMeta
  agw_Spec :: AgentGatewaySpec
  agw_Conditions :: "Condition list"

section \<open>AgentRuntimeConfiguration\<close>

record AgentTemplateImages =
  ti_GoogleAdk :: string
  ti_Msaf :: string

record AgentRuntimeConfigurationSpec =
  rcs_DefaultFramework :: string
  rcs_AgentTemplateImages :: "AgentTemplateImages option"

record AgentRuntimeConfiguration =
  rc_Meta :: ObjectMeta
  rc_Spec :: AgentRuntimeConfigurationSpec
  rc_Conditions :: "Condition list"

section \<open>Empty specifications\<close>

text \<open>The zero values, from which concrete objects are built.\<close>

definition empty_agent_spec :: AgentSpec where
  "empty_agent_spec =
     \<lparr>as_Framework = [], as_Replicas = None, as_Image = [], as_Description = [],
      as_Instruction = [], as_Model = [], as_SubAgents = [], as_Tools = [], as_Protocols = [],
      as_Exposed = False, as_AiGatewayRef = None, as_Env = [], as_EnvFrom = [],
      as_VolumeMounts = [], as_Volumes = [], as_Resources = None, as_CommonMetadata = None,
      as_PodMetadata = None\<rparr>"

definition new_agent :: "string \<Rightarrow> string \<Rightarrow> AgentSpec \<Rightarrow> Agent" where
  "new_agent name namespace spec =
     \<lparr>ag_Meta = new_meta name namespace, ag_Spec = spec,
      ag_Status = \<lparr>ast_Conditions = [], ast_Url = [], ast_AiGatewayRef = None\<rparr>\<rparr>"

definition empty_tool_server_spec :: ToolServerSpec where
  "empty_tool_server_spec =
     \<lparr>ts_Protocol = [], ts_TransportType = [], ts_Image = [], ts_ImagePullSecrets = [],
      ts_Command = [], ts_Args = [], ts_Port = 0, ts_Path = [], ts_Replicas = None, ts_Env = [],
      ts_EnvFrom = [], ts_Resources = None, ts_CommonMetadata = None, ts_PodMetadata = None\<rparr>"

definition new_tool_server :: "string \<Rightarrow> string \<Rightarrow> ToolServerSpec \<Rightarrow> ToolServer" where
  "new_tool_server name namespace spec =
     \<lparr>tsv_Meta = new_meta name namespace, tsv_Spec = spec,
      tsv_Status = \<lparr>tst_Conditions = [], tst_Url = []\<rparr>\<rparr>"

definition local_ref :: "string \<Rightarrow> ObjectReference" where
  "local_ref name = \<lparr>or_APIVersion = [], or_Kind = [], or_Name = name, or_Namespace = []\<rparr>"

end
