(* ===== verification/Kube.thy ===== *)
theory Kube
  imports Api_Types
begin

text \<open>
  The operator's environment: the API server seen through controller-runtime's client, the
  helpers of the Kubernetes libraries, the process environment and the choices Go's runtime
  makes. None of it is code of the repository, so it is a record of functions over an
  abstract state of the cluster, \<open>'w\<close>, and every definition that calls it takes the record as
  an argument. The documented behaviour a theorem relies on is a named predicate on the
  record, at the end of this theory.
\<close>

section \<open>Errors\<close>

text \<open>
  A Go error: a value made by a library, which the operator can only classify and print, or
  one made by \<open>fmt.Errorf\<close> without or with a wrapped cause.
\<close>

datatype go_error = LibErr nat string | Errorf string | ErrorfW string go_error

fun Error :: "go_error \<Rightarrow> string" where
  "Error (LibErr _ msg) = msg"
| "Error (Errorf msg) = msg"
| "Error (ErrorfW msg _) = msg"

text \<open>\<open>fmt.Errorf("<text>: %w", err)\<close>.\<close>

definition wrap :: "string \<Rightarrow> go_error \<Rightarrow> go_error" where
  "wrap msg e = ErrorfW (msg @ '': '' @ Error e) e"

section \<open>The record\<close>

datatype OperationResult =
  OperationResultNone | OperationResultCreated | OperationResultUpdated | OperationResultOther

record event =
  e_Regarding :: NamespacedName
  e_Reason :: string
  e_Action :: string
  e_Note :: string

record 'w kube =
  operatorNamespace :: string
    \<comment> \<open>\<open>os.Getenv("POD_NAMESPACE")\<close>, empty when it is not set\<close>
  isNotFound :: "go_error \<Rightarrow> bool"
  isNoMatchErr :: "go_error \<Rightarrow> bool"
  getAgent :: "'w \<Rightarrow> NamespacedName \<Rightarrow> go_error + Agent"
  getToolRoute :: "'w \<Rightarrow> NamespacedName \<Rightarrow> go_error + ToolRoute"
  getToolServer :: "'w \<Rightarrow> NamespacedName \<Rightarrow> go_error + ToolServer"
  getAiGateway :: "'w \<Rightarrow> NamespacedName \<Rightarrow> go_error + AiGateway"
  getWorkforce :: "'w \<Rightarrow> NamespacedName \<Rightarrow> go_error + AgenticWorkforce"
  getService :: "'w \<Rightarrow> NamespacedName \<Rightarrow> go_error + Service"
  getDeployment :: "'w \<Rightarrow> NamespacedName \<Rightarrow> go_error + Deployment"
  listAgents :: "'w \<Rightarrow> go_error + Agent list"
  listWorkforces :: "'w \<Rightarrow> go_error + AgenticWorkforce list"
  listAiGateways :: "'w \<Rightarrow> string \<Rightarrow> go_error + AiGateway list"
  listRuntimeConfigurations :: "'w \<Rightarrow> string \<Rightarrow> go_error + AgentRuntimeConfiguration list"
  deleteService :: "Service \<Rightarrow> 'w \<Rightarrow> go_error option \<times> 'w"
  createOrUpdateDeployment ::
    "Deployment \<Rightarrow> (Deployment \<Rightarrow> go_error + Deployment) \<Rightarrow> 'w \<Rightarrow> (go_error + OperationResult) \<times> 'w"
  createOrUpdateService ::
    "Service \<Rightarrow> (Service \<Rightarrow> go_error + Service) \<Rightarrow> 'w \<Rightarrow> (go_error + OperationResult) \<times> 'w"
  updateAgentStatus :: "Agent \<Rightarrow> 'w \<Rightarrow> go_error option \<times> Agent \<times> 'w"
  updateToolServerStatus :: "ToolServer \<Rightarrow> 'w \<Rightarrow> go_error option \<times> ToolServer \<times> 'w"
  updateWorkforceStatus :: "AgenticWorkforce \<Rightarrow> 'w \<Rightarrow> go_error option \<times> AgenticWorkforce \<times> 'w"
  setAgentOwner :: "Agent \<Rightarrow> ObjectMeta \<Rightarrow> go_error + ObjectMeta"
  setToolServerOwner :: "ToolServer \<Rightarrow> ObjectMeta \<Rightarrow> go_error + ObjectMeta"
  agentOwnerRequests :: "ObjectMeta \<Rightarrow> Request list"
    \<comment> \<open>\<open>Owns\<close>: the handler that enqueues the agent which controls an object\<close>
  toolServerOwnerRequests :: "ObjectMeta \<Rightarrow> Request list"
  setStatusCondition :: "Condition list \<Rightarrow> Condition \<Rightarrow> Condition list"
  recorder :: "(event \<Rightarrow> 'w \<Rightarrow> 'w) option"
  retryAgent ::
    "(Agent \<times> 'w \<Rightarrow> go_error option \<times> (Agent \<times> 'w)) \<Rightarrow> Agent \<times> 'w \<Rightarrow> go_error option \<times> (Agent \<times> 'w)"
  retryToolServer ::
    "(ToolServer \<times> 'w \<Rightarrow> go_error option \<times> (ToolServer \<times> 'w)) \<Rightarrow> ToolServer \<times> 'w
      \<Rightarrow> go_error option \<times> (ToolServer \<times> 'w)"

text \<open>
  What Go leaves open or keeps in tables: the order of each loop over a map, the result of
  the unstable \<open>sort.Slice\<close> and the Unicode tables.
\<close>

record go_rt =
  order_env :: map_order
  order_subs :: map_order
  order_tools :: map_order
  sort_env :: "EnvVar list \<Rightarrow> EnvVar list"
  uni :: unicode

definition rt_ok :: "go_rt \<Rightarrow> bool" where
  "rt_ok rt \<longleftrightarrow>
     is_order (order_env rt) \<and> is_order (order_subs rt) \<and> is_order (order_tools rt)
     \<and> (\<forall>xs. mset (sort_env rt xs) = mset xs \<and> sorted (map ev_Name (sort_env rt xs)))"

text \<open>One runtime that behaves as documented.\<close>

definition rt_std :: go_rt where
  "rt_std = \<lparr>order_env = (\<lambda>ks. ks), order_subs = (\<lambda>ks. ks), order_tools = (\<lambda>ks. ks),
     sort_env = sort_key ev_Name, uni = \<lparr>uni_print = (\<lambda>_. True), uni_lower = (\<lambda>_. [])\<rparr>\<rparr>"

lemma rt_std_ok: "rt_ok rt_std"
  by (simp add: rt_ok_def rt_std_def)

text \<open>A \<open>client.Object\<close> of a watch event, told apart by a type assertion.\<close>

datatype client_object =
  ObjAgent Agent | ObjToolRoute ToolRoute | ObjToolServer ToolServer | ObjAiGateway AiGateway
| ObjRuntimeConfiguration AgentRuntimeConfiguration | ObjWorkforce AgenticWorkforce
| ObjDeployment Deployment | ObjService Service

definition listed_agent :: "'w kube \<Rightarrow> 'w \<Rightarrow> Agent \<Rightarrow> bool" where
  "listed_agent k w agent \<longleftrightarrow> (\<exists>agents. listAgents k w = Inr agents \<and> agent \<in> set agents)"

section \<open>Documented behaviour\<close>

text \<open>
  \<open>meta.SetStatusCondition\<close>: the condition of the new one's type gets its status, reason,
  message and observed generation; the conditions of other types stay.
\<close>

definition find_condition :: "string \<Rightarrow> Condition list \<Rightarrow> Condition option" where
  "find_condition t cs = find (\<lambda>c. c_Type c = t) cs"

definition set_condition_ok :: "(Condition list \<Rightarrow> Condition \<Rightarrow> Condition list) \<Rightarrow> bool" where
  "set_condition_ok f \<longleftrightarrow> (\<forall>cs c.
     (\<exists>c'. find_condition (c_Type c) (f cs c) = Some c' \<and> c_Type c' = c_Type c
        \<and> c_Status c' = c_Status c \<and> c_Reason c' = c_Reason c \<and> c_Message c' = c_Message c
        \<and> c_ObservedGeneration c' = c_ObservedGeneration c)
     \<and> (\<forall>t. t \<noteq> c_Type c \<longrightarrow> find_condition t (f cs c) = find_condition t cs))"

text \<open>
  \<open>SetControllerReference\<close> writes the owner references and nothing else; it looks at the
  object's key and owner references only, and on an object that already has the references
  it writes it changes nothing.
\<close>

definition set_owner_ok :: "(ObjectMeta \<Rightarrow> go_error + ObjectMeta) \<Rightarrow> bool" where
  "set_owner_ok f \<longleftrightarrow> (\<forall>m m'. f m = Inr m' \<longrightarrow>
     m' = m\<lparr>om_OwnerReferences := om_OwnerReferences m'\<rparr>
     \<and> (\<forall>x. request_of x = request_of m' \<and> om_OwnerReferences x = om_OwnerReferences m' \<longrightarrow> f x = Inr x))"

text \<open>
  \<open>Owns(...)\<close>: an event on an object whose controller reference \<open>SetControllerReference\<close> has set
  enqueues the owner, in the namespace of the object, which is the owner's.
\<close>

definition owned_by :: "(ObjectMeta \<Rightarrow> go_error + ObjectMeta) \<Rightarrow> ObjectMeta \<Rightarrow> bool" where
  "owned_by f x \<longleftrightarrow> (\<exists>m m'. f m = Inr m' \<and> om_OwnerReferences x = om_OwnerReferences m'
     \<and> om_Namespace x = om_Namespace m')"

definition owner_watch_ok :: "(ObjectMeta \<Rightarrow> go_error + ObjectMeta) \<Rightarrow> (ObjectMeta \<Rightarrow> Request list) \<Rightarrow> Request \<Rightarrow> bool" where
  "owner_watch_ok f requests owner \<longleftrightarrow> (\<forall>x. owned_by f x \<longrightarrow> owner \<in> set (requests x))"

lemma owned_byI: "f m = Inr m' \<Longrightarrow> owned_by f m'"
  by (auto simp: owned_by_def)

lemma owner_watched:
  "owner_watch_ok f requests owner \<Longrightarrow> owned_by f x \<Longrightarrow> om_OwnerReferences y = om_OwnerReferences x \<Longrightarrow>
     request_of y = request_of x \<Longrightarrow> owner \<in> set (requests y)"
  by (auto simp: owner_watch_ok_def owned_by_def request_of_def)

text \<open>
  What the API server makes of an object it is sent: it marks it as created and counts its
  generation and version.
\<close>

definition server_meta :: "int64 \<Rightarrow> string \<Rightarrow> ObjectMeta \<Rightarrow> ObjectMeta" where
  "server_meta g rv m = m\<lparr>om_Created := True, om_Generation := g, om_ResourceVersion := rv\<rparr>"

lemma owned_by_server_meta [simp]: "owned_by f (server_meta g rv m) \<longleftrightarrow> owned_by f m"
  by (simp add: owned_by_def server_meta_def)

text \<open>
  \<open>controllerutil.CreateOrUpdate\<close>: it fetches the object of the key. If there is none, it
  runs the closure on the object it was given and creates the result; if there is one, it
  runs the closure on that one and, only if the closure changed it, updates it. An error of
  the closure is returned and nothing is written.
\<close>

definition create_or_update_ok ::
  "(go_error \<Rightarrow> bool) \<Rightarrow> ('w \<Rightarrow> go_error + 'o) \<Rightarrow> ('o \<Rightarrow> ('o \<Rightarrow> go_error + 'o) \<Rightarrow> 'w \<Rightarrow> (go_error + OperationResult) \<times> 'w)
    \<Rightarrow> 'o \<Rightarrow> bool" where
  "create_or_update_ok nf get cou obj \<longleftrightarrow> (\<forall>f w.
     (case get w of
        Inl e \<Rightarrow>
          if nf e then
            (case f obj of
               Inl e' \<Rightarrow> cou obj f w = (Inl e', w)
             | Inr _ \<Rightarrow> fst (cou obj f w) = Inr OperationResultCreated \<or> isl (fst (cou obj f w)))
          else cou obj f w = (Inl e, w)
      | Inr old \<Rightarrow>
          (case f old of
             Inl e' \<Rightarrow> cou obj f w = (Inl e', w)
           | Inr new \<Rightarrow>
               if new = old then cou obj f w = (Inr OperationResultNone, w)
               else fst (cou obj f w) = Inr OperationResultUpdated \<or> isl (fst (cou obj f w)))))"

lemma create_or_update_unchanged:
  assumes "create_or_update_ok nf get cou obj" and "get w = Inr old" and "f old = Inr old"
  shows "cou obj f w = (Inr OperationResultNone, w)"
proof -
  note spec = assms(1)[unfolded create_or_update_ok_def, rule_format, of f w]
  show ?thesis using spec assms(2,3) by simp
qed

lemma create_or_update_closure_error:
  assumes "create_or_update_ok nf get cou obj" and "get w = Inr old" and "f old = Inl e"
  shows "cou obj f w = (Inl e, w)"
proof -
  note spec = assms(1)[unfolded create_or_update_ok_def, rule_format, of f w]
  show ?thesis using spec assms(2,3) by simp
qed

text \<open>
  \<open>retry.RetryOnConflict\<close>: it runs the function, on the state the last run left, until it
  succeeds, fails with another error than a conflict or the attempts are used up; the last
  run's outcome is returned, and the runs before it have failed. In particular a first run
  that succeeds is the only one.
\<close>

definition retry_ok :: "(('s \<Rightarrow> go_error option \<times> 's) \<Rightarrow> 's \<Rightarrow> go_error option \<times> 's) \<Rightarrow> bool" where
  "retry_ok retry \<longleftrightarrow>
     (\<forall>f s. \<exists>n. retry f s = f (((snd \<circ> f) ^^ n) s) \<and> (\<forall>i<n. fst (f (((snd \<circ> f) ^^ i) s)) \<noteq> None))"

lemma retry_first:
  assumes "retry_ok retry" and "f s = (None, s')"
  shows "retry f s = (None, s')"
proof -
  obtain n where n: "retry f s = f (((snd \<circ> f) ^^ n) s)"
      "\<forall>i<n. fst (f (((snd \<circ> f) ^^ i) s)) \<noteq> None"
    using assms(1) unfolding retry_ok_def by blast
  have "n = 0"
  proof (rule ccontr)
    assume "n \<noteq> 0"
    then have "fst (f (((snd \<circ> f) ^^ 0) s)) \<noteq> None" using n(2) by blast
    then show False using assms(2) by simp
  qed
  then show ?thesis using n(1) assms(2) by simp
qed

text \<open>What a failed run keeps holds before the last one.\<close>

lemma retry_last_run:
  assumes "retry_ok retry" and "I s" and "\<And>s. I s \<Longrightarrow> fst (f s) \<noteq> None \<Longrightarrow> I (snd (f s))"
  shows "\<exists>s0. I s0 \<and> retry f s = f s0"
proof -
  obtain n where n: "retry f s = f (((snd \<circ> f) ^^ n) s)"
      "\<forall>i<n. fst (f (((snd \<circ> f) ^^ i) s)) \<noteq> None"
    using assms(1) unfolding retry_ok_def by blast
  have "I (((snd \<circ> f) ^^ i) s)" if "i \<le> n" for i
    using that
  proof (induction i)
    case (Suc i)
    let ?x = "((snd \<circ> f) ^^ i) s"
    have "I ?x" and "fst (f ?x) \<noteq> None" using Suc n(2) by (simp_all del: comp_apply funpow.simps)
    then have next_run: "I (snd (f ?x))" by (rule assms(3))
    have eq: "((snd \<circ> f) ^^ Suc i) s = snd (f ?x)" by simp
    show ?case unfolding eq by (rule next_run)
  qed (simp add: assms(2))
  with n(1) show ?thesis by blast
qed

text \<open>
  \<open>Status().Update\<close>: on success the object the API server stores under the key has the status
  that was sent, and the object in memory is the server's; on failure the object in memory is
  left alone. Neither changes its key. \<open>stored\<close> is the API server's view, which a cached read
  may lag behind.
\<close>

definition status_update_ok ::
  "('o \<Rightarrow> 'w \<Rightarrow> go_error option \<times> 'o \<times> 'w) \<Rightarrow> ('w \<Rightarrow> NamespacedName \<Rightarrow> 'o option)
    \<Rightarrow> ('o \<Rightarrow> ObjectMeta) \<Rightarrow> ('o \<Rightarrow> 'st) \<Rightarrow> bool" where
  "status_update_ok upd stored meta status \<longleftrightarrow> (\<forall>obj w err obj' w'. upd obj w = (err, obj', w') \<longrightarrow>
     request_of (meta obj') = request_of (meta obj) \<and>
     (err \<noteq> None \<longrightarrow> obj' = obj) \<and>
     (err = None \<longrightarrow> status obj' = status obj
        \<and> (\<exists>x. stored w' (request_of (meta obj)) = Some x \<and> status x = status obj)))"

lemma status_update_success:
  assumes "status_update_ok upd stored meta status" and "upd obj w = (None, obj', w')"
  shows "\<exists>x. stored w' (request_of (meta obj)) = Some x \<and> status x = status obj"
  using assms unfolding status_update_ok_def by blast

lemma status_update_failure:
  assumes "status_update_ok upd stored meta status" and "fst (upd obj w) \<noteq> None"
  shows "fst (snd (upd obj w)) = obj"
  using assms unfolding status_update_ok_def by (cases "upd obj w") simp

text \<open>
  The objects as a client reads them once its cache has caught up: the store the status writes
  go to is the one the reads answer from.
\<close>

definition readable :: "('w \<Rightarrow> NamespacedName \<Rightarrow> go_error + 'o) \<Rightarrow> 'w \<Rightarrow> NamespacedName \<Rightarrow> 'o option" where
  "readable get w key = (case get w key of Inl _ \<Rightarrow> None | Inr x \<Rightarrow> Some x)"

lemma readable_Some [simp]: "readable get w key = Some x \<longleftrightarrow> get w key = Inr x"
  by (simp add: readable_def split: sum.splits)

end
