(* ===== verification/Util.thy ===== *)
theory Util
  imports Kube
begin

text \<open>
  \<open>internal/controller/util.go\<close>: lookup helpers and the merging of user metadata into the
  objects the controllers manage, with the precedence each helper promises.
\<close>

definition appLabel :: string where
  "appLabel = ''app''"

definition conditionTypeReady :: string where
  "conditionTypeReady = ''Ready''"

definition findEnvVar :: "EnvVar list \<Rightarrow> string \<Rightarrow> EnvVar option" where
  "findEnvVar envVars name = find (\<lambda>e. ev_Name e = name) envVars"

text \<open>The pointer the code returns is the container's index in the slice.\<close>

definition findContainerByName :: "PodSpec \<Rightarrow> string \<Rightarrow> nat option" where
  "findContainerByName pod name = find_idx (\<lambda>c. ct_Name c = name) (ps_Containers pod)"

definition getNamespaceWithDefault :: "ObjectReference \<Rightarrow> string \<Rightarrow> string" where
  "getNamespaceWithDefault objRef defaultNamespace =
     (if or_Namespace objRef \<noteq> [] then or_Namespace objRef else defaultNamespace)"

definition applyCommonMetadataToObjectMeta ::
  "ObjectMeta \<Rightarrow> EmbeddedMetadata option \<Rightarrow> ObjectMeta" where
  "applyCommonMetadataToObjectMeta obj commonMetadata =
     (case commonMetadata of
        None \<Rightarrow> obj
      | Some cm \<Rightarrow>
          let obj = (if mval (em_Labels cm) \<noteq> fmempty
                     then obj\<lparr>om_Labels := Some (maps_Copy (mval (om_Labels obj)) (em_Labels cm))\<rparr>
                     else obj)
          in (if mval (em_Annotations cm) \<noteq> fmempty
              then obj\<lparr>om_Annotations :=
                     Some (maps_Copy (mval (om_Annotations obj)) (em_Annotations cm))\<rparr>
              else obj))"

definition buildPodTemplateMetadata ::
  "strmap \<Rightarrow> EmbeddedMetadata option \<Rightarrow> EmbeddedMetadata option \<Rightarrow> strmap \<times> gomap" where
  "buildPodTemplateMetadata selectorLabels commonMetadata podMetadata =
     (let podLabels = fmempty;
          podLabels = (case commonMetadata of None \<Rightarrow> podLabels
                       | Some cm \<Rightarrow> maps_Copy podLabels (em_Labels cm));
          podLabels = (case podMetadata of None \<Rightarrow> podLabels
                       | Some pm \<Rightarrow> maps_Copy podLabels (em_Labels pm));
          podLabels = maps_Copy podLabels (Some selectorLabels);
          podAnnotations = fmempty;
          podAnnotations = (case commonMetadata of None \<Rightarrow> podAnnotations
                            | Some cm \<Rightarrow> maps_Copy podAnnotations (em_Annotations cm));
          podAnnotations = (case podMetadata of None \<Rightarrow> podAnnotations
                            | Some pm \<Rightarrow> maps_Copy podAnnotations (em_Annotations pm))
      in if podAnnotations = fmempty then (podLabels, None) else (podLabels, Some podAnnotations))"

definition findReadyCondition :: "Condition list \<Rightarrow> Condition option" where
  "findReadyCondition conditions = find (\<lambda>c. c_Type c = conditionTypeReady) conditions"

lemma findReadyCondition_find: "findReadyCondition cs = find_condition conditionTypeReady cs"
  by (simp add: findReadyCondition_def find_condition_def)

section \<open>Precedence of labels and annotations\<close>

text \<open>User metadata as total maps: nil pointers and nil maps read as empty.\<close>

definition meta_labels :: "EmbeddedMetadata option \<Rightarrow> strmap" where
  "meta_labels m = (case m of None \<Rightarrow> fmempty | Some em \<Rightarrow> mval (em_Labels em))"

definition meta_annotations :: "EmbeddedMetadata option \<Rightarrow> strmap" where
  "meta_annotations m = (case m of None \<Rightarrow> fmempty | Some em \<Rightarrow> mval (em_Annotations em))"

lemma applyCommonMetadata_labels [meta_simps]:
  "mval (om_Labels (applyCommonMetadataToObjectMeta obj cm))
     = mval (om_Labels obj) ++\<^sub>f meta_labels cm"
  by (auto simp: applyCommonMetadataToObjectMeta_def meta_labels_def maps_Copy_def Let_def
        split: option.splits)

lemma applyCommonMetadata_annotations [meta_simps]:
  "mval (om_Annotations (applyCommonMetadataToObjectMeta obj cm))
     = mval (om_Annotations obj) ++\<^sub>f meta_annotations cm"
  by (auto simp: applyCommonMetadataToObjectMeta_def meta_annotations_def maps_Copy_def Let_def
        split: option.splits)

lemma applyCommonMetadata_frame [meta_simps, simp]:
  "om_Name (applyCommonMetadataToObjectMeta obj cm) = om_Name obj"
  "om_Namespace (applyCommonMetadataToObjectMeta obj cm) = om_Namespace obj"
  "om_Created (applyCommonMetadataToObjectMeta obj cm) = om_Created obj"
  "om_OwnerReferences (applyCommonMetadataToObjectMeta obj cm) = om_OwnerReferences obj"
  "om_Generation (applyCommonMetadataToObjectMeta obj cm) = om_Generation obj"
  "om_ResourceVersion (applyCommonMetadataToObjectMeta obj cm) = om_ResourceVersion obj"
  by (auto simp: applyCommonMetadataToObjectMeta_def Let_def split: option.splits)

lemma applyCommonMetadata_nonnil [simp]:
  "om_Labels obj \<noteq> None \<Longrightarrow> om_Labels (applyCommonMetadataToObjectMeta obj cm) \<noteq> None"
  by (auto simp: applyCommonMetadataToObjectMeta_def Let_def split: option.splits)

lemma podTemplate_labels [meta_simps]:
  "fst (buildPodTemplateMetadata sel cm pm) = (meta_labels cm ++\<^sub>f meta_labels pm) ++\<^sub>f sel"
  by (auto simp: buildPodTemplateMetadata_def meta_labels_def maps_Copy_def Let_def
        split: option.splits)

lemma podTemplate_annotations [meta_simps]:
  "mval (snd (buildPodTemplateMetadata sel cm pm)) = meta_annotations cm ++\<^sub>f meta_annotations pm"
  by (auto simp: buildPodTemplateMetadata_def meta_annotations_def maps_Copy_def Let_def
        split: option.splits)

lemma podTemplate_annotations_nil:
  "snd (buildPodTemplateMetadata sel cm pm) = None
     \<longleftrightarrow> meta_annotations cm ++\<^sub>f meta_annotations pm = fmempty"
  by (auto simp: buildPodTemplateMetadata_def meta_annotations_def maps_Copy_def Let_def
        split: option.splits)

text \<open>The selector is contained in the pod labels, whatever the user's metadata says.\<close>

lemma podTemplate_selector:
  "fmlookup sel k = Some v \<Longrightarrow> fmlookup (fst (buildPodTemplateMetadata sel cm pm)) k = Some v"
  by (simp add: podTemplate_labels fmdomI)

end
