(* ===== verification/Interfaces.thy ===== *)
theory Interfaces
  imports Util
begin

text \<open>
  The contracts several components share, as locales: the loop that resolves every reference
  of an agent and collects the failures, the pair of a computation and the watch that has to
  wake it up, a defaulting webhook, and a managed object brought up to date by a closure.
  Each is interpreted in the theory of every component that provides it.
\<close>

section \<open>Resolving all references\<close>

text \<open>
  What a resolve-all loop computes: the map of the results, a later entry replacing an earlier
  one of the same name, and the list of the failures.
\<close>

definition resolved_of ::
  "('e \<Rightarrow> string) \<Rightarrow> ('e \<Rightarrow> go_error + 'r) \<Rightarrow> (string, 'r) fmap \<Rightarrow> 'e list \<Rightarrow> (string, 'r) fmap" where
  "resolved_of key one m es =
     foldl (\<lambda>m e. case one e of Inl _ \<Rightarrow> m | Inr r \<Rightarrow> fmupd (key e) r m) m es"

definition issues_of :: "('e \<Rightarrow> go_error + 'r) \<Rightarrow> ('e \<Rightarrow> go_error \<Rightarrow> string) \<Rightarrow> 'e list \<Rightarrow> string list" where
  "issues_of one issue es = concat (map (\<lambda>e. case one e of Inl x \<Rightarrow> [issue e x] | Inr _ \<Rightarrow> []) es)"

lemma resolved_of_simps [simp]:
  "resolved_of key one m [] = m"
  "resolved_of key one m (e # es) =
     resolved_of key one (case one e of Inl _ \<Rightarrow> m | Inr r \<Rightarrow> fmupd (key e) r m) es"
  by (simp_all add: resolved_of_def)

lemma issues_of_simps [simp]:
  "issues_of one issue [] = []"
  "issues_of one issue (e # es) =
     (case one e of Inl x \<Rightarrow> [issue e x] | Inr _ \<Rightarrow> []) @ issues_of one issue es"
  by (simp_all add: issues_of_def)

lemma issues_of_empty_iff: "issues_of one issue es = [] \<longleftrightarrow> (\<forall>e\<in>set es. \<not> isl (one e))"
  by (induction es) (auto split: sum.splits)

lemma resolve_fold_cong:
  assumes "\<And>e. e \<in> set es \<Longrightarrow> one e = one' e"
  shows "resolved_of key one m es = resolved_of key one' m es"
    and "issues_of one issue es = issues_of one' issue es"
  using assms by (induction es arbitrary: m) auto

lemma resolved_of_append:
  "resolved_of key one m (es @ fs) = resolved_of key one (resolved_of key one m es) fs"
  by (simp add: resolved_of_def)

text \<open>The last successful entry of a name is the one in the map.\<close>

lemma resolved_of_lookup:
  "fmlookup (resolved_of key one m es) n =
     (case find (\<lambda>e. key e = n \<and> \<not> isl (one e)) (rev es) of
        None \<Rightarrow> fmlookup m n | Some e \<Rightarrow> Some (projr (one e)))"
  by (induction es rule: rev_induct) (auto simp: resolved_of_append split: sum.splits option.splits)

lemma resolved_of_lookup_fresh:
  assumes "\<forall>e\<in>set es. key e \<noteq> n"
  shows "fmlookup (resolved_of key one m es) n = fmlookup m n"
  using assms by (induction es arbitrary: m) (auto split: sum.splits)

text \<open>The error both loops report: the number of failures and all of them.\<close>

definition unresolved_error :: "string \<Rightarrow> string list \<Rightarrow> go_error" where
  "unresolved_error kind issues =
     Errorf (''failed to resolve '' @ show_nat (length issues) @ '' '' @ kind @ ''(s): ''
       @ join issues ''; '')"

locale resolve_loop =
  fixes loop :: "'e list \<Rightarrow> (string, 'r) fmap \<Rightarrow> string list \<Rightarrow> (string, 'r) fmap \<times> string list"
    and key :: "'e \<Rightarrow> string"
    and one :: "'e \<Rightarrow> go_error + 'r"
    and issue :: "'e \<Rightarrow> go_error \<Rightarrow> string"
  assumes loop_Nil: "loop [] m is = (m, is)"
    and loop_ok: "one e = Inr r \<Longrightarrow> loop (e # es) m is = loop es (fmupd (key e) r m) is"
    and loop_err: "one e = Inl x \<Longrightarrow> loop (e # es) m is = loop es m (is @ [issue e x])"
begin

lemma loop_eq: "loop es m is = (resolved_of key one m es, is @ issues_of one issue es)"
proof (induction es arbitrary: m "is")
  case Nil
  then show ?case by (simp add: loop_Nil)
next
  case (Cons e es)
  then show ?case by (cases "one e") (simp_all add: loop_ok loop_err)
qed

text \<open>The loop collects no issue exactly when every entry resolves.\<close>

lemma no_issues_iff: "snd (loop es m []) = [] \<longleftrightarrow> (\<forall>e\<in>set es. \<not> isl (one e))"
  by (simp add: loop_eq issues_of_empty_iff)

text \<open>After a run without issues, an entry whose name is not repeated is in the map.\<close>

lemma lookup_distinct:
  assumes "distinct (map key es)" and "e \<in> set es" and "one e = Inr r"
  shows "fmlookup (fst (loop es m [])) (key e) = Some r"
proof -
  obtain xs ys where es: "es = xs @ e # ys" using assms(2) by (meson split_list)
  then have "\<forall>y\<in>set ys. key y \<noteq> key e" using assms(1) by (auto simp: image_iff)
  then show ?thesis
    using assms(3) by (simp add: loop_eq es resolved_of_append resolved_of_lookup_fresh)
qed

lemma lookup_source:
  assumes "fmlookup (fst (loop es fmempty [])) n = Some r"
  shows "\<exists>e\<in>set es. key e = n \<and> one e = Inr r"
proof -
  obtain e where e: "find (\<lambda>e. key e = n \<and> \<not> isl (one e)) (rev es) = Some e"
      and r: "r = projr (one e)"
    using assms by (auto simp: loop_eq resolved_of_lookup split: option.splits)
  from find_SomeD [OF e] have "e \<in> set es" "key e = n" "\<not> isl (one e)" by auto
  then show ?thesis using r by auto
qed

end

section \<open>A computation and the watch that wakes it\<close>

text \<open>
  \<open>view w o\<close> is what the reconciler of the owner \<open>o\<close> computes in the cluster state \<open>w\<close>; it may
  depend on the state only through the answers to the queries \<open>reads o\<close>. A change of the
  object \<open>x\<close> can alter the answers to the queries \<open>touches x\<close> only. The watch is right if
  it enqueues every listed owner one of whose queries the object touches: then no owner
  whose view a change alters is left out.
\<close>

locale dependency =
  fixes get :: "'w \<Rightarrow> 'q \<Rightarrow> 'v"
    and reads :: "'o \<Rightarrow> 'q set"
    and view :: "'w \<Rightarrow> 'o \<Rightarrow> 'r"
  assumes local: "(\<And>q. q \<in> reads own \<Longrightarrow> get w q = get w' q) \<Longrightarrow> view w own = view w' own"
begin

lemma unaffected:
  "reads own \<inter> X = {} \<Longrightarrow> (\<And>q. q \<notin> X \<Longrightarrow> get w q = get w' q) \<Longrightarrow> view w own = view w' own"
  by (rule local) blast

end

locale watch = dependency get reads view
  for get :: "'w \<Rightarrow> 'q \<Rightarrow> 'v"
    and reads :: "'o \<Rightarrow> 'q set"
    and view :: "'w \<Rightarrow> 'o \<Rightarrow> 'r" +
  fixes touches :: "'x \<Rightarrow> 'q set"
    and finds :: "'w \<Rightarrow> 'x \<Rightarrow> Request list"
    and listed :: "'w \<Rightarrow> 'o \<Rightarrow> bool"
    and req :: "'o \<Rightarrow> Request"
  assumes finds_complete:
    "listed w own \<Longrightarrow> reads own \<inter> touches x \<noteq> {} \<Longrightarrow> req own \<in> set (finds w x)"
begin

lemma complete:
  assumes "listed w' own" and "\<And>q. q \<notin> touches x \<Longrightarrow> get w q = get w' q"
    and "view w own \<noteq> view w' own"
  shows "req own \<in> set (finds w' x)"
proof (rule finds_complete [OF assms(1)])
  show "reads own \<inter> touches x \<noteq> {}" using unaffected assms(2,3) by metis
qed

end

section \<open>Defaulting\<close>

locale defaulter =
  fixes apply_d :: "'a \<Rightarrow> 'a"
    and complete_d :: "'a \<Rightarrow> bool"
  assumes completes: "complete_d (apply_d x)"
    and keeps_complete: "complete_d x \<Longrightarrow> apply_d x = x"
begin

lemma idempotent: "apply_d (apply_d x) = apply_d x"
  by (rule keeps_complete) (rule completes)

lemma fixed_iff: "apply_d x = x \<longleftrightarrow> complete_d x"
  using completes keeps_complete by metis

end

section \<open>Managed objects\<close>

text \<open>
  A closure handed to \<open>CreateOrUpdate\<close>, and the relation between what it makes and what the
  API server then stores. Its contract, given the documented behaviour of the function that
  sets the owner reference, is that a run on what was stored changes nothing; then a second
  reconciliation writes nothing.
\<close>

locale managed_object =
  fixes set_owner :: "ObjectMeta \<Rightarrow> go_error + ObjectMeta"
    and mutate :: "'o \<Rightarrow> go_error + 'o"
    and stores :: "'o \<Rightarrow> 'o \<Rightarrow> bool"
  assumes stable: "set_owner_ok set_owner \<Longrightarrow> mutate d = Inr d' \<Longrightarrow> stores d' x \<Longrightarrow> mutate x = Inr x"
begin

lemma no_rewrite:
  assumes "set_owner_ok set_owner" and "create_or_update_ok nf get cou obj"
    and "mutate d = Inr d'" and "stores d' x" and "get w = Inr x"
  shows "cou obj mutate w = (Inr OperationResultNone, w)"
proof -
  have "mutate x = Inr x" using stable assms(1,3,4) by blast
  then show ?thesis using assms(2,5) by (rule create_or_update_unchanged[rotated 2])
qed

end

end
