(* ===== verification/Agent_SubAgent.thy ===== *)
theory Agent_SubAgent
  imports Interfaces
begin

text \<open>
  \<open>internal/controller/agent_subagent.go\<close>: resolving the sub-agents of an agent to URLs, with
  all failures collected, and the watch that enqueues the agents that reference a changed
  agent. The watch is shown complete: a change of one agent that alters what another agent
  resolves enqueues that other agent.
\<close>

record ResolvedSubAgent =
  rs_Url :: string
  rs_InteractionType :: string

definition resolveSubAgentUrl :: "'w kube \<Rightarrow> 'w \<Rightarrow> SubAgent \<Rightarrow> string \<Rightarrow> go_error + string" where
  "resolveSubAgentUrl k w subAgent parentNamespace =
     (if sa_Url subAgent \<noteq> [] then Inr (sa_Url subAgent)
      else (case sa_AgentRef subAgent of
          None \<Rightarrow> Inl (Errorf ''subAgent has neither url nor agentRef specified'')
        | Some ref \<Rightarrow>
            (let namespace = getNamespaceWithDefault ref parentNamespace
             in case getAgent k w (nsname namespace (or_Name ref)) of
                 Inl err \<Rightarrow>
                   Inl (wrap (''failed to resolve cluster agent '' @ namespace @ ''/'' @ or_Name ref) err)
               | Inr referencedAgent \<Rightarrow>
                   if ast_Url (ag_Status referencedAgent) = []
                   then Inl (Errorf (''cluster Agent '' @ namespace @ ''/'' @ or_Name ref
                          @ '' has no URL in its Status field (may not be ready or have A2A protocol)''))
                   else Inr (ast_Url (ag_Status referencedAgent)))))"

definition subAgent_issue :: "unicode \<Rightarrow> SubAgent \<Rightarrow> go_error \<Rightarrow> string" where
  "subAgent_issue u subAgent err = ''subAgent '' @ quote u (sa_Name subAgent) @ '': '' @ Error err"

fun resolveAllSubAgents_loop ::
  "unicode \<Rightarrow> 'w kube \<Rightarrow> 'w \<Rightarrow> string \<Rightarrow> SubAgent list \<Rightarrow> (string, ResolvedSubAgent) fmap \<Rightarrow> string list
    \<Rightarrow> (string, ResolvedSubAgent) fmap \<times> string list" where
  "resolveAllSubAgents_loop u k w ns [] resolved issues = (resolved, issues)"
| "resolveAllSubAgents_loop u k w ns (subAgent # subAgents) resolved issues =
     (case resolveSubAgentUrl k w subAgent ns of
        Inl err \<Rightarrow>
          resolveAllSubAgents_loop u k w ns subAgents resolved (issues @ [subAgent_issue u subAgent err])
      | Inr url \<Rightarrow>
          resolveAllSubAgents_loop u k w ns subAgents
            (fmupd (sa_Name subAgent)
               \<lparr>rs_Url = url, rs_InteractionType = sa_InteractionType subAgent\<rparr> resolved) issues)"

text \<open>The code returns the map together with the error.\<close>

definition resolveAllSubAgents ::
  "unicode \<Rightarrow> 'w kube \<Rightarrow> 'w \<Rightarrow> Agent \<Rightarrow> (string, ResolvedSubAgent) fmap \<times> go_error option" where
  "resolveAllSubAgents u k w agent =
     (let (resolved, issues) =
        resolveAllSubAgents_loop u k w (om_Namespace (ag_Meta agent))
          (as_SubAgents (ag_Spec agent)) fmempty []
      in (resolved,
          if length issues > 0
          then Some (unresolved_error ''subAgent'' issues)
          else None))"

fun references_agent :: "string \<Rightarrow> Agent \<Rightarrow> SubAgent list \<Rightarrow> bool" where
  "references_agent ns updatedAgent [] = False"
| "references_agent ns updatedAgent (subAgent # subAgents) =
     (case sa_AgentRef subAgent of
        None \<Rightarrow> references_agent ns updatedAgent subAgents
      | Some ref \<Rightarrow>
          if or_Name ref = om_Name (ag_Meta updatedAgent)
             \<and> getNamespaceWithDefault ref ns = om_Namespace (ag_Meta updatedAgent)
          then True
          else references_agent ns updatedAgent subAgents)"

definition findAgentsReferencingSubAgent :: "'w kube \<Rightarrow> 'w \<Rightarrow> client_object \<Rightarrow> Request list" where
  "findAgentsReferencingSubAgent k w obj =
     (case obj of
        ObjAgent updatedAgent \<Rightarrow>
          (case listAgents k w of
             Inl err \<Rightarrow> []
           | Inr items \<Rightarrow>
               map (\<lambda>agent. request_of (ag_Meta agent))
                 (filter (\<lambda>agent. references_agent (om_Namespace (ag_Meta agent)) updatedAgent
                                    (as_SubAgents (ag_Spec agent))) items))
      | _ \<Rightarrow> [])"

section \<open>The resolve loop\<close>

definition subAgent_result ::
  "'w kube \<Rightarrow> 'w \<Rightarrow> string \<Rightarrow> SubAgent \<Rightarrow> go_error + ResolvedSubAgent" where
  "subAgent_result k w ns s =
     (case resolveSubAgentUrl k w s ns of
        Inl err \<Rightarrow> Inl err
      | Inr url \<Rightarrow> Inr \<lparr>rs_Url = url, rs_InteractionType = sa_InteractionType s\<rparr>)"

interpretation sub_loop: resolve_loop
  "resolveAllSubAgents_loop u k w ns" sa_Name "subAgent_result k w ns" "subAgent_issue u"
  for u k w ns
  by unfold_locales (auto simp: subAgent_result_def split: sum.splits)

lemma resolveAllSubAgents_eq:
  "resolveAllSubAgents u k w agent =
     (let ns = om_Namespace (ag_Meta agent); subs = as_SubAgents (ag_Spec agent);
          issues = issues_of (subAgent_result k w ns) (subAgent_issue u) subs
      in (resolved_of sa_Name (subAgent_result k w ns) fmempty subs,
          if issues = [] then None
          else Some (unresolved_error ''subAgent'' issues)))"
  by (simp add: resolveAllSubAgents_def sub_loop.loop_eq Let_def)

lemma isl_subAgent_result [simp]:
  "isl (subAgent_result k w ns s) = isl (resolveSubAgentUrl k w s ns)"
  by (simp add: subAgent_result_def split: sum.splits)

text \<open>Resolution succeeds exactly when every sub-agent resolves.\<close>

lemma resolveAllSubAgents_ok_iff:
  "snd (resolveAllSubAgents u k w agent) = None \<longleftrightarrow>
     (\<forall>s\<in>set (as_SubAgents (ag_Spec agent)).
        \<not> isl (resolveSubAgentUrl k w s (om_Namespace (ag_Meta agent))))"
  by (simp add: resolveAllSubAgents_eq Let_def issues_of_empty_iff)

lemma subAgent_result_Inr:
  "subAgent_result k w ns s = Inr r \<longleftrightarrow>
     resolveSubAgentUrl k w s ns = Inr (rs_Url r) \<and> rs_InteractionType r = sa_InteractionType s"
  by (cases r) (auto simp: subAgent_result_def split: sum.splits)

lemma resolveAllSubAgents_source:
  assumes "fmlookup (fst (resolveAllSubAgents u k w agent)) n = Some r"
  shows "\<exists>s\<in>set (as_SubAgents (ag_Spec agent)). sa_Name s = n
           \<and> resolveSubAgentUrl k w s (om_Namespace (ag_Meta agent)) = Inr (rs_Url r)
           \<and> rs_InteractionType r = sa_InteractionType s"
proof -
  let ?ns = "om_Namespace (ag_Meta agent)"
  have "fmlookup (fst (resolveAllSubAgents_loop u k w ?ns (as_SubAgents (ag_Spec agent)) fmempty [])) n
          = Some r"
    using assms by (auto simp: resolveAllSubAgents_def Let_def split: prod.splits)
  from sub_loop.lookup_source [OF this] show ?thesis by (simp add: subAgent_result_Inr)
qed

section \<open>The watch\<close>

text \<open>The agents an agent references, as keys.\<close>

definition sub_refs :: "Agent \<Rightarrow> NamespacedName set" where
  "sub_refs agent =
     {nsname (getNamespaceWithDefault ref (om_Namespace (ag_Meta agent))) (or_Name ref) |ref.
        \<exists>s\<in>set (as_SubAgents (ag_Spec agent)). sa_AgentRef s = Some ref}"

lemma references_agent_iff:
  "references_agent ns x subs \<longleftrightarrow>
     (\<exists>s\<in>set subs. \<exists>ref. sa_AgentRef s = Some ref \<and> or_Name ref = om_Name (ag_Meta x)
        \<and> getNamespaceWithDefault ref ns = om_Namespace (ag_Meta x))"
  by (induction subs) (auto split: option.splits)

lemma resolveSubAgentUrl_cong:
  assumes "\<And>ref. sa_AgentRef s = Some ref \<Longrightarrow>
     getAgent k w (nsname (getNamespaceWithDefault ref ns) (or_Name ref))
       = getAgent k w' (nsname (getNamespaceWithDefault ref ns) (or_Name ref))"
  shows "resolveSubAgentUrl k w s ns = resolveSubAgentUrl k w' s ns"
  using assms by (simp add: resolveSubAgentUrl_def Let_def split: option.splits)

lemma resolveAllSubAgents_local:
  assumes "\<And>q. q \<in> sub_refs agent \<Longrightarrow> getAgent k w q = getAgent k w' q"
  shows "resolveAllSubAgents u k w agent = resolveAllSubAgents u k w' agent"
proof -
  let ?ns = "om_Namespace (ag_Meta agent)" and ?subs = "as_SubAgents (ag_Spec agent)"
  have "subAgent_result k w ?ns s = subAgent_result k w' ?ns s" if "s \<in> set ?subs" for s
    unfolding subAgent_result_def
    using assms that by (subst resolveSubAgentUrl_cong[of s k w _ w']) (auto simp: sub_refs_def)
  then show ?thesis
    unfolding resolveAllSubAgents_eq Let_def
    using resolve_fold_cong[of ?subs "subAgent_result k w ?ns" "subAgent_result k w' ?ns"] by metis
qed

lemma sub_refs_iff:
  "request_of (ag_Meta x) \<in> sub_refs agent \<longleftrightarrow>
     references_agent (om_Namespace (ag_Meta agent)) x (as_SubAgents (ag_Spec agent))"
  by (auto simp: sub_refs_def references_agent_iff request_of_def) metis+

lemma findAgentsReferencingSubAgent_set:
  "listAgents k w = Inr items \<Longrightarrow>
   set (findAgentsReferencingSubAgent k w (ObjAgent x)) =
     {request_of (ag_Meta agent) |agent. agent \<in> set items \<and> request_of (ag_Meta x) \<in> sub_refs agent}"
  by (auto simp: findAgentsReferencingSubAgent_def sub_refs_iff)

interpretation sub_watch: watch
  "getAgent k" sub_refs "resolveAllSubAgents u k" "\<lambda>x. {request_of (ag_Meta x)}"
  "\<lambda>w x. findAgentsReferencingSubAgent k w (ObjAgent x)" "listed_agent k"
  "\<lambda>agent. request_of (ag_Meta agent)"
  for u k
proof unfold_locales
  show "resolveAllSubAgents u k w own = resolveAllSubAgents u k w' own"
    if "\<And>q. q \<in> sub_refs own \<Longrightarrow> getAgent k w q = getAgent k w' q" for own w w'
    using that by (rule resolveAllSubAgents_local)
  show "request_of (ag_Meta own) \<in> set (findAgentsReferencingSubAgent k w (ObjAgent x))"
    if "listed_agent k w own" and "sub_refs own \<inter> {request_of (ag_Meta x)} \<noteq> {}" for w own x
    using that by (auto simp: listed_agent_def findAgentsReferencingSubAgent_set)
qed

end
