(* ===== verification/Agent_Tool.thy ===== *)
theory Agent_Tool
  imports Interfaces
begin

text \<open>
  \<open>internal/controller/agent_tool.go\<close>: resolving the tools of an agent through a ToolRoute, a
  ToolServer or an external URL, with all failures collected, and the two watches that
  enqueue the agents whose tools reference a changed ToolRoute or ToolServer. Both watches
  are shown complete.
\<close>

record ResolvedTool =
  rt_Url :: string
  rt_PropagatedHeaders :: "string list"

definition resolveToolRouteUrl ::
  "'w kube \<Rightarrow> 'w \<Rightarrow> ObjectReference \<Rightarrow> string \<Rightarrow> go_error + string" where
  "resolveToolRouteUrl k w ref parentNamespace =
     (if or_Name ref = [] then Inl (Errorf ''toolRouteRef.name is empty'')
      else (let namespace = getNamespaceWithDefault ref parentNamespace
            in case getToolRoute k w (nsname namespace (or_Name ref)) of
                Inl err \<Rightarrow>
                  Inl (wrap (''failed to resolve ToolRoute '' @ namespace @ ''/'' @ or_Name ref) err)
              | Inr route \<Rightarrow>
                  if trst_Url (tr_Status route) = []
                  then Inl (Errorf (''ToolRoute '' @ namespace @ ''/'' @ om_Name (tr_Meta route)
                         @ '' has no URL in its Status field''))
                  else Inr (trst_Url (tr_Status route))))"

definition resolveToolServerUrl ::
  "'w kube \<Rightarrow> 'w \<Rightarrow> ObjectReference \<Rightarrow> string \<Rightarrow> go_error + string" where
  "resolveToolServerUrl k w ref parentNamespace =
     (if or_Name ref = [] then Inl (Errorf ''toolServerRef.name is empty'')
      else (let namespace = getNamespaceWithDefault ref parentNamespace
            in case getToolServer k w (nsname namespace (or_Name ref)) of
                Inl err \<Rightarrow>
                  Inl (wrap (''failed to resolve ToolServer '' @ namespace @ ''/'' @ or_Name ref) err)
              | Inr server \<Rightarrow>
                  if tst_Url (tsv_Status server) = []
                  then Inl (Errorf (''ToolServer '' @ namespace @ ''/'' @ om_Name (tsv_Meta server)
                         @ '' has no URL in its Status field''))
                  else Inr (tst_Url (tsv_Status server))))"

definition resolveToolUrl :: "'w kube \<Rightarrow> 'w \<Rightarrow> AgentTool \<Rightarrow> string \<Rightarrow> go_error + string" where
  "resolveToolUrl k w tool parentNamespace =
     (case tu_ToolRouteRef (at_Upstream tool) of
        Some ref \<Rightarrow> resolveToolRouteUrl k w ref parentNamespace
      | None \<Rightarrow>
          (case tu_ToolServerRef (at_Upstream tool) of
             Some ref \<Rightarrow> resolveToolServerUrl k w ref parentNamespace
           | None \<Rightarrow>
               (case tu_External (at_Upstream tool) of
                  Some ext \<Rightarrow>
                    (let url = TrimSpace (eu_Url ext)
                     in if url = [] then Inl (Errorf ''external upstream URL is empty'') else Inr url)
                | None \<Rightarrow> Inl (Errorf ''no upstream configured''))))"

definition tool_issue :: "unicode \<Rightarrow> AgentTool \<Rightarrow> go_error \<Rightarrow> string" where
  "tool_issue u tool err = ''tool '' @ quote u (at_Name tool) @ '': '' @ Error err"

fun resolveAllTools_loop ::
  "unicode \<Rightarrow> 'w kube \<Rightarrow> 'w \<Rightarrow> string \<Rightarrow> AgentTool list \<Rightarrow> (string, ResolvedTool) fmap \<Rightarrow> string list
    \<Rightarrow> (string, ResolvedTool) fmap \<times> string list" where
  "resolveAllTools_loop u k w ns [] resolved issues = (resolved, issues)"
| "resolveAllTools_loop u k w ns (tool # tools) resolved issues =
     (case resolveToolUrl k w tool ns of
        Inl err \<Rightarrow> resolveAllTools_loop u k w ns tools resolved (issues @ [tool_issue u tool err])
      | Inr url \<Rightarrow>
          resolveAllTools_loop u k w ns tools
            (fmupd (at_Name tool)
               \<lparr>rt_Url = url, rt_PropagatedHeaders = at_PropagatedHeaders tool\<rparr> resolved) issues)"

definition resolveAllTools ::
  "unicode \<Rightarrow> 'w kube \<Rightarrow> 'w \<Rightarrow> Agent \<Rightarrow> (string, ResolvedTool) fmap \<times> go_error option" where
  "resolveAllTools u k w agent =
     (let (resolved, issues) =
        resolveAllTools_loop u k w (om_Namespace (ag_Meta agent)) (as_Tools (ag_Spec agent)) fmempty []
      in (resolved, if length issues > 0 then Some (unresolved_error ''tool'' issues) else None))"

text \<open>The inner loops of the two watches, with their \<open>continue\<close>s and the final \<open>break\<close>.\<close>

fun references_tool_route :: "string \<Rightarrow> ToolRoute \<Rightarrow> AgentTool list \<Rightarrow> bool" where
  "references_tool_route agentNs updated [] = False"
| "references_tool_route agentNs updated (tool # tools) =
     (case tu_ToolRouteRef (at_Upstream tool) of
        None \<Rightarrow> references_tool_route agentNs updated tools
      | Some ref \<Rightarrow>
          if or_Name ref \<noteq> om_Name (tr_Meta updated) then references_tool_route agentNs updated tools
          else (let ns = (if or_Namespace ref = [] then agentNs else or_Namespace ref)
                in if ns \<noteq> om_Namespace (tr_Meta updated)
                   then references_tool_route agentNs updated tools else True))"

fun references_tool_server :: "string \<Rightarrow> ToolServer \<Rightarrow> AgentTool list \<Rightarrow> bool" where
  "references_tool_server agentNs updated [] = False"
| "references_tool_server agentNs updated (tool # tools) =
     (case tu_ToolServerRef (at_Upstream tool) of
        None \<Rightarrow> references_tool_server agentNs updated tools
      | Some ref \<Rightarrow>
          if or_Name ref \<noteq> om_Name (tsv_Meta updated) then references_tool_server agentNs updated tools
          else (let ns = (if or_Namespace ref = [] then agentNs else or_Namespace ref)
                in if ns \<noteq> om_Namespace (tsv_Meta updated)
                   then references_tool_server agentNs updated tools else True))"

definition findAgentsReferencingToolRoute :: "'w kube \<Rightarrow> 'w \<Rightarrow> client_object \<Rightarrow> Request list" where
  "findAgentsReferencingToolRoute k w obj =
     (case obj of
        ObjToolRoute updated \<Rightarrow>
          (case listAgents k w of
             Inl err \<Rightarrow> []
           | Inr items \<Rightarrow>
               map (\<lambda>agent. request_of (ag_Meta agent))
                 (filter (\<lambda>agent. references_tool_route (om_Namespace (ag_Meta agent)) updated
                                    (as_Tools (ag_Spec agent))) items))
      | _ \<Rightarrow> [])"

definition findAgentsReferencingToolServer :: "'w kube \<Rightarrow> 'w \<Rightarrow> client_object \<Rightarrow> Request list" where
  "findAgentsReferencingToolServer k w obj =
     (case obj of
        ObjToolServer updated \<Rightarrow>
          (case listAgents k w of
             Inl err \<Rightarrow> []
           | Inr items \<Rightarrow>
               map (\<lambda>agent. request_of (ag_Meta agent))
                 (filter (\<lambda>agent. references_tool_server (om_Namespace (ag_Meta agent)) updated
                                    (as_Tools (ag_Spec agent))) items))
      | _ \<Rightarrow> [])"

section \<open>The resolve loop\<close>

definition tool_result :: "'w kube \<Rightarrow> 'w \<Rightarrow> string \<Rightarrow> AgentTool \<Rightarrow> go_error + ResolvedTool" where
  "tool_result k w ns t =
     (case resolveToolUrl k w t ns of
        Inl err \<Rightarrow> Inl err
      | Inr url \<Rightarrow> Inr \<lparr>rt_Url = url, rt_PropagatedHeaders = at_PropagatedHeaders t\<rparr>)"

interpretation tool_loop: resolve_loop
  "resolveAllTools_loop u k w ns" at_Name "tool_result k w ns" "tool_issue u"
  for u k w ns
  by unfold_locales (auto simp: tool_result_def split: sum.splits)

lemma resolveAllTools_eq:
  "resolveAllTools u k w agent =
     (let ns = om_Namespace (ag_Meta agent); tools = as_Tools (ag_Spec agent);
          issues = issues_of (tool_result k w ns) (tool_issue u) tools
      in (resolved_of at_Name (tool_result k w ns) fmempty tools,
          if issues = [] then None else Some (unresolved_error ''tool'' issues)))"
  by (simp add: resolveAllTools_def tool_loop.loop_eq Let_def)

lemma isl_tool_result [simp]: "isl (tool_result k w ns t) = isl (resolveToolUrl k w t ns)"
  by (simp add: tool_result_def split: sum.splits)

lemma resolveAllTools_ok_iff:
  "snd (resolveAllTools u k w agent) = None \<longleftrightarrow>
     (\<forall>t\<in>set (as_Tools (ag_Spec agent)).
        \<not> isl (resolveToolUrl k w t (om_Namespace (ag_Meta agent))))"
  by (simp add: resolveAllTools_eq Let_def issues_of_empty_iff)

lemma tool_result_Inr:
  "tool_result k w ns t = Inr r \<longleftrightarrow>
     resolveToolUrl k w t ns = Inr (rt_Url r) \<and> rt_PropagatedHeaders r = at_PropagatedHeaders t"
  by (cases r) (auto simp: tool_result_def split: sum.splits)

lemma resolveAllTools_source:
  assumes "fmlookup (fst (resolveAllTools u k w agent)) n = Some r"
  shows "\<exists>t\<in>set (as_Tools (ag_Spec agent)). at_Name t = n
           \<and> resolveToolUrl k w t (om_Namespace (ag_Meta agent)) = Inr (rt_Url r)
           \<and> rt_PropagatedHeaders r = at_PropagatedHeaders t"
proof -
  let ?ns = "om_Namespace (ag_Meta agent)"
  have "fmlookup (fst (resolveAllTools_loop u k w ?ns (as_Tools (ag_Spec agent)) fmempty [])) n
          = Some r"
    using assms by (auto simp: resolveAllTools_def Let_def split: prod.splits)
  from tool_loop.lookup_source [OF this] show ?thesis by (simp add: tool_result_Inr)
qed

text \<open>A resolved tool never has an empty URL.\<close>

lemma resolveToolUrl_nonempty: "resolveToolUrl k w t ns = Inr url \<Longrightarrow> url \<noteq> []"
  by (auto simp: resolveToolUrl_def resolveToolRouteUrl_def resolveToolServerUrl_def Let_def
        split: option.splits if_splits sum.splits)

section \<open>The watches\<close>

text \<open>The two kinds of objects a tool can name, as queries to the API server.\<close>

datatype tool_query = RouteQuery NamespacedName | ServerQuery NamespacedName

fun answer_tool_query :: "'w kube \<Rightarrow> 'w \<Rightarrow> tool_query \<Rightarrow> go_error + (ToolRoute + ToolServer)" where
  "answer_tool_query k w (RouteQuery key) = map_sum id Inl (getToolRoute k w key)"
| "answer_tool_query k w (ServerQuery key) = map_sum id Inr (getToolServer k w key)"

definition ref_key :: "string \<Rightarrow> ObjectReference \<Rightarrow> NamespacedName" where
  "ref_key ns ref = nsname (getNamespaceWithDefault ref ns) (or_Name ref)"

definition tool_refs :: "Agent \<Rightarrow> tool_query set" where
  "tool_refs agent =
     (let ns = om_Namespace (ag_Meta agent) in
      {RouteQuery (ref_key ns ref) |ref.
         \<exists>t\<in>set (as_Tools (ag_Spec agent)). tu_ToolRouteRef (at_Upstream t) = Some ref}
      \<union> {ServerQuery (ref_key ns ref) |ref.
         \<exists>t\<in>set (as_Tools (ag_Spec agent)). tu_ToolServerRef (at_Upstream t) = Some ref})"

lemma map_sum_injD:
  "inj f \<Longrightarrow> map_sum id f a = map_sum id f b \<Longrightarrow> a = b"
  by (cases a; cases b) (auto dest: injD)

lemma route_answer_eq:
  "answer_tool_query k w (RouteQuery q) = answer_tool_query k w' (RouteQuery q) \<Longrightarrow>
     getToolRoute k w q = getToolRoute k w' q"
  by (auto intro: map_sum_injD [of Inl])

lemma server_answer_eq:
  "answer_tool_query k w (ServerQuery q) = answer_tool_query k w' (ServerQuery q) \<Longrightarrow>
     getToolServer k w q = getToolServer k w' q"
  by (auto intro: map_sum_injD [of Inr])

lemma resolveToolUrl_cong:
  assumes "\<And>ref. tu_ToolRouteRef (at_Upstream t) = Some ref \<Longrightarrow>
      getToolRoute k w (ref_key ns ref) = getToolRoute k w' (ref_key ns ref)"
    and "\<And>ref. tu_ToolServerRef (at_Upstream t) = Some ref \<Longrightarrow>
      getToolServer k w (ref_key ns ref) = getToolServer k w' (ref_key ns ref)"
  shows "resolveToolUrl k w t ns = resolveToolUrl k w' t ns"
  using assms
  by (simp add: resolveToolUrl_def resolveToolRouteUrl_def resolveToolServerUrl_def ref_key_def
        Let_def split: option.splits)

lemma resolveAllTools_local:
  assumes "\<And>q. q \<in> tool_refs agent \<Longrightarrow> answer_tool_query k w q = answer_tool_query k w' q"
  shows "resolveAllTools u k w agent = resolveAllTools u k w' agent"
proof -
  let ?ns = "om_Namespace (ag_Meta agent)" and ?tools = "as_Tools (ag_Spec agent)"
  have "resolveToolUrl k w t ?ns = resolveToolUrl k w' t ?ns" if "t \<in> set ?tools" for t
    using that
    by (intro resolveToolUrl_cong route_answer_eq server_answer_eq assms)
       (auto simp: tool_refs_def Let_def)
  then have "tool_result k w ?ns t = tool_result k w' ?ns t" if "t \<in> set ?tools" for t
    using that by (simp add: tool_result_def)
  then show ?thesis
    unfolding resolveAllTools_eq Let_def
    using resolve_fold_cong[of ?tools "tool_result k w ?ns" "tool_result k w' ?ns"] by metis
qed

lemma references_tool_route_iff:
  "references_tool_route ns x tools \<longleftrightarrow>
     (\<exists>t\<in>set tools. \<exists>ref. tu_ToolRouteRef (at_Upstream t) = Some ref
        \<and> ref_key ns ref = request_of (tr_Meta x))"
  by (induction tools)
     (auto simp: Let_def ref_key_def request_of_def getNamespaceWithDefault_def split: option.splits)

lemma references_tool_server_iff:
  "references_tool_server ns x tools \<longleftrightarrow>
     (\<exists>t\<in>set tools. \<exists>ref. tu_ToolServerRef (at_Upstream t) = Some ref
        \<and> ref_key ns ref = request_of (tsv_Meta x))"
  by (induction tools)
     (auto simp: Let_def ref_key_def request_of_def getNamespaceWithDefault_def split: option.splits)

lemma tool_refs_route_iff:
  "RouteQuery q \<in> tool_refs agent \<longleftrightarrow>
     (\<exists>t\<in>set (as_Tools (ag_Spec agent)). \<exists>ref. tu_ToolRouteRef (at_Upstream t) = Some ref
        \<and> ref_key (om_Namespace (ag_Meta agent)) ref = q)"
  by (auto simp: tool_refs_def Let_def)

lemma tool_refs_server_iff:
  "ServerQuery q \<in> tool_refs agent \<longleftrightarrow>
     (\<exists>t\<in>set (as_Tools (ag_Spec agent)). \<exists>ref. tu_ToolServerRef (at_Upstream t) = Some ref
        \<and> ref_key (om_Namespace (ag_Meta agent)) ref = q)"
  by (auto simp: tool_refs_def Let_def)

lemma findAgentsReferencingToolRoute_set:
  "listAgents k w = Inr items \<Longrightarrow>
   set (findAgentsReferencingToolRoute k w (ObjToolRoute x)) =
     {request_of (ag_Meta agent) |agent.
        agent \<in> set items \<and> RouteQuery (request_of (tr_Meta x)) \<in> tool_refs agent}"
  unfolding findAgentsReferencingToolRoute_def references_tool_route_iff tool_refs_route_iff
  by auto

lemma findAgentsReferencingToolServer_set:
  "listAgents k w = Inr items \<Longrightarrow>
   set (findAgentsReferencingToolServer k w (ObjToolServer x)) =
     {request_of (ag_Meta agent) |agent.
        agent \<in> set items \<and> ServerQuery (request_of (tsv_Meta x)) \<in> tool_refs agent}"
  unfolding findAgentsReferencingToolServer_def references_tool_server_iff tool_refs_server_iff
  by auto

interpretation tool_dep: dependency "answer_tool_query k" tool_refs "resolveAllTools u k" for u k
  by unfold_locales (rule resolveAllTools_local)

interpretation route_watch: watch
  "answer_tool_query k" tool_refs "resolveAllTools u k"
  "\<lambda>x. {RouteQuery (request_of (tr_Meta x))}"
  "\<lambda>w x. findAgentsReferencingToolRoute k w (ObjToolRoute x)" "listed_agent k"
  "\<lambda>agent. request_of (ag_Meta agent)"
  for u k
  by unfold_locales (auto simp: listed_agent_def findAgentsReferencingToolRoute_set)

interpretation server_watch: watch
  "answer_tool_query k" tool_refs "resolveAllTools u k"
  "\<lambda>x. {ServerQuery (request_of (tsv_Meta x))}"
  "\<lambda>w x. findAgentsReferencingToolServer k w (ObjToolServer x)" "listed_agent k"
  "\<lambda>agent. request_of (ag_Meta agent)"
  for u k
  by unfold_locales (auto simp: listed_agent_def findAgentsReferencingToolServer_set)

end
