(* ===== verification/Agent_Config.thy ===== *)
theory Agent_Config
  imports Go_Json Util Agent_SubAgent Agent_Tool
begin

text \<open>
  \<open>internal/controller/agent_config.go\<close> and \<open>agent_probe.go\<close>: the environment of an agent's
  container (the template variables the operator computes, merged with the user's), the names
  made into identifiers, the URLs of the A2A protocol and the readiness probe.
\<close>

definition agentContainerName :: string where
  "agentContainerName = ''agent''"

definition agentCardEndpoint :: string where
  "agentCardEndpoint = ''/.well-known/agent-card.json''"

section \<open>Identifiers\<close>

definition is_ident_rune :: "nat \<Rightarrow> bool" where
  "is_ident_rune r \<longleftrightarrow> (97 \<le> r \<and> r \<le> 122) \<or> (65 \<le> r \<and> r \<le> 90) \<or> (48 \<le> r \<and> r \<le> 57) \<or> r = 95"

definition sanitize_rune :: "nat \<Rightarrow> char" where
  "sanitize_rune r = (if is_ident_rune r then char_of r else CHR ''_'')"

definition sanitizeAgentName :: "string \<Rightarrow> string" where
  "sanitizeAgentName name =
     (let sanitized = map (sanitize_rune \<circ> fst) (runes name);
          sanitized = (case sanitized of
              [] \<Rightarrow> sanitized
            | firstChar # _ \<Rightarrow> if is_digit firstChar then ''_'' @ sanitized else sanitized)
      in if sanitized = [] then agentContainerName else sanitized)"

text \<open>The names an environment variable may have, and that the code promises.\<close>

definition is_identifier :: "string \<Rightarrow> bool" where
  "is_identifier s \<longleftrightarrow> s \<noteq> [] \<and> \<not> is_digit (hd s) \<and> (\<forall>c\<in>set s. is_ident_rune (byte c))"

lemma is_ident_rune_ascii: "is_ident_rune r \<Longrightarrow> r < 128"
  by (auto simp: is_ident_rune_def)

lemma sanitize_rune_ident: "is_ident_rune (byte (sanitize_rune r))"
proof -
  have "is_ident_rune 95" by (simp add: is_ident_rune_def)
  moreover have "r mod 256 = r" if "is_ident_rune r" using is_ident_rune_ascii[OF that] by simp
  ultimately show ?thesis by (simp add: sanitize_rune_def)
qed

lemma sanitize_identifier: "is_identifier (sanitizeAgentName name)"
proof -
  have ident: "is_ident_rune (byte CHR ''_'')" and nd: "\<not> is_digit CHR ''_''"
    by (simp_all add: is_ident_rune_def is_digit_def less_eq_char_def)
  have agent: "is_identifier agentContainerName"
    by (simp add: agentContainerName_def is_identifier_def is_ident_rune_def is_digit_def
          less_eq_char_def)
  show ?thesis
    using ident nd agent sanitize_rune_ident
    by (auto simp: sanitizeAgentName_def Let_def is_identifier_def split: list.splits)
qed

lemma identifier_unchanged:
  assumes "is_identifier s"
  shows "sanitizeAgentName s = s"
proof -
  have "is_ascii s"
    using assms is_ident_rune_ascii by (auto simp: is_identifier_def is_ascii_def list_all_iff)
  then have "map (sanitize_rune \<circ> fst) (runes s) = map (\<lambda>c. sanitize_rune (byte c)) s"
    by (simp add: runes_ascii)
  also have "\<dots> = s"
    using assms by (intro map_idI) (simp add: sanitize_rune_def is_identifier_def)
  finally show ?thesis
    using assms by (auto simp: sanitizeAgentName_def is_identifier_def Let_def split: list.splits)
qed

lemma sanitize_idem: "sanitizeAgentName (sanitizeAgentName s) = sanitizeAgentName s"
  by (rule identifier_unchanged) (rule sanitize_identifier)

section \<open>The A2A protocol\<close>

definition findA2AProtocol :: "Agent \<Rightarrow> AgentProtocol option" where
  "findA2AProtocol agent = find (\<lambda>p. ap_Type p = A2AProtocol) (as_Protocols (ag_Spec agent))"

definition a2a_url :: "Agent \<Rightarrow> AgentProtocol \<Rightarrow> string" where
  "a2a_url agent protocol =
     ''http://'' @ om_Name (ag_Meta agent) @ ''.'' @ om_Namespace (ag_Meta agent)
       @ ''.svc.cluster.local:'' @ show_int32 (ap_Port protocol) @ ap_Path protocol"

fun a2a_rpc_url_loop :: "Agent \<Rightarrow> AgentProtocol list \<Rightarrow> string" where
  "a2a_rpc_url_loop agent [] = []"
| "a2a_rpc_url_loop agent (protocol # protocols) =
     (if ap_Type protocol = A2AProtocol then a2a_url agent protocol
      else a2a_rpc_url_loop agent protocols)"

definition buildA2AAgentRpcUrl :: "Agent \<Rightarrow> string" where
  "buildA2AAgentRpcUrl agent = a2a_rpc_url_loop agent (as_Protocols (ag_Spec agent))"

definition buildA2AAgentCardUrl :: "Agent \<Rightarrow> string" where
  "buildA2AAgentCardUrl agent =
     (let rpcUrl = buildA2AAgentRpcUrl agent
      in if rpcUrl = [] then [] else rpcUrl @ agentCardEndpoint)"

definition generateReadinessProbe :: "Agent \<Rightarrow> Probe option" where
  "generateReadinessProbe agent =
     (case findA2AProtocol agent of
        Some protocol \<Rightarrow>
          Some \<lparr>pr_Handler = HTTPGet (ap_Path protocol @ agentCardEndpoint) (FromInt32 (ap_Port protocol)),
            pr_InitialDelaySeconds = 10, pr_PeriodSeconds = 10, pr_TimeoutSeconds = 3,
            pr_SuccessThreshold = 1, pr_FailureThreshold = 10\<rparr>
      | None \<Rightarrow> None)"

lemma a2a_rpc_url_loop_eq:
  "a2a_rpc_url_loop agent ps =
     (case find (\<lambda>p. ap_Type p = A2AProtocol) ps of None \<Rightarrow> [] | Some p \<Rightarrow> a2a_url agent p)"
  by (induction ps) auto

lemma buildA2AAgentRpcUrl_eq:
  "buildA2AAgentRpcUrl agent =
     (case findA2AProtocol agent of None \<Rightarrow> [] | Some p \<Rightarrow> a2a_url agent p)"
  by (simp add: buildA2AAgentRpcUrl_def findA2AProtocol_def a2a_rpc_url_loop_eq)

lemma a2a_url_nonempty [simp]: "a2a_url agent p \<noteq> []"
  by (simp add: a2a_url_def)

text \<open>
  The card's URL is that of the RPC endpoint followed by the well-known path, and the path the
  readiness probe asks is the end of it; there is one exactly when there is a probe.
\<close>

lemma buildA2AAgentCardUrl_eq:
  "buildA2AAgentCardUrl agent =
     (case findA2AProtocol agent of None \<Rightarrow> [] | Some p \<Rightarrow> a2a_url agent p @ agentCardEndpoint)"
  by (simp add: buildA2AAgentCardUrl_def buildA2AAgentRpcUrl_eq split: option.splits)

section \<open>Template variables\<close>

abbreviation env :: "string \<Rightarrow> string \<Rightarrow> EnvVar" where
  "env name value \<equiv> \<lparr>ev_Name = name, ev_Value = value, ev_ValueFrom = None\<rparr>"

fun sub_agents_json :: "unicode \<Rightarrow> (string \<times> ResolvedSubAgent) list \<Rightarrow> json_map \<Rightarrow> go_error + json_map" where
  "sub_agents_json u [] subAgentsMap = Inr subAgentsMap"
| "sub_agents_json u ((name, resolved) # rest) subAgentsMap =
     (if rs_InteractionType resolved = []
      then Inl (Errorf (''subAgent '' @ quote u name
             @ '' has no interactionType set (CRD defaulting failed)''))
      else sub_agents_json u rest
             (fmupd (sanitizeAgentName name)
                (fmap_of_list [(''url'', JString (rs_Url resolved)),
                   (''interaction_type'', JString (rs_InteractionType resolved))])
                subAgentsMap))"

fun tools_json :: "(string \<times> ResolvedTool) list \<Rightarrow> json_map \<Rightarrow> json_map" where
  "tools_json [] toolsMap = toolsMap"
| "tools_json ((name, resolved) # rest) toolsMap =
     (let toolConfig = fmupd ''url'' (JString (rt_Url resolved)) fmempty;
          toolConfig = (if length (rt_PropagatedHeaders resolved) > 0
             then fmupd ''propagate_headers'' (JStrings (rt_PropagatedHeaders resolved)) toolConfig
             else toolConfig)
      in tools_json rest (fmupd name toolConfig toolsMap))"

definition buildTemplateEnvironmentVars ::
  "go_rt \<Rightarrow> Agent \<Rightarrow> (string, ResolvedSubAgent) fmap \<Rightarrow> (string, ResolvedTool) fmap \<Rightarrow> string option
    \<Rightarrow> go_error + EnvVar list" where
  "buildTemplateEnvironmentVars rt agent resolvedSubAgents resolvedTools aiGatewayUrl =
     (let name = om_Name (ag_Meta agent);
          vars = [env ''AGENT_NAME'' (sanitizeAgentName name)];
          vars = vars @ [env ''AGENT_DESCRIPTION'' (as_Description (ag_Spec agent))];
          vars = vars @ [env ''AGENT_INSTRUCTION'' (as_Instruction (ag_Spec agent))];
          vars = vars @ [env ''AGENT_MODEL'' (as_Model (ag_Spec agent))];
          vars = vars @ [env ''OTEL_SEMCONV_STABILITY_OPT_IN'' ''gen_ai_latest_experimental''];
          vars = vars @ [env ''OTEL_SERVICE_NAME'' name];
          a2aUrl = buildA2AAgentRpcUrl agent;
          vars = (if a2aUrl \<noteq> [] then vars @ [env ''AGENT_A2A_RPC_URL'' a2aUrl] else vars);
          vars = (case aiGatewayUrl of
              None \<Rightarrow> vars
            | Some url \<Rightarrow>
                vars @ [env ''LITELLM_PROXY_API_BASE'' url,
                  env ''LITELLM_PROXY_API_KEY'' (om_Namespace (ag_Meta agent) @ ''/'' @ name),
                  env ''USE_LITELLM_PROXY'' ''True''])
      in case (if resolvedSubAgents \<noteq> fmempty
               then sub_agents_json (uni rt) (go_range (order_subs rt) resolvedSubAgents) fmempty
               else Inr fmempty) of
           Inl err \<Rightarrow> Inl err
         | Inr subAgentsMap \<Rightarrow>
             (let vars = vars @ [env ''SUB_AGENTS'' (json_Marshal subAgentsMap)];
                  toolsMap = (if resolvedTools \<noteq> fmempty
                     then tools_json (go_range (order_tools rt) resolvedTools) fmempty
                     else fmempty)
              in Inr (vars @ [env ''AGENT_TOOLS'' (json_Marshal toolsMap)])))"

section \<open>Merging with the user's variables\<close>

fun merge_templates ::
  "EnvVar list \<Rightarrow> (string, EnvVar) fmap \<Rightarrow> EnvVar list \<Rightarrow> EnvVar list \<times> (string, EnvVar) fmap" where
  "merge_templates [] userEnvMap result = (result, userEnvMap)"
| "merge_templates (templateEnv # rest) userEnvMap result =
     (case fmlookup userEnvMap (ev_Name templateEnv) of
        Some userEnv \<Rightarrow> merge_templates rest (fmdrop (ev_Name templateEnv) userEnvMap) (result @ [userEnv])
      | None \<Rightarrow> merge_templates rest userEnvMap (result @ [templateEnv]))"

definition mergeEnvironmentVariables :: "go_rt \<Rightarrow> EnvVar list \<Rightarrow> EnvVar list \<Rightarrow> EnvVar list" where
  "mergeEnvironmentVariables rt templateEnvVars userEnvVars =
     (let userEnvMap = foldl (\<lambda>m e. fmupd (ev_Name e) e m) fmempty userEnvVars;
          (result, userEnvMap) = merge_templates templateEnvVars userEnvMap [];
          result = result @ map snd (go_range (order_env rt) userEnvMap)
      in sort_env rt result)"

text \<open>
  What the merge promises: the variable of a name is the user's last one of that name, else
  the template's.
\<close>

definition effective_env :: "EnvVar list \<Rightarrow> EnvVar list \<Rightarrow> string \<Rightarrow> EnvVar option" where
  "effective_env templateEnvVars userEnvVars n =
     (case findEnvVar (rev userEnvVars) n of
        Some u \<Rightarrow> Some u
      | None \<Rightarrow> findEnvVar templateEnvVars n)"

lemma findEnvVar_name: "findEnvVar xs n = Some e \<Longrightarrow> ev_Name e = n"
  unfolding findEnvVar_def by (drule find_SomeD) simp

lemma findEnvVar_distinct:
  "distinct (map ev_Name xs) \<Longrightarrow> findEnvVar xs n = Some e \<longleftrightarrow> e \<in> set xs \<and> ev_Name e = n"
  by (induction xs) (auto simp: findEnvVar_def image_iff)

lemma user_map_lookup:
  "fmlookup (foldl (\<lambda>m e. fmupd (ev_Name e) e m) fmempty us) n = findEnvVar (rev us) n"
  by (induction us rule: rev_induct) (auto simp: findEnvVar_def)

lemma fmfilter_fmdrop:
  "fmfilter P (fmdrop k m) = fmfilter (\<lambda>x. x \<noteq> k \<and> P x) m"
  by (rule fmap_ext) simp

lemma merge_templates_eq:
  "distinct (map ev_Name ts) \<Longrightarrow>
   merge_templates ts m res =
     (res @ map (\<lambda>t. case fmlookup m (ev_Name t) of None \<Rightarrow> t | Some u \<Rightarrow> u) ts,
      fmfilter (\<lambda>k. k \<notin> ev_Name ` set ts) m)"
proof (induction ts arbitrary: m res)
  case Nil
  then show ?case by (simp add: fmfilter_true)
next
  case (Cons t ts)
  have other: "ev_Name x \<noteq> ev_Name t" if "x \<in> set ts" for x
    using Cons.prems that by (auto simp: image_iff)
  show ?case
  proof (cases "fmlookup m (ev_Name t)")
    case None
    then have "fmfilter (\<lambda>k. k \<notin> ev_Name ` set ts) m = fmfilter (\<lambda>k. k \<notin> ev_Name ` set (t # ts)) m"
      by (intro fmap_ext) auto
    then show ?thesis using Cons None by simp
  next
    case (Some u)
    then show ?thesis using Cons other by (simp add: fmfilter_fmdrop cong: map_cong)
  qed
qed

text \<open>The slice before the sort, as a set and by name.\<close>

definition merged_env :: "map_order \<Rightarrow> EnvVar list \<Rightarrow> EnvVar list \<Rightarrow> EnvVar list" where
  "merged_env ord ts us =
     (let m = foldl (\<lambda>m e. fmupd (ev_Name e) e m) fmempty us
      in map (\<lambda>t. case fmlookup m (ev_Name t) of None \<Rightarrow> t | Some u \<Rightarrow> u) ts
         @ map snd (go_range ord (fmfilter (\<lambda>k. k \<notin> ev_Name ` set ts) m)))"

lemma merge_eq:
  "distinct (map ev_Name ts) \<Longrightarrow>
   mergeEnvironmentVariables rt ts us = sort_env rt (merged_env (order_env rt) ts us)"
  by (simp add: mergeEnvironmentVariables_def merged_env_def merge_templates_eq Let_def)

lemma merged_env_names:
  assumes "is_order ord"
  shows "map ev_Name (merged_env ord ts us) =
    map ev_Name ts @ go_keys ord (fmfilter (\<lambda>k. k \<notin> ev_Name ` set ts)
      (foldl (\<lambda>m e. fmupd (ev_Name e) e m) fmempty us))" (is "_ = _ @ go_keys ord ?m")
proof -
  have "ev_Name (the (fmlookup ?m k)) = k" if "k \<in> set (go_keys ord ?m)" for k
    using that assms
    by (auto simp: user_map_lookup fmlookup_dom'_iff split: if_splits dest: findEnvVar_name)
  then have "map (\<lambda>k. ev_Name (the (fmlookup ?m k))) (go_keys ord ?m) = go_keys ord ?m"
    by (rule map_idI)
  then have users: "map ev_Name (map snd (go_range ord ?m)) = go_keys ord ?m"
    by (simp only: go_range_def map_map comp_def snd_conv)
  have templates:
    "map ev_Name (map (\<lambda>t. case findEnvVar (rev us) (ev_Name t) of None \<Rightarrow> t | Some u \<Rightarrow> u) ts)
       = map ev_Name ts"
    by (auto dest: findEnvVar_name split: option.splits)
  show ?thesis
    unfolding merged_env_def Let_def map_append users user_map_lookup templates ..
qed

lemma merged_env_distinct:
  "is_order ord \<Longrightarrow> distinct (map ev_Name ts) \<Longrightarrow> distinct (map ev_Name (merged_env ord ts us))"
  by (auto simp: merged_env_names)

lemma merged_env_set:
  assumes "is_order ord" and "distinct (map ev_Name ts)"
  shows "set (merged_env ord ts us) = {e. effective_env ts us (ev_Name e) = Some e}"
proof (rule set_eqI)
  fix e
  let ?m = "fmfilter (\<lambda>k. k \<notin> ev_Name ` set ts) (foldl (\<lambda>m e. fmupd (ev_Name e) e m) fmempty us)"
  let ?user = "findEnvVar (rev us)"
  have ts: "findEnvVar ts n = Some t \<longleftrightarrow> t \<in> set ts \<and> ev_Name t = n" for n t
    using findEnvVar_distinct[OF assms(2)] .
  have "e \<in> snd ` set (go_range ord ?m) \<longleftrightarrow> (\<exists>n. n \<notin> ev_Name ` set ts \<and> ?user n = Some e)"
    by (simp add: go_range_values assms(1) user_map_lookup) blast
  also have "\<dots> \<longleftrightarrow> ev_Name e \<notin> ev_Name ` set ts \<and> ?user (ev_Name e) = Some e"
    using findEnvVar_name by metis
  finally have "e \<in> set (merged_env ord ts us) \<longleftrightarrow>
      (\<exists>t\<in>set ts. e = (case ?user (ev_Name t) of None \<Rightarrow> t | Some u \<Rightarrow> u))
      \<or> ev_Name e \<notin> ev_Name ` set ts \<and> ?user (ev_Name e) = Some e"
    by (auto simp: merged_env_def user_map_lookup Let_def)
  also have "\<dots> \<longleftrightarrow> effective_env ts us (ev_Name e) = Some e"
  proof (cases "?user (ev_Name e)")
    case None
    moreover have "\<not> (\<exists>t\<in>set ts. ?user (ev_Name t) = Some e)"
      using None findEnvVar_name by fastforce
    ultimately show ?thesis by (auto simp: effective_env_def ts split: option.splits)
  next
    case (Some u)
    let ?pick = "\<lambda>t. case ?user (ev_Name t) of None \<Rightarrow> t | Some v \<Rightarrow> v"
    have name: "ev_Name (?pick t) = ev_Name t" for t
      by (auto split: option.splits dest: findEnvVar_name)
    have hit: "?pick t = u" if "ev_Name t = ev_Name e" for t
      using that Some by simp
    have "(\<exists>t\<in>set ts. e = ?pick t) \<longleftrightarrow> ev_Name e \<in> ev_Name ` set ts \<and> e = u"
    proof
      assume "\<exists>t\<in>set ts. e = ?pick t"
      then obtain t where t: "t \<in> set ts" "e = ?pick t" by blast
      then have "ev_Name t = ev_Name e" using name by metis
      then show "ev_Name e \<in> ev_Name ` set ts \<and> e = u" using t hit by (metis imageI)
    next
      assume "ev_Name e \<in> ev_Name ` set ts \<and> e = u"
      then show "\<exists>t\<in>set ts. e = ?pick t" using hit by force
    qed
    then show ?thesis using Some by (auto simp: effective_env_def)
  qed
  finally show "e \<in> set (merged_env ord ts us) \<longleftrightarrow>
      e \<in> {e. effective_env ts us (ev_Name e) = Some e}" by simp
qed

text \<open>The sorted result: the order is fixed by the names.\<close>

lemma sort_env_facts:
  assumes "rt_ok rt"
  shows "mset (sort_env rt xs) = mset xs" and "sorted (map ev_Name (sort_env rt xs))"
    and "set (sort_env rt xs) = set xs"
    and "distinct (map ev_Name (sort_env rt xs)) \<longleftrightarrow> distinct (map ev_Name xs)"
proof -
  show m: "mset (sort_env rt xs) = mset xs" and "sorted (map ev_Name (sort_env rt xs))"
    using assms by (simp_all add: rt_ok_def)
  show "set (sort_env rt xs) = set xs" using m by (rule mset_eq_setD)
  show "distinct (map ev_Name (sort_env rt xs)) \<longleftrightarrow> distinct (map ev_Name xs)"
    using m by (metis mset_eq_imp_distinct_iff mset_map)
qed

lemma merge_distinct:
  assumes "rt_ok rt" and "distinct (map ev_Name ts)"
  shows "distinct (map ev_Name (mergeEnvironmentVariables rt ts us))"
proof -
  have "is_order (order_env rt)" using assms(1) by (simp add: rt_ok_def)
  then show ?thesis
    by (simp add: merge_eq[OF assms(2)] sort_env_facts[OF assms(1)] merged_env_distinct assms(2))
qed

lemma merge_set:
  assumes "rt_ok rt" and "distinct (map ev_Name ts)"
  shows "set (mergeEnvironmentVariables rt ts us) = {e. effective_env ts us (ev_Name e) = Some e}"
proof -
  have "is_order (order_env rt)" using assms(1) by (simp add: rt_ok_def)
  then show ?thesis
    by (simp add: merge_eq[OF assms(2)] sort_env_facts[OF assms(1)] merged_env_set assms(2))
qed

lemma merge_sorted:
  "rt_ok rt \<Longrightarrow> distinct (map ev_Name ts) \<Longrightarrow>
   sorted (map ev_Name (mergeEnvironmentVariables rt ts us))"
  by (simp add: merge_eq sort_env_facts)

lemma merge_lookup:
  assumes "rt_ok rt" and "distinct (map ev_Name ts)"
  shows "findEnvVar (mergeEnvironmentVariables rt ts us) n = effective_env ts us n"
proof -
  have name: "effective_env ts us n = Some e \<Longrightarrow> ev_Name e = n" for e
    by (auto simp: effective_env_def split: option.splits dest: findEnvVar_name)
  have "findEnvVar (mergeEnvironmentVariables rt ts us) n = Some e \<longleftrightarrow> effective_env ts us n = Some e"
    for e
    unfolding findEnvVar_distinct[OF merge_distinct[OF assms]] merge_set[OF assms]
    using name by auto
  then show ?thesis
    by (metis option.exhaust)
qed

text \<open>Every runtime gives the same result: neither map order nor the unstable sort shows.\<close>

lemma merge_deterministic:
  assumes "rt_ok rt" and "rt_ok rt'" and "distinct (map ev_Name ts)"
  shows "mergeEnvironmentVariables rt ts us = mergeEnvironmentVariables rt' ts us"
proof (rule mset_eq_length_sorted_unique[where f = ev_Name])
  let ?r = "mergeEnvironmentVariables rt ts us" and ?r' = "mergeEnvironmentVariables rt' ts us"
  show "distinct (map ev_Name ?r)" by (rule merge_distinct[OF assms(1,3)])
  moreover have "distinct (map ev_Name ?r')" by (rule merge_distinct[OF assms(2,3)])
  ultimately have "distinct ?r" "distinct ?r'" by (simp_all add: distinct_map)
  then show "mset ?r = mset ?r'"
    using merge_set[OF assms(1,3)] merge_set[OF assms(2,3)] set_eq_iff_mset_eq_distinct by metis
  show "sorted (map ev_Name ?r)" by (rule merge_sorted[OF assms(1,3)])
  show "sorted (map ev_Name ?r')" by (rule merge_sorted[OF assms(2,3)])
qed

section \<open>What the template variables are\<close>

definition template_names :: "Agent \<Rightarrow> string option \<Rightarrow> string list" where
  "template_names agent aiGatewayUrl =
     [''AGENT_NAME'', ''AGENT_DESCRIPTION'', ''AGENT_INSTRUCTION'', ''AGENT_MODEL'',
      ''OTEL_SEMCONV_STABILITY_OPT_IN'', ''OTEL_SERVICE_NAME'']
     @ (if findA2AProtocol agent = None then [] else [''AGENT_A2A_RPC_URL''])
     @ (if aiGatewayUrl = None then []
        else [''LITELLM_PROXY_API_BASE'', ''LITELLM_PROXY_API_KEY'', ''USE_LITELLM_PROXY''])
     @ [''SUB_AGENTS'', ''AGENT_TOOLS'']"

lemma template_env_names:
  "buildTemplateEnvironmentVars rt agent subs tools gw = Inr vars \<Longrightarrow>
   map ev_Name vars = template_names agent gw"
  by (auto simp: buildTemplateEnvironmentVars_def template_names_def buildA2AAgentRpcUrl_eq Let_def
        split: option.splits sum.splits)

lemma template_names_distinct: "distinct (template_names agent gw)"
  by (simp add: template_names_def)

lemma template_env_distinct:
  "buildTemplateEnvironmentVars rt agent subs tools gw = Inr vars \<Longrightarrow> distinct (map ev_Name vars)"
  by (simp add: template_env_names template_names_distinct)

section \<open>The JSON variables\<close>

text \<open>The error the code reports is that of some sub-agent without an interaction type.\<close>

definition sub_agent_config :: "ResolvedSubAgent \<Rightarrow> (string, jval) fmap" where
  "sub_agent_config r =
     fmap_of_list [(''url'', JString (rs_Url r)), (''interaction_type'', JString (rs_InteractionType r))]"

definition tool_config :: "ResolvedTool \<Rightarrow> (string, jval) fmap" where
  "tool_config r =
     (if rt_PropagatedHeaders r = [] then fmupd ''url'' (JString (rt_Url r)) fmempty
      else fmupd ''propagate_headers'' (JStrings (rt_PropagatedHeaders r))
             (fmupd ''url'' (JString (rt_Url r)) fmempty))"

lemma sub_agents_json_eq:
  "sub_agents_json u xs m =
     (case find (\<lambda>x. rs_InteractionType (snd x) = []) xs of
        Some x \<Rightarrow> Inl (Errorf (''subAgent '' @ quote u (fst x)
                  @ '' has no interactionType set (CRD defaulting failed)''))
      | None \<Rightarrow> Inr (foldl (\<lambda>m x. fmupd (sanitizeAgentName (fst x)) (sub_agent_config (snd x)) m) m xs))"
  by (induction u xs m rule: sub_agents_json.induct)
     (auto simp: sub_agent_config_def split: option.splits)

lemma tools_json_eq:
  "tools_json xs m = foldl (\<lambda>m x. fmupd (fst x) (tool_config (snd x)) m) m xs"
  by (induction xs m rule: tools_json.induct) (simp_all add: tool_config_def Let_def)

text \<open>
  Writing the entries of a slice into a map: with distinct keys the order does not matter.
\<close>

lemma foldl_fmupd_lookup:
  "fmlookup (foldl (\<lambda>m x. fmupd (h x) (v x) m) m xs) n =
     (case find (\<lambda>x. h x = n) (rev xs) of None \<Rightarrow> fmlookup m n | Some x \<Rightarrow> Some (v x))"
  by (induction xs rule: rev_induct) auto

lemma find_distinct_iff:
  "inj_on h (set xs) \<Longrightarrow> find (\<lambda>x. h x = n) xs = Some x \<longleftrightarrow> x \<in> set xs \<and> h x = n"
  by (induction xs) (auto simp: inj_on_def)

lemma foldl_fmupd_order:
  assumes "set xs = set ys" and "inj_on h (set xs)"
  shows "foldl (\<lambda>m x. fmupd (h x) (v x) m) m xs = foldl (\<lambda>m x. fmupd (h x) (v x) m) m ys"
proof (rule fmap_ext)
  fix n
  have "find (\<lambda>x. h x = n) (rev xs) = Some x \<longleftrightarrow> find (\<lambda>x. h x = n) (rev ys) = Some x" for x
    using assms find_distinct_iff[of h "rev xs" n x] find_distinct_iff[of h "rev ys" n x] by simp
  then have "find (\<lambda>x. h x = n) (rev xs) = find (\<lambda>x. h x = n) (rev ys)"
    by (metis option.exhaust)
  then show "fmlookup (foldl (\<lambda>m x. fmupd (h x) (v x) m) m xs) n
      = fmlookup (foldl (\<lambda>m x. fmupd (h x) (v x) m) m ys) n"
    by (simp add: foldl_fmupd_lookup)
qed

definition sub_agents_map :: "map_order \<Rightarrow> (string, ResolvedSubAgent) fmap \<Rightarrow> json_map" where
  "sub_agents_map ord subs =
     foldl (\<lambda>m x. fmupd (sanitizeAgentName (fst x)) (sub_agent_config (snd x)) m) fmempty
       (go_range ord subs)"

definition tools_map :: "map_order \<Rightarrow> (string, ResolvedTool) fmap \<Rightarrow> json_map" where
  "tools_map ord tools =
     foldl (\<lambda>m x. fmupd (fst x) (tool_config (snd x)) m) fmempty (go_range ord tools)"

definition typed_subs :: "(string, ResolvedSubAgent) fmap \<Rightarrow> bool" where
  "typed_subs subs \<longleftrightarrow> fmpred (\<lambda>_ r. rs_InteractionType r \<noteq> []) subs"

lemma sub_agents_json_ok:
  assumes "is_order ord"
  shows "sub_agents_json u (go_range ord subs) fmempty = Inr m \<longleftrightarrow>
     typed_subs subs \<and> m = sub_agents_map ord subs"
proof -
  have "find (\<lambda>x. rs_InteractionType (snd x) = []) (go_range ord subs) = None \<longleftrightarrow> typed_subs subs"
    using assms by (auto simp: find_None_iff go_range_set typed_subs_def intro!: fmpredI dest: fmpredD)
  then show ?thesis
    by (auto simp: sub_agents_json_eq sub_agents_map_def split: option.splits)
qed

lemma inj_on_go_range_fst:
  "is_order ord \<Longrightarrow> inj_on f (fmdom' m) \<Longrightarrow> inj_on (\<lambda>x. f (fst x)) (set (go_range ord m))"
  by (rule inj_onI) (auto simp: go_range_set fmlookup_dom'_iff dest!: inj_onD intro!: prod_eqI)

lemma go_range_set_eq:
  "is_order ord \<Longrightarrow> is_order ord' \<Longrightarrow> set (go_range ord m) = set (go_range ord' m)"
  by (simp add: go_range_set)

lemma sub_agents_map_deterministic:
  "is_order ord \<Longrightarrow> is_order ord' \<Longrightarrow> inj_on sanitizeAgentName (fmdom' subs) \<Longrightarrow>
   sub_agents_map ord subs = sub_agents_map ord' subs"
  unfolding sub_agents_map_def
  by (rule foldl_fmupd_order) (rule go_range_set_eq, assumption+, rule inj_on_go_range_fst)

lemma tools_map_deterministic:
  "is_order ord \<Longrightarrow> is_order ord' \<Longrightarrow> tools_map ord tools = tools_map ord' tools"
  unfolding tools_map_def
  using inj_on_go_range_fst[of ord "\<lambda>x. x" tools]
  by (intro foldl_fmupd_order) (rule go_range_set_eq, assumption+, simp)

lemma sub_agents_map_lookup:
  assumes "is_order ord" and "inj_on sanitizeAgentName (fmdom' subs)" and "fmlookup subs n = Some r"
  shows "fmlookup (sub_agents_map ord subs) (sanitizeAgentName n) = Some (sub_agent_config r)"
proof -
  let ?xs = "rev (go_range ord subs)"
  have "inj_on (\<lambda>x. sanitizeAgentName (fst x)) (set ?xs)"
    using inj_on_go_range_fst[OF assms(1,2)] by simp
  then have "find (\<lambda>x. sanitizeAgentName (fst x) = sanitizeAgentName n) ?xs = Some (n, r)"
    using assms(1,3) by (subst find_distinct_iff) (auto simp: go_range_set)
  then show ?thesis by (simp add: sub_agents_map_def foldl_fmupd_lookup)
qed

lemma tools_map_lookup:
  assumes "is_order ord"
  shows "fmlookup (tools_map ord tools) n = map_option tool_config (fmlookup tools n)"
proof -
  let ?xs = "rev (go_range ord tools)"
  have inj: "inj_on fst (set ?xs)"
    using inj_on_go_range_fst[OF assms, of "\<lambda>x. x"] by simp
  have "find (\<lambda>x. fst x = n) ?xs = Some x \<longleftrightarrow> x \<in> set (go_range ord tools) \<and> fst x = n" for x
    using find_distinct_iff[OF inj] by simp
  then have "find (\<lambda>x. fst x = n) ?xs = map_option (Pair n) (fmlookup tools n)"
    using assms by (cases "fmlookup tools n") (force simp: go_range_set find_None_iff)+
  then show ?thesis
    by (simp add: tools_map_def foldl_fmupd_lookup split: option.splits)
qed

lemma template_env_ok_iff:
  assumes "rt_ok rt"
  shows "isl (buildTemplateEnvironmentVars rt agent subs tools gw) \<longleftrightarrow> \<not> typed_subs subs"
proof -
  have "is_order (order_subs rt)" using assms by (simp add: rt_ok_def)
  note ok = sub_agents_json_ok[OF this, of "uni rt" subs]
  have "typed_subs fmempty" by (simp add: typed_subs_def)
  then show ?thesis
    using ok
    by (cases "sub_agents_json (uni rt) (go_range (order_subs rt) subs) fmempty")
       (auto simp: buildTemplateEnvironmentVars_def Let_def split: option.splits sum.splits)
qed

lemma template_env_json:
  assumes "rt_ok rt" and "buildTemplateEnvironmentVars rt agent subs tools gw = Inr vars"
  shows "findEnvVar vars ''SUB_AGENTS'' =
           Some (env ''SUB_AGENTS'' (json_Marshal (sub_agents_map (order_subs rt) subs)))"
    and "findEnvVar vars ''AGENT_TOOLS'' =
           Some (env ''AGENT_TOOLS'' (json_Marshal (tools_map (order_tools rt) tools)))"
proof -
  have ords: "is_order (order_subs rt)" "is_order (order_tools rt)"
    using assms(1) by (simp_all add: rt_ok_def)
  have empty: "sub_agents_map (order_subs rt) fmempty = fmempty"
    "tools_map (order_tools rt) fmempty = fmempty"
    by (simp_all add: sub_agents_map_def tools_map_def ords)
  have tools: "tools_json (go_range (order_tools rt) tools) fmempty = tools_map (order_tools rt) tools"
    by (simp add: tools_json_eq tools_map_def)
  have subs: "sub_agents_json (uni rt) (go_range (order_subs rt) subs) fmempty
      = Inr (sub_agents_map (order_subs rt) subs)" if "subs \<noteq> fmempty"
    using assms(2) that sub_agents_json_ok[OF ords(1)]
    by (auto simp: buildTemplateEnvironmentVars_def Let_def split: option.splits sum.splits)
  have vars: "\<exists>vs. vars = vs @ [env ''SUB_AGENTS'' (json_Marshal (sub_agents_map (order_subs rt) subs)),
      env ''AGENT_TOOLS'' (json_Marshal (tools_map (order_tools rt) tools))]"
    using assms(2) subs tools empty
    by (cases "subs = fmempty"; cases "tools = fmempty")
       (auto simp: buildTemplateEnvironmentVars_def Let_def split: option.splits)
  note d = findEnvVar_distinct[OF template_env_distinct[OF assms(2)]]
  show "findEnvVar vars ''SUB_AGENTS'' =
      Some (env ''SUB_AGENTS'' (json_Marshal (sub_agents_map (order_subs rt) subs)))"
    and "findEnvVar vars ''AGENT_TOOLS'' =
      Some (env ''AGENT_TOOLS'' (json_Marshal (tools_map (order_tools rt) tools)))"
    unfolding d using vars by auto
qed

end
