(* ===== verification/Agent_Status.thy ===== *)
theory Agent_Status
  imports Agent_Config
begin

text \<open>
  \<open>internal/controller/agent_status.go\<close>: the two ways the controller writes an agent's status.
  The agent in memory and the cluster are passed along: the code mutates the object it
  fetched, and a retry runs on the mutated one.
\<close>

definition updateAgentStatusReady ::
  "'w kube \<Rightarrow> AiGateway option \<Rightarrow> Agent \<times> 'w \<Rightarrow> go_error option \<times> (Agent \<times> 'w)" where
  "updateAgentStatusReady k aiGateway s =
     (let (agent, w) = s;
          status = ag_Status agent;
          status = status\<lparr>ast_Url := buildA2AAgentCardUrl agent\<rparr>;
          status = (case aiGateway of
              Some gw \<Rightarrow> status\<lparr>ast_AiGatewayRef :=
                Some \<lparr>or_APIVersion = gw_APIVersion gw, or_Kind = gw_Kind gw,
                  or_Name = om_Name (gw_Meta gw), or_Namespace = om_Namespace (gw_Meta gw)\<rparr>\<rparr>
            | None \<Rightarrow> status\<lparr>ast_AiGatewayRef := None\<rparr>);
          status = status\<lparr>ast_Conditions := setStatusCondition k (ast_Conditions status)
            \<lparr>c_Type = conditionTypeReady, c_Status = ConditionTrue,
             c_ObservedGeneration = om_Generation (ag_Meta agent), c_LastTransitionTime = [],
             c_Reason = ''Reconciled'', c_Message = ''Agent is ready''\<rparr>\<rparr>
      in case updateAgentStatus k (agent\<lparr>ag_Status := status\<rparr>) w of
           (Some err, s') \<Rightarrow> (Some (wrap ''failed to update agent status'' err), s')
         | (None, s') \<Rightarrow> (None, s'))"

definition updateAgentStatusNotReady ::
  "'w kube \<Rightarrow> string \<Rightarrow> string \<Rightarrow> Agent \<times> 'w \<Rightarrow> go_error option \<times> (Agent \<times> 'w)" where
  "updateAgentStatusNotReady k reason message s =
     (let (agent, w) = s;
          status = ag_Status agent;
          status = status\<lparr>ast_Url := []\<rparr>;
          status = status\<lparr>ast_AiGatewayRef := None\<rparr>;
          status = status\<lparr>ast_Conditions := setStatusCondition k (ast_Conditions status)
            \<lparr>c_Type = conditionTypeReady, c_Status = ConditionFalse,
             c_ObservedGeneration = om_Generation (ag_Meta agent), c_LastTransitionTime = [],
             c_Reason = reason, c_Message = message\<rparr>\<rparr>
      in case updateAgentStatus k (agent\<lparr>ag_Status := status\<rparr>) w of
           (Some err, s') \<Rightarrow> (Some (wrap ''failed to update agent status'' err), s')
         | (None, s') \<Rightarrow> (None, s'))"

section \<open>The status the two write\<close>

definition ready_status :: "'w kube \<Rightarrow> AiGateway option \<Rightarrow> Agent \<Rightarrow> AgentStatus" where
  "ready_status k aiGateway agent =
     \<lparr>ast_Conditions = setStatusCondition k (ast_Conditions (ag_Status agent))
        \<lparr>c_Type = conditionTypeReady, c_Status = ConditionTrue,
         c_ObservedGeneration = om_Generation (ag_Meta agent), c_LastTransitionTime = [],
         c_Reason = ''Reconciled'', c_Message = ''Agent is ready''\<rparr>,
      ast_Url = buildA2AAgentCardUrl agent,
      ast_AiGatewayRef = map_option (\<lambda>gw. \<lparr>or_APIVersion = gw_APIVersion gw, or_Kind = gw_Kind gw,
         or_Name = om_Name (gw_Meta gw), or_Namespace = om_Namespace (gw_Meta gw)\<rparr>) aiGateway\<rparr>"

definition not_ready_status :: "'w kube \<Rightarrow> string \<Rightarrow> string \<Rightarrow> Agent \<Rightarrow> AgentStatus" where
  "not_ready_status k reason message agent =
     \<lparr>ast_Conditions = setStatusCondition k (ast_Conditions (ag_Status agent))
        \<lparr>c_Type = conditionTypeReady, c_Status = ConditionFalse,
         c_ObservedGeneration = om_Generation (ag_Meta agent), c_LastTransitionTime = [],
         c_Reason = reason, c_Message = message\<rparr>,
      ast_Url = [], ast_AiGatewayRef = None\<rparr>"

text \<open>What both do with a status: one update, its error wrapped.\<close>

definition write_agent_status ::
  "'w kube \<Rightarrow> (Agent \<Rightarrow> AgentStatus) \<Rightarrow> Agent \<times> 'w \<Rightarrow> go_error option \<times> (Agent \<times> 'w)" where
  "write_agent_status k status s =
     (let (err, s') = updateAgentStatus k (fst s\<lparr>ag_Status := status (fst s)\<rparr>) (snd s)
      in (map_option (wrap ''failed to update agent status'') err, s'))"

lemma updateAgentStatusReady_eq:
  "updateAgentStatusReady k gw s = write_agent_status k (ready_status k gw) s"
  by (cases s; cases "ag_Status (fst s)")
     (auto simp: updateAgentStatusReady_def write_agent_status_def ready_status_def Let_def
        split: prod.splits option.splits)

lemma updateAgentStatusNotReady_eq:
  "updateAgentStatusNotReady k r m s = write_agent_status k (not_ready_status k r m) s"
  by (cases s; cases "ag_Status (fst s)")
     (auto simp: updateAgentStatusNotReady_def write_agent_status_def not_ready_status_def Let_def
        split: prod.splits option.splits)

text \<open>The ready condition each writes, given what \<open>SetStatusCondition\<close> documents.\<close>

lemma ready_condition:
  assumes "set_condition_ok (setStatusCondition k)"
  shows "\<exists>c. findReadyCondition (ast_Conditions (ready_status k gw agent)) = Some c
     \<and> c_Status c = ConditionTrue \<and> c_ObservedGeneration c = om_Generation (ag_Meta agent)"
  using assms unfolding set_condition_ok_def findReadyCondition_find ready_status_def
  by (metis (no_types, lifting) AgentStatus.select_convs(1) Condition.select_convs(1-3))

lemma not_ready_condition:
  assumes "set_condition_ok (setStatusCondition k)"
  shows "\<exists>c. findReadyCondition (ast_Conditions (not_ready_status k r m agent)) = Some c
     \<and> c_Status c = ConditionFalse \<and> c_Reason c = r \<and> c_Message c = m"
  using assms unfolding set_condition_ok_def findReadyCondition_find not_ready_status_def
  by (metis (no_types, lifting) AgentStatus.select_convs(1) Condition.select_convs)

text \<open>
  A retried status write that succeeds leaves, under the agent's key, the status computed for
  the agent: a failed attempt changes nothing but the status in memory.
\<close>

lemma write_agent_status_failure:
  assumes "status_update_ok (updateAgentStatus k) stored ag_Meta ag_Status"
    and "fst (write_agent_status k f s) \<noteq> None"
  shows "ag_Meta (fst (snd (write_agent_status k f s))) = ag_Meta (fst s)"
    and "ag_Spec (fst (snd (write_agent_status k f s))) = ag_Spec (fst s)"
  using status_update_failure[OF assms(1), of "fst s\<lparr>ag_Status := f (fst s)\<rparr>" "snd s"] assms(2)
  by (simp_all add: write_agent_status_def case_prod_beta)

lemma retried_status_write:
  assumes "retry_ok (retryAgent k)"
    and "status_update_ok (updateAgentStatus k) stored ag_Meta ag_Status"
    and "retryAgent k (write_agent_status k f) s = (None, s')"
  shows "\<exists>a x. ag_Meta a = ag_Meta (fst s) \<and> ag_Spec a = ag_Spec (fst s)
     \<and> stored (snd s') (request_of (ag_Meta (fst s))) = Some x \<and> ag_Status x = f a"
proof -
  let ?I = "\<lambda>x. ag_Meta (fst x) = ag_Meta (fst s) \<and> ag_Spec (fst x) = ag_Spec (fst s)"
  have "\<exists>s0. ?I s0 \<and> retryAgent k (write_agent_status k f) s = write_agent_status k f s0"
    by (rule retry_last_run[OF assms(1)]) (simp_all add: write_agent_status_failure[OF assms(2)])
  then obtain s0 where s0: "?I s0" and run: "write_agent_status k f s0 = (None, s')"
    using assms(3) by auto
  have upd: "updateAgentStatus k (fst s0\<lparr>ag_Status := f (fst s0)\<rparr>) (snd s0) = (None, s')"
    using run by (auto simp: write_agent_status_def split: prod.splits)
  then have "\<exists>x. stored (snd s') (request_of (ag_Meta (fst s0))) = Some x \<and> ag_Status x = f (fst s0)"
    using status_update_success[OF assms(2), of "fst s0\<lparr>ag_Status := f (fst s0)\<rparr>" "snd s0" "fst s'" "snd s'"]
    by simp
  then show ?thesis using s0 by metis
qed

lemma card_url_cong:
  "ag_Meta a = ag_Meta b \<Longrightarrow> ag_Spec a = ag_Spec b \<Longrightarrow> buildA2AAgentCardUrl a = buildA2AAgentCardUrl b"
  by (simp add: buildA2AAgentCardUrl_eq findA2AProtocol_def a2a_url_def split: option.splits)

end
