(* ===== verification/Agent_AiGateway.thy ===== *)
theory Agent_AiGateway
  imports Interfaces
begin

text \<open>
  \<open>internal/controller/agent_aigateway.go\<close>: the gateway of an agent, either the one it names or
  the first one of the namespace \<open>ai-gateway\<close>, its URL, and the watch that enqueues the agents
  a changed gateway may concern. The watch is shown complete.
\<close>

definition defaultAiGatewayNamespace :: string where
  "defaultAiGatewayNamespace = ''ai-gateway''"

definition resolveExplicitAiGateway ::
  "'w kube \<Rightarrow> 'w \<Rightarrow> ObjectReference \<Rightarrow> string \<Rightarrow> go_error + AiGateway option" where
  "resolveExplicitAiGateway k w ref agentNamespace =
     (let namespace = (if or_Namespace ref = [] then agentNamespace else or_Namespace ref)
      in case getAiGateway k w (nsname namespace (or_Name ref)) of
          Inl err \<Rightarrow>
            if isNoMatchErr k err
            then Inl (Errorf ''AiGateway CRD is not installed in the cluster'')
            else Inl (wrap (''failed to resolve AiGateway '' @ namespace @ ''/'' @ or_Name ref) err)
        | Inr aiGateway \<Rightarrow> Inr (Some aiGateway))"

definition resolveDefaultAiGateway :: "'w kube \<Rightarrow> 'w \<Rightarrow> go_error + AiGateway option" where
  "resolveDefaultAiGateway k w =
     (case listAiGateways k w defaultAiGatewayNamespace of
        Inl err \<Rightarrow>
          if isNoMatchErr k err then Inr None
          else Inl (wrap (''failed to list AiGateways in namespace '' @ defaultAiGatewayNamespace) err)
      | Inr [] \<Rightarrow> Inr None
      | Inr (item # items) \<Rightarrow> Inr (Some item))"

definition resolveAiGateway :: "'w kube \<Rightarrow> 'w \<Rightarrow> Agent \<Rightarrow> go_error + AiGateway option" where
  "resolveAiGateway k w agent =
     (case as_AiGatewayRef (ag_Spec agent) of
        Some ref \<Rightarrow> resolveExplicitAiGateway k w ref (om_Namespace (ag_Meta agent))
      | None \<Rightarrow> resolveDefaultAiGateway k w)"

definition buildAiGatewayServiceUrl :: "AiGateway \<Rightarrow> string" where
  "buildAiGatewayServiceUrl aiGateway =
     ''http://'' @ om_Name (gw_Meta aiGateway) @ ''.'' @ om_Namespace (gw_Meta aiGateway)
       @ ''.svc.cluster.local.:'' @ show_int32 (gs_Port (gw_Spec aiGateway))"

definition should_reconcile_for_gateway :: "AiGateway \<Rightarrow> Agent \<Rightarrow> bool" where
  "should_reconcile_for_gateway updatedGateway agent =
     (case as_AiGatewayRef (ag_Spec agent) of
        Some ref \<Rightarrow>
          (let gatewayNamespace =
                 (if or_Namespace ref = [] then om_Namespace (ag_Meta agent) else or_Namespace ref)
           in or_Name ref = om_Name (gw_Meta updatedGateway)
              \<and> gatewayNamespace = om_Namespace (gw_Meta updatedGateway))
      | None \<Rightarrow> om_Namespace (gw_Meta updatedGateway) = defaultAiGatewayNamespace)"

definition findAgentsReferencingAiGateway :: "'w kube \<Rightarrow> 'w \<Rightarrow> client_object \<Rightarrow> Request list" where
  "findAgentsReferencingAiGateway k w obj =
     (case obj of
        ObjAiGateway updatedGateway \<Rightarrow>
          (case listAgents k w of
             Inl err \<Rightarrow> []
           | Inr items \<Rightarrow>
               map (\<lambda>agent. request_of (ag_Meta agent))
                 (filter (should_reconcile_for_gateway updatedGateway) items))
      | _ \<Rightarrow> [])"

section \<open>Resolution\<close>

text \<open>Every outcome of the resolution of an explicit reference and of the default.\<close>

lemma resolveExplicitAiGateway_Inr:
  "resolveExplicitAiGateway k w ref ns = Inr g \<longleftrightarrow>
     (\<exists>gw. g = Some gw \<and> getAiGateway k w (nsname (getNamespaceWithDefault ref ns) (or_Name ref)) = Inr gw)"
  by (auto simp: resolveExplicitAiGateway_def getNamespaceWithDefault_def Let_def
        split: sum.splits if_splits)

lemma resolveDefaultAiGateway_Inr:
  "resolveDefaultAiGateway k w = Inr g \<longleftrightarrow>
     (case listAiGateways k w defaultAiGatewayNamespace of
        Inl err \<Rightarrow> isNoMatchErr k err \<and> g = None
      | Inr items \<Rightarrow> g = (case items of [] \<Rightarrow> None | gw # _ \<Rightarrow> Some gw))"
  by (auto simp: resolveDefaultAiGateway_def split: sum.splits list.splits)

section \<open>The watch\<close>

text \<open>
  The two queries: one gateway by its key, and the gateways of a namespace. A gateway's change
  alters the answer to its own key and to its namespace.
\<close>

datatype gateway_query = ByKey NamespacedName | InNamespace string

fun answer_gateway_query ::
  "'w kube \<Rightarrow> 'w \<Rightarrow> gateway_query \<Rightarrow> (go_error + AiGateway) + (go_error + AiGateway list)" where
  "answer_gateway_query k w (ByKey key) = Inl (getAiGateway k w key)"
| "answer_gateway_query k w (InNamespace ns) = Inr (listAiGateways k w ns)"

definition gateway_reads :: "Agent \<Rightarrow> gateway_query set" where
  "gateway_reads agent =
     (case as_AiGatewayRef (ag_Spec agent) of
        Some ref \<Rightarrow>
          {ByKey (nsname (getNamespaceWithDefault ref (om_Namespace (ag_Meta agent))) (or_Name ref))}
      | None \<Rightarrow> {InNamespace defaultAiGatewayNamespace})"

definition gateway_touches :: "AiGateway \<Rightarrow> gateway_query set" where
  "gateway_touches x = {ByKey (request_of (gw_Meta x)), InNamespace (om_Namespace (gw_Meta x))}"

lemma resolveAiGateway_local:
  assumes "\<And>q. q \<in> gateway_reads agent \<Longrightarrow> answer_gateway_query k w q = answer_gateway_query k w' q"
  shows "resolveAiGateway k w agent = resolveAiGateway k w' agent"
  using assms
  by (cases "as_AiGatewayRef (ag_Spec agent)")
     (auto simp: gateway_reads_def resolveAiGateway_def resolveExplicitAiGateway_def
        resolveDefaultAiGateway_def getNamespaceWithDefault_def Let_def)

lemma should_reconcile_iff:
  "should_reconcile_for_gateway x agent \<longleftrightarrow> gateway_reads agent \<inter> gateway_touches x \<noteq> {}"
  by (auto simp: should_reconcile_for_gateway_def gateway_reads_def gateway_touches_def
        request_of_def getNamespaceWithDefault_def Let_def split: option.splits)

lemma findAgentsReferencingAiGateway_set:
  "listAgents k w = Inr items \<Longrightarrow>
   set (findAgentsReferencingAiGateway k w (ObjAiGateway x)) =
     {request_of (ag_Meta agent) |agent.
        agent \<in> set items \<and> gateway_reads agent \<inter> gateway_touches x \<noteq> {}}"
  by (auto simp: findAgentsReferencingAiGateway_def should_reconcile_iff)

interpretation gateway_watch: watch
  "answer_gateway_query k" gateway_reads "resolveAiGateway k" gateway_touches
  "\<lambda>w x. findAgentsReferencingAiGateway k w (ObjAiGateway x)" "listed_agent k"
  "\<lambda>agent. request_of (ag_Meta agent)"
  for k
proof unfold_locales
  show "resolveAiGateway k w own = resolveAiGateway k w' own"
    if "\<And>q. q \<in> gateway_reads own \<Longrightarrow> answer_gateway_query k w q = answer_gateway_query k w' q"
    for own w w'
    using that by (rule resolveAiGateway_local)
  show "request_of (ag_Meta own) \<in> set (findAgentsReferencingAiGateway k w (ObjAiGateway x))"
    if "listed_agent k w own" and "gateway_reads own \<inter> gateway_touches x \<noteq> {}" for w own x
    using that unfolding listed_agent_def by (elim exE conjE) (simp add: findAgentsReferencingAiGateway_set, blast)
qed

end
