(* ===== verification/Managed.thy ===== *)
theory Managed
  imports Interfaces
begin

text \<open>
  What the closures of the agent and the tool server controllers have in common: writing the
  labels and annotations of a managed object, and updating the container the operator owns
  among those of the pod. The code has both twice, once in each reconciler.
\<close>

section \<open>Operations\<close>

text \<open>The labels of a managed object: made if nil, merged with the user's, then the managed ones.\<close>

definition apply_object_metadata ::
  "ObjectMeta \<Rightarrow> EmbeddedMetadata option \<Rightarrow> strmap \<Rightarrow> ObjectMeta" where
  "apply_object_metadata m commonMetadata managedLabels =
     (let m = (if om_Labels m = None then m\<lparr>om_Labels := Some fmempty\<rparr> else m);
          m = applyCommonMetadataToObjectMeta m commonMetadata
      in m\<lparr>om_Labels := Some (maps_Copy (mval (om_Labels m)) (Some managedLabels))\<rparr>)"

text \<open>Finding a container by name, appending an empty one if there is none, and updating it.\<close>

definition upsert_container :: "string \<Rightarrow> (Container \<Rightarrow> Container) \<Rightarrow> PodSpec \<Rightarrow> PodSpec" where
  "upsert_container name f pod =
     (let (containers, i) =
        (case findContainerByName pod name of
           Some i \<Rightarrow> (ps_Containers pod, i)
         | None \<Rightarrow> (ps_Containers pod @ [new_container name], length (ps_Containers pod)))
      in pod\<lparr>ps_Containers := containers[i := f (containers ! i)]\<rparr>)"

section \<open>Metadata\<close>

text \<open>Labels: the user's override what is there, the managed ones override both.\<close>

lemma apply_object_metadata_labels [meta_simps]:
  "om_Labels (apply_object_metadata m cm ml) =
     Some ((mval (om_Labels m) ++\<^sub>f meta_labels cm) ++\<^sub>f ml)"
  by (auto simp: apply_object_metadata_def applyCommonMetadata_labels maps_Copy_def Let_def)

lemma apply_object_metadata_annotations [meta_simps]:
  "mval (om_Annotations (apply_object_metadata m cm ml)) =
     mval (om_Annotations m) ++\<^sub>f meta_annotations cm"
  by (simp add: apply_object_metadata_def applyCommonMetadata_annotations Let_def)

lemma apply_object_metadata_frame [meta_simps]:
  "om_Name (apply_object_metadata m cm ml) = om_Name m"
  "om_Namespace (apply_object_metadata m cm ml) = om_Namespace m"
  "om_Created (apply_object_metadata m cm ml) = om_Created m"
  "om_OwnerReferences (apply_object_metadata m cm ml) = om_OwnerReferences m"
  "om_Generation (apply_object_metadata m cm ml) = om_Generation m"
  "om_ResourceVersion (apply_object_metadata m cm ml) = om_ResourceVersion m"
  by (simp_all add: apply_object_metadata_def Let_def)

lemma om_Annotations_applyCommon:
  "om_Annotations (applyCommonMetadataToObjectMeta m cm) =
     (if meta_annotations cm = fmempty then om_Annotations m
      else Some (mval (om_Annotations m) ++\<^sub>f meta_annotations cm))"
  by (auto simp: applyCommonMetadataToObjectMeta_def meta_annotations_def maps_Copy_def Let_def
        split: option.splits)

lemma fmadd_absorb [simp]: "(m ++\<^sub>f u) ++\<^sub>f u = m ++\<^sub>f u"
  by (rule fmap_ext) auto

lemma fmadd_absorb2 [simp]: "(((m ++\<^sub>f u) ++\<^sub>f v) ++\<^sub>f u) ++\<^sub>f v = (m ++\<^sub>f u) ++\<^sub>f v"
  by (rule fmap_ext) auto

text \<open>Applied to metadata with the labels and annotations it has written, it changes nothing.\<close>

lemma apply_object_metadata_fixed:
  assumes "om_Labels m' = om_Labels (apply_object_metadata m cm ml)"
    and "om_Annotations m' = om_Annotations (apply_object_metadata m cm ml)"
  shows "apply_object_metadata m' cm ml = m'"
proof -
  have labels: "om_Labels (apply_object_metadata m' cm ml) = om_Labels m'"
    by (simp add: assms(1) apply_object_metadata_labels)
  have ann: "om_Annotations (apply_object_metadata x cm ml) =
      (if meta_annotations cm = fmempty then om_Annotations x
       else Some (mval (om_Annotations x) ++\<^sub>f meta_annotations cm))" for x
    by (simp add: apply_object_metadata_def om_Annotations_applyCommon Let_def)
  have "om_Annotations (apply_object_metadata m' cm ml) = om_Annotations m'"
    unfolding ann[of m'] assms(2) ann[of m] by simp
  with labels show ?thesis
    by (intro ObjectMeta.equality) (simp_all add: apply_object_metadata_frame)
qed

text \<open>What the owner function keeps, given its documentation.\<close>

lemma set_owner_frame:
  assumes "set_owner_ok f" and "f m = Inr m'"
  shows "om_Labels m' = om_Labels m" and "om_Annotations m' = om_Annotations m"
    and "om_Created m' = om_Created m" and "om_Name m' = om_Name m"
    and "om_Namespace m' = om_Namespace m"
proof -
  have eq: "m' = m\<lparr>om_OwnerReferences := om_OwnerReferences m'\<rparr>"
    using assms unfolding set_owner_ok_def by blast
  show "om_Labels m' = om_Labels m" "om_Annotations m' = om_Annotations m"
    "om_Created m' = om_Created m" "om_Name m' = om_Name m" "om_Namespace m' = om_Namespace m"
    by (subst eq, simp)+
qed

text \<open>Metadata that was written, owned and stored is not changed by writing and owning it again.\<close>

lemma stored_metadata_fixed:
  assumes "set_owner_ok f" and "f (apply_object_metadata m cm ml) = Inr m'"
  shows "f (apply_object_metadata (server_meta g rv m') cm ml) = Inr (server_meta g rv m')"
proof -
  note fr = set_owner_frame[OF assms]
  have fixed: "apply_object_metadata (server_meta g rv m') cm ml = server_meta g rv m'"
    by (rule apply_object_metadata_fixed[of _ m]) (simp_all add: fr server_meta_def)
  have "request_of (server_meta g rv m') = request_of m'"
    "om_OwnerReferences (server_meta g rv m') = om_OwnerReferences m'"
    by (simp_all add: server_meta_def request_of_def)
  then show ?thesis
    unfolding fixed using assms unfolding set_owner_ok_def by blast
qed

text \<open>A deployment and a service as the API server stores them.\<close>

definition stores_deployment :: "Deployment \<Rightarrow> Deployment \<Rightarrow> bool" where
  "stores_deployment d x \<longleftrightarrow> (\<exists>g rv. x = d\<lparr>dp_Meta := server_meta g rv (dp_Meta d)\<rparr>)"

definition stores_service :: "Service \<Rightarrow> Service \<Rightarrow> bool" where
  "stores_service s x \<longleftrightarrow> (\<exists>g rv. x = s\<lparr>sv_Meta := server_meta g rv (sv_Meta s)\<rparr>)"

section \<open>Containers\<close>

text \<open>The container the operator owns, among the others of the pod.\<close>

definition container_named :: "string \<Rightarrow> PodSpec \<Rightarrow> Container option" where
  "container_named name pod = find (\<lambda>c. ct_Name c = name) (ps_Containers pod)"

lemma find_idx_find: "find P xs = map_option (nth xs) (find_idx P xs)"
  by (induction xs) (auto simp: option.map_comp comp_def)

lemma upsert_container_named:
  assumes "\<And>c. ct_Name (f c) = ct_Name c"
  shows "container_named name (upsert_container name f pod) =
     Some (f (case container_named name pod of Some c \<Rightarrow> c | None \<Rightarrow> new_container name))"
proof (cases "findContainerByName pod name")
  case None
  then have "find_idx (\<lambda>c. ct_Name c = name) (ps_Containers pod @ [f (new_container name)])
      = Some (length (ps_Containers pod))"
    unfolding findContainerByName_def by (rule find_idx_append_new) (simp add: assms)
  then show ?thesis
    using None
    by (simp add: upsert_container_def container_named_def find_idx_find findContainerByName_def)
next
  case (Some i)
  then have i: "i < length (ps_Containers pod)" "ct_Name (ps_Containers pod ! i) = name"
    unfolding findContainerByName_def by (auto dest: find_idx_Some)
  then have "find_idx (\<lambda>c. ct_Name c = name) ((ps_Containers pod)[i := f (ps_Containers pod ! i)])
      = Some i"
    using Some assms unfolding findContainerByName_def by (intro find_idx_update) auto
  then show ?thesis
    using Some i
    by (simp add: upsert_container_def container_named_def find_idx_find findContainerByName_def)
qed

lemma filter_update_outside:
  "i < length xs \<Longrightarrow> \<not> P (xs ! i) \<Longrightarrow> \<not> P y \<Longrightarrow> filter P (xs[i := y]) = filter P xs"
  by (induction xs arbitrary: i) (auto split: nat.splits)

text \<open>Sidecars stay, in their order.\<close>

lemma upsert_container_others:
  assumes "\<And>c. ct_Name (f c) = ct_Name c"
  shows "filter (\<lambda>c. ct_Name c \<noteq> name) (ps_Containers (upsert_container name f pod)) =
     filter (\<lambda>c. ct_Name c \<noteq> name) (ps_Containers pod)"
proof (cases "findContainerByName pod name")
  case None
  then show ?thesis by (simp add: upsert_container_def assms)
next
  case (Some i)
  then have "i < length (ps_Containers pod)" "ct_Name (ps_Containers pod ! i) = name"
    unfolding findContainerByName_def by (auto dest: find_idx_Some)
  then show ?thesis using Some by (simp add: upsert_container_def assms filter_update_outside)
qed

lemma upsert_container_frame [meta_simps]:
  "ps_Volumes (upsert_container name f pod) = ps_Volumes pod"
  "ps_ImagePullSecrets (upsert_container name f pod) = ps_ImagePullSecrets pod"
  "ps_rest (upsert_container name f pod) = ps_rest pod"
  by (simp_all add: upsert_container_def split: prod.splits)

text \<open>The operation reads the containers only.\<close>

lemma upsert_container_cong:
  "ps_Containers pod = ps_Containers pod' \<Longrightarrow>
   ps_Containers (upsert_container name f pod) = ps_Containers (upsert_container name f pod')"
  by (simp add: upsert_container_def findContainerByName_def split: prod.splits option.splits)

lemma upsert_container_idem:
  assumes name: "\<And>c. ct_Name (f c) = ct_Name c" and idem: "\<And>c. f (f c) = f c"
  shows "upsert_container name f (upsert_container name f pod) = upsert_container name f pod"
proof (cases "findContainerByName pod name")
  case None
  then have "find_idx (\<lambda>c. ct_Name c = name) (ps_Containers pod @ [f (new_container name)])
      = Some (length (ps_Containers pod))"
    unfolding findContainerByName_def by (rule find_idx_append_new) (simp add: name)
  then show ?thesis
    using None by (simp add: upsert_container_def findContainerByName_def idem)
next
  case (Some i)
  then have i: "i < length (ps_Containers pod)" "ct_Name (ps_Containers pod ! i) = name"
    unfolding findContainerByName_def by (auto dest: find_idx_Some)
  then have "find_idx (\<lambda>c. ct_Name c = name) ((ps_Containers pod)[i := f (ps_Containers pod ! i)])
      = Some i"
    using Some name unfolding findContainerByName_def by (intro find_idx_update) auto
  then show ?thesis
    using Some i by (simp add: upsert_container_def findContainerByName_def idem)
qed

lemma upsert_container_volumes:
  "upsert_container name f (pod\<lparr>ps_Volumes := v\<rparr>) = (upsert_container name f pod)\<lparr>ps_Volumes := v\<rparr>"
  by (auto simp: upsert_container_def findContainerByName_def split: prod.splits option.splits)

end
