(* ===== verification/Agent_Reconciler.thy ===== *)
theory Agent_Reconciler
  imports Agent_Status Agent_AiGateway Managed
begin

text \<open>
  \<open>internal/controller/agent_reconciler.go\<close>: the reconciliation of an agent. The closures
  handed to \<open>CreateOrUpdate\<close> are definitions of their own, \<open>deployment_closure\<close> and
  \<open>service_closure\<close>; the API calls thread the cluster state through in the order of the code.
\<close>

definition googleAdkFramework :: string where
  "googleAdkFramework = ''google-adk''"

definition msafFramework :: string where
  "msafFramework = ''msaf''"

definition defaultTemplateImageAdk :: string where
  "defaultTemplateImageAdk = ''ghcr.io/agentic-layer/agent-template-adk:0.8.0''"

definition defaultTemplateImageMsaf :: string where
  "defaultTemplateImageMsaf = ''ghcr.io/agentic-layer/agent-template-msaf:0.1.0''"

definition defaultTemplateImageFallback :: string where
  "defaultTemplateImageFallback = ''invalid''"

section \<open>Configuration\<close>

definition isNoMatchError :: "'w kube \<Rightarrow> go_error option \<Rightarrow> bool" where
  "isNoMatchError k err = (case err of None \<Rightarrow> False | Some e \<Rightarrow> isNoMatchErr k e)"

definition getAgentRuntimeConfiguration ::
  "'w kube \<Rightarrow> 'w \<Rightarrow> go_error + AgentRuntimeConfiguration option" where
  "getAgentRuntimeConfiguration k w =
     (if operatorNamespace k = []
      then Inl (Errorf ''POD_NAMESPACE environment variable is not set - cannot determine operator namespace'')
      else (case listRuntimeConfigurations k w (operatorNamespace k) of
          Inl err \<Rightarrow>
            if isNotFound k err \<or> isNoMatchError k (Some err) then Inr None
            else Inl (wrap ''failed to list AgentRuntimeConfiguration'' err)
        | Inr items \<Rightarrow>
            if length items = 0 then Inr None
            else if length items > 1
            then Inl (Errorf (''multiple AgentRuntimeConfiguration resources found in namespace ''
                   @ operatorNamespace k @ '' - only one is allowed''))
            else Inr (Some (hd items))))"

definition resolveEffectiveFramework :: "Agent \<Rightarrow> AgentRuntimeConfiguration option \<Rightarrow> string" where
  "resolveEffectiveFramework agent config =
     (if as_Framework (ag_Spec agent) \<noteq> [] then as_Framework (ag_Spec agent)
      else (case config of
          None \<Rightarrow> googleAdkFramework
        | Some c \<Rightarrow>
            if rcs_DefaultFramework (rc_Spec c) \<noteq> [] then rcs_DefaultFramework (rc_Spec c)
            else googleAdkFramework))"

definition builtin_template_image :: "string \<Rightarrow> string" where
  "builtin_template_image framework =
     (if framework = googleAdkFramework then defaultTemplateImageAdk
      else if framework = msafFramework then defaultTemplateImageMsaf
      else defaultTemplateImageFallback)"

definition getTemplateImage :: "string \<Rightarrow> AgentRuntimeConfiguration option \<Rightarrow> string" where
  "getTemplateImage framework config =
     (case config of
        None \<Rightarrow> builtin_template_image framework
      | Some c \<Rightarrow>
          (case rcs_AgentTemplateImages (rc_Spec c) of
             None \<Rightarrow> builtin_template_image framework
           | Some images \<Rightarrow>
               if framework = googleAdkFramework \<and> ti_GoogleAdk images \<noteq> [] then ti_GoogleAdk images
               else if framework = msafFramework \<and> ti_Msaf images \<noteq> [] then ti_Msaf images
               else builtin_template_image framework))"

definition getOrDefaultResourceRequirements :: "Agent \<Rightarrow> ResourceRequirements" where
  "getOrDefaultResourceRequirements agent =
     (case as_Resources (ag_Spec agent) of
        Some r \<Rightarrow> r
      | None \<Rightarrow>
          \<lparr>rr_Requests = fmap_of_list [(''memory'', MustParse ''300Mi''), (''cpu'', MustParse ''100m'')],
           rr_Limits = fmap_of_list [(''memory'', MustParse ''500Mi''), (''cpu'', MustParse ''500m'')],
           rr_rest = []\<rparr>)"

section \<open>The deployment\<close>

definition container_port :: "AgentProtocol \<Rightarrow> ContainerPort" where
  "container_port protocol =
     \<lparr>cp_Name = ap_Name protocol, cp_ContainerPort = ap_Port protocol, cp_Protocol = ProtocolTCP\<rparr>"

text \<open>The assignments through the pointer to the agent's container.\<close>

definition update_agent_container ::
  "Agent \<Rightarrow> string \<Rightarrow> AgentRuntimeConfiguration option \<Rightarrow> EnvVar list \<Rightarrow> Container \<Rightarrow> Container" where
  "update_agent_container agent effectiveFramework runtimeConfig allEnvVars container =
     (let spec = ag_Spec agent;
          container = container\<lparr>ct_Image :=
            (if as_Image spec \<noteq> [] then as_Image spec
             else getTemplateImage effectiveFramework runtimeConfig)\<rparr>;
          container = container\<lparr>ct_Ports := map container_port (as_Protocols spec)\<rparr>;
          container = container\<lparr>ct_Env := allEnvVars\<rparr>;
          container = container\<lparr>ct_EnvFrom := as_EnvFrom spec\<rparr>;
          container = container\<lparr>ct_VolumeMounts := as_VolumeMounts spec\<rparr>;
          container = container\<lparr>ct_ReadinessProbe := generateReadinessProbe agent\<rparr>
      in container\<lparr>ct_Resources := getOrDefaultResourceRequirements agent\<rparr>)"

definition set_replicas :: "int32 option \<Rightarrow> int32 option \<Rightarrow> int32 option" where
  "set_replicas wanted current =
     (let current = (case current of None \<Rightarrow> Some 0 | Some n \<Rightarrow> Some n)
      in case wanted of None \<Rightarrow> current | Some n \<Rightarrow> Some n)"

definition deployment_closure ::
  "go_rt \<Rightarrow> 'w kube \<Rightarrow> Agent \<Rightarrow> (string, ResolvedSubAgent) fmap \<Rightarrow> (string, ResolvedTool) fmap
    \<Rightarrow> AiGateway option \<Rightarrow> AgentRuntimeConfiguration option \<Rightarrow> Deployment \<Rightarrow> go_error + Deployment" where
  "deployment_closure rt k agent resolvedSubAgents resolvedTools aiGateway runtimeConfig deployment =
     (let effectiveFramework = resolveEffectiveFramework agent runtimeConfig;
          spec = ag_Spec agent;
          name = om_Name (ag_Meta agent);
          managedLabels = fmupd ''framework'' effectiveFramework (fmupd appLabel name fmempty);
          selectorLabels = fmupd appLabel name fmempty;
          aiGatewayUrl = map_option buildAiGatewayServiceUrl aiGateway
      in case buildTemplateEnvironmentVars rt agent resolvedSubAgents resolvedTools aiGatewayUrl of
           Inl err \<Rightarrow> Inl (wrap ''failed to build template environment variables'' err)
         | Inr templateEnvVars \<Rightarrow>
             (let allEnvVars = mergeEnvironmentVariables rt templateEnvVars (as_Env spec);
                  ds = dp_Spec deployment;
                  ds = (if \<not> om_Created (dp_Meta deployment)
                        then ds\<lparr>ds_Selector := Some selectorLabels\<rparr> else ds);
                  (podTemplateLabels, podTemplateAnnotations) =
                    buildPodTemplateMetadata selectorLabels (as_CommonMetadata spec) (as_PodMetadata spec);
                  tmpl = ds_Template ds;
                  tmpl = tmpl\<lparr>pt_Labels := Some podTemplateLabels\<rparr>;
                  tmpl = tmpl\<lparr>pt_Annotations := podTemplateAnnotations\<rparr>;
                  ds = ds\<lparr>ds_Replicas := set_replicas (as_Replicas spec) (ds_Replicas ds)\<rparr>;
                  objMeta = apply_object_metadata (dp_Meta deployment) (as_CommonMetadata spec) managedLabels;
                  pod = upsert_container agentContainerName
                    (update_agent_container agent effectiveFramework runtimeConfig allEnvVars)
                    (pt_Spec tmpl);
                  pod = pod\<lparr>ps_Volumes := as_Volumes spec\<rparr>;
                  ds = ds\<lparr>ds_Template := tmpl\<lparr>pt_Spec := pod\<rparr>\<rparr>
              in case setAgentOwner k agent objMeta of
                   Inl err \<Rightarrow> Inl err
                 | Inr objMeta \<Rightarrow> Inr (deployment\<lparr>dp_Meta := objMeta, dp_Spec := ds\<rparr>)))"

definition emitEvent :: "'w kube \<Rightarrow> ObjectMeta \<Rightarrow> string \<Rightarrow> string \<Rightarrow> string \<Rightarrow> 'w \<Rightarrow> 'w" where
  "emitEvent k regarding reason action note w =
     (case recorder k of
        None \<Rightarrow> w
      | Some eventf \<Rightarrow>
          eventf \<lparr>e_Regarding = request_of regarding, e_Reason = reason, e_Action = action, e_Note = note\<rparr> w)"

definition ensureDeployment ::
  "go_rt \<Rightarrow> 'w kube \<Rightarrow> (string, ResolvedSubAgent) fmap \<Rightarrow> (string, ResolvedTool) fmap
    \<Rightarrow> AiGateway option \<Rightarrow> AgentRuntimeConfiguration option
    \<Rightarrow> Agent \<times> 'w \<Rightarrow> go_error option \<times> (Agent \<times> 'w)" where
  "ensureDeployment rt k resolvedSubAgents resolvedTools aiGateway runtimeConfig s =
     (let (agent, w) = s;
          name = om_Name (ag_Meta agent);
          deployment = new_deployment name (om_Namespace (ag_Meta agent))
      in case createOrUpdateDeployment k deployment
                (deployment_closure rt k agent resolvedSubAgents resolvedTools aiGateway runtimeConfig) w of
           (Inl err, w) \<Rightarrow> (Some err, (agent, w))
         | (Inr op, w) \<Rightarrow>
             if op = OperationResultCreated
             then (None, (agent, emitEvent k (ag_Meta agent) ''Created'' ''CreateDeployment''
                            (''Deployment '' @ name @ '' created'') w))
             else if op = OperationResultUpdated
             then (None, (agent, emitEvent k (ag_Meta agent) ''Updated'' ''UpdateDeployment''
                            (''Deployment '' @ name @ '' updated'') w))
             else (None, (agent, w)))"

section \<open>The service\<close>

definition service_port :: "AgentProtocol \<Rightarrow> ServicePort" where
  "service_port protocol =
     \<lparr>sp_Name = ap_Name protocol, sp_Port = ap_Port protocol,
      sp_TargetPort = FromInt32 (ap_Port protocol), sp_Protocol = ProtocolTCP\<rparr>"

definition service_closure :: "'w kube \<Rightarrow> Agent \<Rightarrow> Service \<Rightarrow> go_error + Service" where
  "service_closure k agent service =
     (let name = om_Name (ag_Meta agent);
          managedLabels = fmupd appLabel name fmempty;
          selectorLabels = fmupd appLabel name fmempty;
          servicePorts = map service_port (as_Protocols (ag_Spec agent));
          objMeta = apply_object_metadata (sv_Meta service) (as_CommonMetadata (ag_Spec agent)) managedLabels;
          ss = sv_Spec service;
          ss = ss\<lparr>ss_Ports := servicePorts\<rparr>;
          ss = ss\<lparr>ss_Selector := Some selectorLabels\<rparr>;
          ss = ss\<lparr>ss_Type := ServiceTypeClusterIP\<rparr>
      in case setAgentOwner k agent objMeta of
           Inl err \<Rightarrow> Inl err
         | Inr objMeta \<Rightarrow> Inr (service\<lparr>sv_Meta := objMeta, sv_Spec := ss\<rparr>))"

definition ensureService :: "'w kube \<Rightarrow> Agent \<times> 'w \<Rightarrow> go_error option \<times> (Agent \<times> 'w)" where
  "ensureService k s =
     (let (agent, w) = s;
          name = om_Name (ag_Meta agent);
          namespace = om_Namespace (ag_Meta agent)
      in if length (as_Protocols (ag_Spec agent)) = 0
         then (case getService k w (nsname namespace name) of
             Inr service \<Rightarrow>
               (case deleteService k service w of
                  (Some err, w) \<Rightarrow> (Some (wrap ''failed to delete Service'' err), (agent, w))
                | (None, w) \<Rightarrow> (None, (agent, w)))
           | Inl err \<Rightarrow>
               if \<not> isNotFound k err then (Some (wrap ''failed to get Service'' err), (agent, w))
               else (None, (agent, w)))
         else (case createOrUpdateService k (new_service name namespace) (service_closure k agent) w of
             (Inl err, w) \<Rightarrow> (Some err, (agent, w))
           | (Inr op, w) \<Rightarrow>
               if op = OperationResultCreated
               then (None, (agent, emitEvent k (ag_Meta agent) ''Created'' ''CreateService''
                              (''Service '' @ name @ '' created'') w))
               else if op = OperationResultUpdated
               then (None, (agent, emitEvent k (ag_Meta agent) ''Updated'' ''UpdateService''
                              (''Service '' @ name @ '' updated'') w))
               else (None, (agent, w))))"

section \<open>Reconcile\<close>

definition reconcileAgent ::
  "go_rt \<Rightarrow> 'w kube \<Rightarrow> Agent \<times> 'w \<Rightarrow> (go_error + AiGateway option) \<times> (Agent \<times> 'w)" where
  "reconcileAgent rt k s =
     (let (agent, w) = s
      in case getAgentRuntimeConfiguration k w of
          Inl err \<Rightarrow> (Inl err, s)
        | Inr runtimeConfig \<Rightarrow>
      (case resolveAllSubAgents (uni rt) k w agent of
          (_, Some err) \<Rightarrow> (Inl err, s)
        | (resolvedSubAgents, None) \<Rightarrow>
      (case resolveAllTools (uni rt) k w agent of
          (_, Some err) \<Rightarrow> (Inl err, s)
        | (resolvedTools, None) \<Rightarrow>
      (case resolveAiGateway k w agent of
          Inl err \<Rightarrow> (Inl err, s)
        | Inr aiGateway \<Rightarrow>
      (case retryAgent k (ensureDeployment rt k resolvedSubAgents resolvedTools aiGateway runtimeConfig) s of
          (Some err, s) \<Rightarrow> (Inl err, s)
        | (None, s) \<Rightarrow>
      (case retryAgent k (ensureService k) s of
          (Some err, s) \<Rightarrow> (Inl err, s)
        | (None, s) \<Rightarrow> (Inr aiGateway, s)))))))"

text \<open>The \<open>Result\<close> the code returns is always the empty one; what is left is the error.\<close>

definition Reconcile :: "go_rt \<Rightarrow> 'w kube \<Rightarrow> Request \<Rightarrow> 'w \<Rightarrow> go_error option \<times> 'w" where
  "Reconcile rt k req w =
     (case getAgent k w req of
        Inl err \<Rightarrow> if isNotFound k err then (None, w) else (Some err, w)
      | Inr agent \<Rightarrow>
          (case reconcileAgent rt k (agent, w) of
             (Inl reconcileErr, s) \<Rightarrow>
               (let (statusErr, (_, w)) =
                  retryAgent k (updateAgentStatusNotReady k ''ReconciliationFailed'' (Error reconcileErr)) s
                in (Some reconcileErr, w))
           | (Inr aiGateway, s) \<Rightarrow>
               (case retryAgent k (updateAgentStatusReady k aiGateway) s of
                  (Some err, (_, w)) \<Rightarrow> (Some err, w)
                | (None, (_, w)) \<Rightarrow> (None, w))))"

section \<open>The controller's watches\<close>

definition findAllAgentsForRuntimeConfiguration :: "'w kube \<Rightarrow> 'w \<Rightarrow> client_object \<Rightarrow> Request list" where
  "findAllAgentsForRuntimeConfiguration k w obj =
     (case listAgents k w of
        Inl err \<Rightarrow> []
      | Inr items \<Rightarrow> map (\<lambda>agent. request_of (ag_Meta agent)) items)"

text \<open>The REST mapper's answer for a group, kind and version is an argument.\<close>

definition isAiGatewayCRDInstalled :: "(string \<Rightarrow> string \<Rightarrow> string \<Rightarrow> go_error option) \<Rightarrow> bool" where
  "isAiGatewayCRDInstalled restMapping \<longleftrightarrow>
     restMapping ''runtime.agentic-layer.ai'' ''AiGateway'' ''v1alpha1'' = None"

text \<open>
  \<open>SetupWithManager\<close>: the requests an event on an object enqueues. The owner of a deployment or a
  service is looked up by the library. The gateways are watched only if their
  CRD is installed when the operator starts.
\<close>

definition agent_watch_requests :: "'w kube \<Rightarrow> bool \<Rightarrow> 'w \<Rightarrow> client_object \<Rightarrow> Request list" where
  "agent_watch_requests k crdInstalled w obj =
     (case obj of
        ObjAgent agent \<Rightarrow> request_of (ag_Meta agent) # findAgentsReferencingSubAgent k w obj
      | ObjToolRoute _ \<Rightarrow> findAgentsReferencingToolRoute k w obj
      | ObjToolServer _ \<Rightarrow> findAgentsReferencingToolServer k w obj
      | ObjRuntimeConfiguration _ \<Rightarrow> findAllAgentsForRuntimeConfiguration k w obj
      | ObjAiGateway _ \<Rightarrow> if crdInstalled then findAgentsReferencingAiGateway k w obj else []
      | ObjDeployment deployment \<Rightarrow> agentOwnerRequests k (dp_Meta deployment)
      | ObjService service \<Rightarrow> agentOwnerRequests k (sv_Meta service)
      | ObjWorkforce _ \<Rightarrow> [])"

section \<open>The pieces of the closures\<close>

text \<open>Replicas: the specification's number if there is one, else what is there, else 0.\<close>

lemma set_replicas_eq:
  "set_replicas wanted current =
     Some (case wanted of Some n \<Rightarrow> n | None \<Rightarrow> (case current of Some n \<Rightarrow> n | None \<Rightarrow> 0))"
  by (auto simp: set_replicas_def split: option.splits)

lemma set_replicas_idem [simp]: "set_replicas wanted (set_replicas wanted current) = set_replicas wanted current"
  by (auto simp: set_replicas_eq split: option.splits)

section \<open>What the closures compute\<close>

definition agent_selector :: "Agent \<Rightarrow> strmap" where
  "agent_selector agent = fmupd appLabel (om_Name (ag_Meta agent)) fmempty"

definition agent_managed_labels :: "Agent \<Rightarrow> AgentRuntimeConfiguration option \<Rightarrow> strmap" where
  "agent_managed_labels agent cfg =
     fmupd ''framework'' (resolveEffectiveFramework agent cfg) (agent_selector agent)"

text \<open>The deployment's specification as the closure leaves it, given the environment.\<close>

definition managed_spec ::
  "Agent \<Rightarrow> AgentRuntimeConfiguration option \<Rightarrow> EnvVar list \<Rightarrow> bool \<Rightarrow> DeploymentSpec \<Rightarrow> DeploymentSpec" where
  "managed_spec agent cfg vars created ds =
     (let spec = ag_Spec agent;
          md = buildPodTemplateMetadata (agent_selector agent) (as_CommonMetadata spec) (as_PodMetadata spec)
      in ds\<lparr>ds_Replicas := set_replicas (as_Replicas spec) (ds_Replicas ds),
            ds_Selector := if created then ds_Selector ds else Some (agent_selector agent),
            ds_Template := (ds_Template ds)\<lparr>pt_Labels := Some (fst md), pt_Annotations := snd md,
              pt_Spec := (upsert_container agentContainerName
                (update_agent_container agent (resolveEffectiveFramework agent cfg) cfg vars)
                (pt_Spec (ds_Template ds)))\<lparr>ps_Volumes := as_Volumes spec\<rparr>\<rparr>\<rparr>)"

lemma deployment_closure_eq:
  "deployment_closure rt k agent subs tools gw cfg d =
     (case buildTemplateEnvironmentVars rt agent subs tools (map_option buildAiGatewayServiceUrl gw) of
        Inl err \<Rightarrow> Inl (wrap ''failed to build template environment variables'' err)
      | Inr vars \<Rightarrow>
          (case setAgentOwner k agent (apply_object_metadata (dp_Meta d)
                  (as_CommonMetadata (ag_Spec agent)) (agent_managed_labels agent cfg)) of
             Inl err \<Rightarrow> Inl err
           | Inr m \<Rightarrow> Inr (d\<lparr>dp_Meta := m,
               dp_Spec := managed_spec agent cfg (mergeEnvironmentVariables rt vars (as_Env (ag_Spec agent)))
                 (om_Created (dp_Meta d)) (dp_Spec d)\<rparr>)))"
  by (auto simp: deployment_closure_def managed_spec_def agent_managed_labels_def agent_selector_def
        Let_def split: sum.splits prod.splits)

lemma deployment_closure_Inr:
  assumes "deployment_closure rt k agent subs tools gw cfg d = Inr d'"
  obtains vars m where
    "buildTemplateEnvironmentVars rt agent subs tools (map_option buildAiGatewayServiceUrl gw) = Inr vars"
    "setAgentOwner k agent (apply_object_metadata (dp_Meta d)
       (as_CommonMetadata (ag_Spec agent)) (agent_managed_labels agent cfg)) = Inr m"
    "d' = d\<lparr>dp_Meta := m,
       dp_Spec := managed_spec agent cfg (mergeEnvironmentVariables rt vars (as_Env (ag_Spec agent)))
         (om_Created (dp_Meta d)) (dp_Spec d)\<rparr>"
  using assms by (auto simp: deployment_closure_eq split: sum.splits)

lemma update_agent_container_name [simp]:
  "ct_Name (update_agent_container agent fw cfg vars c) = ct_Name c"
  by (simp add: update_agent_container_def Let_def)

lemma update_agent_container_idem [simp]:
  "update_agent_container agent fw cfg vars (update_agent_container agent fw cfg vars c)
     = update_agent_container agent fw cfg vars c"
  by (simp add: update_agent_container_def Let_def)

lemma managed_spec_idem:
  "managed_spec agent cfg vars True (managed_spec agent cfg vars created ds)
     = managed_spec agent cfg vars created ds"
  by (simp add: managed_spec_def Let_def upsert_container_volumes upsert_container_idem)

lemma deployment_closure_stable:
  assumes "set_owner_ok (setAgentOwner k agent)"
    and "deployment_closure rt k agent subs tools gw cfg d = Inr d'" and "stores_deployment d' x"
  shows "deployment_closure rt k agent subs tools gw cfg x = Inr x"
proof -
  from assms(2) obtain vars m where
    vars: "buildTemplateEnvironmentVars rt agent subs tools (map_option buildAiGatewayServiceUrl gw) = Inr vars"
    and m: "setAgentOwner k agent (apply_object_metadata (dp_Meta d)
       (as_CommonMetadata (ag_Spec agent)) (agent_managed_labels agent cfg)) = Inr m"
    and d': "d' = d\<lparr>dp_Meta := m,
       dp_Spec := managed_spec agent cfg (mergeEnvironmentVariables rt vars (as_Env (ag_Spec agent)))
         (om_Created (dp_Meta d)) (dp_Spec d)\<rparr>"
    by (rule deployment_closure_Inr)
  obtain g rv where x: "x = d'\<lparr>dp_Meta := server_meta g rv (dp_Meta d')\<rparr>"
    using assms(3) by (auto simp: stores_deployment_def)
  have "om_Created (server_meta g rv m)" by (simp add: server_meta_def)
  then show ?thesis
    using stored_metadata_fixed[OF assms(1) m, of g rv]
    by (simp add: deployment_closure_eq vars d' x managed_spec_idem)
qed

definition managed_service_spec :: "Agent \<Rightarrow> ServiceSpec \<Rightarrow> ServiceSpec" where
  "managed_service_spec agent ss =
     ss\<lparr>ss_Ports := map service_port (as_Protocols (ag_Spec agent)),
        ss_Selector := Some (agent_selector agent), ss_Type := ServiceTypeClusterIP\<rparr>"

lemma service_closure_eq:
  "service_closure k agent d =
     (case setAgentOwner k agent (apply_object_metadata (sv_Meta d)
             (as_CommonMetadata (ag_Spec agent)) (agent_selector agent)) of
        Inl err \<Rightarrow> Inl err
      | Inr m \<Rightarrow> Inr (d\<lparr>sv_Meta := m, sv_Spec := managed_service_spec agent (sv_Spec d)\<rparr>))"
  by (simp add: service_closure_def managed_service_spec_def agent_selector_def Let_def split: sum.splits)

lemma managed_service_spec_idem [simp]:
  "managed_service_spec agent (managed_service_spec agent ss) = managed_service_spec agent ss"
  by (simp add: managed_service_spec_def)

lemma service_closure_stable:
  assumes "set_owner_ok (setAgentOwner k agent)" and "service_closure k agent d = Inr d'"
    and "stores_service d' x"
  shows "service_closure k agent x = Inr x"
  using assms(2,3) stored_metadata_fixed[OF assms(1)]
  by (fastforce simp: service_closure_eq stores_service_def split: sum.splits)

interpretation agent_deployment: managed_object
  "setAgentOwner k agent" "deployment_closure rt k agent subs tools gw cfg" stores_deployment
  for rt k agent subs tools gw cfg
  by unfold_locales (rule deployment_closure_stable)

interpretation agent_service: managed_object
  "setAgentOwner k agent" "service_closure k agent" stores_service for k agent
  by unfold_locales (rule service_closure_stable)

section \<open>Reconcile as resolution followed by writes\<close>

text \<open>
  All reading comes first: the configuration, the sub-agents, the tools and the gateway, in
  that order; the first failure is the outcome.
\<close>

definition resolution ::
  "unicode \<Rightarrow> 'w kube \<Rightarrow> 'w \<Rightarrow> Agent
    \<Rightarrow> go_error + (AgentRuntimeConfiguration option \<times> (string, ResolvedSubAgent) fmap
         \<times> (string, ResolvedTool) fmap \<times> AiGateway option)" where
  "resolution u k w agent =
     (case getAgentRuntimeConfiguration k w of
        Inl err \<Rightarrow> Inl err
      | Inr cfg \<Rightarrow>
          (case snd (resolveAllSubAgents u k w agent) of
             Some err \<Rightarrow> Inl err
           | None \<Rightarrow>
               (case snd (resolveAllTools u k w agent) of
                  Some err \<Rightarrow> Inl err
                | None \<Rightarrow>
                    (case resolveAiGateway k w agent of
                       Inl err \<Rightarrow> Inl err
                     | Inr gw \<Rightarrow> Inr (cfg, fst (resolveAllSubAgents u k w agent),
                                      fst (resolveAllTools u k w agent), gw)))))"

lemma reconcileAgent_eq:
  "reconcileAgent rt k s =
     (case resolution (uni rt) k (snd s) (fst s) of
        Inl err \<Rightarrow> (Inl err, s)
      | Inr (cfg, subs, tools, gw) \<Rightarrow>
          (case retryAgent k (ensureDeployment rt k subs tools gw cfg) s of
             (Some err, s) \<Rightarrow> (Inl err, s)
           | (None, s) \<Rightarrow>
               (case retryAgent k (ensureService k) s of
                  (Some err, s) \<Rightarrow> (Inl err, s)
                | (None, s) \<Rightarrow> (Inr gw, s))))"
proof (cases "getAgentRuntimeConfiguration k (snd s)")
  case (Inr cfg)
  obtain subs e1 where 1: "resolveAllSubAgents (uni rt) k (snd s) (fst s) = (subs, e1)"
    by (rule prod.exhaust)
  obtain tools e2 where 2: "resolveAllTools (uni rt) k (snd s) (fst s) = (tools, e2)"
    by (rule prod.exhaust)
  show ?thesis
    unfolding reconcileAgent_def resolution_def Let_def case_prod_beta[of _ s] Inr 1 2
    by (cases e1; cases e2; cases "resolveAiGateway k (snd s) (fst s)") simp_all
qed (simp add: reconcileAgent_def resolution_def case_prod_beta)

lemma resolution_Inr_iff:
  "\<not> isl (resolution u k w agent) \<longleftrightarrow>
     \<not> isl (getAgentRuntimeConfiguration k w)
     \<and> (\<forall>s\<in>set (as_SubAgents (ag_Spec agent)).
           \<not> isl (resolveSubAgentUrl k w s (om_Namespace (ag_Meta agent))))
     \<and> (\<forall>t\<in>set (as_Tools (ag_Spec agent)).
           \<not> isl (resolveToolUrl k w t (om_Namespace (ag_Meta agent))))
     \<and> \<not> isl (resolveAiGateway k w agent)"
  unfolding resolveAllSubAgents_ok_iff[of u, symmetric] resolveAllTools_ok_iff[of u, symmetric]
  by (auto simp: resolution_def split: sum.splits option.splits)

text \<open>A failed resolution leaves the cluster as it was.\<close>

lemma reconcileAgent_fail_fast:
  "resolution (uni rt) k (snd s) (fst s) = Inl err \<Longrightarrow> reconcileAgent rt k s = (Inl err, s)"
  by (simp add: reconcileAgent_eq)

text \<open>\<open>ensureDeployment\<close> and \<open>ensureService\<close> leave the agent in memory alone.\<close>

lemma ensureDeployment_agent: "fst (snd (ensureDeployment rt k subs tools gw cfg s)) = fst s"
  by (auto simp: ensureDeployment_def Let_def split: prod.splits sum.splits)

lemma ensureService_agent: "fst (snd (ensureService k s)) = fst s"
  by (auto simp: ensureService_def Let_def split: prod.splits sum.splits option.splits)

lemma retried_keeps_agent:
  assumes "retry_ok (retryAgent k)" and "\<And>s. fst (snd (f s)) = fst s"
  shows "fst (snd (retryAgent k f s)) = fst s"
proof -
  have "\<exists>s0. fst s0 = fst s \<and> retryAgent k f s = f s0"
    using retry_last_run[OF assms(1), of "\<lambda>x. fst x = fst s" s f] assms(2) by simp
  then show ?thesis using assms(2) by auto
qed

lemma reconcileAgent_agent:
  assumes "retry_ok (retryAgent k)"
  shows "fst (snd (reconcileAgent rt k s)) = fst s"
proof -
  have dep: "fst (snd (retryAgent k (ensureDeployment rt k subs tools gw cfg) x)) = fst x"
    for subs tools gw cfg x
    by (rule retried_keeps_agent[OF assms]) (rule ensureDeployment_agent)
  have svc: "fst (snd (retryAgent k (ensureService k) x)) = fst x" for x
    by (rule retried_keeps_agent[OF assms]) (rule ensureService_agent)
  show ?thesis
  proof (cases "resolution (uni rt) k (snd s) (fst s)")
    case (Inl err)
    then show ?thesis by (simp add: reconcileAgent_eq)
  next
    case (Inr r)
    obtain cfg subs tools gw where r: "r = (cfg, subs, tools, gw)" by (cases r) auto
    obtain e1 s1 where 1: "retryAgent k (ensureDeployment rt k subs tools gw cfg) s = (e1, s1)"
      by (rule prod.exhaust)
    obtain e2 s2 where 2: "retryAgent k (ensureService k) s1 = (e2, s2)" by (rule prod.exhaust)
    have "fst s1 = fst s" "fst s2 = fst s"
      using dep[of subs tools gw cfg s] svc[of s1] 1 2 by simp_all
    then show ?thesis
      by (simp add: reconcileAgent_eq Inr r 1 2 split: option.splits)
  qed
qed

text \<open>Each failure of the reconciliation is what \<open>Reconcile\<close> returns.\<close>

lemma Reconcile_error:
  assumes "getAgent k w req = Inr agent" and "reconcileAgent rt k (agent, w) = (Inl err, s)"
  shows "fst (Reconcile rt k req w) = Some err"
    and "snd (Reconcile rt k req w) =
      snd (snd (retryAgent k (updateAgentStatusNotReady k ''ReconciliationFailed'' (Error err)) s))"
  using assms by (simp_all add: Reconcile_def case_prod_beta)

lemma Reconcile_success:
  assumes "getAgent k w req = Inr agent" and "Reconcile rt k req w = (None, w')"
  obtains gw s a where "reconcileAgent rt k (agent, w) = (Inr gw, s)"
    and "retryAgent k (updateAgentStatusReady k gw) s = (None, (a, w'))"
  using assms by (auto simp: Reconcile_def split: prod.splits sum.splits option.splits)

section \<open>The watches of the controller cover the resolution\<close>

text \<open>
  Everything the resolution of an agent reads, as queries, and the queries an object's change
  touches. The runtime configurations are listed in the operator's namespace.
\<close>

datatype agent_query =
  QAgent NamespacedName | QTool tool_query | QGateway gateway_query | QConfigs string

datatype agent_answer =
  AAgent "go_error + Agent"
| ATool "go_error + (ToolRoute + ToolServer)"
| AGateway "(go_error + AiGateway) + (go_error + AiGateway list)"
| AConfigs "go_error + AgentRuntimeConfiguration list"

fun answer_agent_query :: "'w kube \<Rightarrow> 'w \<Rightarrow> agent_query \<Rightarrow> agent_answer" where
  "answer_agent_query k w (QAgent q) = AAgent (getAgent k w q)"
| "answer_agent_query k w (QTool q) = ATool (answer_tool_query k w q)"
| "answer_agent_query k w (QGateway q) = AGateway (answer_gateway_query k w q)"
| "answer_agent_query k w (QConfigs ns) = AConfigs (listRuntimeConfigurations k w ns)"

definition agent_reads :: "'w kube \<Rightarrow> Agent \<Rightarrow> agent_query set" where
  "agent_reads k agent =
     QAgent ` sub_refs agent \<union> QTool ` tool_refs agent \<union> QGateway ` gateway_reads agent
     \<union> {QConfigs (operatorNamespace k)}"

fun agent_touches :: "client_object \<Rightarrow> agent_query set" where
  "agent_touches (ObjAgent x) = {QAgent (request_of (ag_Meta x))}"
| "agent_touches (ObjToolRoute x) = {QTool (RouteQuery (request_of (tr_Meta x)))}"
| "agent_touches (ObjToolServer x) = {QTool (ServerQuery (request_of (tsv_Meta x)))}"
| "agent_touches (ObjAiGateway x) = QGateway ` gateway_touches x"
| "agent_touches (ObjRuntimeConfiguration x) = {QConfigs (om_Namespace (rc_Meta x))}"
| "agent_touches (ObjWorkforce x) = {}"
| "agent_touches (ObjDeployment x) = {}"
| "agent_touches (ObjService x) = {}"

lemma resolution_local:
  assumes "\<And>q. q \<in> agent_reads k agent \<Longrightarrow> answer_agent_query k w q = answer_agent_query k w' q"
  shows "resolution u k w agent = resolution u k w' agent"
proof -
  have subs: "resolveAllSubAgents u k w agent = resolveAllSubAgents u k w' agent"
  proof (rule resolveAllSubAgents_local)
    fix q assume "q \<in> sub_refs agent"
    then show "getAgent k w q = getAgent k w' q"
      using assms[of "QAgent q"] by (simp add: agent_reads_def)
  qed
  have tools: "resolveAllTools u k w agent = resolveAllTools u k w' agent"
  proof (rule resolveAllTools_local)
    fix q assume "q \<in> tool_refs agent"
    then show "answer_tool_query k w q = answer_tool_query k w' q"
      using assms[of "QTool q"] by (simp add: agent_reads_def)
  qed
  have gw: "resolveAiGateway k w agent = resolveAiGateway k w' agent"
  proof (rule resolveAiGateway_local)
    fix q assume "q \<in> gateway_reads agent"
    then show "answer_gateway_query k w q = answer_gateway_query k w' q"
      using assms[of "QGateway q"] by (simp add: agent_reads_def)
  qed
  have cfg: "getAgentRuntimeConfiguration k w = getAgentRuntimeConfiguration k w'"
    using assms[of "QConfigs (operatorNamespace k)"]
    by (simp add: agent_reads_def getAgentRuntimeConfiguration_def)
  show ?thesis unfolding resolution_def subs tools gw cfg ..
qed

lemma agent_watch_requests_complete:
  assumes "listed_agent k w agent" and "agent_reads k agent \<inter> agent_touches obj \<noteq> {}"
  shows "request_of (ag_Meta agent) \<in> set (agent_watch_requests k True w obj)"
proof (cases obj)
  case (ObjAgent x)
  then show ?thesis
    using assms sub_watch.finds_complete[of k w agent x]
    by (auto simp: agent_watch_requests_def agent_reads_def)
next
  case (ObjToolRoute x)
  then show ?thesis
    using assms route_watch.finds_complete[of k w agent x]
    by (auto simp: agent_watch_requests_def agent_reads_def)
next
  case (ObjToolServer x)
  then show ?thesis
    using assms server_watch.finds_complete[of k w agent x]
    by (auto simp: agent_watch_requests_def agent_reads_def)
next
  case (ObjAiGateway x)
  then have "gateway_reads agent \<inter> gateway_touches x \<noteq> {}"
    using assms(2) by (auto simp: agent_reads_def)
  then show ?thesis
    using assms(1) gateway_watch.finds_complete[of k w agent x] ObjAiGateway
    by (simp add: agent_watch_requests_def)
next
  case (ObjRuntimeConfiguration x)
  then show ?thesis
    using assms(1)
    by (auto simp: agent_watch_requests_def findAllAgentsForRuntimeConfiguration_def listed_agent_def)
qed (use assms(2) in simp_all)

interpretation agent_watch: watch
  "answer_agent_query k" "agent_reads k" "resolution u k" agent_touches
  "agent_watch_requests k True" "listed_agent k" "\<lambda>agent. request_of (ag_Meta agent)"
  for k u
proof unfold_locales
  show "resolution u k w own = resolution u k w' own"
    if "\<And>q. q \<in> agent_reads k own \<Longrightarrow> answer_agent_query k w q = answer_agent_query k w' q"
    for own w w'
    using that by (rule resolution_local)
qed (rule agent_watch_requests_complete)

section \<open>A converged agent\<close>

text \<open>With an up-to-date object in the cluster, neither step writes or reports anything.\<close>

lemma ensureDeployment_unchanged:
  assumes "createOrUpdateDeployment k
      (new_deployment (om_Name (ag_Meta agent)) (om_Namespace (ag_Meta agent)))
      (deployment_closure rt k agent subs tools gw cfg) w = (Inr OperationResultNone, w)"
  shows "ensureDeployment rt k subs tools gw cfg (agent, w) = (None, (agent, w))"
  using assms by (simp add: ensureDeployment_def Let_def)

lemma ensureService_unchanged:
  assumes "as_Protocols (ag_Spec agent) \<noteq> []"
    and "createOrUpdateService k (new_service (om_Name (ag_Meta agent)) (om_Namespace (ag_Meta agent)))
      (service_closure k agent) w = (Inr OperationResultNone, w)"
  shows "ensureService k (agent, w) = (None, (agent, w))"
  using assms by (simp add: ensureService_def Let_def)

section \<open>Determinism\<close>

text \<open>
  The environment, and with it the deployment, does not depend on the order of Go's maps or
  of the unstable sort, as long as no two sub-agents' names are made into one identifier.
\<close>

lemma template_env_deterministic:
  assumes "rt_ok rt" and "rt_ok rt'" and "uni rt = uni rt'"
    and "typed_subs subs" and "inj_on sanitizeAgentName (fmdom' subs)"
  shows "buildTemplateEnvironmentVars rt agent subs tools gw
       = buildTemplateEnvironmentVars rt' agent subs tools gw"
proof -
  have ords: "is_order (order_subs rt)" "is_order (order_tools rt)"
    "is_order (order_subs rt')" "is_order (order_tools rt')"
    using assms(1,2) by (simp_all add: rt_ok_def)
  have subs: "sub_agents_json (uni rt) (go_range (order_subs rt) subs) fmempty
      = sub_agents_json (uni rt') (go_range (order_subs rt') subs) fmempty"
    using sub_agents_json_ok[OF ords(1)] sub_agents_json_ok[OF ords(3)] assms(4)
      sub_agents_map_deterministic[OF ords(1,3) assms(5)] by metis
  have tools: "tools_json (go_range (order_tools rt) tools) fmempty
      = tools_json (go_range (order_tools rt') tools) fmempty"
    using tools_map_deterministic[OF ords(2,4)] by (simp add: tools_json_eq tools_map_def)
  show ?thesis
    unfolding buildTemplateEnvironmentVars_def subs tools ..
qed

lemma deployment_closure_deterministic:
  assumes "rt_ok rt" and "rt_ok rt'" and "uni rt = uni rt'"
    and "typed_subs subs" and "inj_on sanitizeAgentName (fmdom' subs)"
  shows "deployment_closure rt k agent subs tools gw cfg d = deployment_closure rt' k agent subs tools gw cfg d"
proof -
  note tmpl = template_env_deterministic[OF assms, of agent tools "map_option buildAiGatewayServiceUrl gw"]
  show ?thesis
  proof (cases "buildTemplateEnvironmentVars rt' agent subs tools (map_option buildAiGatewayServiceUrl gw)")
    case (Inr vars)
    show ?thesis
      unfolding deployment_closure_eq tmpl Inr sum.case
        merge_deterministic[OF assms(1,2) template_env_distinct[OF Inr]] ..
  qed (simp add: deployment_closure_eq tmpl)
qed

end
