(* ===== verification/Agent_Desired.thy ===== *)
theory Agent_Desired
  imports Agent_Reconciler
begin

text \<open>
  What the agent controller is for, stated without its code: the deployment that runs an agent
  and the service that exposes it. The closures of \<open>Agent_Reconciler\<close> are shown to make such
  objects from whatever they find, and a reconciliation without an error to leave them in the
  cluster.
\<close>

section \<open>The objects an agent should have\<close>

text \<open>The first of the candidates that is set.\<close>

definition first_set :: "string list \<Rightarrow> string" where
  "first_set ss = (case filter (\<lambda>s. s \<noteq> []) ss of [] \<Rightarrow> [] | s # _ \<Rightarrow> s)"

definition configured_template :: "AgentRuntimeConfiguration option \<Rightarrow> string \<Rightarrow> string" where
  "configured_template cfg framework =
     (case cfg of
        None \<Rightarrow> []
      | Some c \<Rightarrow>
          (case rcs_AgentTemplateImages (rc_Spec c) of
             None \<Rightarrow> []
           | Some images \<Rightarrow>
               if framework = ''google-adk'' then ti_GoogleAdk images
               else if framework = ''msaf'' then ti_Msaf images else []))"

definition configured_framework :: "AgentRuntimeConfiguration option \<Rightarrow> string" where
  "configured_framework cfg = (case cfg of None \<Rightarrow> [] | Some c \<Rightarrow> rcs_DefaultFramework (rc_Spec c))"

definition carries :: "strmap \<Rightarrow> gomap \<Rightarrow> bool" where
  "carries small big \<longleftrightarrow> (\<forall>n v. fmlookup small n = Some v \<longrightarrow> fmlookup (mval big) n = Some v)"

text \<open>
  The environment, given the template's variables: one variable per name, in the order of the
  names, the user's before the template's.
\<close>

definition merged_from :: "EnvVar list \<Rightarrow> EnvVar list \<Rightarrow> EnvVar list \<Rightarrow> bool" where
  "merged_from tmpl user vars \<longleftrightarrow>
     sorted (map ev_Name vars) \<and> distinct (map ev_Name vars)
     \<and> (\<forall>n. findEnvVar vars n = effective_env tmpl user n)"

definition runs_agent :: "Agent \<Rightarrow> AgentRuntimeConfiguration option \<Rightarrow> EnvVar list \<Rightarrow> Deployment \<Rightarrow> bool" where
  "runs_agent agent cfg tmpl d \<longleftrightarrow>
     (let spec = ag_Spec agent; framework = resolveEffectiveFramework agent cfg;
          pod = pt_Spec (ds_Template (dp_Spec d))
      in carries (agent_selector agent) (pt_Labels (ds_Template (dp_Spec d)))
         \<and> carries (agent_managed_labels agent cfg) (om_Labels (dp_Meta d))
         \<and> (\<forall>n. as_Replicas spec = Some n \<longrightarrow> ds_Replicas (dp_Spec d) = Some n)
         \<and> ps_Volumes pod = as_Volumes spec
         \<and> (\<exists>c. container_named agentContainerName pod = Some c
              \<and> ct_Image c = first_set [as_Image spec, configured_template cfg framework,
                                        builtin_template_image framework]
              \<and> ct_Ports c = map container_port (as_Protocols spec)
              \<and> merged_from tmpl (as_Env spec) (ct_Env c)
              \<and> ct_EnvFrom c = as_EnvFrom spec \<and> ct_VolumeMounts c = as_VolumeMounts spec
              \<and> ct_ReadinessProbe c = generateReadinessProbe agent
              \<and> ct_Resources c = getOrDefaultResourceRequirements agent))"

definition serves_agent :: "Agent \<Rightarrow> Service \<Rightarrow> bool" where
  "serves_agent agent s \<longleftrightarrow>
     carries (agent_selector agent) (om_Labels (sv_Meta s))
     \<and> ss_Ports (sv_Spec s) = map service_port (as_Protocols (ag_Spec agent))
     \<and> ss_Selector (sv_Spec s) = Some (agent_selector agent)
     \<and> ss_Type (sv_Spec s) = ServiceTypeClusterIP"

section \<open>The closures make them\<close>

lemma first_set_simps [simp]:
  "first_set [] = []" "first_set (s # ss) = (if s \<noteq> [] then s else first_set ss)"
  by (simp_all add: first_set_def)

lemma builtin_template_image_set [simp]: "builtin_template_image framework \<noteq> []"
  by (simp add: builtin_template_image_def defaultTemplateImageAdk_def defaultTemplateImageMsaf_def
      defaultTemplateImageFallback_def)

lemma getTemplateImage_eq:
  "getTemplateImage framework cfg =
     first_set [configured_template cfg framework, builtin_template_image framework]"
  by (auto simp: getTemplateImage_def configured_template_def googleAdkFramework_def msafFramework_def
      split: option.splits)

lemma resolveEffectiveFramework_eq:
  "resolveEffectiveFramework agent cfg =
     first_set [as_Framework (ag_Spec agent), configured_framework cfg, ''google-adk'']"
  by (auto simp: resolveEffectiveFramework_def configured_framework_def googleAdkFramework_def
      split: option.splits)

lemma update_agent_container_fields:
  "ct_Image (update_agent_container agent fw cfg vars c) =
     first_set [as_Image (ag_Spec agent), configured_template cfg fw, builtin_template_image fw]"
  "ct_Ports (update_agent_container agent fw cfg vars c) = map container_port (as_Protocols (ag_Spec agent))"
  "ct_Env (update_agent_container agent fw cfg vars c) = vars"
  "ct_EnvFrom (update_agent_container agent fw cfg vars c) = as_EnvFrom (ag_Spec agent)"
  "ct_VolumeMounts (update_agent_container agent fw cfg vars c) = as_VolumeMounts (ag_Spec agent)"
  "ct_ReadinessProbe (update_agent_container agent fw cfg vars c) = generateReadinessProbe agent"
  "ct_Resources (update_agent_container agent fw cfg vars c) = getOrDefaultResourceRequirements agent"
  "ct_Command (update_agent_container agent fw cfg vars c) = ct_Command c"
  "ct_Args (update_agent_container agent fw cfg vars c) = ct_Args c"
  "ct_rest (update_agent_container agent fw cfg vars c) = ct_rest c"
  by (simp_all add: update_agent_container_def getTemplateImage_eq Let_def)

lemma merge_merged_from:
  assumes "rt_ok rt" and "distinct (map ev_Name tmpl)"
  shows "merged_from tmpl user (mergeEnvironmentVariables rt tmpl user)"
  using assms by (simp add: merged_from_def merge_sorted merge_distinct merge_lookup)

lemma container_named_volumes [simp]:
  "container_named name (pod\<lparr>ps_Volumes := v\<rparr>) = container_named name pod"
  by (simp add: container_named_def)

lemma fmadd_right: "fmlookup b n = Some v \<Longrightarrow> fmlookup (a ++\<^sub>f b) n = Some v"
  by (simp add: fmdomI)

lemma carries_written: "carries b (Some (a ++\<^sub>f b))"
  by (simp add: carries_def fmdomI)

lemma closure_runs_agent:
  assumes "rt_ok rt" and "set_owner_ok (setAgentOwner k agent)"
    and "deployment_closure rt k agent subs tools gw cfg d = Inr d'"
  shows "\<exists>tmpl. buildTemplateEnvironmentVars rt agent subs tools (map_option buildAiGatewayServiceUrl gw) = Inr tmpl
     \<and> runs_agent agent cfg tmpl d'"
proof -
  let ?cm = "as_CommonMetadata (ag_Spec agent)"
  obtain tmpl m where
    tmpl: "buildTemplateEnvironmentVars rt agent subs tools (map_option buildAiGatewayServiceUrl gw) = Inr tmpl"
    and m: "setAgentOwner k agent (apply_object_metadata (dp_Meta d) ?cm (agent_managed_labels agent cfg)) = Inr m"
    and d': "d' = d\<lparr>dp_Meta := m,
       dp_Spec := managed_spec agent cfg (mergeEnvironmentVariables rt tmpl (as_Env (ag_Spec agent)))
         (om_Created (dp_Meta d)) (dp_Spec d)\<rparr>"
    using assms(3) by (rule deployment_closure_Inr)
  have labels: "om_Labels m = om_Labels (apply_object_metadata (dp_Meta d) ?cm (agent_managed_labels agent cfg))"
    by (rule set_owner_frame(1)[OF assms(2) m])
  have "runs_agent agent cfg tmpl d'"
    unfolding runs_agent_def d' managed_spec_def Let_def carries_def
    using merge_merged_from[OF assms(1) template_env_distinct[OF tmpl]] labels
    by (auto simp: upsert_container_named update_agent_container_fields podTemplate_selector
        apply_object_metadata_labels fmadd_right set_replicas_eq)
  then show ?thesis using tmpl by blast
qed

lemma runs_agent_stored: "stores_deployment d x \<Longrightarrow> runs_agent agent cfg tmpl x \<longleftrightarrow> runs_agent agent cfg tmpl d"
  by (auto simp: stores_deployment_def runs_agent_def server_meta_def Let_def)

lemma closure_serves_agent:
  assumes "set_owner_ok (setAgentOwner k agent)" and "service_closure k agent s = Inr s'"
  shows "serves_agent agent s'"
proof -
  let ?ml = "apply_object_metadata (sv_Meta s) (as_CommonMetadata (ag_Spec agent)) (agent_selector agent)"
  obtain m where m: "setAgentOwner k agent ?ml = Inr m"
    and s': "s' = s\<lparr>sv_Meta := m, sv_Spec := managed_service_spec agent (sv_Spec s)\<rparr>"
    using assms(2) by (auto simp: service_closure_eq split: sum.splits)
  have "om_Labels m = om_Labels ?ml" by (rule set_owner_frame(1)[OF assms(1) m])
  then show ?thesis
    by (simp add: s' serves_agent_def managed_service_spec_def apply_object_metadata_labels carries_written)
qed

lemma serves_agent_stored: "stores_service s x \<Longrightarrow> serves_agent agent x \<longleftrightarrow> serves_agent agent s"
  by (auto simp: stores_service_def serves_agent_def server_meta_def)

section \<open>A reconciliation leaves them in the cluster\<close>

text \<open>
  What the API server holds, as opposed to what a cached read returns. A successful
  \<open>CreateOrUpdate\<close> with a closure that keeps the key leaves there what the closure made, up to
  the server's marks; and nothing else is disturbed: a service, an event or a status is not
  written over a deployment.
\<close>

record 'w view =
  v_deployment :: "'w \<Rightarrow> NamespacedName \<Rightarrow> Deployment option"
  v_service :: "'w \<Rightarrow> NamespacedName \<Rightarrow> Service option"

definition written_ok ::
  "('o \<Rightarrow> 'o \<Rightarrow> bool) \<Rightarrow> ('o \<Rightarrow> ObjectMeta) \<Rightarrow> ('w \<Rightarrow> NamespacedName \<Rightarrow> 'o option)
    \<Rightarrow> ('o \<Rightarrow> ('o \<Rightarrow> go_error + 'o) \<Rightarrow> 'w \<Rightarrow> (go_error + OperationResult) \<times> 'w) \<Rightarrow> bool" where
  "written_ok stores meta stored cou \<longleftrightarrow> (\<forall>obj f w op w'. cou obj f w = (Inr op, w') \<longrightarrow>
     (\<forall>old new. f old = Inr new \<longrightarrow> request_of (meta new) = request_of (meta old)) \<longrightarrow>
     (\<exists>old new x. f old = Inr new \<and> stored w' (request_of (meta obj)) = Some x \<and> (x = new \<or> stores new x)))"

definition undisturbed :: "'w kube \<Rightarrow> 'w view \<Rightarrow> bool" where
  "undisturbed k v \<longleftrightarrow>
     (\<forall>eventf e w. recorder k = Some eventf \<longrightarrow>
        v_deployment v (eventf e w) = v_deployment v w \<and> v_service v (eventf e w) = v_service v w)
     \<and> (\<forall>obj f w. v_deployment v (snd (createOrUpdateService k obj f w)) = v_deployment v w)
     \<and> (\<forall>obj w. v_deployment v (snd (deleteService k obj w)) = v_deployment v w)
     \<and> (\<forall>agent w. v_deployment v (snd (snd (updateAgentStatus k agent w))) = v_deployment v w
          \<and> v_service v (snd (snd (updateAgentStatus k agent w))) = v_service v w)"

lemma undisturbed_event:
  assumes "undisturbed k v"
  shows "v_deployment v (emitEvent k m r a n w) = v_deployment v w"
    and "v_service v (emitEvent k m r a n w) = v_service v w"
  using assms by (auto simp: undisturbed_def emitEvent_def split: option.splits)

lemma managed_key:
  assumes "set_owner_ok f" and "f (apply_object_metadata m cm ml) = Inr m'"
  shows "request_of m' = request_of m"
  using set_owner_frame(4,5)[OF assms] by (simp add: request_of_def apply_object_metadata_frame)

lemma deployment_closure_key:
  assumes "set_owner_ok (setAgentOwner k agent)"
    and "deployment_closure rt k agent subs tools gw cfg old = Inr new"
  shows "request_of (dp_Meta new) = request_of (dp_Meta old)"
  using assms(2) managed_key[OF assms(1)] by (auto elim!: deployment_closure_Inr)

lemma service_closure_key:
  assumes "set_owner_ok (setAgentOwner k agent)" and "service_closure k agent old = Inr new"
  shows "request_of (sv_Meta new) = request_of (sv_Meta old)"
  using assms(2) managed_key[OF assms(1)] by (auto simp: service_closure_eq split: sum.splits)

text \<open>What the closures make is controlled by the agent, and stays so when it is stored.\<close>

lemma closures_owned:
  "deployment_closure rt k agent subs tools gw cfg old = Inr new \<Longrightarrow> owned_by (setAgentOwner k agent) (dp_Meta new)"
  "service_closure k agent old' = Inr new' \<Longrightarrow> owned_by (setAgentOwner k agent) (sv_Meta new')"
  by (auto elim!: deployment_closure_Inr intro: owned_byI simp: service_closure_eq split: sum.splits)

lemma stored_owned:
  "stores_deployment d x \<Longrightarrow> owned_by f (dp_Meta x) \<longleftrightarrow> owned_by f (dp_Meta d)"
  "stores_service s y \<Longrightarrow> owned_by f (sv_Meta y) \<longleftrightarrow> owned_by f (sv_Meta s)"
  by (auto simp: stores_deployment_def stores_service_def)

lemma ensureDeployment_deploys:
  assumes "undisturbed k v" and "set_owner_ok (setAgentOwner k agent)"
    and "written_ok stores_deployment dp_Meta (v_deployment v) (createOrUpdateDeployment k)"
    and "ensureDeployment rt k subs tools gw cfg (agent, w) = (None, s)"
  shows "\<exists>old new x. deployment_closure rt k agent subs tools gw cfg old = Inr new
     \<and> v_deployment v (snd s) (request_of (ag_Meta agent)) = Some x \<and> (x = new \<or> stores_deployment new x)"
proof -
  let ?obj = "new_deployment (om_Name (ag_Meta agent)) (om_Namespace (ag_Meta agent))"
  let ?f = "deployment_closure rt k agent subs tools gw cfg"
  obtain op w1 where run: "createOrUpdateDeployment k ?obj ?f w = (Inr op, w1)"
    and s: "v_deployment v (snd s) = v_deployment v w1"
    using assms(4) undisturbed_event[OF assms(1)]
    by (auto simp: ensureDeployment_def Let_def split: prod.splits sum.splits if_splits)
  have "request_of (dp_Meta ?obj) = request_of (ag_Meta agent)"
    by (simp add: new_deployment_def request_of_def)
  then show ?thesis
    using assms(3) run deployment_closure_key[OF assms(2)] unfolding written_ok_def s by metis
qed

lemma ensureService_deploys:
  assumes "undisturbed k v" and "set_owner_ok (setAgentOwner k agent)" and "as_Protocols (ag_Spec agent) \<noteq> []"
    and "written_ok stores_service sv_Meta (v_service v) (createOrUpdateService k)"
    and "ensureService k (agent, w) = (None, s)"
  shows "\<exists>old new x. service_closure k agent old = Inr new
     \<and> v_service v (snd s) (request_of (ag_Meta agent)) = Some x \<and> (x = new \<or> stores_service new x)"
proof -
  let ?obj = "new_service (om_Name (ag_Meta agent)) (om_Namespace (ag_Meta agent))"
  obtain op w1 where run: "createOrUpdateService k ?obj (service_closure k agent) w = (Inr op, w1)"
    and s: "v_service v (snd s) = v_service v w1"
    using assms(3,5) undisturbed_event[OF assms(1)]
    by (auto simp: ensureService_def Let_def split: prod.splits sum.splits if_splits)
  have "request_of (sv_Meta ?obj) = request_of (ag_Meta agent)"
    by (simp add: new_service_def request_of_def)
  then show ?thesis
    using assms(4) run service_closure_key[OF assms(2)] unfolding written_ok_def s by metis
qed

text \<open>The later steps leave the objects of the earlier ones alone, however often they are retried.\<close>

lemma retried_frame:
  assumes "retry_ok retry" and "\<And>s. view (snd (snd (f s))) = view (snd s)"
  shows "view (snd (snd (retry f s))) = view (snd s)"
proof -
  have "\<exists>s0. view (snd s0) = view (snd s) \<and> retry f s = f s0"
    by (rule retry_last_run[OF assms(1)]) (simp_all add: assms(2))
  then show ?thesis using assms(2) by force
qed

lemma ensureService_deployments:
  assumes "undisturbed k v"
  shows "v_deployment v (snd (snd (ensureService k s))) = v_deployment v (snd s)"
proof -
  have svc: "v_deployment v w' = v_deployment v w" if "createOrUpdateService k obj f w = (r, w')" for obj f w r w'
    using assms that unfolding undisturbed_def by (metis snd_conv)
  have del: "v_deployment v w' = v_deployment v w" if "deleteService k obj w = (r, w')" for obj w r w'
    using assms that unfolding undisturbed_def by (metis snd_conv)
  show ?thesis
    by (auto simp: ensureService_def Let_def undisturbed_event[OF assms] svc del
        split: prod.splits sum.splits option.splits)
qed

lemma status_frames:
  assumes "undisturbed k v"
  shows "v_deployment v (snd (snd (write_agent_status k f s))) = v_deployment v (snd s)"
    and "v_service v (snd (snd (write_agent_status k f s))) = v_service v (snd s)"
  using assms by (simp_all add: undisturbed_def write_agent_status_def case_prod_beta)

text \<open>
  The second half of a reconciliation, once \<open>resolution\<close> has its result: the deployment, then the
  service. It stops at the first error.
\<close>

type_synonym agent_resolution =
  "go_error + (AgentRuntimeConfiguration option \<times> (string, ResolvedSubAgent) fmap
     \<times> (string, ResolvedTool) fmap \<times> AiGateway option)"

definition agent_writes ::
  "go_rt \<Rightarrow> 'w kube \<Rightarrow> agent_resolution \<Rightarrow> Agent \<times> 'w \<Rightarrow> (go_error + AiGateway option) \<times> (Agent \<times> 'w)" where
  "agent_writes rt k res s =
     (case res of
        Inl err \<Rightarrow> (Inl err, s)
      | Inr (cfg, subs, tools, gw) \<Rightarrow>
          (case retryAgent k (ensureDeployment rt k subs tools gw cfg) s of
             (Some err, s) \<Rightarrow> (Inl err, s)
           | (None, s) \<Rightarrow>
               (case retryAgent k (ensureService k) s of
                  (Some err, s) \<Rightarrow> (Inl err, s)
                | (None, s) \<Rightarrow> (Inr gw, s))))"

lemma reconcileAgent_writes:
  "reconcileAgent rt k s = agent_writes rt k (resolution (uni rt) k (snd s) (fst s)) s"
  by (simp add: reconcileAgent_eq agent_writes_def)

lemma agent_writes_deploys:
  assumes "retry_ok (retryAgent k)" and "undisturbed k v" and "set_owner_ok (setAgentOwner k agent)"
    and "written_ok stores_deployment dp_Meta (v_deployment v) (createOrUpdateDeployment k)"
    and "written_ok stores_service sv_Meta (v_service v) (createOrUpdateService k)"
    and "agent_writes rt k (Inr (cfg, subs, tools, gw)) (agent, w) = (Inr gw', s)"
  shows "gw' = gw"
    and "\<exists>old new x. deployment_closure rt k agent subs tools gw cfg old = Inr new
     \<and> v_deployment v (snd s) (request_of (ag_Meta agent)) = Some x \<and> (x = new \<or> stores_deployment new x)"
    and "as_Protocols (ag_Spec agent) \<noteq> [] \<Longrightarrow> \<exists>old new x. service_closure k agent old = Inr new
     \<and> v_service v (snd s) (request_of (ag_Meta agent)) = Some x \<and> (x = new \<or> stores_service new x)"
proof -
  obtain s1 where gw: "gw' = gw"
    and dep: "retryAgent k (ensureDeployment rt k subs tools gw cfg) (agent, w) = (None, s1)"
    and svc: "retryAgent k (ensureService k) s1 = (None, s)"
    using assms(6) by (auto simp: agent_writes_def split: prod.splits option.splits)
  let ?dep = "ensureDeployment rt k subs tools gw cfg"
  obtain s0 where s0: "fst s0 = agent" "?dep s0 = (None, s1)"
    using retry_last_run[OF assms(1), of "\<lambda>x. fst x = agent" "(agent, w)" ?dep] dep
    by (auto simp: ensureDeployment_agent)
  have agent1: "fst s1 = agent" using ensureDeployment_agent[of rt k subs tools gw cfg s0] s0 by simp
  obtain t0 where t0: "fst t0 = agent" "ensureService k t0 = (None, s)"
    using retry_last_run[OF assms(1), of "\<lambda>x. fst x = agent" s1 "ensureService k"] svc agent1
    by (auto simp: ensureService_agent)
  have same: "v_deployment v (snd s) = v_deployment v (snd s1)"
    using retried_frame[OF assms(1), of "v_deployment v" "ensureService k" s1]
      ensureService_deployments[OF assms(2)] svc by simp
  have runs: "?dep (agent, snd s0) = (None, s1)" "ensureService k (agent, snd t0) = (None, s)"
    using s0 t0 by (metis prod.collapse)+
  show "gw' = gw" by (rule gw)
  show "\<exists>old new x. deployment_closure rt k agent subs tools gw cfg old = Inr new
     \<and> v_deployment v (snd s) (request_of (ag_Meta agent)) = Some x \<and> (x = new \<or> stores_deployment new x)"
    unfolding same by (rule ensureDeployment_deploys[OF assms(2,3,4) runs(1)])
  show "\<exists>old new x. service_closure k agent old = Inr new
     \<and> v_service v (snd s) (request_of (ag_Meta agent)) = Some x \<and> (x = new \<or> stores_service new x)"
    if "as_Protocols (ag_Spec agent) \<noteq> []"
    by (rule ensureService_deploys[OF assms(2,3) that assms(5) runs(2)])
qed

lemma reconcileAgent_deploys:
  assumes "retry_ok (retryAgent k)" and "undisturbed k v" and "set_owner_ok (setAgentOwner k agent)"
    and "as_Protocols (ag_Spec agent) \<noteq> []"
    and "written_ok stores_deployment dp_Meta (v_deployment v) (createOrUpdateDeployment k)"
    and "written_ok stores_service sv_Meta (v_service v) (createOrUpdateService k)"
    and "reconcileAgent rt k (agent, w) = (Inr gw, s)"
  shows "\<exists>cfg subs tools old new x old' new' y.
     resolution (uni rt) k w agent = Inr (cfg, subs, tools, gw)
     \<and> deployment_closure rt k agent subs tools gw cfg old = Inr new
     \<and> v_deployment v (snd s) (request_of (ag_Meta agent)) = Some x \<and> (x = new \<or> stores_deployment new x)
     \<and> service_closure k agent old' = Inr new'
     \<and> v_service v (snd s) (request_of (ag_Meta agent)) = Some y \<and> (y = new' \<or> stores_service new' y)"
proof (cases "resolution (uni rt) k w agent")
  case (Inl err)
  then show ?thesis using assms(7) by (simp add: reconcileAgent_writes agent_writes_def)
next
  case (Inr r)
  obtain cfg subs tools gw' where r: "r = (cfg, subs, tools, gw')" by (cases r) auto
  have run: "agent_writes rt k (Inr (cfg, subs, tools, gw')) (agent, w) = (Inr gw, s)"
    using assms(7) by (simp add: reconcileAgent_writes Inr r)
  note facts = agent_writes_deploys[OF assms(1-3,5,6) run]
  show ?thesis using Inr r facts(1,2) facts(3)[OF assms(4)] by blast
qed

end
