(* ===== verification/Cluster.thy ===== *)
theory Cluster
  imports Agent_Desired
begin

text \<open>
  A small cluster that behaves as documented: an API server that keeps lists of objects, with
  the library functions on it. It instantiates the record of \<open>Kube\<close> and satisfies each of the
  laws stated there, so the hypotheses of the theorems can hold; the witnesses run on it.
\<close>

record cluster =
  cl_agents :: "Agent list"
  cl_routes :: "ToolRoute list"
  cl_servers :: "ToolServer list"
  cl_gateways :: "AiGateway list"
  cl_configs :: "AgentRuntimeConfiguration list"
  cl_workforces :: "AgenticWorkforce list"
  cl_deployments :: "Deployment list"
  cl_services :: "Service list"
  cl_events :: "event list"

definition empty_cluster :: cluster where
  "empty_cluster = \<lparr>cl_agents = [], cl_routes = [], cl_servers = [], cl_gateways = [],
     cl_configs = [], cl_workforces = [], cl_deployments = [], cl_services = [], cl_events = []\<rparr>"

definition not_found :: go_error where
  "not_found = LibErr 404 ''not found''"

definition sim_get :: "('o \<Rightarrow> ObjectMeta) \<Rightarrow> 'o list \<Rightarrow> NamespacedName \<Rightarrow> go_error + 'o" where
  "sim_get meta objs key =
     (case find (\<lambda>x. request_of (meta x) = key) objs of None \<Rightarrow> Inl not_found | Some x \<Rightarrow> Inr x)"

definition sim_put :: "('o \<Rightarrow> ObjectMeta) \<Rightarrow> 'o \<Rightarrow> 'o list \<Rightarrow> 'o list" where
  "sim_put meta x objs = x # filter (\<lambda>y. request_of (meta y) \<noteq> request_of (meta x)) objs"

definition sim_create_or_update ::
  "('o \<Rightarrow> ObjectMeta) \<Rightarrow> (cluster \<Rightarrow> 'o list) \<Rightarrow> ('o list \<Rightarrow> cluster \<Rightarrow> cluster) \<Rightarrow> ('o \<Rightarrow> 'o)
    \<Rightarrow> 'o \<Rightarrow> ('o \<Rightarrow> go_error + 'o) \<Rightarrow> cluster \<Rightarrow> (go_error + OperationResult) \<times> cluster" where
  "sim_create_or_update meta objs put created obj f w =
     (case sim_get meta (objs w) (request_of (meta obj)) of
        Inl _ \<Rightarrow>
          (case f obj of
             Inl e \<Rightarrow> (Inl e, w)
           | Inr new \<Rightarrow> (Inr OperationResultCreated, put (sim_put meta (created new) (objs w)) w))
      | Inr old \<Rightarrow>
          (case f old of
             Inl e \<Rightarrow> (Inl e, w)
           | Inr new \<Rightarrow>
               if new = old then (Inr OperationResultNone, w)
               else (Inr OperationResultUpdated, put (sim_put meta new (objs w)) w)))"

definition sim_update_status ::
  "('o \<Rightarrow> ObjectMeta) \<Rightarrow> ('o \<Rightarrow> 'o \<Rightarrow> 'o) \<Rightarrow> (cluster \<Rightarrow> 'o list) \<Rightarrow> ('o list \<Rightarrow> cluster \<Rightarrow> cluster)
    \<Rightarrow> 'o \<Rightarrow> cluster \<Rightarrow> go_error option \<times> 'o \<times> cluster" where
  "sim_update_status meta copy_status objs put obj w =
     (case sim_get meta (objs w) (request_of (meta obj)) of
        Inl e \<Rightarrow> (Some e, obj, w)
      | Inr old \<Rightarrow>
          (let new = copy_status obj old in (None, new, put (sim_put meta new (objs w)) w)))"

definition sim_set_owner :: "ObjectMeta \<Rightarrow> ObjectMeta \<Rightarrow> go_error + ObjectMeta" where
  "sim_set_owner owner m = Inr (m\<lparr>om_OwnerReferences := [om_Name owner, om_Namespace owner]\<rparr>)"

definition sim_owner_requests :: "ObjectMeta \<Rightarrow> Request list" where
  "sim_owner_requests m = (case om_OwnerReferences m of [name, ns] \<Rightarrow> [nsname ns name] | _ \<Rightarrow> [])"

definition sim_set_condition :: "Condition list \<Rightarrow> Condition \<Rightarrow> Condition list" where
  "sim_set_condition cs c = c # filter (\<lambda>x. c_Type x \<noteq> c_Type c) cs"

definition sim_kube :: "string \<Rightarrow> cluster kube" where
  "sim_kube ns =
     \<lparr>operatorNamespace = ns,
      isNotFound = (\<lambda>e. e = not_found),
      isNoMatchErr = (\<lambda>_. False),
      getAgent = (\<lambda>w. sim_get ag_Meta (cl_agents w)),
      getToolRoute = (\<lambda>w. sim_get tr_Meta (cl_routes w)),
      getToolServer = (\<lambda>w. sim_get tsv_Meta (cl_servers w)),
      getAiGateway = (\<lambda>w. sim_get gw_Meta (cl_gateways w)),
      getWorkforce = (\<lambda>w. sim_get wf_Meta (cl_workforces w)),
      getService = (\<lambda>w. sim_get sv_Meta (cl_services w)),
      getDeployment = (\<lambda>w. sim_get dp_Meta (cl_deployments w)),
      listAgents = (\<lambda>w. Inr (cl_agents w)),
      listWorkforces = (\<lambda>w. Inr (cl_workforces w)),
      listAiGateways = (\<lambda>w ns. Inr (filter (\<lambda>x. om_Namespace (gw_Meta x) = ns) (cl_gateways w))),
      listRuntimeConfigurations =
        (\<lambda>w ns. Inr (filter (\<lambda>x. om_Namespace (rc_Meta x) = ns) (cl_configs w))),
      deleteService = (\<lambda>s w. (None, w\<lparr>cl_services :=
        filter (\<lambda>x. request_of (sv_Meta x) \<noteq> request_of (sv_Meta s)) (cl_services w)\<rparr>)),
      createOrUpdateDeployment = sim_create_or_update dp_Meta cl_deployments
        (\<lambda>ds w. w\<lparr>cl_deployments := ds\<rparr>) (\<lambda>d. d\<lparr>dp_Meta := (dp_Meta d)\<lparr>om_Created := True\<rparr>\<rparr>),
      createOrUpdateService = sim_create_or_update sv_Meta cl_services
        (\<lambda>ss w. w\<lparr>cl_services := ss\<rparr>) (\<lambda>s. s\<lparr>sv_Meta := (sv_Meta s)\<lparr>om_Created := True\<rparr>\<rparr>),
      updateAgentStatus = sim_update_status ag_Meta (\<lambda>new old. old\<lparr>ag_Status := ag_Status new\<rparr>)
        cl_agents (\<lambda>xs w. w\<lparr>cl_agents := xs\<rparr>),
      updateToolServerStatus = sim_update_status tsv_Meta
        (\<lambda>new old. old\<lparr>tsv_Status := tsv_Status new\<rparr>) cl_servers (\<lambda>xs w. w\<lparr>cl_servers := xs\<rparr>),
      updateWorkforceStatus = sim_update_status wf_Meta
        (\<lambda>new old. old\<lparr>wf_Status := wf_Status new\<rparr>) cl_workforces (\<lambda>xs w. w\<lparr>cl_workforces := xs\<rparr>),
      setAgentOwner = (\<lambda>a. sim_set_owner (ag_Meta a)),
      setToolServerOwner = (\<lambda>s. sim_set_owner (tsv_Meta s)),
      agentOwnerRequests = sim_owner_requests,
      toolServerOwnerRequests = sim_owner_requests,
      setStatusCondition = sim_set_condition,
      recorder = Some (\<lambda>e w. w\<lparr>cl_events := cl_events w @ [e]\<rparr>),
      retryAgent = (\<lambda>f. f),
      retryToolServer = (\<lambda>f. f)\<rparr>"

section \<open>It satisfies the laws\<close>

lemma sim_kube_sel [simp]:
  "operatorNamespace (sim_kube ns) = ns"
  "isNotFound (sim_kube ns) e \<longleftrightarrow> e = not_found"
  "isNoMatchErr (sim_kube ns) e \<longleftrightarrow> False"
  "getAgent (sim_kube ns) w q = sim_get ag_Meta (cl_agents w) q"
  "getToolRoute (sim_kube ns) w q = sim_get tr_Meta (cl_routes w) q"
  "getToolServer (sim_kube ns) w q = sim_get tsv_Meta (cl_servers w) q"
  "getAiGateway (sim_kube ns) w q = sim_get gw_Meta (cl_gateways w) q"
  "getWorkforce (sim_kube ns) w q = sim_get wf_Meta (cl_workforces w) q"
  "getService (sim_kube ns) w q = sim_get sv_Meta (cl_services w) q"
  "getDeployment (sim_kube ns) w q = sim_get dp_Meta (cl_deployments w) q"
  "listAgents (sim_kube ns) w = Inr (cl_agents w)"
  "listWorkforces (sim_kube ns) w = Inr (cl_workforces w)"
  "listAiGateways (sim_kube ns) w n = Inr (filter (\<lambda>x. om_Namespace (gw_Meta x) = n) (cl_gateways w))"
  "listRuntimeConfigurations (sim_kube ns) w n =
     Inr (filter (\<lambda>x. om_Namespace (rc_Meta x) = n) (cl_configs w))"
  "setAgentOwner (sim_kube ns) a = sim_set_owner (ag_Meta a)"
  "setToolServerOwner (sim_kube ns) s = sim_set_owner (tsv_Meta s)"
  "agentOwnerRequests (sim_kube ns) = sim_owner_requests"
  "toolServerOwnerRequests (sim_kube ns) = sim_owner_requests"
  "setStatusCondition (sim_kube ns) = sim_set_condition"
  "retryAgent (sim_kube ns) = (\<lambda>f. f)"
  "retryToolServer (sim_kube ns) = (\<lambda>f. f)"
  by (simp_all add: sim_kube_def)

lemma sim_condition_ok: "set_condition_ok sim_set_condition"
proof -
  have other: "find (\<lambda>x. c_Type x = t) (filter (\<lambda>x. c_Type x \<noteq> u) cs) = find (\<lambda>x. c_Type x = t) cs"
    if "t \<noteq> u" for t u and cs :: "Condition list"
    using that by (induction cs) auto
  show ?thesis
    unfolding set_condition_ok_def sim_set_condition_def find_condition_def
    using other by auto
qed

lemma sim_owner_ok: "set_owner_ok (sim_set_owner m)"
  by (simp add: set_owner_ok_def sim_set_owner_def)

lemma sim_owner_watch_ok: "owner_watch_ok (sim_set_owner m) sim_owner_requests (request_of m)"
  by (auto simp: owner_watch_ok_def owned_by_def sim_set_owner_def sim_owner_requests_def request_of_def)

lemma sim_retry_ok: "retry_ok (\<lambda>f. f)"
  unfolding retry_ok_def by (intro allI conjI impI exI[of _ 0]) simp_all

lemma sim_get_put: "sim_get meta (sim_put meta x objs) (request_of (meta x)) = Inr x"
  by (simp add: sim_get_def sim_put_def)

lemma sim_get_key: "sim_get meta objs key = Inr x \<Longrightarrow> request_of (meta x) = key"
  by (auto simp: sim_get_def split: option.splits dest: find_SomeD)

definition stored_agent :: "cluster \<Rightarrow> NamespacedName \<Rightarrow> Agent option" where
  "stored_agent w key = find (\<lambda>x. request_of (ag_Meta x) = key) (cl_agents w)"

definition stored_tool_server :: "cluster \<Rightarrow> NamespacedName \<Rightarrow> ToolServer option" where
  "stored_tool_server w key = find (\<lambda>x. request_of (tsv_Meta x) = key) (cl_servers w)"

lemma sim_status_ok:
  assumes "\<And>w xs. objs (put xs w) = xs" and "\<And>new old. meta (copy_status new old) = meta old"
    and "\<And>new old. status (copy_status new old) = status new"
  shows "status_update_ok (sim_update_status meta copy_status objs put)
     (\<lambda>w key. find (\<lambda>x. request_of (meta x) = key) (objs w)) meta status"
  unfolding status_update_ok_def
proof (intro allI impI)
  fix obj w err obj' w'
  assume run: "sim_update_status meta copy_status objs put obj w = (err, obj', w')"
  show "request_of (meta obj') = request_of (meta obj) \<and> (err \<noteq> None \<longrightarrow> obj' = obj)
     \<and> (err = None \<longrightarrow> status obj' = status obj
        \<and> (\<exists>x. find (\<lambda>x. request_of (meta x) = request_of (meta obj)) (objs w') = Some x
               \<and> status x = status obj))"
  proof (cases "sim_get meta (objs w) (request_of (meta obj))")
    case (Inl e)
    then show ?thesis using run by (auto simp: sim_update_status_def)
  next
    case (Inr old)
    then show ?thesis
      using run sim_get_key[OF Inr] assms by (auto simp: sim_update_status_def sim_put_def Let_def)
  qed
qed

lemma sim_agent_status_ok:
  "status_update_ok (updateAgentStatus (sim_kube ns)) stored_agent ag_Meta ag_Status"
proof -
  have st: "stored_agent = (\<lambda>w key. find (\<lambda>x. request_of (ag_Meta x) = key) (cl_agents w))"
    by (intro ext) (simp add: stored_agent_def)
  have upd: "updateAgentStatus (sim_kube ns) = sim_update_status ag_Meta
      (\<lambda>new old. old\<lparr>ag_Status := ag_Status new\<rparr>) cl_agents (\<lambda>xs w. w\<lparr>cl_agents := xs\<rparr>)"
    by (simp add: sim_kube_def)
  show ?thesis unfolding st upd by (rule sim_status_ok) simp_all
qed

lemma sim_tool_server_status_ok:
  "status_update_ok (updateToolServerStatus (sim_kube ns)) stored_tool_server tsv_Meta tsv_Status"
proof -
  have st: "stored_tool_server = (\<lambda>w key. find (\<lambda>x. request_of (tsv_Meta x) = key) (cl_servers w))"
    by (intro ext) (simp add: stored_tool_server_def)
  have upd: "updateToolServerStatus (sim_kube ns) = sim_update_status tsv_Meta
      (\<lambda>new old. old\<lparr>tsv_Status := tsv_Status new\<rparr>) cl_servers (\<lambda>xs w. w\<lparr>cl_servers := xs\<rparr>)"
    by (simp add: sim_kube_def)
  show ?thesis unfolding st upd by (rule sim_status_ok) simp_all
qed

lemma sim_readable:
  "readable (getAgent (sim_kube ns)) = stored_agent"
  "readable (getToolServer (sim_kube ns)) = stored_tool_server"
  by (intro ext; simp add: readable_def stored_agent_def stored_tool_server_def sim_get_def split: option.splits)+

lemma sim_create_or_update_law:
  "create_or_update_ok (\<lambda>e. e = not_found) (\<lambda>w. sim_get meta (objs w) (request_of (meta obj)))
     (sim_create_or_update meta objs put created) obj"
proof -
  have "sim_get meta (objs w) key = Inl e \<Longrightarrow> e = not_found" for w key e
    by (auto simp: sim_get_def split: option.splits)
  then show ?thesis
    unfolding create_or_update_ok_def sim_create_or_update_def
    by (auto split: sum.splits)
qed

lemma sim_deployment_law:
  "create_or_update_ok (isNotFound (sim_kube ns))
     (\<lambda>w. getDeployment (sim_kube ns) w (nsname (om_Namespace m) (om_Name m)))
     (createOrUpdateDeployment (sim_kube ns)) (new_deployment (om_Name m) (om_Namespace m))"
  using sim_create_or_update_law[of dp_Meta cl_deployments "new_deployment (om_Name m) (om_Namespace m)"]
  by (simp add: sim_kube_def request_of_def new_deployment_def)

lemma sim_service_law:
  "create_or_update_ok (isNotFound (sim_kube ns))
     (\<lambda>w. getService (sim_kube ns) w (nsname (om_Namespace m) (om_Name m)))
     (createOrUpdateService (sim_kube ns)) (new_service (om_Name m) (om_Namespace m))"
  using sim_create_or_update_law[of sv_Meta cl_services "new_service (om_Name m) (om_Namespace m)"]
  by (simp add: sim_kube_def request_of_def new_service_def)

text \<open>A closure that never fails is run, and only the list of its objects changes.\<close>

lemma sim_create_or_update_run:
  assumes "\<And>d. \<not> isl (f d)"
  shows "\<exists>op w'. sim_create_or_update meta objs put created obj f w = (Inr op, w')
     \<and> (w' = w \<or> (\<exists>ds. w' = put ds w))"
proof -
  have f: "\<exists>new. f d = Inr new" for d using assms[of d] by (cases "f d") simp_all
  show ?thesis
  proof (cases "sim_get meta (objs w) (request_of (meta obj))")
    case (Inl e)
    then show ?thesis using f[of obj] by (auto simp: sim_create_or_update_def)
  next
    case (Inr old)
    then show ?thesis using f[of old] by (auto simp: sim_create_or_update_def)
  qed
qed

lemma sim_deployment_run:
  assumes "\<And>d. \<not> isl (f d)"
  shows "\<exists>op w'. createOrUpdateDeployment (sim_kube ns) obj f w = (Inr op, w') \<and> cl_agents w' = cl_agents w"
  using sim_create_or_update_run[of f, OF assms, where meta = dp_Meta and objs = cl_deployments
      and put = "\<lambda>ds w. w\<lparr>cl_deployments := ds\<rparr>" and obj = obj and w = w]
  by (fastforce simp: sim_kube_def)

lemma sim_service_run:
  assumes "\<And>d. \<not> isl (f d)"
  shows "\<exists>op w'. createOrUpdateService (sim_kube ns) obj f w = (Inr op, w') \<and> cl_agents w' = cl_agents w"
  using sim_create_or_update_run[of f, OF assms, where meta = sv_Meta and objs = cl_services
      and put = "\<lambda>ds w. w\<lparr>cl_services := ds\<rparr>" and obj = obj and w = w]
  by (fastforce simp: sim_kube_def)

lemma sim_emitEvent_agents [simp]: "cl_agents (emitEvent (sim_kube ns) m r a n w) = cl_agents w"
  by (simp add: emitEvent_def sim_kube_def)

lemma sim_ensureDeployment:
  assumes "\<And>d. \<not> isl (deployment_closure rt (sim_kube ns) agent subs tools gw cfg d)"
  shows "\<exists>w'. ensureDeployment rt (sim_kube ns) subs tools gw cfg (agent, w) = (None, (agent, w'))
     \<and> cl_agents w' = cl_agents w"
proof -
  obtain op w1 where run: "createOrUpdateDeployment (sim_kube ns)
      (new_deployment (om_Name (ag_Meta agent)) (om_Namespace (ag_Meta agent)))
      (deployment_closure rt (sim_kube ns) agent subs tools gw cfg) w = (Inr op, w1)"
    and w1: "cl_agents w1 = cl_agents w"
    using sim_deployment_run[of "deployment_closure rt (sim_kube ns) agent subs tools gw cfg", OF assms]
    by blast
  show ?thesis
    using w1 by (auto simp: ensureDeployment_def Let_def run)
qed

lemma sim_ensureService:
  assumes "as_Protocols (ag_Spec agent) \<noteq> []"
  shows "\<exists>w'. ensureService (sim_kube ns) (agent, w) = (None, (agent, w')) \<and> cl_agents w' = cl_agents w"
proof -
  have "\<not> isl (service_closure (sim_kube ns) agent d)" for d
    by (simp add: service_closure_eq sim_set_owner_def)
  then obtain op w1 where run: "createOrUpdateService (sim_kube ns)
      (new_service (om_Name (ag_Meta agent)) (om_Namespace (ag_Meta agent)))
      (service_closure (sim_kube ns) agent) w = (Inr op, w1)"
    and w1: "cl_agents w1 = cl_agents w"
    using sim_service_run by blast
  show ?thesis
    using w1 assms by (auto simp: ensureService_def Let_def run)
qed

lemma sim_closure_total:
  assumes "rt_ok rt" and "typed_subs subs"
  shows "\<not> isl (deployment_closure rt (sim_kube ns) agent subs tools gw cfg d)"
proof -
  have "\<not> isl (buildTemplateEnvironmentVars rt agent subs tools (map_option buildAiGatewayServiceUrl gw))"
    using template_env_ok_iff[OF assms(1)] assms(2) by blast
  then show ?thesis
    by (auto simp: deployment_closure_eq sim_set_owner_def split: sum.splits)
qed

text \<open>An agent whose dependencies resolve is reconciled without an error.\<close>

lemma sim_reconcile:
  assumes "rt_ok rt" and "getAgent (sim_kube ns) w req = Inr agent"
    and "resolution (uni rt) (sim_kube ns) w agent = Inr (cfg, subs, tools, gw)" and "typed_subs subs"
    and "as_Protocols (ag_Spec agent) \<noteq> []"
  shows "\<exists>w'. Reconcile rt (sim_kube ns) req w = (None, w')"
proof -
  obtain w1 where 1: "ensureDeployment rt (sim_kube ns) subs tools gw cfg (agent, w) = (None, (agent, w1))"
    "cl_agents w1 = cl_agents w"
    using sim_ensureDeployment[OF sim_closure_total[OF assms(1,4)]] by blast
  obtain w2 where 2: "ensureService (sim_kube ns) (agent, w1) = (None, (agent, w2))"
    "cl_agents w2 = cl_agents w1"
    using sim_ensureService[OF assms(5)] by blast
  have run: "reconcileAgent rt (sim_kube ns) (agent, w) = (Inr gw, (agent, w2))"
    by (simp add: reconcileAgent_eq assms(3) 1(1) 2(1))
  have key: "request_of (ag_Meta agent) = req"
    using assms(2) by (auto dest: sim_get_key)
  have "fst (write_agent_status (sim_kube ns) f (agent, w2)) = None" for f
    using assms(2) 1(2) 2(2) key
    by (simp add: write_agent_status_def sim_update_status_def Let_def sim_kube_def)
  then have "fst (updateAgentStatusReady (sim_kube ns) gw (agent, w2)) = None"
    unfolding updateAgentStatusReady_eq .
  then obtain a3 w3 where "updateAgentStatusReady (sim_kube ns) gw (agent, w2) = (None, (a3, w3))"
    by (metis prod.collapse)
  then show ?thesis
    using assms(2) run by (simp add: Reconcile_def del: sim_kube_sel(4)) 
qed

section \<open>What the API server holds\<close>

definition sim_view :: "cluster view" where
  "sim_view =
     \<lparr>v_deployment = (\<lambda>w key. find (\<lambda>x. request_of (dp_Meta x) = key) (cl_deployments w)),
      v_service = (\<lambda>w key. find (\<lambda>x. request_of (sv_Meta x) = key) (cl_services w))\<rparr>"

lemma sim_create_or_update_frame:
  assumes "\<And>ds w. g (put ds w) = g w"
  shows "g (snd (sim_create_or_update meta objs put created obj f w)) = g w"
  by (auto simp: sim_create_or_update_def assms split: sum.splits)

lemma sim_update_status_frame:
  assumes "\<And>xs w. g (put xs w) = g w"
  shows "g (snd (snd (sim_update_status meta copy objs put obj w))) = g w"
  by (auto simp: sim_update_status_def Let_def assms split: sum.splits)

lemma sim_undisturbed: "undisturbed (sim_kube ns) sim_view"
proof -
  have "cl_deployments (snd (createOrUpdateService (sim_kube ns) obj f w)) = cl_deployments w" for obj f w
    unfolding sim_kube_def by (simp add: sim_create_or_update_frame)
  moreover have "cl_deployments (snd (snd (updateAgentStatus (sim_kube ns) a w))) = cl_deployments w"
    "cl_services (snd (snd (updateAgentStatus (sim_kube ns) a w))) = cl_services w" for a w
    unfolding sim_kube_def by (simp_all add: sim_update_status_frame)
  ultimately show ?thesis
    by (auto simp: undisturbed_def sim_view_def sim_kube_def)
qed

lemma sim_written:
  assumes "\<And>xs w. objs (put xs w) = xs" and "\<And>x. request_of (meta (created x)) = request_of (meta x)"
    and "\<And>x. stores x (created x)"
  shows "written_ok stores meta (\<lambda>w key. find (\<lambda>x. request_of (meta x) = key) (objs w))
     (sim_create_or_update meta objs put created)"
  unfolding written_ok_def
proof (intro allI impI)
  fix obj f w op w'
  assume run: "sim_create_or_update meta objs put created obj f w = (Inr op, w')"
    and keys: "\<forall>old new. f old = Inr new \<longrightarrow> request_of (meta new) = request_of (meta old)"
  show "\<exists>old new x. f old = Inr new
     \<and> find (\<lambda>x. request_of (meta x) = request_of (meta obj)) (objs w') = Some x \<and> (x = new \<or> stores new x)"
  proof (cases "sim_get meta (objs w) (request_of (meta obj))")
    case (Inl e)
    then obtain new where new: "f obj = Inr new" and w': "w' = put (sim_put meta (created new) (objs w)) w"
      using run by (auto simp: sim_create_or_update_def split: sum.splits)
    have "request_of (meta (created new)) = request_of (meta obj)" using assms(2) keys new by metis
    then have "find (\<lambda>x. request_of (meta x) = request_of (meta obj)) (objs w') = Some (created new)"
      by (simp add: w' assms(1) sim_put_def)
    then show ?thesis using new assms(3) by blast
  next
    case (Inr old)
    then obtain new where new: "f old = Inr new"
      using run by (auto simp: sim_create_or_update_def split: sum.splits)
    have key: "request_of (meta old) = request_of (meta obj)" using Inr by (auto dest: sim_get_key)
    have "find (\<lambda>x. request_of (meta x) = request_of (meta obj)) (objs w') = Some new"
    proof (cases "new = old")
      case True
      then have "w' = w" using run Inr new by (auto simp: sim_create_or_update_def)
      then show ?thesis using Inr True by (auto simp: sim_get_def split: option.splits)
    next
      case False
      then have "w' = put (sim_put meta new (objs w)) w"
        using run Inr new by (auto simp: sim_create_or_update_def)
      then show ?thesis using keys new key by (simp add: assms(1) sim_put_def)
    qed
    then show ?thesis using new by blast
  qed
qed

lemma sim_deployment_written:
  "written_ok stores_deployment dp_Meta (v_deployment sim_view) (createOrUpdateDeployment (sim_kube ns))"
proof -
  have stores: "stores_deployment x (x\<lparr>dp_Meta := (dp_Meta x)\<lparr>om_Created := True\<rparr>\<rparr>)" for x
    unfolding stores_deployment_def
    by (intro exI[of _ "om_Generation (dp_Meta x)"] exI[of _ "om_ResourceVersion (dp_Meta x)"])
       (simp add: server_meta_def)
  show ?thesis
    using sim_written[of cl_deployments "\<lambda>ds w. w\<lparr>cl_deployments := ds\<rparr>" dp_Meta
        "\<lambda>d. d\<lparr>dp_Meta := (dp_Meta d)\<lparr>om_Created := True\<rparr>\<rparr>" stores_deployment] stores
    by (simp add: sim_view_def sim_kube_def request_of_def)
qed

lemma sim_service_written:
  "written_ok stores_service sv_Meta (v_service sim_view) (createOrUpdateService (sim_kube ns))"
proof -
  have stores: "stores_service x (x\<lparr>sv_Meta := (sv_Meta x)\<lparr>om_Created := True\<rparr>\<rparr>)" for x
    unfolding stores_service_def
    by (intro exI[of _ "om_Generation (sv_Meta x)"] exI[of _ "om_ResourceVersion (sv_Meta x)"])
       (simp add: server_meta_def)
  show ?thesis
    using sim_written[of cl_services "\<lambda>ds w. w\<lparr>cl_services := ds\<rparr>" sv_Meta
        "\<lambda>d. d\<lparr>sv_Meta := (sv_Meta d)\<lparr>om_Created := True\<rparr>\<rparr>" stores_service] stores
    by (simp add: sim_view_def sim_kube_def request_of_def)
qed

end
