(* ===== verification/Agent_Properties.thy ===== *)
theory Agent_Properties
  imports Cluster
begin

text \<open>
  The properties of the agent controller, each with a witness on the cluster of \<open>Cluster\<close> where
  it has hypotheses.
\<close>

section \<open>A concrete agent and its cluster\<close>

definition demo_agent :: Agent where
  "demo_agent = new_agent ''a'' ''n'' (empty_agent_spec\<lparr>as_Protocols :=
     [\<lparr>ap_Name = ''a2a-8000'', ap_Type = A2AProtocol, ap_Port = 8000, ap_Path = []\<rparr>]\<rparr>)"

text \<open>It names a sub-agent that does not exist.\<close>

definition broken_agent :: Agent where
  "broken_agent = new_agent ''b'' ''n'' (empty_agent_spec\<lparr>as_SubAgents :=
     [\<lparr>sa_Name = ''s'', sa_AgentRef = Some (local_ref ''missing''), sa_Url = [], sa_InteractionType = ''tool_call''\<rparr>]\<rparr>)"

definition demo_cluster :: cluster where
  "demo_cluster = empty_cluster\<lparr>cl_agents := [demo_agent, broken_agent]\<rparr>"

abbreviation demo_kube :: "cluster kube" where
  "demo_kube \<equiv> sim_kube ''ops''"

lemmas demo_defs = demo_agent_def broken_agent_def demo_cluster_def empty_cluster_def new_agent_def
  empty_agent_spec_def local_ref_def

lemma demo_get [simp]:
  "getAgent demo_kube demo_cluster (nsname ''n'' ''a'') = Inr demo_agent"
  "getAgent demo_kube demo_cluster (nsname ''n'' ''b'') = Inr broken_agent"
  "getAgent demo_kube demo_cluster (nsname ''n'' ''missing'') = Inl not_found"
  by (simp_all add: demo_defs sim_get_def request_of_def)

lemma demo_meta [simp]:
  "request_of (ag_Meta demo_agent) = nsname ''n'' ''a''"
  "request_of (ag_Meta broken_agent) = nsname ''n'' ''b''"
  "om_Name (ag_Meta demo_agent) = ''a''" "om_Namespace (ag_Meta demo_agent) = ''n''"
  "om_Namespace (ag_Meta broken_agent) = ''n''"
  by (simp_all add: demo_defs request_of_def)

lemma demo_spec [simp]:
  "as_SubAgents (ag_Spec demo_agent) = []" "as_Tools (ag_Spec demo_agent) = []"
  "as_AiGatewayRef (ag_Spec demo_agent) = None"
  "listAiGateways demo_kube demo_cluster ns = Inr []"
  by (simp_all add: demo_defs)

lemma demo_config: "getAgentRuntimeConfiguration demo_kube demo_cluster = Inr None"
  by (simp add: getAgentRuntimeConfiguration_def demo_defs)

lemma demo_resolution: "resolution u demo_kube demo_cluster demo_agent = Inr (None, fmempty, fmempty, None)"
  by (simp add: resolution_def demo_config resolveAllSubAgents_def resolveAllTools_def
      resolveAiGateway_def resolveDefaultAiGateway_def del: sim_kube_sel)

lemma broken_unresolved: "isl (resolution u demo_kube demo_cluster broken_agent)"
proof -
  let ?s = "\<lparr>sa_Name = ''s'', sa_AgentRef = Some (local_ref ''missing''), sa_Url = [],
    sa_InteractionType = ''tool_call''\<rparr>"
  have "isl (resolveSubAgentUrl demo_kube demo_cluster ?s ''n'')"
    by (simp add: resolveSubAgentUrl_def getNamespaceWithDefault_def local_ref_def Let_def
        sim_get_def demo_defs request_of_def)
  moreover have "?s \<in> set (as_SubAgents (ag_Spec broken_agent))"
    by (simp add: demo_defs)
  ultimately show ?thesis using resolution_Inr_iff[of u demo_kube demo_cluster broken_agent] by auto
qed

section \<open>Reconciliation and status\<close>

text \<open>
  C1: Every failure of the reconciliation is reported. If the agent exists and reconciling it
  fails with an error, \<open>Reconcile\<close> returns that error; and if the status update that follows
  succeeds, the stored agent is not ready, for the reason \<open>ReconciliationFailed\<close> and with the
  error's message, and has neither URL nor gateway.
\<close>

theorem reconcile_failure_reported:
  assumes "retry_ok (retryAgent k)"
    and "status_update_ok (updateAgentStatus k) stored ag_Meta ag_Status"
    and "set_condition_ok (setStatusCondition k)"
    and "getAgent k w req = Inr agent"
    and "reconcileAgent rt k (agent, w) = (Inl err, s)"
  shows "fst (Reconcile rt k req w) = Some err
    \<and> (fst (retryAgent k (updateAgentStatusNotReady k ''ReconciliationFailed'' (Error err)) s) = None \<longrightarrow>
        (\<exists>a c. stored (snd (Reconcile rt k req w)) (request_of (ag_Meta agent)) = Some a
           \<and> ast_Url (ag_Status a) = [] \<and> ast_AiGatewayRef (ag_Status a) = None
           \<and> findReadyCondition (ast_Conditions (ag_Status a)) = Some c
           \<and> c_Status c = ConditionFalse \<and> c_Reason c = ''ReconciliationFailed'' \<and> c_Message c = Error err))"
proof (intro conjI impI)
  let ?st = "not_ready_status k ''ReconciliationFailed'' (Error err)"
  let ?upd = "updateAgentStatusNotReady k ''ReconciliationFailed'' (Error err)"
  show "fst (Reconcile rt k req w) = Some err" by (rule Reconcile_error[OF assms(4,5)])
  assume "fst (retryAgent k ?upd s) = None"
  then obtain s' where s': "retryAgent k ?upd s = (None, s')" by (cases "retryAgent k ?upd s") auto
  have upd: "?upd = write_agent_status k ?st" by (intro ext) (rule updateAgentStatusNotReady_eq)
  have agent: "fst s = agent" using reconcileAgent_agent[OF assms(1), of rt "(agent, w)"] assms(5) by simp
  obtain a x where "stored (snd s') (request_of (ag_Meta agent)) = Some x" "ag_Status x = ?st a"
    using retried_status_write[OF assms(1,2), of ?st s s'] s' agent unfolding upd by blast
  moreover have "snd (Reconcile rt k req w) = snd s'"
    using Reconcile_error(2)[OF assms(4,5)] s' by simp
  ultimately show "\<exists>a c. stored (snd (Reconcile rt k req w)) (request_of (ag_Meta agent)) = Some a
      \<and> ast_Url (ag_Status a) = [] \<and> ast_AiGatewayRef (ag_Status a) = None
      \<and> findReadyCondition (ast_Conditions (ag_Status a)) = Some c
      \<and> c_Status c = ConditionFalse \<and> c_Reason c = ''ReconciliationFailed'' \<and> c_Message c = Error err"
    using not_ready_condition[OF assms(3), of "''ReconciliationFailed''" "Error err" a]
    by (auto simp: not_ready_status_def)
qed

theorem reconcile_failure_reported_witness:
  "\<exists>err. fst (Reconcile rt_std demo_kube (nsname ''n'' ''b'') demo_cluster) = Some err"
proof -
  obtain err where "resolution (uni rt_std) demo_kube demo_cluster broken_agent = Inl err"
    using broken_unresolved by (auto simp: isl_def)
  then have "reconcileAgent rt_std demo_kube (broken_agent, demo_cluster) = (Inl err, (broken_agent, demo_cluster))"
    by (intro reconcileAgent_fail_fast) simp
  from reconcile_failure_reported[OF _ sim_agent_status_ok _ demo_get(2) this]
  show ?thesis by (simp add: sim_retry_ok sim_condition_ok)
qed

text \<open>The status stored by a reconciliation without an error is the ready one.\<close>

lemma Reconcile_status:
  assumes "retry_ok (retryAgent k)"
    and "status_update_ok (updateAgentStatus k) stored ag_Meta ag_Status"
    and "getAgent k w req = Inr agent"
    and "Reconcile rt k req w = (None, w')"
  shows "\<exists>gw b y. resolveAiGateway k w agent = Inr gw \<and> ag_Meta b = ag_Meta agent \<and> ag_Spec b = ag_Spec agent
    \<and> stored w' (request_of (ag_Meta agent)) = Some y \<and> ag_Status y = ready_status k gw b"
proof -
  obtain gw s a0 where run: "reconcileAgent rt k (agent, w) = (Inr gw, s)"
    and upd: "retryAgent k (updateAgentStatusReady k gw) s = (None, (a0, w'))"
    using Reconcile_success[OF assms(3,4)] by blast
  have ready: "updateAgentStatusReady k gw = write_agent_status k (ready_status k gw)"
    by (intro ext) (rule updateAgentStatusReady_eq)
  have agent: "fst s = agent" using reconcileAgent_agent[OF assms(1), of rt "(agent, w)"] run by simp
  have "resolveAiGateway k w agent = Inr gw"
    using run by (auto simp: reconcileAgent_eq resolution_def split: sum.splits option.splits prod.splits)
  then show ?thesis
    using retried_status_write[OF assms(1,2), of "ready_status k gw" s "(a0, w')"] upd agent
    unfolding ready by auto
qed



text \<open>
  C3: Reconciliation fails fast. If the configuration, a sub-agent, a tool or the gateway does
  not resolve, \<open>reconcileAgent\<close> returns an error and leaves the agent in memory and the
  cluster exactly as they were: no deployment, service or event is written.
\<close>

theorem unresolved_leaves_cluster:
  assumes "isl (getAgentRuntimeConfiguration k w)
    \<or> (\<exists>s\<in>set (as_SubAgents (ag_Spec agent)). isl (resolveSubAgentUrl k w s (om_Namespace (ag_Meta agent))))
    \<or> (\<exists>t\<in>set (as_Tools (ag_Spec agent)). isl (resolveToolUrl k w t (om_Namespace (ag_Meta agent))))
    \<or> isl (resolveAiGateway k w agent)"
  shows "\<exists>err. reconcileAgent rt k (agent, w) = (Inl err, (agent, w))"
proof -
  have "isl (resolution (uni rt) k w agent)"
    using assms resolution_Inr_iff[of "uni rt" k w agent] by blast
  then show ?thesis
    using reconcileAgent_fail_fast[of rt k "(agent, w)"] by (auto simp: isl_def)
qed

theorem unresolved_leaves_cluster_witness:
  "\<exists>err. reconcileAgent rt_std demo_kube (broken_agent, demo_cluster) = (Inl err, (broken_agent, demo_cluster))"
proof -
  let ?s = "\<lparr>sa_Name = ''s'', sa_AgentRef = Some (local_ref ''missing''), sa_Url = [],
    sa_InteractionType = ''tool_call''\<rparr>"
  have "isl (resolveSubAgentUrl demo_kube demo_cluster ?s (om_Namespace (ag_Meta broken_agent)))"
    by (simp add: resolveSubAgentUrl_def getNamespaceWithDefault_def local_ref_def Let_def
        sim_get_def demo_defs request_of_def)
  moreover have "?s \<in> set (as_SubAgents (ag_Spec broken_agent))" by (simp add: demo_defs)
  ultimately show ?thesis by (intro unresolved_leaves_cluster) blast
qed

text \<open>
  C4: No change is missed. If a change of one object alters what an agent's configuration,
  sub-agents, tools or gateway resolve to, the controller's watch on that object enqueues the
  agent, if the gateway's resource type was installed when the operator started. The only premise on the change is that it concerns
  queries that object can touch.
\<close>

theorem agent_watches_complete:
  assumes "isAiGatewayCRDInstalled restMapping" and "listed_agent k w' agent"
    and "\<And>q. q \<notin> agent_touches obj \<Longrightarrow> answer_agent_query k w q = answer_agent_query k w' q"
    and "resolution u k w agent \<noteq> resolution u k w' agent"
  shows "request_of (ag_Meta agent) \<in> set (agent_watch_requests k (isAiGatewayCRDInstalled restMapping) w' obj)"
  using assms(1) agent_watch.complete[OF assms(2-4)] by simp

text \<open>The missing sub-agent appears in the cluster, ready and with a URL.\<close>

definition late_agent :: Agent where
  "late_agent = new_agent ''missing'' ''n'' empty_agent_spec
     \<lparr>ag_Status := \<lparr>ast_Conditions = [], ast_Url = ''http://m'', ast_AiGatewayRef = None\<rparr>\<rparr>"

definition late_cluster :: cluster where
  "late_cluster = demo_cluster\<lparr>cl_agents := [demo_agent, broken_agent, late_agent]\<rparr>"

lemma late_resolution: "\<not> isl (resolution u demo_kube late_cluster broken_agent)"
  unfolding resolution_Inr_iff
  by (simp add: late_cluster_def late_agent_def demo_defs getAgentRuntimeConfiguration_def
      resolveAiGateway_def resolveDefaultAiGateway_def resolveSubAgentUrl_def
      getNamespaceWithDefault_def request_of_def sim_get_def Let_def new_meta_def)

theorem agent_watches_complete_witness:
  "nsname ''n'' ''b'' \<in> set (agent_watch_requests demo_kube (isAiGatewayCRDInstalled (\<lambda>_ _ _. None))
     late_cluster (ObjAgent late_agent))"
proof -
  have crd: "isAiGatewayCRDInstalled (\<lambda>_ _ _. None)" by (simp add: isAiGatewayCRDInstalled_def)
  let ?obj = "ObjAgent late_agent"
  have listed: "listed_agent demo_kube late_cluster broken_agent"
    by (simp add: listed_agent_def late_cluster_def)
  have key: "request_of (ag_Meta late_agent) = nsname ''n'' ''missing''"
    by (simp add: late_agent_def new_agent_def request_of_def)
  have same: "answer_agent_query demo_kube demo_cluster q = answer_agent_query demo_kube late_cluster q"
    if "q \<notin> agent_touches ?obj" for q
  proof (cases q)
    case (QAgent n)
    then have "n \<noteq> request_of (ag_Meta late_agent)" using that by simp
    then have "sim_get ag_Meta [demo_agent, broken_agent, late_agent] n = sim_get ag_Meta [demo_agent, broken_agent] n"
      by (auto simp: sim_get_def)
    then show ?thesis using QAgent by (simp add: late_cluster_def demo_cluster_def)
  next
    case (QTool t)
    then show ?thesis by (cases t) (simp_all add: late_cluster_def)
  next
    case (QGateway g)
    then show ?thesis by (cases g) (simp_all add: late_cluster_def)
  qed (simp add: late_cluster_def)
  have "resolution u demo_kube demo_cluster broken_agent \<noteq> resolution u demo_kube late_cluster broken_agent" for u
    using broken_unresolved[of u] late_resolution[of u] by metis
  from agent_watches_complete[where obj = ?obj, OF crd listed same this] show ?thesis by simp
qed



lemma Reconcile_deploys:
  assumes "rt_ok rt" and "retry_ok (retryAgent k)" and "undisturbed k v"
    and "set_owner_ok (setAgentOwner k agent)"
    and "written_ok stores_deployment dp_Meta (v_deployment v) (createOrUpdateDeployment k)"
    and "written_ok stores_service sv_Meta (v_service v) (createOrUpdateService k)"
    and "getAgent k w req = Inr agent" and "as_Protocols (ag_Spec agent) \<noteq> []"
    and "Reconcile rt k req w = (None, w')"
  shows "\<exists>cfg subs tools gw tmpl d s. resolution (uni rt) k w agent = Inr (cfg, subs, tools, gw)
    \<and> buildTemplateEnvironmentVars rt agent subs tools (map_option buildAiGatewayServiceUrl gw) = Inr tmpl
    \<and> v_deployment v w' (request_of (ag_Meta agent)) = Some d \<and> runs_agent agent cfg tmpl d
    \<and> v_service v w' (request_of (ag_Meta agent)) = Some s \<and> serves_agent agent s
    \<and> owned_by (setAgentOwner k agent) (dp_Meta d) \<and> owned_by (setAgentOwner k agent) (sv_Meta s)"
proof -
  obtain gw s a where run: "reconcileAgent rt k (agent, w) = (Inr gw, s)"
    and upd: "retryAgent k (updateAgentStatusReady k gw) s = (None, (a, w'))"
    using assms(7,9) by (rule Reconcile_success)
  have ready: "updateAgentStatusReady k gw = write_agent_status k (ready_status k gw)"
    by (intro ext) (rule updateAgentStatusReady_eq)
  have same: "v_deployment v w' = v_deployment v (snd s)" "v_service v w' = v_service v (snd s)"
    using retried_frame[OF assms(2), of "v_deployment v" "updateAgentStatusReady k gw" s]
      retried_frame[OF assms(2), of "v_service v" "updateAgentStatusReady k gw" s]
      status_frames[OF assms(3)] upd by (simp_all add: ready)
  obtain cfg subs tools old new x old' new' y where
    res: "resolution (uni rt) k w agent = Inr (cfg, subs, tools, gw)"
    and dep: "deployment_closure rt k agent subs tools gw cfg old = Inr new"
    and x: "v_deployment v w' (request_of (ag_Meta agent)) = Some x" "x = new \<or> stores_deployment new x"
    and svc: "service_closure k agent old' = Inr new'"
    and y: "v_service v w' (request_of (ag_Meta agent)) = Some y" "y = new' \<or> stores_service new' y"
    using reconcileAgent_deploys[OF assms(2,3,4,8,5,6) run] unfolding same by metis
  obtain tmpl where
    "buildTemplateEnvironmentVars rt agent subs tools (map_option buildAiGatewayServiceUrl gw) = Inr tmpl"
    and runs: "runs_agent agent cfg tmpl new"
    using closure_runs_agent[OF assms(1,4) dep] by blast
  moreover have "runs_agent agent cfg tmpl x" using runs x(2) runs_agent_stored by blast
  moreover have "serves_agent agent y"
    using closure_serves_agent[OF assms(4) svc] y(2) serves_agent_stored by blast
  moreover have "owned_by (setAgentOwner k agent) (dp_Meta x)" "owned_by (setAgentOwner k agent) (sv_Meta y)"
    using closures_owned(1)[OF dep] closures_owned(2)[OF svc] x(2) y(2) stored_owned by blast+
  ultimately show ?thesis using res x(1) y(1) by blast
qed

text \<open>
  C6: A reconciliation without an error does what the agent is for. Under the laws of the API
  server, what it holds afterwards is a deployment that runs the agent (its selector, labels,
  replicas, image, ports, environment, mounts, probe and resources, for the configuration and
  dependencies that were resolved) and a service that exposes the agent's protocols. Whatever is
  done to either of them later, short of removing the owner reference, its event enqueues the
  agent again.
\<close>

theorem reconcile_deploys:
  assumes "rt_ok rt" and "retry_ok (retryAgent k)" and "undisturbed k v"
    and "set_owner_ok (setAgentOwner k agent)"
    and "owner_watch_ok (setAgentOwner k agent) (agentOwnerRequests k) (request_of (ag_Meta agent))"
    and "written_ok stores_deployment dp_Meta (v_deployment v) (createOrUpdateDeployment k)"
    and "written_ok stores_service sv_Meta (v_service v) (createOrUpdateService k)"
    and "getAgent k w req = Inr agent" and "as_Protocols (ag_Spec agent) \<noteq> []"
    and "Reconcile rt k req w = (None, w')"
  shows "\<exists>cfg subs tools gw tmpl d s. resolution (uni rt) k w agent = Inr (cfg, subs, tools, gw)
    \<and> buildTemplateEnvironmentVars rt agent subs tools (map_option buildAiGatewayServiceUrl gw) = Inr tmpl
    \<and> v_deployment v w' (request_of (ag_Meta agent)) = Some d \<and> runs_agent agent cfg tmpl d
    \<and> v_service v w' (request_of (ag_Meta agent)) = Some s \<and> serves_agent agent s
    \<and> (\<forall>d' crd w''. request_of (dp_Meta d') = request_of (dp_Meta d)
         \<and> om_OwnerReferences (dp_Meta d') = om_OwnerReferences (dp_Meta d) \<longrightarrow>
         request_of (ag_Meta agent) \<in> set (agent_watch_requests k crd w'' (ObjDeployment d')))
    \<and> (\<forall>s' crd w''. request_of (sv_Meta s') = request_of (sv_Meta s)
         \<and> om_OwnerReferences (sv_Meta s') = om_OwnerReferences (sv_Meta s) \<longrightarrow>
         request_of (ag_Meta agent) \<in> set (agent_watch_requests k crd w'' (ObjService s')))"
  using Reconcile_deploys[OF assms(1-4,6-10)] owner_watched[OF assms(5)]
  unfolding agent_watch_requests_def client_object.case by metis

theorem reconcile_deploys_witness:
  "\<exists>w' d s tmpl. Reconcile rt_std demo_kube (nsname ''n'' ''a'') demo_cluster = (None, w')
     \<and> v_deployment sim_view w' (nsname ''n'' ''a'') = Some d \<and> runs_agent demo_agent None tmpl d
     \<and> v_service sim_view w' (nsname ''n'' ''a'') = Some s \<and> serves_agent demo_agent s
     \<and> nsname ''n'' ''a'' \<in> set (agent_watch_requests demo_kube True w' (ObjService s))"
proof -
  have prot: "as_Protocols (ag_Spec demo_agent) \<noteq> []" by (simp add: demo_agent_def new_agent_def)
  have "\<exists>w'. Reconcile rt_std demo_kube (nsname ''n'' ''a'') demo_cluster = (None, w')"
  proof (rule sim_reconcile[OF rt_std_ok demo_get(1)])
    show "resolution (uni rt_std) demo_kube demo_cluster demo_agent = Inr (None, fmempty, fmempty, None)"
      by (rule demo_resolution)
  qed (simp_all add: typed_subs_def prot)
  then obtain w' where w': "Reconcile rt_std demo_kube (nsname ''n'' ''a'') demo_cluster = (None, w')" ..
  have "retry_ok (retryAgent demo_kube)" "set_owner_ok (setAgentOwner demo_kube demo_agent)"
    "owner_watch_ok (setAgentOwner demo_kube demo_agent) (agentOwnerRequests demo_kube) (request_of (ag_Meta demo_agent))"
    using sim_owner_watch_ok[of "ag_Meta demo_agent"] by (simp_all add: sim_retry_ok sim_owner_ok)
  from reconcile_deploys[OF rt_std_ok this(1) sim_undisturbed this(2,3) sim_deployment_written
      sim_service_written demo_get(1) prot w']
  show ?thesis using w' by (auto simp: demo_resolution)
qed

end
