(* ===== verification/Json_Reader.thy ===== *)
theory Json_Reader
  imports Go_Json
begin

text \<open>
  A reader of compact JSON, as the container of an agent has one, and that it reads back what
  \<open>json_Marshal\<close> writes. A reader takes the text to a value and the text after it. Escapes of
  surrogates, which the writer does not produce, are refused. The fuel bounds the number of
  elements of a list or an object; the length of the text is enough.
\<close>

type_synonym 'a reader = "string \<Rightarrow> ('a \<times> string) option"

section \<open>Strings\<close>

definition unhex_digit :: "char \<Rightarrow> nat option" where
  "unhex_digit c =
     (let b = byte c in
      if 48 \<le> b \<and> b \<le> 57 then Some (b - 48)
      else if 97 \<le> b \<and> b \<le> 102 then Some (b - 87)
      else if 65 \<le> b \<and> b \<le> 70 then Some (b - 55)
      else None)"

fun unhex :: "nat \<Rightarrow> string \<Rightarrow> nat option" where
  "unhex n [] = Some n"
| "unhex n (c # cs) = (case unhex_digit c of None \<Rightarrow> None | Some d \<Rightarrow> unhex (16 * n + d) cs)"

text \<open>The UTF-8 bytes of a rune below \<open>0x10000\<close>.\<close>

definition utf8_bytes :: "nat \<Rightarrow> string" where
  "utf8_bytes r =
     (if r < 128 then [char_of r]
      else if r < 2048 then [char_of (192 + r div 64), char_of (128 + r mod 64)]
      else [char_of (224 + r div 4096), char_of (128 + r div 64 mod 64), char_of (128 + r mod 64)])"

definition escaped_char :: "char \<Rightarrow> char option" where
  "escaped_char c =
     map_of [(CHR 0x22, CHR 0x22), (CHR 0x5C, CHR 0x5C), (CHR ''/'', CHR ''/''), (CHR ''b'', char_of (8::nat)),
       (CHR ''f'', char_of (12::nat)), (CHR ''n'', char_of (10::nat)), (CHR ''r'', char_of (13::nat)),
       (CHR ''t'', char_of (9::nat))] c"

definition put :: "string \<Rightarrow> (string \<times> string) option \<Rightarrow> (string \<times> string) option" where
  "put x m = (case m of None \<Rightarrow> None | Some (s, rest) \<Rightarrow> Some (x @ s, rest))"

fun read_chars :: "string reader" where
  "read_chars [] = None"
| "read_chars (c # cs) =
     (if c = CHR 0x22 then Some ([], cs)
      else if c = CHR 0x5C then
        (case cs of
           [] \<Rightarrow> None
         | e # ds \<Rightarrow>
             if e = CHR ''u'' then
               (case unhex 0 (take 4 ds) of
                  None \<Rightarrow> None
                | Some r \<Rightarrow>
                    if length ds < 4 \<or> 55296 \<le> r \<and> r \<le> 57343 then None
                    else put (utf8_bytes r) (read_chars (drop 4 ds)))
             else
               (case escaped_char e of
                  None \<Rightarrow> None
                | Some x \<Rightarrow> put [x] (read_chars ds)))
      else if byte c < 32 then None
      else put [c] (read_chars cs))"

definition read_string :: "string reader" where
  "read_string s = (case s of c # cs \<Rightarrow> if c = CHR 0x22 then read_chars cs else None | [] \<Rightarrow> None)"

section \<open>Lists, objects and values\<close>

text \<open>The elements after the first, up to the closing character.\<close>

fun read_more :: "nat \<Rightarrow> 'a reader \<Rightarrow> char \<Rightarrow> 'a list reader" where
  "read_more 0 p close s = None"
| "read_more (Suc n) p close s =
     (case s of
        [] \<Rightarrow> None
      | c # cs \<Rightarrow>
          if c = close then Some ([], cs)
          else if c = CHR '','' then
            (case p cs of
               None \<Rightarrow> None
             | Some (x, ds) \<Rightarrow> map_option (\<lambda>(xs, rest). (x # xs, rest)) (read_more n p close ds))
          else None)"

definition read_items :: "nat \<Rightarrow> 'a reader \<Rightarrow> char \<Rightarrow> 'a list reader" where
  "read_items n p close s =
     (case s of
        [] \<Rightarrow> None
      | c # cs \<Rightarrow>
          if c = close then Some ([], cs)
          else
            (case p s of
               None \<Rightarrow> None
             | Some (x, ds) \<Rightarrow> map_option (\<lambda>(xs, rest). (x # xs, rest)) (read_more n p close ds)))"

definition read_member :: "'a reader \<Rightarrow> (string \<times> 'a) reader" where
  "read_member p s =
     (case read_string s of
        Some (k, c # cs) \<Rightarrow>
          if c = CHR '':'' then map_option (\<lambda>(x, rest). ((k, x), rest)) (p cs) else None
      | _ \<Rightarrow> None)"

text \<open>Of two members with the same name the later one counts.\<close>

definition read_object :: "nat \<Rightarrow> 'a reader \<Rightarrow> (string, 'a) fmap reader" where
  "read_object n p s =
     (case s of
        c # cs \<Rightarrow>
          if c = CHR ''{''
          then map_option (\<lambda>(kvs, rest). (fmap_of_list (rev kvs), rest)) (read_items n (read_member p) (CHR ''}'') cs)
          else None
      | [] \<Rightarrow> None)"

definition read_value :: "nat \<Rightarrow> jval reader" where
  "read_value n s =
     (case s of
        c # cs \<Rightarrow>
          if c = CHR ''['' then map_option (\<lambda>(ss, rest). (JStrings ss, rest)) (read_items n read_string (CHR '']'') cs)
          else map_option (\<lambda>(x, rest). (JString x, rest)) (read_string s)
      | [] \<Rightarrow> None)"

definition json_Unmarshal :: "string \<Rightarrow> json_map option" where
  "json_Unmarshal s =
     (let n = length s in
      case read_object n (read_object n (read_value n)) s of Some (m, []) \<Rightarrow> Some m | _ \<Rightarrow> None)"

section \<open>Strings are read back\<close>

text \<open>Kubernetes strings are valid UTF-8: no byte of theirs is read as the replacement rune.\<close>

definition valid_utf8 :: "string \<Rightarrow> bool" where
  "valid_utf8 s \<longleftrightarrow> list_all (\<lambda>(r, bs). \<not> (r = rune_error \<and> length bs = 1)) (runes s)"

lemma valid_utf8_ascii: "is_ascii s \<Longrightarrow> valid_utf8 s"
  by (auto simp: valid_utf8_def runes_ascii is_ascii_def list_all_iff rune_error_def)

text \<open>The bytes of a rune of several bytes are none of ASCII, and the line separators have one encoding.\<close>

definition plain_bytes :: "nat \<Rightarrow> nat list \<Rightarrow> bool" where
  "plain_bytes r bs \<longleftrightarrow> list_all (\<lambda>b. 128 \<le> b) bs \<and> (r = 8232 \<or> r = 8233 \<longrightarrow> bs = [226, 128, r - 8064])"

lemma decode2_plain:
  "decode2 b0 b1 = (r, w) \<Longrightarrow> r \<noteq> rune_error \<or> w \<noteq> 1 \<Longrightarrow> plain_bytes r [b0, b1] \<and> w = 2"
  by (auto simp: decode2_def cont_byte_def plain_bytes_def split: if_splits)

lemma decode3_plain:
  "decode3 b0 b1 b2 = (r, w) \<Longrightarrow> r \<noteq> rune_error \<or> w \<noteq> 1 \<Longrightarrow>
     plain_bytes r (take w [b0, b1, b2]) \<and> 0 < w \<and> w \<le> 3"
proof (cases "decode3 b0 b1 b2 = decode2 b0 b1")
  case False
  assume d: "decode3 b0 b1 b2 = (r, w)"
  from False have c: "224 \<le> b0" "cont_byte b1" "cont_byte b2"
      and r: "r = (b0 - 224) * 4096 + (b1 - 128) * 64 + (b2 - 128)" "w = 3"
    using d by (auto simp: decode3_def split: if_splits)
  obtain x y z where b: "b0 = 224 + x" "b1 = 128 + y" "b2 = 128 + z" and yz: "y < 64" "z < 64"
    using c by (auto simp: cont_byte_def dest!: le_Suc_ex)
  have r': "r = x * 4096 + y * 64 + z" unfolding r b by simp
  have "x = 2 \<and> y = 0 \<and> z = r - 8192" if sep: "r = 8232 \<or> r = 8233"
  proof -
    have n: "8232 \<le> r" "r \<le> 8233" using sep by auto
    have "x < 3" "\<not> x < 2" using n yz unfolding r' by linarith+
    then have "x = 2" by simp
    moreover have "y < 1" using n yz unfolding r' \<open>x = 2\<close> by linarith
    ultimately show ?thesis unfolding r' by simp
  qed
  then show ?thesis using r(2) b by (auto simp: plain_bytes_def take_Cons')
next
  case True
  assume d: "decode3 b0 b1 b2 = (r, w)" and e: "r \<noteq> rune_error \<or> w \<noteq> 1"
  show ?thesis using decode2_plain[OF _ e, of b0 b1] d True by (auto simp: take_Cons')
qed

lemma decode4_plain:
  "decode4 b0 b1 b2 b3 = (r, w) \<Longrightarrow> r \<noteq> rune_error \<or> w \<noteq> 1 \<Longrightarrow>
     plain_bytes r (take w [b0, b1, b2, b3]) \<and> 0 < w \<and> w \<le> 4"
proof (cases "decode4 b0 b1 b2 b3 = decode3 b0 b1 b2")
  case False
  assume d: "decode4 b0 b1 b2 b3 = (r, w)"
  from False have c: "240 \<le> b0" "128 \<le> b1" "128 \<le> b2" "128 \<le> b3" "b0 = 240 \<longrightarrow> 144 \<le> b1"
      and r: "r = (b0 - 240) * 262144 + (b1 - 128) * 4096 + (b2 - 128) * 64 + (b3 - 128)" "w = 4"
    using d by (auto simp: decode4_def cont_byte_def split: if_splits)
  obtain x y where b: "b0 = 240 + x" "b1 = 128 + y" using c(1,2) by (auto dest!: le_Suc_ex)
  have "x * 262144 + y * 4096 \<le> r" unfolding r b by simp
  moreover have "x = 0 \<longrightarrow> 16 \<le> y" using c(5) b by simp
  ultimately have "65536 \<le> r" by (cases "x = 0") linarith+
  then show ?thesis using r(2) c by (simp add: plain_bytes_def)
next
  case True
  assume d: "decode4 b0 b1 b2 b3 = (r, w)" and e: "r \<noteq> rune_error \<or> w \<noteq> 1"
  show ?thesis using decode3_plain[OF _ e, of b0 b1 b2] d True
    by (auto simp: plain_bytes_def take_Cons' split: if_splits)
qed

lemma decode_rune_plain:
  assumes "decode_rune (c # cs) = (r, w)" and "128 \<le> r" and "r \<noteq> rune_error \<or> w \<noteq> 1"
  shows "plain_bytes r (map byte (c # take (w - 1) cs))"
proof -
  have c: "\<not> byte c < 128" using assms(1,2) decode_rune_ascii[of c cs] by auto
  consider "cs = []" | b1 where "cs = [b1]" | b1 b2 where "cs = [b1, b2]"
    | b1 b2 b3 ds where "cs = b1 # b2 # b3 # ds"
    by (metis list.exhaust)
  then show ?thesis
  proof cases
    case 1
    then show ?thesis using assms c by (simp add: decode_rune_def)
  next
    case 2
    then have "decode2 (byte c) (byte b1) = (r, w)" using assms(1) c by (simp add: decode_rune_def)
    then show ?thesis using decode2_plain assms(3) 2 by force
  next
    case 3
    then have "decode3 (byte c) (byte b1) (byte b2) = (r, w)" using assms(1) c by (simp add: decode_rune_def)
    from decode3_plain[OF this assms(3)] show ?thesis by (cases w) (simp_all add: 3 take_map[symmetric])
  next
    case 4
    then have "decode4 (byte c) (byte b1) (byte b2) (byte b3) = (r, w)"
      using assms(1) c by (simp add: decode_rune_def)
    from decode4_plain[OF this assms(3)]
    have p: "plain_bytes r (take w [byte c, byte b1, byte b2, byte b3])" and w: "0 < w" "w \<le> 4" by simp_all
    have "w = 1 \<or> w = 2 \<or> w = 3 \<or> w = 4" using w by arith
    then show ?thesis using p by (elim disjE) (simp_all add: 4 take_Cons')
  qed
qed

text \<open>What a rune of a valid string was read from.\<close>

definition rune_ok :: "nat \<times> string \<Rightarrow> bool" where
  "rune_ok rb \<longleftrightarrow> (case rb of (r, bs) \<Rightarrow>
     (r < 128 \<longrightarrow> (\<exists>c. bs = [c] \<and> byte c = r)) \<and>
     (128 \<le> r \<longrightarrow> plain_bytes r (map byte bs) \<and> \<not> (r = rune_error \<and> length bs = 1)))"

lemma valid_runes_ok: "valid_utf8 s \<Longrightarrow> list_all rune_ok (runes s)"
proof (induction s rule: runes.induct)
  case 1
  then show ?case by simp
next
  case (2 c cs)
  obtain r w where rw: "decode_rune (c # cs) = (r, w)" by fastforce
  have runes: "runes (c # cs) = (r, c # take (w - 1) cs) # runes (drop (w - 1) cs)" by (simp add: rw)
  have v: "\<not> (r = rune_error \<and> length (c # take (w - 1) cs) = 1)" "valid_utf8 (drop (w - 1) cs)"
    using "2.prems" by (simp_all add: valid_utf8_def runes del: runes.simps)
  have "rune_ok (r, c # take (w - 1) cs)"
    using v(1) decode_rune_plain[OF rw] decode_rune_low[OF rw] by (auto simp: rune_ok_def)
  then show ?case using "2.IH"[OF rw[symmetric] refl v(2)] by (simp add: runes del: runes.simps)
qed

lemma put_simps [simp]: "put [] m = m" "put x (put y m) = put (x @ y) m" "put x (Some (s, t)) = Some (x @ s, t)"
  by (auto simp: put_def split: option.split)

lemma read_chars_plain:
  "list_all (\<lambda>b. 128 \<le> b) (map byte bs) \<Longrightarrow>
     read_chars (bs @ rest) = put bs (read_chars rest)"
  by (induction bs) auto

text \<open>The runes written as \<open>\uXXXX\<close>.\<close>

definition hex_escaped :: "nat set" where
  "hex_escaped = {..<32} \<union> {60, 62, 38, 8232, 8233}"

lemma unhex_hex_digit: "d < 16 \<Longrightarrow> unhex_digit (hex_digit d) = Some d"
  by (auto simp: unhex_digit_def hex_digit_def Let_def)

lemma unhex_append: "unhex n (s @ t) = (case unhex n s of None \<Rightarrow> None | Some m \<Rightarrow> unhex m t)"
  by (induction n s rule: unhex.induct) (auto split: option.split)

lemma hex_length [simp]: "length (hex k n) = k"
  by (induction k n rule: hex.induct) auto

lemma unhex_hex: "unhex m (hex k n) = Some (m * 16 ^ k + n mod 16 ^ k)"
proof (induction k n rule: hex.induct)
  case (2 k n)
  have "n mod 16 ^ Suc k = n div 16 mod 16 ^ k * 16 + n mod 16"
    by (simp add: mod_mult2_eq mult.commute)
  then show ?case using 2 by (simp add: unhex_append unhex_hex_digit algebra_simps)
qed simp

lemma read_chars_hex:
  assumes "r \<in> hex_escaped"
  shows "read_chars (esc (CHR ''u'') @ hex 4 r @ rest) =
     put (utf8_bytes r) (read_chars rest)"
proof -
  have r: "r < 55296" using assms by (auto simp: hex_escaped_def)
  then have "unhex 0 (hex 4 r) = Some r" by (simp add: unhex_hex del: hex.simps)
  with r show ?thesis by (simp add: esc_def del: hex.simps)
qed

lemma utf8_separator:
  assumes "map byte bs = [226, 128, r - 8064]" and "r = 8232 \<or> r = 8233"
  shows "utf8_bytes r = bs"
proof -
  have "bs = map char_of (map byte bs)" by (simp add: comp_def)
  also have "\<dots> = utf8_bytes r" unfolding assms(1) using assms(2) by (auto simp: utf8_bytes_def)
  finally show ?thesis by simp
qed

lemma quote_chars: "char_of (34::nat) = CHR 0x22" "char_of (92::nat) = CHR 0x5C"
  by code_simp+

lemma read_json_rune:
  assumes "rune_ok rb"
  shows "read_chars (json_rune rb @ rest) = put (snd rb) (read_chars rest)"
proof -
  obtain r bs where rb: "rb = (r, bs)" by fastforce
  show ?thesis
  proof (cases "r < 128")
    case True
    then obtain c where c: "bs = [c]" "byte c = r" using assms rb by (auto simp: rune_ok_def)
    then have "c = char_of r" by auto
    then consider "r \<in> {34, 92, 8, 12, 10, 13, 9}" | "r \<in> hex_escaped" "r \<notin> {8, 12, 10, 13, 9}"
      | "32 \<le> r" "r \<notin> {34, 92, 60, 62, 38}"
      using True by (cases "r < 32") (auto simp: hex_escaped_def)
    then show ?thesis
    proof cases
      case 1
      have b: "bs = [char_of r]" using c \<open>c = char_of r\<close> by simp
      have "r = 34 \<or> r = 92 \<or> r = 8 \<or> r = 12 \<or> r = 10 \<or> r = 13 \<or> r = 9" using 1 by simp
      then show ?thesis unfolding rb b
        by (elim disjE; hypsubst) (simp_all add: json_rune_def escaped_char_def esc_def quote_chars)
    next
      case 2
      then have "r < 32 \<or> r = 60 \<or> r = 62 \<or> r = 38" "r \<noteq> 34" "r \<noteq> 92"
        using True by (auto simp: hex_escaped_def)
      then have "json_rune rb = esc (CHR ''u'') @ hex 4 r"
        using True rb 2(2) by (simp add: json_rune_def)
      moreover have "utf8_bytes r = bs" using True c \<open>c = char_of r\<close> by (simp add: utf8_bytes_def)
      ultimately show ?thesis using read_chars_hex[OF 2(1)] rb by simp
    next
      case 3
      then have "json_rune rb = [c]" "c \<noteq> CHR 0x22" "c \<noteq> CHR 0x5C"
        using True rb c by (auto simp: json_rune_def)
      then show ?thesis using 3(1) rb c by simp
    qed
  next
    case False
    then have p: "plain_bytes r (map byte bs)" "\<not> (r = rune_error \<and> length bs = 1)"
      using assms rb by (auto simp: rune_ok_def)
    show ?thesis
    proof (cases "r = 8232 \<or> r = 8233")
      case True
      then have "json_rune rb = esc (CHR ''u'') @ hex 4 r" "utf8_bytes r = bs" "r \<in> hex_escaped"
        using rb p utf8_separator[of bs r] by (auto simp: json_rune_def plain_bytes_def hex_escaped_def rune_error_def)
      then show ?thesis using read_chars_hex[of r rest] rb by simp
    next
      case no: False
      then have "json_rune rb = bs" using False p(2) rb by (auto simp: json_rune_def)
      then show ?thesis using read_chars_plain[of bs rest] p(1) rb by (simp add: plain_bytes_def)
    qed
  qed
qed

lemma read_json_runes:
  "list_all rune_ok rs \<Longrightarrow>
     read_chars (concat (map json_rune rs) @ CHR 0x22 # rest) = Some (concat (map snd rs), rest)"
  by (induction rs) (simp_all add: read_json_rune)

lemma read_json_string:
  assumes "valid_utf8 s"
  shows "read_string (json_string s @ rest) = Some (s, rest)"
  using read_json_runes[OF valid_runes_ok[OF assms], of rest]
  by (simp add: read_string_def json_string_def runes_bytes)

section \<open>Maps are read back\<close>

text \<open>\<open>reads p f x\<close>: the reader \<open>p\<close> takes the text \<open>f\<close> writes for \<open>x\<close>, whatever follows it.\<close>

definition reads :: "'a reader \<Rightarrow> ('a \<Rightarrow> string) \<Rightarrow> 'a \<Rightarrow> bool" where
  "reads p f x \<longleftrightarrow> (\<forall>rest. p (f x @ rest) = Some (x, rest))"

lemma join_Cons: "join (x # xs) [c] = x @ concat (map (\<lambda>y. c # y) xs)"
  by (induction xs arbitrary: x) simp_all

lemma join_length: "length (concat (map (\<lambda>y. c # y) xs)) \<ge> length xs"
  by (induction xs) simp_all

lemma read_more_back:
  "list_all (reads p f) xs \<Longrightarrow> length xs < n \<Longrightarrow> close \<noteq> CHR '','' \<Longrightarrow>
     read_more n p close (concat (map (\<lambda>y. CHR '','' # y) (map f xs)) @ close # rest) = Some (xs, rest)"
proof (induction xs arbitrary: n)
  case Nil
  then show ?case by (cases n) simp_all
next
  case (Cons x xs)
  then obtain m where "n = Suc m" by (cases n) simp_all
  then show ?case using Cons by (simp add: reads_def)
qed

lemma read_items_back:
  assumes "list_all (reads p f) xs" and "length xs \<le> n" and "close \<noteq> CHR '',''"
    and "\<And>x. x \<in> set xs \<Longrightarrow> \<exists>c cs. f x = c # cs \<and> c \<noteq> close"
  shows "read_items n p close (join (map f xs) '','' @ close # rest) = Some (xs, rest)"
proof (cases xs)
  case Nil
  then show ?thesis by (simp add: read_items_def)
next
  case (Cons x ys)
  obtain c cs where c: "f x = c # cs" "c \<noteq> close" using assms(4)[of x] Cons by auto
  have "read_more n p close (concat (map (\<lambda>y. CHR '','' # y) (map f ys)) @ close # rest) = Some (ys, rest)"
    using assms(1-3) Cons by (intro read_more_back) simp_all
  moreover have "p (c # cs @ concat (map (\<lambda>y. CHR '','' # y) (map f ys)) @ close # rest) =
      Some (x, concat (map (\<lambda>y. CHR '','' # y) (map f ys)) @ close # rest)"
    using assms(1) Cons unfolding reads_def c(1)[symmetric] append_Cons[symmetric] by simp
  ultimately show ?thesis
    unfolding Cons list.map join_Cons c(1) read_items_def using c(2) by simp
qed

lemma join_count: "length xs \<le> Suc (length (join (map f xs) [c]))"
  by (cases xs) (use join_length[of "map f (tl xs)" c] in \<open>simp_all add: join_Cons\<close>)

lemma join_member: "x \<in> set xs \<Longrightarrow> length (f x) \<le> length (join (map f xs) [c])"
proof (induction xs rule: rev_induct)
  case (snoc y ys)
  have "join (map f (ys @ [y])) [c] = (if ys = [] then f y else join (map f ys) [c] @ c # f y)"
    by (cases ys) (simp_all add: join_Cons)
  then show ?case using snoc by auto
qed simp

text \<open>A value of the map's, with strings in UTF-8.\<close>

fun valid_jval :: "jval \<Rightarrow> bool" where
  "valid_jval (JString s) \<longleftrightarrow> valid_utf8 s"
| "valid_jval (JStrings ss) \<longleftrightarrow> list_all valid_utf8 ss"

lemma json_string_shape: "\<exists>cs. json_string s = CHR 0x22 # cs"
  by (simp add: json_string_def)

lemma reads_string: "valid_utf8 s \<Longrightarrow> reads read_string json_string s"
  by (simp add: reads_def read_json_string)

lemma reads_value:
  assumes "valid_jval v" and "length (json_value v) \<le> n"
  shows "reads (read_value n) json_value v"
proof (cases v)
  case (JString s)
  then show ?thesis using assms(1) json_string_shape[of s] read_json_string[of s]
    by (auto simp: reads_def read_value_def)
next
  case (JStrings ss)
  have "list_all (reads read_string json_string) ss"
    using assms(1) JStrings by (auto simp: list_all_iff reads_string)
  moreover have "length ss \<le> n" using join_count[of ss json_string "CHR '',''"] assms(2) JStrings by simp
  ultimately have "read_items n read_string (CHR '']'') (join (map json_string ss) '','' @ CHR '']'' # rest) = Some (ss, rest)" for rest
    by (rule read_items_back) (simp_all add: json_string_def)
  then show ?thesis using JStrings by (simp add: reads_def read_value_def)
qed

lemma fmap_of_members:
  "fmap_of_list (rev (map (\<lambda>k. (k, the (fmlookup m k))) (sorted_list_of_fset (fmdom m)))) = m"
proof (rule fmap_ext)
  fix k
  let ?kvs = "map (\<lambda>k. (k, the (fmlookup m k))) (sorted_list_of_fset (fmdom m))"
  have "distinct (map fst ?kvs)" by (simp add: comp_def sorted_list_of_fset.rep_eq)
  then have "map_of (rev ?kvs) = map_of ?kvs" by (subst map_of_inject_set) (simp_all add: rev_map[symmetric])
  moreover have "map_of ?kvs k = fmlookup m k"
    by (auto simp: map_of_map_restrict restrict_map_def fmdom_notD)
  ultimately show "fmlookup (fmap_of_list (rev ?kvs)) k = fmlookup m k" by (simp add: fmlookup_of_list)
qed

lemma reads_object:
  assumes k: "\<And>k. k |\<in>| fmdom m \<Longrightarrow> valid_utf8 k" and len: "length (json_object f m) \<le> n"
    and v: "\<And>k x. fmlookup m k = Some x \<Longrightarrow> length (f x) \<le> n \<Longrightarrow> reads p f x"
  shows "reads (read_object n p) (json_object f) m"
proof -
  let ?g = "\<lambda>kv. json_string (fst kv) @ '':'' @ f (snd kv)"
  let ?ks = "sorted_list_of_fset (fmdom m)"
  let ?kvs = "map (\<lambda>k. (k, the (fmlookup m k))) ?ks"
  have written: "json_object f m = ''{'' @ join (map ?g ?kvs) '','' @ ''}''"
    by (simp add: json_object_def comp_def)
  have "list_all (reads (read_member p) ?g) ?kvs"
    unfolding list_all_iff
  proof
    fix kv assume kv: "kv \<in> set ?kvs"
    then obtain k x where kx: "kv = (k, x)" "k |\<in>| fmdom m" "fmlookup m k = Some x" by fastforce
    have "length (?g kv) \<le> n" using join_member[OF kv, of ?g "CHR '',''"] len unfolding written by simp
    then have "reads p f x" using v[OF kx(3)] kx(1) by simp
    then show "reads (read_member p) ?g kv"
      using kx(1) k[OF kx(2)] by (simp add: reads_def read_member_def read_json_string)
  qed
  moreover have "length ?kvs \<le> n" using join_count[of ?kvs ?g "CHR '',''"] len unfolding written by simp
  ultimately have "read_items n (read_member p) (CHR ''}'') (join (map ?g ?kvs) '','' @ CHR ''}'' # rest) = Some (?kvs, rest)" for rest
    by (rule read_items_back) (simp_all add: json_string_def)
  then show ?thesis
    unfolding reads_def written read_object_def by (simp add: fmap_of_members del: map_map)
qed

definition valid_json_map :: "json_map \<Rightarrow> bool" where
  "valid_json_map m \<longleftrightarrow> fmpred (\<lambda>k c. valid_utf8 k \<and> fmpred (\<lambda>k x. valid_utf8 k \<and> valid_jval x) c) m"

lemma json_Unmarshal_Marshal:
  assumes "valid_json_map m"
  shows "json_Unmarshal (json_Marshal m) = Some m"
proof -
  let ?n = "length (json_Marshal m)"
  have "reads (read_object ?n (read_object ?n (read_value ?n))) (json_object (json_object json_value)) m"
  proof (rule reads_object)
    fix k c assume c: "fmlookup m k = Some c" "length (json_object json_value c) \<le> ?n"
    have p: "fmpred (\<lambda>k x. valid_utf8 k \<and> valid_jval x) c"
      using assms c(1) unfolding valid_json_map_def by (auto dest: fmpredD)
    show "reads (read_object ?n (read_value ?n)) (json_object json_value) c"
      using c(2) p by (intro reads_object reads_value) (auto dest: fmpredD fmdomI simp: fmlookup_dom_iff)
  next
    show "valid_utf8 k" if "k |\<in>| fmdom m" for k
      using assms that unfolding valid_json_map_def by (auto dest: fmpredD simp: fmlookup_dom_iff)
  qed (simp add: json_Marshal_def)
  then have "read_object ?n (read_object ?n (read_value ?n)) (json_Marshal m @ []) = Some (m, [])"
    unfolding reads_def json_Marshal_def by blast
  then show ?thesis by (simp add: json_Unmarshal_def Let_def)
qed

end
