(* ===== verification/Deployment_Properties.thy ===== *)
theory Deployment_Properties
  imports Agent_Properties Json_Reader
begin

text \<open>
  The properties of what the agent controller makes: the deployment, its environment, the
  service and the URLs.
\<close>

section \<open>Metadata and containers\<close>

lemma demo_closure:
  obtains d' where "deployment_closure rt_std demo_kube demo_agent fmempty fmempty None None d = Inr d'"
proof -
  have "typed_subs fmempty" by (simp add: typed_subs_def)
  from sim_closure_total[OF rt_std_ok this, of "''ops''" demo_agent fmempty None None d] that show thesis
    by (cases "deployment_closure rt_std demo_kube demo_agent fmempty fmempty None None d") auto
qed



text \<open>
  C10: The precedence of labels and annotations. On the deployment the managed labels win over
  the user's, the user's over those already there; on the pod the selector wins over the pod
  metadata, the pod metadata over the common metadata, and nothing older survives.
\<close>

theorem label_precedence:
  assumes "set_owner_ok (setAgentOwner k agent)"
    and "deployment_closure rt k agent subs tools gw cfg d = Inr d'"
  defines "common \<equiv> as_CommonMetadata (ag_Spec agent)" and "pod \<equiv> as_PodMetadata (ag_Spec agent)"
    and "t \<equiv> ds_Template (dp_Spec d')"
  shows "mval (om_Labels (dp_Meta d')) =
      (mval (om_Labels (dp_Meta d)) ++\<^sub>f meta_labels common)
        ++\<^sub>f fmap_of_list [(''app'', om_Name (ag_Meta agent)), (''framework'', resolveEffectiveFramework agent cfg)]
    \<and> mval (om_Annotations (dp_Meta d')) = mval (om_Annotations (dp_Meta d)) ++\<^sub>f meta_annotations common
    \<and> mval (pt_Labels t) = (meta_labels common ++\<^sub>f meta_labels pod) ++\<^sub>f fmap_of_list [(''app'', om_Name (ag_Meta agent))]
    \<and> mval (pt_Annotations t) = meta_annotations common ++\<^sub>f meta_annotations pod"
proof -
  obtain tmpl m where m: "setAgentOwner k agent (apply_object_metadata (dp_Meta d) common (agent_managed_labels agent cfg)) = Inr m"
    and d': "d' = d\<lparr>dp_Meta := m,
       dp_Spec := managed_spec agent cfg (mergeEnvironmentVariables rt tmpl (as_Env (ag_Spec agent)))
         (om_Created (dp_Meta d)) (dp_Spec d)\<rparr>"
    using assms(2) unfolding common_def by (rule deployment_closure_Inr)
  have managed: "agent_managed_labels agent cfg =
      fmap_of_list [(''app'', om_Name (ag_Meta agent)), (''framework'', resolveEffectiveFramework agent cfg)]"
    by (rule fmap_ext) (auto simp: agent_managed_labels_def agent_selector_def appLabel_def fmap_of_list.rep_eq)
  have selector: "agent_selector agent = fmap_of_list [(''app'', om_Name (ag_Meta agent))]"
    by (rule fmap_ext) (simp add: agent_selector_def appLabel_def fmap_of_list.rep_eq)
  have "mval (om_Labels (dp_Meta d')) = (mval (om_Labels (dp_Meta d)) ++\<^sub>f meta_labels common)
      ++\<^sub>f agent_managed_labels agent cfg"
    using set_owner_frame(1)[OF assms(1) m] by (simp add: d' apply_object_metadata_labels)
  moreover have "mval (om_Annotations (dp_Meta d')) = mval (om_Annotations (dp_Meta d)) ++\<^sub>f meta_annotations common"
    using set_owner_frame(2)[OF assms(1) m] by (simp add: d' apply_object_metadata_annotations)
  moreover have "mval (pt_Labels t) = (meta_labels common ++\<^sub>f meta_labels pod) ++\<^sub>f agent_selector agent"
    "mval (pt_Annotations t) = meta_annotations common ++\<^sub>f meta_annotations pod"
    by (simp_all add: t_def d' managed_spec_def Let_def podTemplate_labels podTemplate_annotations
        common_def pod_def)
  ultimately show ?thesis unfolding managed selector by blast
qed

theorem label_precedence_witness:
  "\<exists>d'. deployment_closure rt_std demo_kube demo_agent fmempty fmempty None None (new_deployment ''a'' ''n'') = Inr d'
     \<and> fmlookup (mval (pt_Labels (ds_Template (dp_Spec d')))) ''app'' = Some ''a''"
proof -
  obtain d' where d': "deployment_closure rt_std demo_kube demo_agent fmempty fmempty None None (new_deployment ''a'' ''n'') = Inr d'"
    by (rule demo_closure)
  have owner: "set_owner_ok (setAgentOwner demo_kube demo_agent)" by (simp add: sim_owner_ok)
  show ?thesis
    using d' label_precedence[OF owner d'] by (simp add: fmap_of_list.rep_eq)
qed

section \<open>The environment\<close>

text \<open>
  C11: The merged environment has one variable per name, sorted by name; the variable of a name
  is the user's last one of that name, and the template's if the user has none, and there is
  no other.
\<close>

theorem environment_merged:
  assumes "rt_ok rt"
    and "buildTemplateEnvironmentVars rt agent subs tools gw = Inr tmpl"
  shows "merged_from tmpl user (mergeEnvironmentVariables rt tmpl user)"
  by (rule merge_merged_from[OF assms(1) template_env_distinct[OF assms(2)]])

theorem environment_merged_witness:
  "\<exists>tmpl. buildTemplateEnvironmentVars rt_std demo_agent fmempty fmempty None = Inr tmpl
     \<and> findEnvVar (mergeEnvironmentVariables rt_std tmpl [env ''AGENT_MODEL'' ''x'', env ''AGENT_MODEL'' ''y'']) ''AGENT_MODEL''
         = Some (env ''AGENT_MODEL'' ''y'')"
proof -
  obtain tmpl where tmpl: "buildTemplateEnvironmentVars rt_std demo_agent fmempty fmempty None = Inr tmpl"
    by (simp add: buildTemplateEnvironmentVars_def Let_def)
  show ?thesis
    using tmpl environment_merged[OF rt_std_ok tmpl, of "[env ''AGENT_MODEL'' ''x'', env ''AGENT_MODEL'' ''y'']"]
    by (auto simp: merged_from_def effective_env_def findEnvVar_def)
qed

text \<open>
  C12: The deployment is deterministic. Whatever orders Go's map loops run in and however the
  unstable sort breaks ties, the closure makes the same deployment, as long as no two
  sub-agents' names are made into the same identifier.
\<close>

theorem deployment_deterministic:
  assumes "rt_ok rt" and "rt_ok rt'" and "uni rt = uni rt'" and "typed_subs subs"
    and "inj_on sanitizeAgentName (fmdom' subs)"
  shows "deployment_closure rt k agent subs tools gw cfg d = deployment_closure rt' k agent subs tools gw cfg d"
  using assms by (rule deployment_closure_deterministic)

definition rt_reversed :: go_rt where
  "rt_reversed = rt_std\<lparr>order_env := rev, order_subs := rev, order_tools := rev\<rparr>"

lemma rt_reversed_ok: "rt_ok rt_reversed" "uni rt_reversed = uni rt_std"
  using rt_std_ok by (simp_all add: rt_ok_def rt_reversed_def)

definition two_subs :: "string \<Rightarrow> string \<Rightarrow> (string, ResolvedSubAgent) fmap" where
  "two_subs n m = fmap_of_list [(n, \<lparr>rs_Url = ''u'', rs_InteractionType = ''transfer''\<rparr>),
                                (m, \<lparr>rs_Url = ''v'', rs_InteractionType = ''transfer''\<rparr>)]"

lemma two_subs_typed: "typed_subs (two_subs n m)"
  by (auto simp: typed_subs_def two_subs_def fmap_of_list.rep_eq intro!: fmpredI split: if_splits)

lemma two_subs_dom: "fmdom' (two_subs n m) = {n, m}"
  by (auto simp: two_subs_def fmdom'_alt_def)

theorem deployment_deterministic_witness:
  "deployment_closure rt_std demo_kube demo_agent (two_subs ''a'' ''b'') fmempty None None
       (new_deployment ''a'' ''n'')
     = deployment_closure rt_reversed demo_kube demo_agent (two_subs ''a'' ''b'') fmempty None None
       (new_deployment ''a'' ''n'')"
proof (rule deployment_deterministic[OF rt_std_ok rt_reversed_ok(1) rt_reversed_ok(2)[symmetric] two_subs_typed])
  have "is_identifier ''a''" "is_identifier ''b''"
    by (simp_all add: is_identifier_def is_ident_rune_def is_digit_def less_eq_char_def)
  then show "inj_on sanitizeAgentName (fmdom' (two_subs ''a'' ''b''))"
    by (simp add: two_subs_dom identifier_unchanged)
qed

lemma two_range:
  assumes "n \<noteq> m"
  shows "\<exists>ord. is_order ord \<and> go_range ord (fmap_of_list [(n, r), (m, s)]) = [(m, s), (n, r)]"
proof -
  let ?ord = "\<lambda>ks. if mset ks = {#m, n#} then [m, n] else ks"
  have "set (sorted_list_of_fset {|n, m|}) = {n, m}" and "distinct (sorted_list_of_fset {|n, m|})"
    using sorted_list_of_fset_simps(1)[of "{|n, m|}"] distinct_sorted_list_of_set[of "{n, m}"]
    by (simp_all add: sorted_list_of_fset.rep_eq del: sorted_list_of_set_insert_remove)
  then have "mset (sorted_list_of_fset {|n, m|}) = {#m, n#}"
    using assms by (intro set_eq_iff_mset_eq_distinct[THEN iffD1, of _ "[m, n]", simplified]) auto
  then have "go_keys ?ord (fmap_of_list [(n, r), (m, s)]) = [m, n]"
    by (simp add: go_keys_def)
  then show ?thesis
    using assms by (intro exI[of _ ?ord]) (simp add: is_order_def go_range_def fmap_of_list.rep_eq)
qed

text \<open>
  C13: Colliding names make the deployment depend on chance. If two sub-agents' names are made
  into one identifier, one of them is missing from the map the agent is given, and which one
  depends on the order in which Go ranges over the map of the resolved sub-agents.
\<close>

theorem colliding_names_lose_a_subagent:
  assumes "n \<noteq> m" and "sanitizeAgentName n = sanitizeAgentName m"
    and "rs_InteractionType r \<noteq> []" and "rs_InteractionType s \<noteq> []"
  defines "subs \<equiv> fmap_of_list [(n, r), (m, s)]"
  shows "\<exists>ord ord' kept kept'. is_order ord \<and> is_order ord'
    \<and> sub_agents_json u (go_range ord subs) fmempty = Inr kept
    \<and> sub_agents_json u (go_range ord' subs) fmempty = Inr kept'
    \<and> kept = fmupd (sanitizeAgentName n) (sub_agent_config r) fmempty
    \<and> kept' = fmupd (sanitizeAgentName n) (sub_agent_config s) fmempty"
proof -
  have swap: "subs = fmap_of_list [(m, s), (n, r)]"
    unfolding subs_def using assms(1) by (intro fmap_ext) (auto simp: fmap_of_list.rep_eq)
  obtain ord where 1: "is_order ord" "go_range ord subs = [(m, s), (n, r)]"
    using two_range[OF assms(1), of r s] by (auto simp: subs_def)
  obtain ord' where 2: "is_order ord'" "go_range ord' subs = [(n, r), (m, s)]"
    using two_range[OF assms(1)[symmetric], of s r] by (auto simp: swap)
  have twice: "fmupd x a (fmupd x b f) = fmupd x a f" for x :: string and a b :: "(string, jval) fmap" and f
    by (rule fmap_ext) simp
  have a: "sub_agents_json u (go_range ord subs) fmempty = Inr (fmupd (sanitizeAgentName n) (sub_agent_config r) fmempty)"
    unfolding 1(2) sub_agents_json.simps sub_agent_config_def[symmetric] by (simp add: assms(2-4) twice)
  have b: "sub_agents_json u (go_range ord' subs) fmempty = Inr (fmupd (sanitizeAgentName n) (sub_agent_config s) fmempty)"
    unfolding 2(2) sub_agents_json.simps sub_agent_config_def[symmetric] by (simp add: assms(2-4) twice)
  show ?thesis
    by (intro exI[of _ ord] exI[of _ ord'] exI conjI) (rule 1 2 a b refl)+
qed

theorem colliding_names_lose_a_subagent_witness:
  "\<exists>ord. is_order ord \<and> (\<exists>kept. sub_agents_json (uni rt_std) (go_range ord (two_subs ''a-b'' ''a_b'')) fmempty = Inr kept
     \<and> fmlookup kept ''a_b'' = Some (sub_agent_config \<lparr>rs_Url = ''v'', rs_InteractionType = ''transfer''\<rparr>))"
proof -
  have san: "sanitizeAgentName ''a-b'' = ''a_b''" "sanitizeAgentName ''a_b'' = ''a_b''"
    by code_simp+
  show ?thesis
    using colliding_names_lose_a_subagent[of "''a-b''" "''a_b''" "\<lparr>rs_Url = ''u'', rs_InteractionType = ''transfer''\<rparr>"
        "\<lparr>rs_Url = ''v'', rs_InteractionType = ''transfer''\<rparr>" "uni rt_std"]
    by (auto simp: san two_subs_def)
qed

lemma resolved_sub:
  assumes "resolveAllSubAgents u k w agent = (subs, None)"
    and "distinct (map sa_Name (as_SubAgents (ag_Spec agent)))" and "s \<in> set (as_SubAgents (ag_Spec agent))"
  shows "\<exists>url. resolveSubAgentUrl k w s (om_Namespace (ag_Meta agent)) = Inr url
     \<and> fmlookup subs (sa_Name s) = Some \<lparr>rs_Url = url, rs_InteractionType = sa_InteractionType s\<rparr>"
proof -
  let ?ns = "om_Namespace (ag_Meta agent)"
  have "\<not> isl (resolveSubAgentUrl k w s ?ns)"
    using resolveAllSubAgents_ok_iff[of u k w agent] assms(1,3) by simp
  then obtain url where url: "resolveSubAgentUrl k w s ?ns = Inr url"
    by (cases "resolveSubAgentUrl k w s ?ns") auto
  have "subAgent_result k w ?ns s = Inr \<lparr>rs_Url = url, rs_InteractionType = sa_InteractionType s\<rparr>"
    by (simp add: subAgent_result_def url)
  from sub_loop.lookup_distinct[OF assms(2,3) this, of u fmempty] show ?thesis
    using assms(1) url by (simp add: resolveAllSubAgents_def Let_def split: prod.splits if_splits)
qed

lemma resolved_tool:
  assumes "resolveAllTools u k w agent = (tools, None)"
    and "distinct (map at_Name (as_Tools (ag_Spec agent)))" and "t \<in> set (as_Tools (ag_Spec agent))"
  shows "\<exists>url. resolveToolUrl k w t (om_Namespace (ag_Meta agent)) = Inr url
     \<and> fmlookup tools (at_Name t) = Some \<lparr>rt_Url = url, rt_PropagatedHeaders = at_PropagatedHeaders t\<rparr>"
proof -
  let ?ns = "om_Namespace (ag_Meta agent)"
  have "\<not> isl (resolveToolUrl k w t ?ns)"
    using resolveAllTools_ok_iff[of u k w agent] assms(1,3) by simp
  then obtain url where url: "resolveToolUrl k w t ?ns = Inr url"
    by (cases "resolveToolUrl k w t ?ns") auto
  have "tool_result k w ?ns t = Inr \<lparr>rt_Url = url, rt_PropagatedHeaders = at_PropagatedHeaders t\<rparr>"
    by (simp add: tool_result_def url)
  from tool_loop.lookup_distinct[OF assms(2,3) this, of u fmempty] show ?thesis
    using assms(1) url by (simp add: resolveAllTools_def Let_def split: prod.splits if_splits)
qed

lemma sub_agents_map_dom:
  "is_order ord \<Longrightarrow> fmdom' (sub_agents_map ord subs) = sanitizeAgentName ` fmdom' subs"
proof -
  assume ord: "is_order ord"
  have "fmlookup (sub_agents_map ord subs) n \<noteq> None \<longleftrightarrow> n \<in> sanitizeAgentName ` fmdom' subs" for n
  proof -
    have "fmlookup (sub_agents_map ord subs) n \<noteq> None \<longleftrightarrow>
        (\<exists>x\<in>set (go_range ord subs). sanitizeAgentName (fst x) = n)"
      by (auto simp: sub_agents_map_def foldl_fmupd_lookup find_None_iff split: option.splits dest!: find_SomeD)
    also have "\<dots> \<longleftrightarrow> n \<in> sanitizeAgentName ` set (map fst (go_range ord subs))"
      unfolding set_map by blast
    finally show ?thesis by (simp only: map_fst_go_range go_keys_set[OF ord])
  qed
  then show ?thesis by (auto simp: fmlookup_dom'_iff)
qed

text \<open>The keys of the resolved maps, and the entry of a tool in the map written out.\<close>

lemma resolved_subs_dom:
  assumes "resolveAllSubAgents u k w agent = (subs, None)"
    and "distinct (map sa_Name (as_SubAgents (ag_Spec agent)))"
  shows "fmdom' subs = sa_Name ` set (as_SubAgents (ag_Spec agent))"
proof
  show "fmdom' subs \<subseteq> sa_Name ` set (as_SubAgents (ag_Spec agent))"
    using resolveAllSubAgents_source[of u k w agent] assms(1) by (fastforce simp: fmlookup_dom'_iff)
  show "sa_Name ` set (as_SubAgents (ag_Spec agent)) \<subseteq> fmdom' subs"
    using resolved_sub[OF assms] by (fastforce simp: fmlookup_dom'_iff)
qed

lemma resolved_tools_dom:
  assumes "resolveAllTools u k w agent = (tools, None)"
    and "distinct (map at_Name (as_Tools (ag_Spec agent)))"
  shows "fmdom' tools = at_Name ` set (as_Tools (ag_Spec agent))"
proof
  show "fmdom' tools \<subseteq> at_Name ` set (as_Tools (ag_Spec agent))"
    using resolveAllTools_source[of u k w agent] assms(1) by (fastforce simp: fmlookup_dom'_iff)
  show "at_Name ` set (as_Tools (ag_Spec agent)) \<subseteq> fmdom' tools"
    using resolved_tool[OF assms] by (fastforce simp: fmlookup_dom'_iff)
qed

lemma tools_map_entry:
  assumes "is_order ord" and "resolveAllTools u k w agent = (tools, None)"
    and "distinct (map at_Name (as_Tools (ag_Spec agent)))" and "t \<in> set (as_Tools (ag_Spec agent))"
  shows "\<exists>url c. resolveToolUrl k w t (om_Namespace (ag_Meta agent)) = Inr url
     \<and> fmlookup (tools_map ord tools) (at_Name t) = Some c \<and> fmlookup c ''url'' = Some (JString url)
     \<and> fmlookup c ''propagate_headers'' =
         (if at_PropagatedHeaders t = [] then None else Some (JStrings (at_PropagatedHeaders t)))"
proof -
  obtain url where url: "resolveToolUrl k w t (om_Namespace (ag_Meta agent)) = Inr url"
    and look: "fmlookup tools (at_Name t) = Some \<lparr>rt_Url = url, rt_PropagatedHeaders = at_PropagatedHeaders t\<rparr>"
    using resolved_tool[OF assms(2,3,4)] by blast
  then have "fmlookup (tools_map ord tools) (at_Name t) =
      Some (tool_config \<lparr>rt_Url = url, rt_PropagatedHeaders = at_PropagatedHeaders t\<rparr>)"
    by (simp add: tools_map_lookup[OF assms(1)])
  then show ?thesis using url by (simp add: tool_config_def)
qed

text \<open>
  C14: The agent is told of exactly its dependencies. When everything resolves and no two
  sub-agents' identifiers and no two tools' names coincide, \<open>SUB_AGENTS\<close> and \<open>AGENT_TOOLS\<close> are
  the JSON of maps with one entry for each sub-agent and each tool of the specification and no
  other, with the URL it resolves to, its interaction type and its propagated headers.
\<close>

theorem environment_lists_dependencies:
  assumes "rt_ok rt"
    and "resolveAllSubAgents (uni rt) k w agent = (subs, None)"
    and "resolveAllTools (uni rt) k w agent = (tools, None)"
    and "buildTemplateEnvironmentVars rt agent subs tools gw = Inr tmpl"
    and "distinct (map (\<lambda>s. sanitizeAgentName (sa_Name s)) (as_SubAgents (ag_Spec agent)))"
    and "distinct (map at_Name (as_Tools (ag_Spec agent)))"
  defines "ns \<equiv> om_Namespace (ag_Meta agent)"
  shows "\<exists>ma mt. findEnvVar tmpl ''SUB_AGENTS'' = Some (env ''SUB_AGENTS'' (json_Marshal ma))
    \<and> findEnvVar tmpl ''AGENT_TOOLS'' = Some (env ''AGENT_TOOLS'' (json_Marshal mt))
    \<and> fmdom' ma = {sanitizeAgentName (sa_Name s) |s. s \<in> set (as_SubAgents (ag_Spec agent))}
    \<and> fmdom' mt = at_Name ` set (as_Tools (ag_Spec agent))
    \<and> (\<forall>s\<in>set (as_SubAgents (ag_Spec agent)). \<exists>url. resolveSubAgentUrl k w s ns = Inr url
         \<and> fmlookup ma (sanitizeAgentName (sa_Name s)) =
             Some (fmap_of_list [(''url'', JString url), (''interaction_type'', JString (sa_InteractionType s))]))
    \<and> (\<forall>t\<in>set (as_Tools (ag_Spec agent)). \<exists>url c. resolveToolUrl k w t ns = Inr url
         \<and> fmlookup mt (at_Name t) = Some c \<and> fmlookup c ''url'' = Some (JString url)
         \<and> fmlookup c ''propagate_headers'' =
             (if at_PropagatedHeaders t = [] then None else Some (JStrings (at_PropagatedHeaders t))))"
proof -
  let ?S = "as_SubAgents (ag_Spec agent)" and ?T = "as_Tools (ag_Spec agent)"
  have ords: "is_order (order_subs rt)" "is_order (order_tools rt)"
    using assms(1) by (simp_all add: rt_ok_def)
  have names: "distinct (map sa_Name ?S)"
    using assms(5) by (metis (no_types, lifting) distinct_map inj_on_def)
  note sub = resolved_sub[OF assms(2) names]
  note sub_dom = resolved_subs_dom[OF assms(2) names] and tool_dom = resolved_tools_dom[OF assms(3,6)]
  have inj: "inj_on sanitizeAgentName (fmdom' subs)"
    using assms(5) unfolding sub_dom by (auto simp: distinct_map inj_on_def)
  let ?ma = "sub_agents_map (order_subs rt) subs" and ?mt = "tools_map (order_tools rt) tools"
  have ma_dom: "fmdom' ?ma = {sanitizeAgentName (sa_Name s) |s. s \<in> set ?S}"
    unfolding sub_agents_map_dom[OF ords(1)] sub_dom by auto
  have mt_dom: "fmdom' ?mt = at_Name ` set ?T"
    unfolding tool_dom[symmetric] by (auto simp: fmlookup_dom'_iff tools_map_lookup[OF ords(2)])
  have ma: "\<exists>url. resolveSubAgentUrl k w s ns = Inr url \<and> fmlookup ?ma (sanitizeAgentName (sa_Name s)) =
      Some (fmap_of_list [(''url'', JString url), (''interaction_type'', JString (sa_InteractionType s))])"
    if "s \<in> set ?S" for s
    using sub[OF that] sub_agents_map_lookup[OF ords(1) inj] by (force simp: ns_def sub_agent_config_def)
  note mt = tools_map_entry[OF ords(2) assms(3,6), folded ns_def]
  note js = template_env_json[OF assms(1,4)]
  show ?thesis
    by (intro exI[of _ ?ma] exI[of _ ?mt] conjI ballI) (assumption | rule js ma_dom mt_dom ma mt)+
qed

text \<open>An agent with one remote sub-agent and one external tool.\<close>

definition rich_agent :: Agent where
  "rich_agent = new_agent ''r'' ''n'' (empty_agent_spec\<lparr>
     as_SubAgents := [\<lparr>sa_Name = ''s'', sa_AgentRef = None, sa_Url = ''http://x'', sa_InteractionType = ''transfer''\<rparr>],
     as_Tools := [\<lparr>at_Name = ''t'', at_Upstream = \<lparr>tu_ToolRouteRef = None, tu_ToolServerRef = None,
       tu_External = Some \<lparr>eu_Url = ''http://y''\<rparr>\<rparr>, at_PropagatedHeaders = [''h'']\<rparr>]\<rparr>)"

lemma trim_y: "TrimSpace ''http://y'' = ''http://y''"
  by (simp add: TrimSpace_def Let_def decode_rune_ascii is_space_def)

lemma rich_subs: "resolveAllSubAgents u k w rich_agent =
    (fmupd ''s'' \<lparr>rs_Url = ''http://x'', rs_InteractionType = ''transfer''\<rparr> fmempty, None)"
  by (simp add: rich_agent_def new_agent_def empty_agent_spec_def resolveAllSubAgents_def resolveSubAgentUrl_def Let_def)

lemma rich_tools: "resolveAllTools u k w rich_agent =
    (fmupd ''t'' \<lparr>rt_Url = ''http://y'', rt_PropagatedHeaders = [''h'']\<rparr> fmempty, None)"
  by (simp add: rich_agent_def new_agent_def empty_agent_spec_def resolveAllTools_def resolveToolUrl_def Let_def trim_y)

theorem environment_lists_dependencies_witness:
  "\<exists>tmpl subs tools mt. resolveAllSubAgents (uni rt_std) demo_kube demo_cluster rich_agent = (subs, None)
     \<and> resolveAllTools (uni rt_std) demo_kube demo_cluster rich_agent = (tools, None)
     \<and> buildTemplateEnvironmentVars rt_std rich_agent subs tools None = Inr tmpl
     \<and> findEnvVar tmpl ''AGENT_TOOLS'' = Some (env ''AGENT_TOOLS'' (json_Marshal mt)) \<and> fmdom' mt = {''t''}"
proof -
  let ?subs = "fst (resolveAllSubAgents (uni rt_std) demo_kube demo_cluster rich_agent)"
  let ?tools = "fst (resolveAllTools (uni rt_std) demo_kube demo_cluster rich_agent)"
  have subs: "resolveAllSubAgents (uni rt_std) demo_kube demo_cluster rich_agent = (?subs, None)"
    and tools: "resolveAllTools (uni rt_std) demo_kube demo_cluster rich_agent = (?tools, None)"
    by (simp_all add: rich_subs rich_tools)
  have "typed_subs ?subs" by (auto simp: rich_subs typed_subs_def intro!: fmpredI split: if_splits)
  then obtain tmpl where tmpl: "buildTemplateEnvironmentVars rt_std rich_agent ?subs ?tools None = Inr tmpl"
    using template_env_ok_iff[OF rt_std_ok, of rich_agent ?subs ?tools None]
    by (cases "buildTemplateEnvironmentVars rt_std rich_agent ?subs ?tools None") auto
  have d: "distinct (map (\<lambda>s. sanitizeAgentName (sa_Name s)) (as_SubAgents (ag_Spec rich_agent)))"
    "distinct (map at_Name (as_Tools (ag_Spec rich_agent)))" "at_Name ` set (as_Tools (ag_Spec rich_agent)) = {''t''}"
    by (simp_all add: rich_agent_def new_agent_def)
  obtain mt where "findEnvVar tmpl ''AGENT_TOOLS'' = Some (env ''AGENT_TOOLS'' (json_Marshal mt))"
    and "fmdom' mt = {''t''}"
    using environment_lists_dependencies[OF rt_std_ok subs tools tmpl d(1,2)] unfolding d(3) by (elim exE conjE) rule
  then show ?thesis using subs tools tmpl by (intro exI conjI)
qed

text \<open>
  C15: A sanitized name is an identifier, whatever the name: not empty, not beginning with a
  digit, made of letters, digits and underscores. An identifier is left as it is.
\<close>

theorem sanitized_identifier:
  "is_identifier (sanitizeAgentName name)
   \<and> (sanitizeAgentName name = name \<longleftrightarrow> is_identifier name)"
  using sanitize_identifier[of name] identifier_unchanged[of name] by metis

section \<open>Endpoints\<close>

text \<open>
  C16: What the service exposes, the probe asks and the status publishes agree. For an agent
  with an A2A protocol the service has its port, forwarded to the same port of the container;
  the probe asks that port; and the published URL is the address of the service followed by the
  port and the path the probe asks.
\<close>

theorem endpoints_agree:
  assumes "set_owner_ok (setAgentOwner k agent)" and "service_closure k agent s = Inr s'"
    and "findA2AProtocol agent = Some p"
  shows "\<exists>port probe path. port \<in> set (ss_Ports (sv_Spec s')) \<and> sp_Port port = ap_Port p
    \<and> sp_TargetPort port = FromInt32 (ap_Port p)
    \<and> generateReadinessProbe agent = Some probe \<and> pr_Handler probe = HTTPGet path (sp_TargetPort port)
    \<and> buildA2AAgentCardUrl agent = ''http://'' @ om_Name (ag_Meta agent) @ ''.'' @ om_Namespace (ag_Meta agent)
        @ ''.svc.cluster.local:'' @ show_int32 (sp_Port port) @ path"
proof -
  have "p \<in> set (as_Protocols (ag_Spec agent))"
    using assms(3) find_SomeD[of _ _ p] unfolding findA2AProtocol_def by blast
  moreover have "ss_Ports (sv_Spec s') = map service_port (as_Protocols (ag_Spec agent))"
    using closure_serves_agent[OF assms(1,2)] by (simp add: serves_agent_def)
  ultimately show ?thesis
    using assms(3)
    by (intro exI[of _ "service_port p"] exI[of _ "the (generateReadinessProbe agent)"]
          exI[of _ "ap_Path p @ agentCardEndpoint"])
       (simp add: service_port_def generateReadinessProbe_def buildA2AAgentCardUrl_eq a2a_url_def)
qed

theorem endpoints_agree_witness:
  "\<exists>s' port. service_closure demo_kube demo_agent (new_service ''a'' ''n'') = Inr s'
     \<and> port \<in> set (ss_Ports (sv_Spec s')) \<and> sp_Port port = 8000"
proof -
  have "\<not> isl (service_closure demo_kube demo_agent (new_service ''a'' ''n''))"
    by (simp add: service_closure_eq sim_set_owner_def)
  then obtain s' where s': "service_closure demo_kube demo_agent (new_service ''a'' ''n'') = Inr s'"
    by (cases "service_closure demo_kube demo_agent (new_service ''a'' ''n'')") auto
  have owner: "set_owner_ok (setAgentOwner demo_kube demo_agent)" by (simp add: sim_owner_ok)
  have "\<exists>p. findA2AProtocol demo_agent = Some p \<and> ap_Port p = 8000"
    by (simp add: findA2AProtocol_def demo_defs A2AProtocol_def)
  then show ?thesis using endpoints_agree[OF owner s'] s' by fastforce
qed

section \<open>What the agent reads\<close>

text \<open>The maps handed to the agent are valid when the names, URLs and headers are.\<close>

lemma foldl_fmupd_pred:
  "(\<And>x. x \<in> set xs \<Longrightarrow> P (h x) (v x)) \<Longrightarrow> fmpred P (foldl (\<lambda>m x. fmupd (h x) (v x) m) fmempty xs)"
  by (induction xs rule: rev_induct) (auto intro!: fmpred_upd)

lemma identifier_valid: "valid_utf8 (sanitizeAgentName n)"
  using sanitize_identifier[of n] is_ident_rune_ascii
  by (intro valid_utf8_ascii) (auto simp: is_identifier_def is_ascii_def list_all_iff)

definition valid_sub :: "ResolvedSubAgent \<Rightarrow> bool" where
  "valid_sub r \<longleftrightarrow> valid_utf8 (rs_Url r) \<and> valid_utf8 (rs_InteractionType r)"

definition valid_tool :: "ResolvedTool \<Rightarrow> bool" where
  "valid_tool r \<longleftrightarrow> valid_utf8 (rt_Url r) \<and> list_all valid_utf8 (rt_PropagatedHeaders r)"

lemma config_keys_valid:
  "valid_utf8 ''url''" "valid_utf8 ''interaction_type''" "valid_utf8 ''propagate_headers''"
  by (rule valid_utf8_ascii, simp add: is_ascii_def)+

lemma sub_config_valid: "valid_sub r \<Longrightarrow> fmpred (\<lambda>k x. valid_utf8 k \<and> valid_jval x) (sub_agent_config r)"
  by (auto simp: sub_agent_config_def valid_sub_def config_keys_valid fmlookup_of_list split: if_splits intro!: fmpredI)

lemma tool_config_valid: "valid_tool r \<Longrightarrow> fmpred (\<lambda>k x. valid_utf8 k \<and> valid_jval x) (tool_config r)"
  by (auto simp: tool_config_def valid_tool_def config_keys_valid intro!: fmpred_upd)

lemma sub_agents_map_valid:
  assumes "is_order ord" and "fmpred (\<lambda>n r. valid_sub r) subs"
  shows "valid_json_map (sub_agents_map ord subs)"
  unfolding valid_json_map_def sub_agents_map_def
  by (rule foldl_fmupd_pred)
     (use assms in \<open>auto simp: go_range_set identifier_valid intro!: sub_config_valid dest: fmpredD\<close>)

lemma tools_map_valid:
  assumes "is_order ord" and "fmpred (\<lambda>n r. valid_utf8 n \<and> valid_tool r) tools"
  shows "valid_json_map (tools_map ord tools)"
  unfolding valid_json_map_def tools_map_def
  by (rule foldl_fmupd_pred)
     (use assms in \<open>auto simp: go_range_set intro!: tool_config_valid dest: fmpredD\<close>)

text \<open>
  C17: The agent can read what it is told. \<open>SUB_AGENTS\<close> and \<open>AGENT_TOOLS\<close> are JSON texts, whatever
  quotes, control characters or markup the names, URLs and headers contain. A reader gets back a
  map with the identifiers of the sub-agents, with the URL and the interaction type of each when
  the identifiers do not collide, and a map with exactly the tools' names, each with its URL and,
  if it has any, its propagated headers.
\<close>

theorem template_json_roundtrip:
  assumes "rt_ok rt" and "buildTemplateEnvironmentVars rt agent subs tools gw = Inr vars"
    and "fmpred (\<lambda>n r. valid_sub r) subs" and "fmpred (\<lambda>n r. valid_utf8 n \<and> valid_tool r) tools"
  shows "\<exists>sv tv sm tm. findEnvVar vars ''SUB_AGENTS'' = Some (env ''SUB_AGENTS'' sv)
    \<and> findEnvVar vars ''AGENT_TOOLS'' = Some (env ''AGENT_TOOLS'' tv)
    \<and> json_Unmarshal sv = Some sm \<and> json_Unmarshal tv = Some tm
    \<and> fmdom' sm = sanitizeAgentName ` fmdom' subs
    \<and> (inj_on sanitizeAgentName (fmdom' subs) \<longrightarrow>
        (\<forall>n r. fmlookup subs n = Some r \<longrightarrow> fmlookup sm (sanitizeAgentName n) = Some
           (fmap_of_list [(''url'', JString (rs_Url r)), (''interaction_type'', JString (rs_InteractionType r))])))
    \<and> (\<forall>n. fmlookup tm n = map_option
         (\<lambda>r. fmap_of_list ((''url'', JString (rt_Url r)) #
            (if rt_PropagatedHeaders r = [] then [] else [(''propagate_headers'', JStrings (rt_PropagatedHeaders r))])))
         (fmlookup tools n))"
proof -
  have ords: "is_order (order_subs rt)" "is_order (order_tools rt)" using assms(1) by (simp_all add: rt_ok_def)
  let ?sm = "sub_agents_map (order_subs rt) subs" and ?tm = "tools_map (order_tools rt) tools"
  note read = json_Unmarshal_Marshal[OF sub_agents_map_valid[OF ords(1) assms(3)]]
    json_Unmarshal_Marshal[OF tools_map_valid[OF ords(2) assms(4)]]
  have config: "tool_config r = fmap_of_list ((''url'', JString (rt_Url r)) #
      (if rt_PropagatedHeaders r = [] then [] else [(''propagate_headers'', JStrings (rt_PropagatedHeaders r))]))" for r
    by (auto simp: tool_config_def fmap_of_list_simps intro!: fmap_ext)
  have tools: "fmlookup ?tm n = map_option
         (\<lambda>r. fmap_of_list ((''url'', JString (rt_Url r)) #
            (if rt_PropagatedHeaders r = [] then [] else [(''propagate_headers'', JStrings (rt_PropagatedHeaders r))])))
         (fmlookup tools n)" for n
    unfolding config[symmetric] by (simp add: tools_map_lookup[OF ords(2)])
  have subs: "fmlookup ?sm (sanitizeAgentName n) = Some
      (fmap_of_list [(''url'', JString (rs_Url r)), (''interaction_type'', JString (rs_InteractionType r))])"
    if i: "inj_on sanitizeAgentName (fmdom' subs)" "fmlookup subs n = Some r" for n r
    using sub_agents_map_lookup[OF ords(1) i] unfolding sub_agent_config_def .
  show ?thesis
    by (rule exI exI[of _ ?sm] exI[of _ ?tm] conjI impI allI template_env_json[OF assms(1,2)] read
          sub_agents_map_dom[OF ords(1)] tools subs | assumption)+
qed

text \<open>A tool whose name and header have a quote, a backslash, a control character and markup.\<close>

definition odd_tools :: "(string, ResolvedTool) fmap" where
  "odd_tools = fmupd ''a\"<&'' \<lparr>rt_Url = ''http://y?a=1&b=2'', rt_PropagatedHeaders = [[CHR 0x5C, char_of (7::nat)]]\<rparr> fmempty"

theorem template_json_roundtrip_witness:
  "\<exists>vars tv tm. buildTemplateEnvironmentVars rt_std demo_agent fmempty odd_tools None = Inr vars
     \<and> findEnvVar vars ''AGENT_TOOLS'' = Some (env ''AGENT_TOOLS'' tv) \<and> json_Unmarshal tv = Some tm
     \<and> fmlookup tm ''a\"<&'' = Some (fmap_of_list [(''url'', JString ''http://y?a=1&b=2''),
          (''propagate_headers'', JStrings [[CHR 0x5C, char_of (7::nat)]])])"
proof -
  have "typed_subs fmempty" by (simp add: typed_subs_def)
  then obtain vars where vars: "buildTemplateEnvironmentVars rt_std demo_agent fmempty odd_tools None = Inr vars"
    using template_env_ok_iff[OF rt_std_ok, of demo_agent fmempty odd_tools None]
    by (cases "buildTemplateEnvironmentVars rt_std demo_agent fmempty odd_tools None") auto
  have "is_ascii ''a\"<&''" "is_ascii ''http://y?a=1&b=2''" "is_ascii [CHR 0x5C, char_of (7::nat)]"
    by (simp_all add: is_ascii_def)
  then have valid: "fmpred (\<lambda>n r. valid_utf8 n \<and> valid_tool r) odd_tools"
    by (auto simp: odd_tools_def valid_tool_def valid_utf8_ascii intro!: fmpred_upd)
  have empty: "fmpred (\<lambda>n r. valid_sub r) fmempty" by simp
  show ?thesis
    using template_json_roundtrip[OF rt_std_ok vars empty valid] vars
    by (elim exE conjE) (intro exI conjI, assumption+, simp add: odd_tools_def)
qed

end
