(* ===== verification/Resolution_Properties.thy ===== *)
theory Resolution_Properties
  imports Deployment_Properties
begin

text \<open>
  The properties of the resolution of an agent's dependencies, and of the agent without
  protocols.
\<close>

section \<open>Failures\<close>

lemma issues_of_filter:
  "issues_of one issue es = map (\<lambda>e. issue e (projl (one e))) (filter (\<lambda>e. isl (one e)) es)"
  by (induction es) (auto split: sum.splits)

lemma projl_results:
  "isl (resolveSubAgentUrl k w s ns) \<Longrightarrow> projl (subAgent_result k w ns s) = projl (resolveSubAgentUrl k w s ns)"
  "isl (resolveToolUrl k w t ns) \<Longrightarrow> projl (tool_result k w ns t) = projl (resolveToolUrl k w t ns)"
  by (auto simp: subAgent_result_def tool_result_def isl_def)

definition failure_report :: "string \<Rightarrow> string list \<Rightarrow> go_error option" where
  "failure_report kind entries =
     (if entries = [] then None
      else Some (Errorf (''failed to resolve '' @ show_nat (length entries) @ '' '' @ kind @ ''(s): ''
             @ join entries ''; '')))"

text \<open>
  C18: All unresolved dependencies are reported at once. The error of the resolution names the
  number of the sub-agents, respectively tools, that do not resolve and lists each of them, in
  the order of the specification, with its own error; there is no error exactly when there is
  none of them.
\<close>

theorem all_failures_reported:
  "snd (resolveAllSubAgents u k w agent) =
     failure_report ''subAgent''
       [''subAgent '' @ quote u (sa_Name s) @ '': '' @ Error (projl (resolveSubAgentUrl k w s (om_Namespace (ag_Meta agent)))).
          s \<leftarrow> as_SubAgents (ag_Spec agent), isl (resolveSubAgentUrl k w s (om_Namespace (ag_Meta agent)))]
   \<and> snd (resolveAllTools u k w agent) =
     failure_report ''tool''
       [''tool '' @ quote u (at_Name t) @ '': '' @ Error (projl (resolveToolUrl k w t (om_Namespace (ag_Meta agent)))).
          t \<leftarrow> as_Tools (ag_Spec agent), isl (resolveToolUrl k w t (om_Namespace (ag_Meta agent)))]"
proof -
  have comprehension: "concat (map (\<lambda>x. if P x then [f x] else []) xs) = map f (filter P xs)"
    for f :: "'c \<Rightarrow> string" and P xs
    by (induction xs) auto
  let ?ns = "om_Namespace (ag_Meta agent)"
  have subs: "issues_of (subAgent_result k w ?ns) (subAgent_issue u) (as_SubAgents (ag_Spec agent)) =
      map (\<lambda>s. ''subAgent '' @ quote u (sa_Name s) @ '': '' @ Error (projl (resolveSubAgentUrl k w s ?ns)))
        (filter (\<lambda>s. isl (resolveSubAgentUrl k w s ?ns)) (as_SubAgents (ag_Spec agent)))"
    by (simp add: issues_of_filter subAgent_issue_def projl_results cong: map_cong)
  have tools: "issues_of (tool_result k w ?ns) (tool_issue u) (as_Tools (ag_Spec agent)) =
      map (\<lambda>t. ''tool '' @ quote u (at_Name t) @ '': '' @ Error (projl (resolveToolUrl k w t ?ns)))
        (filter (\<lambda>t. isl (resolveToolUrl k w t ?ns)) (as_Tools (ag_Spec agent)))"
    by (simp add: issues_of_filter tool_issue_def projl_results cong: map_cong)
  show ?thesis
    unfolding resolveAllSubAgents_eq resolveAllTools_eq Let_def subs tools comprehension
    by (simp add: failure_report_def unresolved_error_def)
qed

section \<open>URLs\<close>

lemma resolveSubAgentUrl_Inr:
  "resolveSubAgentUrl k w s ns = Inr url \<longleftrightarrow>
     sa_Url s \<noteq> [] \<and> url = sa_Url s
     \<or> sa_Url s = [] \<and> (\<exists>ref a. sa_AgentRef s = Some ref \<and> getAgent k w (ref_key ns ref) = Inr a
          \<and> ast_Url (ag_Status a) = url \<and> url \<noteq> [])"
  by (auto simp: resolveSubAgentUrl_def ref_key_def Let_def split: option.splits sum.splits)

lemma resolveToolRouteUrl_Inr:
  "resolveToolRouteUrl k w ref ns = Inr url \<longleftrightarrow> url \<noteq> [] \<and> or_Name ref \<noteq> [] \<and>
     (\<exists>r. getToolRoute k w (ref_key ns ref) = Inr r \<and> trst_Url (tr_Status r) = url)"
  by (auto simp: resolveToolRouteUrl_def ref_key_def Let_def split: sum.splits)

lemma resolveToolServerUrl_Inr:
  "resolveToolServerUrl k w ref ns = Inr url \<longleftrightarrow> url \<noteq> [] \<and> or_Name ref \<noteq> [] \<and>
     (\<exists>r. getToolServer k w (ref_key ns ref) = Inr r \<and> tst_Url (tsv_Status r) = url)"
  by (auto simp: resolveToolServerUrl_def ref_key_def Let_def split: sum.splits)

lemma resolved_url_source:
  "(resolveSubAgentUrl k w s ns = Inr url \<longleftrightarrow>
      sa_Url s \<noteq> [] \<and> url = sa_Url s
      \<or> sa_Url s = [] \<and> (\<exists>ref a. sa_AgentRef s = Some ref \<and> getAgent k w (ref_key ns ref) = Inr a
           \<and> ast_Url (ag_Status a) = url \<and> url \<noteq> []))
   \<and> (resolveToolUrl k w t ns = Inr url \<longleftrightarrow> url \<noteq> [] \<and>
      (case (tu_ToolRouteRef (at_Upstream t), tu_ToolServerRef (at_Upstream t), tu_External (at_Upstream t)) of
         (Some ref, _, _) \<Rightarrow> or_Name ref \<noteq> [] \<and>
            (\<exists>r. getToolRoute k w (ref_key ns ref) = Inr r \<and> trst_Url (tr_Status r) = url)
       | (None, Some ref, _) \<Rightarrow> or_Name ref \<noteq> [] \<and>
            (\<exists>r. getToolServer k w (ref_key ns ref) = Inr r \<and> tst_Url (tsv_Status r) = url)
       | (None, None, Some ext) \<Rightarrow> url = TrimSpace (eu_Url ext)
       | (None, None, None) \<Rightarrow> False))"
  by (cases "tu_ToolRouteRef (at_Upstream t)"; cases "tu_ToolServerRef (at_Upstream t)";
      cases "tu_External (at_Upstream t)")
     (auto simp: resolveToolUrl_def resolveSubAgentUrl_Inr resolveToolRouteUrl_Inr resolveToolServerUrl_Inr Let_def)

lemma gateway_resolution:
  "resolveAiGateway k w agent = Inr g \<longleftrightarrow>
     (case as_AiGatewayRef (ag_Spec agent) of
        Some ref \<Rightarrow> \<exists>gw. g = Some gw \<and> getAiGateway k w (ref_key (om_Namespace (ag_Meta agent)) ref) = Inr gw
      | None \<Rightarrow>
          (case listAiGateways k w ''ai-gateway'' of
             Inl err \<Rightarrow> isNoMatchErr k err \<and> g = None
           | Inr gws \<Rightarrow> g = (case gws of [] \<Rightarrow> None | gw # _ \<Rightarrow> Some gw)))"
  using resolveExplicitAiGateway_Inr[of k w _ "om_Namespace (ag_Meta agent)" g]
    resolveDefaultAiGateway_Inr[of k w g]
  by (simp add: resolveAiGateway_def ref_key_def defaultAiGatewayNamespace_def split: option.splits)

text \<open>
  C19: Where a URL comes from. A sub-agent resolves to its own URL if it has one, else to the
  non-empty URL in the status of the agent it references; a tool to the non-empty URL in the
  status of the route it references, else of the server it references, else to its external
  URL without the blanks around it, if anything is left. Nothing else resolves. The gateway is
  the one the reference names, in the agent's namespace if the reference names none, and one that
  cannot be fetched is an error; without a reference it is the first gateway of the namespace
  \<open>ai-gateway\<close>, or none if there is none or the resource type is not installed.
\<close>

theorem resolution_sources:
  "((resolveSubAgentUrl k w s ns = Inr url \<longleftrightarrow>
      sa_Url s \<noteq> [] \<and> url = sa_Url s
      \<or> sa_Url s = [] \<and> (\<exists>ref a. sa_AgentRef s = Some ref \<and> getAgent k w (ref_key ns ref) = Inr a
           \<and> ast_Url (ag_Status a) = url \<and> url \<noteq> []))
   \<and> (resolveToolUrl k w t ns = Inr url \<longleftrightarrow> url \<noteq> [] \<and>
      (case (tu_ToolRouteRef (at_Upstream t), tu_ToolServerRef (at_Upstream t), tu_External (at_Upstream t)) of
         (Some ref, _, _) \<Rightarrow> or_Name ref \<noteq> [] \<and>
            (\<exists>r. getToolRoute k w (ref_key ns ref) = Inr r \<and> trst_Url (tr_Status r) = url)
       | (None, Some ref, _) \<Rightarrow> or_Name ref \<noteq> [] \<and>
            (\<exists>r. getToolServer k w (ref_key ns ref) = Inr r \<and> tst_Url (tsv_Status r) = url)
       | (None, None, Some ext) \<Rightarrow> url = TrimSpace (eu_Url ext)
       | (None, None, None) \<Rightarrow> False)))
   \<and> (resolveAiGateway k w agent = Inr g \<longleftrightarrow>
     (case as_AiGatewayRef (ag_Spec agent) of
        Some ref \<Rightarrow> \<exists>gw. g = Some gw \<and> getAiGateway k w (ref_key (om_Namespace (ag_Meta agent)) ref) = Inr gw
      | None \<Rightarrow>
          (case listAiGateways k w ''ai-gateway'' of
             Inl err \<Rightarrow> isNoMatchErr k err \<and> g = None
           | Inr gws \<Rightarrow> g = (case gws of [] \<Rightarrow> None | gw # _ \<Rightarrow> Some gw))))"
  by (intro conjI resolved_url_source gateway_resolution)

section \<open>An agent without protocols\<close>

text \<open>
  What the deletion documents, and that the read before it is not stale.
\<close>

definition delete_ok :: "'w kube \<Rightarrow> 'w view \<Rightarrow> bool" where
  "delete_ok k v \<longleftrightarrow>
     (\<forall>s w w'. deleteService k s w = (None, w') \<longrightarrow> v_service v w' (request_of (sv_Meta s)) = None)
     \<and> (\<forall>w key. case getService k w key of
          Inl err \<Rightarrow> isNotFound k err \<longrightarrow> v_service v w key = None
        | Inr s \<Rightarrow> request_of (sv_Meta s) = key)"

text \<open>
  C20: An agent without protocols is not exposed. When \<open>ensureService\<close> returns without an error
  for such an agent, the cluster has no service of its name, whether there was one before or
  not.
\<close>

theorem no_protocols_no_service:
  assumes "delete_ok k v" and "as_Protocols (ag_Spec agent) = []"
    and "ensureService k (agent, w) = (None, s)"
  shows "v_service v (snd s) (request_of (ag_Meta agent)) = None"
proof -
  have key: "nsname (om_Namespace (ag_Meta agent)) (om_Name (ag_Meta agent)) = request_of (ag_Meta agent)"
    by (simp add: request_of_def)
  have read: "case getService k w (request_of (ag_Meta agent)) of
      Inl err \<Rightarrow> isNotFound k err \<longrightarrow> v_service v w (request_of (ag_Meta agent)) = None
    | Inr s \<Rightarrow> request_of (sv_Meta s) = request_of (ag_Meta agent)"
    and gone: "deleteService k x w = (None, w') \<Longrightarrow> v_service v w' (request_of (sv_Meta x)) = None" for x w'
    using assms(1) unfolding delete_ok_def by blast+
  show ?thesis
  proof (cases "getService k w (request_of (ag_Meta agent))")
    case (Inl err)
    then show ?thesis
      using assms(2,3) read by (auto simp: ensureService_def Let_def key split: if_splits)
  next
    case (Inr x)
    then show ?thesis
      using assms(2,3) read gone[of x]
      by (auto simp: ensureService_def Let_def key split: prod.splits option.splits)
  qed
qed

definition silent_agent :: Agent where
  "silent_agent = new_agent ''a'' ''n'' empty_agent_spec"

lemma sim_delete_ok: "delete_ok (sim_kube ns) sim_view"
  by (auto simp: delete_ok_def sim_view_def sim_kube_def sim_get_def find_None_iff
      split: option.splits dest: find_SomeD)

theorem no_protocols_no_service_witness:
  "\<exists>w'. ensureService demo_kube (silent_agent, demo_cluster\<lparr>cl_services := [new_service ''a'' ''n'']\<rparr>)
          = (None, (silent_agent, w')) \<and> v_service sim_view w' (nsname ''n'' ''a'') = None"
proof -
  let ?w = "demo_cluster\<lparr>cl_services := [new_service ''a'' ''n'']\<rparr>"
  have prot: "as_Protocols (ag_Spec silent_agent) = []" "request_of (ag_Meta silent_agent) = nsname ''n'' ''a''"
    by (simp_all add: silent_agent_def new_agent_def empty_agent_spec_def request_of_def)
  have "fst (ensureService demo_kube (silent_agent, ?w)) = None"
    using prot(1) by (simp add: ensureService_def Let_def sim_kube_def split: sum.splits)
       (auto simp: sim_get_def split: option.splits)
  then obtain a w' where run: "ensureService demo_kube (silent_agent, ?w) = (None, (a, w'))"
    by (metis prod.collapse)
  moreover have "a = silent_agent" using ensureService_agent[of demo_kube "(silent_agent, ?w)"] run by simp
  ultimately show ?thesis
    using no_protocols_no_service[OF sim_delete_ok prot(1) run] by (auto simp: prot(2))
qed

end
