(* ===== verification/ToolServer_Reconciler.thy ===== *)
theory ToolServer_Reconciler
  imports Agent_Config Managed
begin

text \<open>
  \<open>internal/controller/toolserver_reconciler.go\<close>: the reconciliation of a tool server into a
  deployment and a service, and its status. Functions the agent's controller has a namesake
  of carry the suffix \<open>_ts\<close>.
\<close>

definition toolserverContainerName :: string where
  "toolserverContainerName = ''toolserver''"

definition httpTransport :: string where
  "httpTransport = ''http''"

definition sseTransport :: string where
  "sseTransport = ''sse''"

definition defaultToolServerEnvVars :: "ToolServer \<Rightarrow> EnvVar list" where
  "defaultToolServerEnvVars toolServer =
     [env ''OTEL_SEMCONV_STABILITY_OPT_IN'' ''gen_ai_latest_experimental'',
      env ''OTEL_SERVICE_NAME'' (om_Name (tsv_Meta toolServer))]"

definition buildReadinessProbe :: "int32 \<Rightarrow> Probe option" where
  "buildReadinessProbe port =
     Some \<lparr>pr_Handler = TCPSocket (FromInt32 port), pr_InitialDelaySeconds = 10,
       pr_PeriodSeconds = 10, pr_TimeoutSeconds = 3, pr_SuccessThreshold = 1,
       pr_FailureThreshold = 10\<rparr>"

definition getOrDefaultToolServerResourceRequirements :: "ToolServer \<Rightarrow> ResourceRequirements" where
  "getOrDefaultToolServerResourceRequirements toolServer =
     (case ts_Resources (tsv_Spec toolServer) of
        Some r \<Rightarrow> r
      | None \<Rightarrow>
          \<lparr>rr_Requests = fmap_of_list [(''memory'', MustParse ''300Mi''), (''cpu'', MustParse ''100m'')],
           rr_Limits = fmap_of_list [(''memory'', MustParse ''500Mi''), (''cpu'', MustParse ''500m'')],
           rr_rest = []\<rparr>)"

section \<open>The deployment\<close>

definition toolserver_managed_labels :: "ToolServer \<Rightarrow> strmap" where
  "toolserver_managed_labels toolServer =
     fmupd ''transport'' (ts_TransportType (tsv_Spec toolServer))
       (fmupd ''protocol'' (ts_Protocol (tsv_Spec toolServer))
         (fmupd appLabel (om_Name (tsv_Meta toolServer)) fmempty))"

definition update_toolserver_container :: "go_rt \<Rightarrow> ToolServer \<Rightarrow> Container \<Rightarrow> Container" where
  "update_toolserver_container rt toolServer container =
     (let spec = tsv_Spec toolServer;
          container = container\<lparr>ct_Image := ts_Image spec\<rparr>;
          container = container\<lparr>ct_Command := ts_Command spec\<rparr>;
          container = container\<lparr>ct_Args := ts_Args spec\<rparr>;
          container = container\<lparr>ct_Ports :=
            [\<lparr>cp_Name = ''toolserver'', cp_ContainerPort = ts_Port spec, cp_Protocol = ProtocolTCP\<rparr>]\<rparr>;
          container = container\<lparr>ct_Env :=
            mergeEnvironmentVariables rt (defaultToolServerEnvVars toolServer) (ts_Env spec)\<rparr>;
          container = container\<lparr>ct_EnvFrom := ts_EnvFrom spec\<rparr>;
          container = container\<lparr>ct_ReadinessProbe := buildReadinessProbe (ts_Port spec)\<rparr>
      in container\<lparr>ct_Resources := getOrDefaultToolServerResourceRequirements toolServer\<rparr>)"

definition deployment_closure_ts ::
  "go_rt \<Rightarrow> 'w kube \<Rightarrow> ToolServer \<Rightarrow> Deployment \<Rightarrow> go_error + Deployment" where
  "deployment_closure_ts rt k toolServer deployment =
     (let spec = tsv_Spec toolServer;
          managedLabels = toolserver_managed_labels toolServer;
          selectorLabels = fmupd appLabel (om_Name (tsv_Meta toolServer)) fmempty;
          ds = dp_Spec deployment;
          ds = (if \<not> om_Created (dp_Meta deployment)
                then ds\<lparr>ds_Selector := Some selectorLabels\<rparr> else ds);
          (podTemplateLabels, podTemplateAnnotations) =
            buildPodTemplateMetadata selectorLabels (ts_CommonMetadata spec) (ts_PodMetadata spec);
          tmpl = ds_Template ds;
          tmpl = tmpl\<lparr>pt_Labels := Some podTemplateLabels\<rparr>;
          tmpl = tmpl\<lparr>pt_Annotations := podTemplateAnnotations\<rparr>;
          ds = (if ds_Replicas ds = None then ds\<lparr>ds_Replicas := Some 0\<rparr> else ds);
          ds = (case ts_Replicas spec of
              Some n \<Rightarrow> ds\<lparr>ds_Replicas := Some n\<rparr>
            | None \<Rightarrow> ds\<lparr>ds_Replicas := Some 1\<rparr>);
          objMeta = apply_object_metadata (dp_Meta deployment) (ts_CommonMetadata spec) managedLabels;
          pod = upsert_container toolserverContainerName
            (update_toolserver_container rt toolServer) (pt_Spec tmpl);
          pod = pod\<lparr>ps_ImagePullSecrets := ts_ImagePullSecrets spec\<rparr>;
          ds = ds\<lparr>ds_Template := tmpl\<lparr>pt_Spec := pod\<rparr>\<rparr>
      in case setToolServerOwner k toolServer objMeta of
           Inl err \<Rightarrow> Inl err
         | Inr objMeta \<Rightarrow> Inr (deployment\<lparr>dp_Meta := objMeta, dp_Spec := ds\<rparr>))"

definition ensureDeployment_ts :: "go_rt \<Rightarrow> 'w kube \<Rightarrow> ToolServer \<Rightarrow> 'w \<Rightarrow> go_error option \<times> 'w" where
  "ensureDeployment_ts rt k toolServer w =
     (case createOrUpdateDeployment k
             (new_deployment (om_Name (tsv_Meta toolServer)) (om_Namespace (tsv_Meta toolServer)))
             (deployment_closure_ts rt k toolServer) w of
        (Inl err, w) \<Rightarrow> (Some err, w)
      | (Inr op, w) \<Rightarrow> (None, w))"

section \<open>The service\<close>

definition service_closure_ts :: "'w kube \<Rightarrow> ToolServer \<Rightarrow> Service \<Rightarrow> go_error + Service" where
  "service_closure_ts k toolServer service =
     (let spec = tsv_Spec toolServer;
          managedLabels = toolserver_managed_labels toolServer;
          selectorLabels = fmupd appLabel (om_Name (tsv_Meta toolServer)) fmempty;
          servicePorts = [\<lparr>sp_Name = ''toolserver'', sp_Port = ts_Port spec,
            sp_TargetPort = FromInt32 (ts_Port spec), sp_Protocol = ProtocolTCP\<rparr>];
          objMeta = apply_object_metadata (sv_Meta service) (ts_CommonMetadata spec) managedLabels;
          ss = sv_Spec service;
          ss = ss\<lparr>ss_Ports := servicePorts\<rparr>;
          ss = ss\<lparr>ss_Selector := Some selectorLabels\<rparr>;
          ss = ss\<lparr>ss_Type := ServiceTypeClusterIP\<rparr>
      in case setToolServerOwner k toolServer objMeta of
           Inl err \<Rightarrow> Inl err
         | Inr objMeta \<Rightarrow> Inr (service\<lparr>sv_Meta := objMeta, sv_Spec := ss\<rparr>))"

definition ensureService_ts :: "'w kube \<Rightarrow> ToolServer \<Rightarrow> 'w \<Rightarrow> go_error option \<times> 'w" where
  "ensureService_ts k toolServer w =
     (case createOrUpdateService k
             (new_service (om_Name (tsv_Meta toolServer)) (om_Namespace (tsv_Meta toolServer)))
             (service_closure_ts k toolServer) w of
        (Inl err, w) \<Rightarrow> (Some err, w)
      | (Inr op, w) \<Rightarrow> (None, w))"

section \<open>Status and Reconcile\<close>

definition toolserver_url :: "ToolServer \<Rightarrow> string" where
  "toolserver_url toolServer =
     ''http://'' @ om_Name (tsv_Meta toolServer) @ ''.'' @ om_Namespace (tsv_Meta toolServer)
       @ ''.svc.cluster.local:'' @ show_int32 (ts_Port (tsv_Spec toolServer)) @ ts_Path (tsv_Spec toolServer)"

definition updateToolServerStatusReady ::
  "'w kube \<Rightarrow> ToolServer \<times> 'w \<Rightarrow> go_error option \<times> (ToolServer \<times> 'w)" where
  "updateToolServerStatusReady k s =
     (let (toolServer, w) = s;
          status = tsv_Status toolServer;
          status = (if ts_TransportType (tsv_Spec toolServer) = httpTransport
                       \<or> ts_TransportType (tsv_Spec toolServer) = sseTransport
                    then status\<lparr>tst_Url := toolserver_url toolServer\<rparr>
                    else status\<lparr>tst_Url := []\<rparr>);
          status = status\<lparr>tst_Conditions := setStatusCondition k (tst_Conditions status)
            \<lparr>c_Type = conditionTypeReady, c_Status = ConditionTrue,
             c_ObservedGeneration = om_Generation (tsv_Meta toolServer), c_LastTransitionTime = [],
             c_Reason = ''Reconciled'', c_Message = ''ToolServer is ready''\<rparr>\<rparr>
      in case updateToolServerStatus k (toolServer\<lparr>tsv_Status := status\<rparr>) w of
           (Some err, s') \<Rightarrow> (Some (wrap ''failed to update toolserver status'' err), s')
         | (None, s') \<Rightarrow> (None, s'))"

text \<open>The URL is kept when the tool server is not ready.\<close>

definition updateToolServerStatusNotReady ::
  "'w kube \<Rightarrow> string \<Rightarrow> string \<Rightarrow> ToolServer \<times> 'w \<Rightarrow> go_error option \<times> (ToolServer \<times> 'w)" where
  "updateToolServerStatusNotReady k reason message s =
     (let (toolServer, w) = s;
          status = tsv_Status toolServer;
          status = status\<lparr>tst_Conditions := setStatusCondition k (tst_Conditions status)
            \<lparr>c_Type = conditionTypeReady, c_Status = ConditionFalse,
             c_ObservedGeneration = om_Generation (tsv_Meta toolServer), c_LastTransitionTime = [],
             c_Reason = reason, c_Message = message\<rparr>\<rparr>
      in case updateToolServerStatus k (toolServer\<lparr>tsv_Status := status\<rparr>) w of
           (Some err, s') \<Rightarrow> (Some (wrap ''failed to update toolserver status'' err), s')
         | (None, s') \<Rightarrow> (None, s'))"

definition reconcileToolServer :: "go_rt \<Rightarrow> 'w kube \<Rightarrow> ToolServer \<Rightarrow> 'w \<Rightarrow> go_error option \<times> 'w" where
  "reconcileToolServer rt k toolServer w =
     (case ensureDeployment_ts rt k toolServer w of
        (Some err, w) \<Rightarrow> (Some err, w)
      | (None, w) \<Rightarrow>
          (case ensureService_ts k toolServer w of
             (Some err, w) \<Rightarrow> (Some err, w)
           | (None, w) \<Rightarrow> (None, w)))"

definition Reconcile_ts :: "go_rt \<Rightarrow> 'w kube \<Rightarrow> Request \<Rightarrow> 'w \<Rightarrow> go_error option \<times> 'w" where
  "Reconcile_ts rt k req w =
     (case getToolServer k w req of
        Inl err \<Rightarrow> if isNotFound k err then (None, w) else (Some err, w)
      | Inr toolServer \<Rightarrow>
          (case reconcileToolServer rt k toolServer w of
             (Some reconcileErr, w) \<Rightarrow>
               (let (statusErr, (_, w)) =
                  retryToolServer k
                    (updateToolServerStatusNotReady k ''ReconciliationFailed'' (Error reconcileErr))
                    (toolServer, w)
                in (Some reconcileErr, w))
           | (None, w) \<Rightarrow>
               (case retryToolServer k (updateToolServerStatusReady k) (toolServer, w) of
                  (Some err, (_, w)) \<Rightarrow> (Some err, w)
                | (None, (_, w)) \<Rightarrow> (None, w))))"

text \<open>\<open>SetupWithManager\<close>: the requests an event on an object enqueues.\<close>

definition toolserver_watch_requests :: "'w kube \<Rightarrow> client_object \<Rightarrow> Request list" where
  "toolserver_watch_requests k obj =
     (case obj of
        ObjToolServer toolServer \<Rightarrow> [request_of (tsv_Meta toolServer)]
      | ObjDeployment deployment \<Rightarrow> toolServerOwnerRequests k (dp_Meta deployment)
      | ObjService service \<Rightarrow> toolServerOwnerRequests k (sv_Meta service)
      | _ \<Rightarrow> [])"

section \<open>What the closures compute\<close>

definition toolserver_selector :: "ToolServer \<Rightarrow> strmap" where
  "toolserver_selector toolServer = fmupd appLabel (om_Name (tsv_Meta toolServer)) fmempty"

definition managed_spec_ts :: "go_rt \<Rightarrow> ToolServer \<Rightarrow> bool \<Rightarrow> DeploymentSpec \<Rightarrow> DeploymentSpec" where
  "managed_spec_ts rt toolServer created ds =
     (let spec = tsv_Spec toolServer;
          md = buildPodTemplateMetadata (toolserver_selector toolServer) (ts_CommonMetadata spec)
                 (ts_PodMetadata spec)
      in ds\<lparr>ds_Replicas := Some (case ts_Replicas spec of Some n \<Rightarrow> n | None \<Rightarrow> 1),
            ds_Selector := if created then ds_Selector ds else Some (toolserver_selector toolServer),
            ds_Template := (ds_Template ds)\<lparr>pt_Labels := Some (fst md), pt_Annotations := snd md,
              pt_Spec := (upsert_container toolserverContainerName
                (update_toolserver_container rt toolServer)
                (pt_Spec (ds_Template ds)))\<lparr>ps_ImagePullSecrets := ts_ImagePullSecrets spec\<rparr>\<rparr>\<rparr>)"

lemma deployment_closure_ts_eq:
  "deployment_closure_ts rt k toolServer d =
     (case setToolServerOwner k toolServer (apply_object_metadata (dp_Meta d)
             (ts_CommonMetadata (tsv_Spec toolServer)) (toolserver_managed_labels toolServer)) of
        Inl err \<Rightarrow> Inl err
      | Inr m \<Rightarrow> Inr (d\<lparr>dp_Meta := m,
          dp_Spec := managed_spec_ts rt toolServer (om_Created (dp_Meta d)) (dp_Spec d)\<rparr>))"
  by (auto simp: deployment_closure_ts_def managed_spec_ts_def toolserver_selector_def Let_def
        split: sum.splits prod.splits option.splits)

lemma update_toolserver_container_name [simp]:
  "ct_Name (update_toolserver_container rt toolServer c) = ct_Name c"
  by (simp add: update_toolserver_container_def Let_def)

lemma update_toolserver_container_idem [simp]:
  "update_toolserver_container rt toolServer (update_toolserver_container rt toolServer c)
     = update_toolserver_container rt toolServer c"
  by (simp add: update_toolserver_container_def Let_def)

lemma upsert_container_secrets:
  "upsert_container name f (pod\<lparr>ps_ImagePullSecrets := v\<rparr>) =
     (upsert_container name f pod)\<lparr>ps_ImagePullSecrets := v\<rparr>"
  by (auto simp: upsert_container_def findContainerByName_def split: prod.splits option.splits)

lemma managed_spec_ts_idem:
  "managed_spec_ts rt toolServer True (managed_spec_ts rt toolServer created ds)
     = managed_spec_ts rt toolServer created ds"
  by (simp add: managed_spec_ts_def Let_def upsert_container_secrets upsert_container_idem)

lemma deployment_closure_ts_stable:
  assumes owner: "set_owner_ok (setToolServerOwner k toolServer)"
    and run: "deployment_closure_ts rt k toolServer d = Inr d'" and "stores_deployment d' x"
  shows "deployment_closure_ts rt k toolServer x = Inr x"
proof -
  obtain m where m: "setToolServerOwner k toolServer (apply_object_metadata (dp_Meta d)
       (ts_CommonMetadata (tsv_Spec toolServer)) (toolserver_managed_labels toolServer)) = Inr m"
    and d': "d' = d\<lparr>dp_Meta := m,
       dp_Spec := managed_spec_ts rt toolServer (om_Created (dp_Meta d)) (dp_Spec d)\<rparr>"
    using run by (auto simp: deployment_closure_ts_eq split: sum.splits)
  obtain g rv where x: "x = d'\<lparr>dp_Meta := server_meta g rv (dp_Meta d')\<rparr>"
    using assms(3) by (auto simp: stores_deployment_def)
  have "om_Created (server_meta g rv m)" by (simp add: server_meta_def)
  then show ?thesis
    using stored_metadata_fixed[OF owner m, of g rv]
    by (simp add: deployment_closure_ts_eq d' x managed_spec_ts_idem)
qed

lemma service_closure_ts_stable:
  assumes "set_owner_ok (setToolServerOwner k toolServer)"
    and "service_closure_ts k toolServer d = Inr d'" and "stores_service d' x"
  shows "service_closure_ts k toolServer x = Inr x"
  using assms(2,3) stored_metadata_fixed[OF assms(1)]
  by (fastforce simp: service_closure_ts_def Let_def stores_service_def split: sum.splits)

interpretation toolserver_deployment: managed_object
  "setToolServerOwner k toolServer" "deployment_closure_ts rt k toolServer" stores_deployment
  for rt k toolServer
  by unfold_locales (rule deployment_closure_ts_stable)

interpretation toolserver_service: managed_object
  "setToolServerOwner k toolServer" "service_closure_ts k toolServer" stores_service
  for k toolServer
  by unfold_locales (rule service_closure_ts_stable)

lemma default_env_distinct: "distinct (map ev_Name (defaultToolServerEnvVars toolServer))"
  by (simp add: defaultToolServerEnvVars_def)

section \<open>The status written\<close>

definition ready_status_ts :: "'w kube \<Rightarrow> ToolServer \<Rightarrow> ToolServerStatus" where
  "ready_status_ts k toolServer =
     \<lparr>tst_Conditions = setStatusCondition k (tst_Conditions (tsv_Status toolServer))
        \<lparr>c_Type = conditionTypeReady, c_Status = ConditionTrue,
         c_ObservedGeneration = om_Generation (tsv_Meta toolServer), c_LastTransitionTime = [],
         c_Reason = ''Reconciled'', c_Message = ''ToolServer is ready''\<rparr>,
      tst_Url = (if ts_TransportType (tsv_Spec toolServer) \<in> {httpTransport, sseTransport}
                 then toolserver_url toolServer else [])\<rparr>"

definition not_ready_status_ts :: "'w kube \<Rightarrow> string \<Rightarrow> string \<Rightarrow> ToolServer \<Rightarrow> ToolServerStatus" where
  "not_ready_status_ts k reason message toolServer =
     \<lparr>tst_Conditions = setStatusCondition k (tst_Conditions (tsv_Status toolServer))
        \<lparr>c_Type = conditionTypeReady, c_Status = ConditionFalse,
         c_ObservedGeneration = om_Generation (tsv_Meta toolServer), c_LastTransitionTime = [],
         c_Reason = reason, c_Message = message\<rparr>,
      tst_Url = tst_Url (tsv_Status toolServer)\<rparr>"

definition write_toolserver_status ::
  "'w kube \<Rightarrow> (ToolServer \<Rightarrow> ToolServerStatus) \<Rightarrow> ToolServer \<times> 'w \<Rightarrow> go_error option \<times> (ToolServer \<times> 'w)" where
  "write_toolserver_status k status s =
     (let (err, s') = updateToolServerStatus k (fst s\<lparr>tsv_Status := status (fst s)\<rparr>) (snd s)
      in (map_option (wrap ''failed to update toolserver status'') err, s'))"

lemma updateToolServerStatusReady_eq:
  "updateToolServerStatusReady k s = write_toolserver_status k (ready_status_ts k) s"
  by (cases s; cases "tsv_Status (fst s)")
     (auto simp: updateToolServerStatusReady_def write_toolserver_status_def ready_status_ts_def Let_def
        split: prod.splits option.splits)

lemma updateToolServerStatusNotReady_eq:
  "updateToolServerStatusNotReady k r m s = write_toolserver_status k (not_ready_status_ts k r m) s"
  by (cases s; cases "tsv_Status (fst s)")
     (auto simp: updateToolServerStatusNotReady_def write_toolserver_status_def not_ready_status_ts_def
        Let_def split: prod.splits option.splits)

lemma ready_condition_ts:
  assumes "set_condition_ok (setStatusCondition k)"
  shows "\<exists>c. findReadyCondition (tst_Conditions (ready_status_ts k x)) = Some c \<and> c_Status c = ConditionTrue"
  using assms unfolding set_condition_ok_def findReadyCondition_find ready_status_ts_def
  by (metis (no_types, lifting) ToolServerStatus.select_convs(1) Condition.select_convs(1-3))

lemma not_ready_condition_ts:
  assumes "set_condition_ok (setStatusCondition k)"
  shows "\<exists>c. findReadyCondition (tst_Conditions (not_ready_status_ts k r m x)) = Some c
     \<and> c_Status c = ConditionFalse \<and> c_Reason c = r \<and> c_Message c = m"
  using assms unfolding set_condition_ok_def findReadyCondition_find not_ready_status_ts_def
  by (metis (no_types, lifting) ToolServerStatus.select_convs(1) Condition.select_convs)

text \<open>
  As for agents: a retried write that succeeds stores the status computed for the tool server.
  The URL of the object in memory is part of what the next attempt starts from, so an
  invariant on it is kept along if the status keeps it.
\<close>

lemma retried_toolserver_write:
  assumes "retry_ok (retryToolServer k)"
    and upd: "status_update_ok (updateToolServerStatus k) stored tsv_Meta tsv_Status"
    and "\<And>x. P x \<Longrightarrow> P (x\<lparr>tsv_Status := f x\<rparr>)" and "P (fst s)"
    and "retryToolServer k (write_toolserver_status k f) s = (None, s')"
  shows "\<exists>a x. tsv_Meta a = tsv_Meta (fst s) \<and> tsv_Spec a = tsv_Spec (fst s) \<and> P a
     \<and> stored (snd s') (request_of (tsv_Meta (fst s))) = Some x \<and> tsv_Status x = f a"
proof -
  let ?w = "write_toolserver_status k f"
  let ?I = "\<lambda>x. tsv_Meta (fst x) = tsv_Meta (fst s) \<and> tsv_Spec (fst x) = tsv_Spec (fst s) \<and> P (fst x)"
  have failed: "fst (snd (?w x)) = fst x\<lparr>tsv_Status := f (fst x)\<rparr>" if "fst (?w x) \<noteq> None" for x
    using status_update_failure[OF upd, of "fst x\<lparr>tsv_Status := f (fst x)\<rparr>" "snd x"] that
    by (simp add: write_toolserver_status_def case_prod_beta)
  have "\<exists>s0. ?I s0 \<and> retryToolServer k ?w s = ?w s0"
  proof (rule retry_last_run[OF assms(1)])
    show "?I s" using assms(4) by simp
    show "?I (snd (?w x))" if "?I x" and "fst (?w x) \<noteq> None" for x
      using that failed[OF that(2)] assms(3)[of "fst x"] by simp
  qed
  then obtain s0 where s0: "?I s0" and run: "?w s0 = (None, s')"
    using assms(5) by auto
  have "updateToolServerStatus k (fst s0\<lparr>tsv_Status := f (fst s0)\<rparr>) (snd s0) = (None, s')"
    using run by (auto simp: write_toolserver_status_def split: prod.splits)
  then have "\<exists>x. stored (snd s') (request_of (tsv_Meta (fst s0))) = Some x \<and> tsv_Status x = f (fst s0)"
    using status_update_success[OF upd, of "fst s0\<lparr>tsv_Status := f (fst s0)\<rparr>" "snd s0" "fst s'" "snd s'"]
    by simp
  then show ?thesis using s0 by metis
qed

end
