(* ===== verification/ToolServer_Properties.thy ===== *)
theory ToolServer_Properties
  imports Cluster ToolServer_Reconciler
begin

text \<open>
  The tool server controller: the objects a tool server should have, that a reconciliation
  without an error leaves them in the cluster, and the properties of its status.
\<close>

section \<open>The objects a tool server should have\<close>

definition runs_toolserver :: "ToolServer \<Rightarrow> Deployment \<Rightarrow> bool" where
  "runs_toolserver toolServer d \<longleftrightarrow>
     (let spec = tsv_Spec toolServer; pod = pt_Spec (ds_Template (dp_Spec d))
      in carries (toolserver_selector toolServer) (pt_Labels (ds_Template (dp_Spec d)))
         \<and> carries (toolserver_managed_labels toolServer) (om_Labels (dp_Meta d))
         \<and> ds_Replicas (dp_Spec d) = Some (case ts_Replicas spec of Some n \<Rightarrow> n | None \<Rightarrow> 1)
         \<and> ps_ImagePullSecrets pod = ts_ImagePullSecrets spec
         \<and> (\<exists>c. container_named ''toolserver'' pod = Some c
              \<and> ct_Image c = ts_Image spec \<and> ct_Command c = ts_Command spec \<and> ct_Args c = ts_Args spec
              \<and> (\<exists>p. ct_Ports c = [p] \<and> cp_ContainerPort p = ts_Port spec)
              \<and> merged_from (defaultToolServerEnvVars toolServer) (ts_Env spec) (ct_Env c)
              \<and> ct_EnvFrom c = ts_EnvFrom spec
              \<and> (\<exists>p. ct_ReadinessProbe c = Some p \<and> pr_Handler p = TCPSocket (FromInt32 (ts_Port spec)))
              \<and> ct_Resources c = getOrDefaultToolServerResourceRequirements toolServer))"

definition serves_toolserver :: "ToolServer \<Rightarrow> Service \<Rightarrow> bool" where
  "serves_toolserver toolServer s \<longleftrightarrow>
     carries (toolserver_managed_labels toolServer) (om_Labels (sv_Meta s))
     \<and> (\<exists>p. ss_Ports (sv_Spec s) = [p] \<and> sp_Port p = ts_Port (tsv_Spec toolServer)
          \<and> sp_TargetPort p = FromInt32 (ts_Port (tsv_Spec toolServer)))
     \<and> ss_Selector (sv_Spec s) = Some (toolserver_selector toolServer)
     \<and> ss_Type (sv_Spec s) = ServiceTypeClusterIP"

lemma update_toolserver_container_fields:
  "ct_Image (update_toolserver_container rt x c) = ts_Image (tsv_Spec x)"
  "ct_Command (update_toolserver_container rt x c) = ts_Command (tsv_Spec x)"
  "ct_Args (update_toolserver_container rt x c) = ts_Args (tsv_Spec x)"
  "ct_Ports (update_toolserver_container rt x c) =
     [\<lparr>cp_Name = ''toolserver'', cp_ContainerPort = ts_Port (tsv_Spec x), cp_Protocol = ProtocolTCP\<rparr>]"
  "ct_Env (update_toolserver_container rt x c) =
     mergeEnvironmentVariables rt (defaultToolServerEnvVars x) (ts_Env (tsv_Spec x))"
  "ct_EnvFrom (update_toolserver_container rt x c) = ts_EnvFrom (tsv_Spec x)"
  "ct_ReadinessProbe (update_toolserver_container rt x c) = buildReadinessProbe (ts_Port (tsv_Spec x))"
  "ct_Resources (update_toolserver_container rt x c) = getOrDefaultToolServerResourceRequirements x"
  by (simp_all add: update_toolserver_container_def Let_def)

lemma container_named_secrets [simp]:
  "container_named name (pod\<lparr>ps_ImagePullSecrets := v\<rparr>) = container_named name pod"
  by (simp add: container_named_def)

lemma deployment_closure_ts_Inr:
  assumes "deployment_closure_ts rt k x d = Inr d'"
  obtains m where "setToolServerOwner k x (apply_object_metadata (dp_Meta d)
       (ts_CommonMetadata (tsv_Spec x)) (toolserver_managed_labels x)) = Inr m"
    and "d' = d\<lparr>dp_Meta := m, dp_Spec := managed_spec_ts rt x (om_Created (dp_Meta d)) (dp_Spec d)\<rparr>"
  using assms by (auto simp: deployment_closure_ts_eq split: sum.splits)

lemma closure_runs_toolserver:
  assumes "rt_ok rt" and "set_owner_ok (setToolServerOwner k x)"
    and "deployment_closure_ts rt k x d = Inr d'"
  shows "runs_toolserver x d'"
proof -
  let ?md = "apply_object_metadata (dp_Meta d) (ts_CommonMetadata (tsv_Spec x)) (toolserver_managed_labels x)"
  obtain m where m: "setToolServerOwner k x ?md = Inr m"
    and d': "d' = d\<lparr>dp_Meta := m, dp_Spec := managed_spec_ts rt x (om_Created (dp_Meta d)) (dp_Spec d)\<rparr>"
    using assms(3) by (rule deployment_closure_ts_Inr)
  have "om_Labels m = om_Labels ?md" by (rule set_owner_frame(1)[OF assms(2) m])
  then have labels: "carries (toolserver_managed_labels x) (om_Labels m)"
    by (simp add: apply_object_metadata_labels carries_written)
  have pod: "carries (toolserver_selector x)
      (Some (fst (buildPodTemplateMetadata (toolserver_selector x) cm pm)))" for cm pm
    by (simp add: podTemplate_labels carries_written)
  show ?thesis
    using merge_merged_from[OF assms(1) default_env_distinct] labels pod
    by (simp add: runs_toolserver_def d' managed_spec_ts_def Let_def toolserverContainerName_def
        upsert_container_named update_toolserver_container_fields buildReadinessProbe_def)
qed

lemma runs_toolserver_stored: "stores_deployment d y \<Longrightarrow> runs_toolserver x y \<longleftrightarrow> runs_toolserver x d"
  by (auto simp: stores_deployment_def runs_toolserver_def server_meta_def Let_def)

lemma service_closure_ts_Inr:
  assumes "service_closure_ts k x s = Inr s'"
  obtains m where "setToolServerOwner k x (apply_object_metadata (sv_Meta s)
       (ts_CommonMetadata (tsv_Spec x)) (toolserver_managed_labels x)) = Inr m"
    and "s' = s\<lparr>sv_Meta := m, sv_Spec := (sv_Spec s)\<lparr>
       ss_Ports := [\<lparr>sp_Name = ''toolserver'', sp_Port = ts_Port (tsv_Spec x),
         sp_TargetPort = FromInt32 (ts_Port (tsv_Spec x)), sp_Protocol = ProtocolTCP\<rparr>],
       ss_Selector := Some (toolserver_selector x), ss_Type := ServiceTypeClusterIP\<rparr>\<rparr>"
  using assms by (auto simp: service_closure_ts_def toolserver_selector_def Let_def split: sum.splits)

lemma closure_serves_toolserver:
  assumes "set_owner_ok (setToolServerOwner k x)" and "service_closure_ts k x s = Inr s'"
  shows "serves_toolserver x s'"
proof -
  let ?md = "apply_object_metadata (sv_Meta s) (ts_CommonMetadata (tsv_Spec x)) (toolserver_managed_labels x)"
  obtain m where m: "setToolServerOwner k x ?md = Inr m"
    and s': "s' = s\<lparr>sv_Meta := m, sv_Spec := (sv_Spec s)\<lparr>
       ss_Ports := [\<lparr>sp_Name = ''toolserver'', sp_Port = ts_Port (tsv_Spec x),
         sp_TargetPort = FromInt32 (ts_Port (tsv_Spec x)), sp_Protocol = ProtocolTCP\<rparr>],
       ss_Selector := Some (toolserver_selector x), ss_Type := ServiceTypeClusterIP\<rparr>\<rparr>"
    using assms(2) by (rule service_closure_ts_Inr)
  have "om_Labels m = om_Labels ?md" by (rule set_owner_frame(1)[OF assms(1) m])
  then show ?thesis
    by (simp add: serves_toolserver_def s' apply_object_metadata_labels carries_written)
qed

lemma serves_toolserver_stored: "stores_service s y \<Longrightarrow> serves_toolserver x y \<longleftrightarrow> serves_toolserver x s"
  by (auto simp: stores_service_def serves_toolserver_def server_meta_def)

lemma closure_ts_keys:
  assumes "set_owner_ok (setToolServerOwner k x)"
  shows "deployment_closure_ts rt k x old = Inr new \<Longrightarrow> request_of (dp_Meta new) = request_of (dp_Meta old)"
    and "service_closure_ts k x old' = Inr new' \<Longrightarrow> request_of (sv_Meta new') = request_of (sv_Meta old')"
  using managed_key[OF assms] by (auto elim!: deployment_closure_ts_Inr service_closure_ts_Inr)

lemma closures_ts_owned:
  "deployment_closure_ts rt k x old = Inr new \<Longrightarrow> owned_by (setToolServerOwner k x) (dp_Meta new)"
  "service_closure_ts k x old' = Inr new' \<Longrightarrow> owned_by (setToolServerOwner k x) (sv_Meta new')"
  by (auto elim!: deployment_closure_ts_Inr service_closure_ts_Inr intro: owned_byI)

section \<open>A reconciliation leaves them in the cluster\<close>

text \<open>As for agents: nothing else is written over a deployment or a service.\<close>

definition undisturbed_ts :: "'w kube \<Rightarrow> 'w view \<Rightarrow> bool" where
  "undisturbed_ts k v \<longleftrightarrow>
     (\<forall>obj f w. v_deployment v (snd (createOrUpdateService k obj f w)) = v_deployment v w)
     \<and> (\<forall>x w. v_deployment v (snd (snd (updateToolServerStatus k x w))) = v_deployment v w
          \<and> v_service v (snd (snd (updateToolServerStatus k x w))) = v_service v w)"

lemma status_frames_ts:
  assumes "undisturbed_ts k v"
  shows "v_deployment v (snd (snd (write_toolserver_status k f s))) = v_deployment v (snd s)"
    and "v_service v (snd (snd (write_toolserver_status k f s))) = v_service v (snd s)"
  using assms by (simp_all add: undisturbed_ts_def write_toolserver_status_def case_prod_beta)

lemma Reconcile_ts_success:
  assumes "getToolServer k w req = Inr x" and "Reconcile_ts rt k req w = (None, w')"
  obtains w1 a where "reconcileToolServer rt k x w = (None, w1)"
    and "retryToolServer k (updateToolServerStatusReady k) (x, w1) = (None, (a, w'))"
  using assms by (auto simp: Reconcile_ts_def split: prod.splits option.splits)

lemma reconcileToolServer_deploys:
  assumes "rt_ok rt" and "undisturbed_ts k v" and "set_owner_ok (setToolServerOwner k x)"
    and "written_ok stores_deployment dp_Meta (v_deployment v) (createOrUpdateDeployment k)"
    and "written_ok stores_service sv_Meta (v_service v) (createOrUpdateService k)"
    and "reconcileToolServer rt k x w = (None, w1)"
  shows "\<exists>d s. v_deployment v w1 (request_of (tsv_Meta x)) = Some d \<and> runs_toolserver x d
     \<and> v_service v w1 (request_of (tsv_Meta x)) = Some s \<and> serves_toolserver x s
     \<and> owned_by (setToolServerOwner k x) (dp_Meta d) \<and> owned_by (setToolServerOwner k x) (sv_Meta s)"
proof -
  let ?d = "new_deployment (om_Name (tsv_Meta x)) (om_Namespace (tsv_Meta x))"
  let ?s = "new_service (om_Name (tsv_Meta x)) (om_Namespace (tsv_Meta x))"
  have key: "request_of (dp_Meta ?d) = request_of (tsv_Meta x)" "request_of (sv_Meta ?s) = request_of (tsv_Meta x)"
    by (simp_all add: new_deployment_def new_service_def request_of_def)
  obtain op op' w0 where dep: "createOrUpdateDeployment k ?d (deployment_closure_ts rt k x) w = (Inr op, w0)"
    and svc: "createOrUpdateService k ?s (service_closure_ts k x) w0 = (Inr op', w1)"
    using assms(6)
    by (auto simp: reconcileToolServer_def ensureDeployment_ts_def ensureService_ts_def
        split: prod.splits option.splits sum.splits)
  have same: "v_deployment v w1 = v_deployment v w0"
    using assms(2) svc unfolding undisturbed_ts_def by (metis snd_conv)
  obtain old new y where "deployment_closure_ts rt k x old = Inr new"
    "v_deployment v w0 (request_of (tsv_Meta x)) = Some y" "y = new \<or> stores_deployment new y"
    using assms(4) dep closure_ts_keys(1)[OF assms(3)] unfolding written_ok_def key[symmetric] by metis
  then have "v_deployment v w1 (request_of (tsv_Meta x)) = Some y \<and> runs_toolserver x y
      \<and> owned_by (setToolServerOwner k x) (dp_Meta y)"
    using closure_runs_toolserver[OF assms(1,3)] runs_toolserver_stored same closures_ts_owned(1) stored_owned(1) by metis
  moreover obtain old' new' z where "service_closure_ts k x old' = Inr new'"
    "v_service v w1 (request_of (tsv_Meta x)) = Some z" "z = new' \<or> stores_service new' z"
    using assms(5) svc closure_ts_keys(2)[OF assms(3)] unfolding written_ok_def key(2)[symmetric] by metis
  then have "v_service v w1 (request_of (tsv_Meta x)) = Some z \<and> serves_toolserver x z
      \<and> owned_by (setToolServerOwner k x) (sv_Meta z)"
    using closure_serves_toolserver[OF assms(3)] serves_toolserver_stored closures_ts_owned(2) stored_owned(2) by metis
  ultimately show ?thesis by blast
qed

lemma Reconcile_ts_deploys:
  assumes "rt_ok rt" and "retry_ok (retryToolServer k)" and "undisturbed_ts k v"
    and "set_owner_ok (setToolServerOwner k x)"
    and "written_ok stores_deployment dp_Meta (v_deployment v) (createOrUpdateDeployment k)"
    and "written_ok stores_service sv_Meta (v_service v) (createOrUpdateService k)"
    and "getToolServer k w req = Inr x" and "Reconcile_ts rt k req w = (None, w')"
  shows "\<exists>d s. v_deployment v w' (request_of (tsv_Meta x)) = Some d \<and> runs_toolserver x d
    \<and> v_service v w' (request_of (tsv_Meta x)) = Some s \<and> serves_toolserver x s
    \<and> owned_by (setToolServerOwner k x) (dp_Meta d) \<and> owned_by (setToolServerOwner k x) (sv_Meta s)"
proof -
  obtain w1 a where run: "reconcileToolServer rt k x w = (None, w1)"
    and upd: "retryToolServer k (updateToolServerStatusReady k) (x, w1) = (None, (a, w'))"
    using assms(7,8) by (rule Reconcile_ts_success)
  have ready: "updateToolServerStatusReady k = write_toolserver_status k (ready_status_ts k)"
    by (intro ext) (rule updateToolServerStatusReady_eq)
  have "v_deployment v w' = v_deployment v w1" "v_service v w' = v_service v w1"
    using retried_frame[OF assms(2), of "v_deployment v" "updateToolServerStatusReady k" "(x, w1)"]
      retried_frame[OF assms(2), of "v_service v" "updateToolServerStatusReady k" "(x, w1)"]
      status_frames_ts[OF assms(3)] upd by (simp_all add: ready)
  then show ?thesis using reconcileToolServer_deploys[OF assms(1,3,4,5,6) run] by simp
qed

text \<open>
  C21: A reconciliation without an error does what the tool server is for: what the API server
  holds afterwards is a deployment that runs the tool server's image with its command, port,
  environment, probe and resources, and a service that exposes the port and selects its pods.
  Whatever is done to either of them later, short of removing the owner reference, its event
  enqueues the tool server again.
\<close>

theorem toolserver_reconcile_deploys:
  assumes "rt_ok rt" and "retry_ok (retryToolServer k)" and "undisturbed_ts k v"
    and "set_owner_ok (setToolServerOwner k x)"
    and "owner_watch_ok (setToolServerOwner k x) (toolServerOwnerRequests k) (request_of (tsv_Meta x))"
    and "written_ok stores_deployment dp_Meta (v_deployment v) (createOrUpdateDeployment k)"
    and "written_ok stores_service sv_Meta (v_service v) (createOrUpdateService k)"
    and "getToolServer k w req = Inr x" and "Reconcile_ts rt k req w = (None, w')"
  shows "\<exists>d s. v_deployment v w' (request_of (tsv_Meta x)) = Some d \<and> runs_toolserver x d
    \<and> v_service v w' (request_of (tsv_Meta x)) = Some s \<and> serves_toolserver x s
    \<and> (\<forall>d'. request_of (dp_Meta d') = request_of (dp_Meta d)
         \<and> om_OwnerReferences (dp_Meta d') = om_OwnerReferences (dp_Meta d) \<longrightarrow>
         request_of (tsv_Meta x) \<in> set (toolserver_watch_requests k (ObjDeployment d')))
    \<and> (\<forall>s'. request_of (sv_Meta s') = request_of (sv_Meta s)
         \<and> om_OwnerReferences (sv_Meta s') = om_OwnerReferences (sv_Meta s) \<longrightarrow>
         request_of (tsv_Meta x) \<in> set (toolserver_watch_requests k (ObjService s')))"
  using Reconcile_ts_deploys[OF assms(1-4,6-9)] owner_watched[OF assms(5)]
  unfolding toolserver_watch_requests_def client_object.case by metis

subsection \<open>A concrete tool server\<close>

definition demo_server :: ToolServer where
  "demo_server = new_tool_server ''t'' ''n'' (empty_tool_server_spec\<lparr>
     ts_Protocol := ''mcp'', ts_TransportType := ''http'', ts_Image := ''i'', ts_Port := 8080, ts_Path := ''/mcp''\<rparr>)"

definition server_cluster :: cluster where
  "server_cluster = empty_cluster\<lparr>cl_servers := [demo_server]\<rparr>"

lemma demo_server_get [simp]:
  "getToolServer (sim_kube ns) server_cluster (nsname ''n'' ''t'') = Inr demo_server"
  "request_of (tsv_Meta demo_server) = nsname ''n'' ''t''"
  by (simp_all add: server_cluster_def demo_server_def new_tool_server_def sim_get_def request_of_def)

lemma sim_undisturbed_ts: "undisturbed_ts (sim_kube ns) sim_view"
proof -
  have "cl_deployments (snd (createOrUpdateService (sim_kube ns) obj f w)) = cl_deployments w" for obj f w
    unfolding sim_kube_def by (simp add: sim_create_or_update_frame)
  moreover have "cl_deployments (snd (snd (updateToolServerStatus (sim_kube ns) a w))) = cl_deployments w"
    "cl_services (snd (snd (updateToolServerStatus (sim_kube ns) a w))) = cl_services w" for a w
    unfolding sim_kube_def by (simp_all add: sim_update_status_frame)
  ultimately show ?thesis by (simp add: undisturbed_ts_def sim_view_def)
qed

lemma sim_reconcile_ts:
  assumes "getToolServer (sim_kube ns) w req = Inr x"
  shows "\<exists>w'. Reconcile_ts rt (sim_kube ns) req w = (None, w')"
proof -
  have dep: "\<not> isl (deployment_closure_ts rt (sim_kube ns) x d)" for d
    by (simp add: deployment_closure_ts_eq sim_set_owner_def)
  have svc: "\<not> isl (service_closure_ts (sim_kube ns) x d)" for d
    by (simp add: service_closure_ts_def sim_set_owner_def Let_def)
  obtain op w1 where 1: "createOrUpdateDeployment (sim_kube ns)
      (new_deployment (om_Name (tsv_Meta x)) (om_Namespace (tsv_Meta x)))
      (deployment_closure_ts rt (sim_kube ns) x) w = (Inr op, w1)" and s1: "cl_servers w1 = cl_servers w"
    using sim_create_or_update_run[of "deployment_closure_ts rt (sim_kube ns) x", OF dep, where meta = dp_Meta
        and objs = cl_deployments and put = "\<lambda>ds w. w\<lparr>cl_deployments := ds\<rparr>"
        and obj = "new_deployment (om_Name (tsv_Meta x)) (om_Namespace (tsv_Meta x))" and w = w]
    by (fastforce simp: sim_kube_def)
  obtain op' w2 where 2: "createOrUpdateService (sim_kube ns)
      (new_service (om_Name (tsv_Meta x)) (om_Namespace (tsv_Meta x)))
      (service_closure_ts (sim_kube ns) x) w1 = (Inr op', w2)" and s2: "cl_servers w2 = cl_servers w1"
    using sim_create_or_update_run[of "service_closure_ts (sim_kube ns) x", OF svc, where meta = sv_Meta
        and objs = cl_services and put = "\<lambda>ds w. w\<lparr>cl_services := ds\<rparr>"
        and obj = "new_service (om_Name (tsv_Meta x)) (om_Namespace (tsv_Meta x))" and w = w1]
    by (fastforce simp: sim_kube_def)
  have key: "request_of (tsv_Meta x) = req" using assms by (auto dest: sim_get_key)
  have "fst (write_toolserver_status (sim_kube ns) f (x, w2)) = None" for f
    using assms s1 s2 key
    by (simp add: write_toolserver_status_def sim_update_status_def Let_def sim_kube_def)
  then have "fst (updateToolServerStatusReady (sim_kube ns) (x, w2)) = None"
    unfolding updateToolServerStatusReady_eq .
  then obtain a w3 where "updateToolServerStatusReady (sim_kube ns) (x, w2) = (None, (a, w3))"
    by (metis prod.collapse)
  then show ?thesis
    using assms
    by (simp add: Reconcile_ts_def reconcileToolServer_def ensureDeployment_ts_def ensureService_ts_def 1 2
        del: sim_kube_sel(6))
qed

theorem toolserver_reconcile_deploys_witness:
  "\<exists>w' d s. Reconcile_ts rt_std (sim_kube ''ops'') (nsname ''n'' ''t'') server_cluster = (None, w')
     \<and> v_deployment sim_view w' (nsname ''n'' ''t'') = Some d \<and> runs_toolserver demo_server d
     \<and> v_service sim_view w' (nsname ''n'' ''t'') = Some s \<and> serves_toolserver demo_server s
     \<and> nsname ''n'' ''t'' \<in> set (toolserver_watch_requests (sim_kube ''ops'') (ObjDeployment d))"
proof -
  let ?k = "sim_kube ''ops''"
  obtain w' where w': "Reconcile_ts rt_std ?k (nsname ''n'' ''t'') server_cluster = (None, w')"
    using sim_reconcile_ts[OF demo_server_get(1)] by blast
  have laws: "retry_ok (retryToolServer ?k)" "set_owner_ok (setToolServerOwner ?k demo_server)"
    "owner_watch_ok (setToolServerOwner ?k demo_server) (toolServerOwnerRequests ?k) (request_of (tsv_Meta demo_server))"
    using sim_owner_watch_ok[of "tsv_Meta demo_server"] by (simp_all add: sim_retry_ok sim_owner_ok)
  from toolserver_reconcile_deploys[OF rt_std_ok laws(1) sim_undisturbed_ts laws(2,3) sim_deployment_written
      sim_service_written demo_server_get(1) w']
  show ?thesis using w' by auto
qed

section \<open>Status\<close>

text \<open>The status stored by a reconciliation without an error is the ready one.\<close>

lemma Reconcile_ts_status:
  assumes "retry_ok (retryToolServer k)"
    and "status_update_ok (updateToolServerStatus k) stored tsv_Meta tsv_Status"
    and "getToolServer k w req = Inr x" and "Reconcile_ts rt k req w = (None, w')"
  shows "\<exists>b y. tsv_Meta b = tsv_Meta x \<and> tsv_Spec b = tsv_Spec x
    \<and> stored w' (request_of (tsv_Meta x)) = Some y \<and> tsv_Status y = ready_status_ts k b"
proof -
  obtain w1 a where upd: "retryToolServer k (updateToolServerStatusReady k) (x, w1) = (None, (a, w'))"
    using assms(3,4) by (rule Reconcile_ts_success)
  have ready: "updateToolServerStatusReady k = write_toolserver_status k (ready_status_ts k)"
    by (intro ext) (rule updateToolServerStatusReady_eq)
  show ?thesis
    using retried_toolserver_write[OF assms(1,2), of "\<lambda>_. True" "ready_status_ts k" "(x, w1)" "(a, w')"] upd
    unfolding ready by auto
qed

lemma ready_status_ts_url:
  "tst_Url (ready_status_ts k x) =
     (if ts_TransportType (tsv_Spec x) = ''http'' \<or> ts_TransportType (tsv_Spec x) = ''sse''
      then ''http://'' @ om_Name (tsv_Meta x) @ ''.'' @ om_Namespace (tsv_Meta x) @ ''.svc.cluster.local:''
        @ show_int32 (ts_Port (tsv_Spec x)) @ ts_Path (tsv_Spec x)
      else [])"
  by (simp add: ready_status_ts_def toolserver_url_def httpTransport_def sseTransport_def)

text \<open>
  After a reconciliation without an error the tool server is ready, and for the transports http
  and sse it has the URL of its own service, port and path; other transports have no URL.
\<close>

lemma toolserver_success_reported:
  assumes "retry_ok (retryToolServer k)"
    and "status_update_ok (updateToolServerStatus k) stored tsv_Meta tsv_Status"
    and "set_condition_ok (setStatusCondition k)"
    and "getToolServer k w req = Inr x" and "Reconcile_ts rt k req w = (None, w')"
  shows "\<exists>y c. stored w' (request_of (tsv_Meta x)) = Some y
    \<and> tst_Url (tsv_Status y) =
        (if ts_TransportType (tsv_Spec x) = ''http'' \<or> ts_TransportType (tsv_Spec x) = ''sse''
         then ''http://'' @ om_Name (tsv_Meta x) @ ''.'' @ om_Namespace (tsv_Meta x) @ ''.svc.cluster.local:''
           @ show_int32 (ts_Port (tsv_Spec x)) @ ts_Path (tsv_Spec x)
         else [])
    \<and> findReadyCondition (tst_Conditions (tsv_Status y)) = Some c \<and> c_Status c = ConditionTrue"
proof -
  obtain b y where b: "tsv_Meta b = tsv_Meta x" "tsv_Spec b = tsv_Spec x"
    and y: "stored w' (request_of (tsv_Meta x)) = Some y" "tsv_Status y = ready_status_ts k b"
    using Reconcile_ts_status[OF assms(1,2,4,5)] by blast
  obtain c where "findReadyCondition (tst_Conditions (ready_status_ts k b)) = Some c" "c_Status c = ConditionTrue"
    using ready_condition_ts[OF assms(3)] by blast
  then show ?thesis
    using y b by (intro exI[of _ y] exI[of _ c]) (simp add: ready_status_ts_url)
qed

text \<open>After a failed one it is not ready, and it keeps its URL.\<close>

lemma toolserver_failure_reported:
  assumes "retry_ok (retryToolServer k)"
    and "status_update_ok (updateToolServerStatus k) stored tsv_Meta tsv_Status"
    and "set_condition_ok (setStatusCondition k)"
    and "getToolServer k w req = Inr x" and "reconcileToolServer rt k x w = (Some err, w1)"
  shows "fst (Reconcile_ts rt k req w) = Some err
    \<and> (fst (retryToolServer k (updateToolServerStatusNotReady k ''ReconciliationFailed'' (Error err)) (x, w1)) = None \<longrightarrow>
        (\<exists>y c. stored (snd (Reconcile_ts rt k req w)) (request_of (tsv_Meta x)) = Some y
           \<and> tst_Url (tsv_Status y) = tst_Url (tsv_Status x)
           \<and> findReadyCondition (tst_Conditions (tsv_Status y)) = Some c
           \<and> c_Status c = ConditionFalse \<and> c_Reason c = ''ReconciliationFailed'' \<and> c_Message c = Error err))"
proof (intro conjI impI)
  let ?upd = "updateToolServerStatusNotReady k ''ReconciliationFailed'' (Error err)"
  let ?st = "not_ready_status_ts k ''ReconciliationFailed'' (Error err)"
  have run: "Reconcile_ts rt k req w = (Some err, snd (snd (retryToolServer k ?upd (x, w1))))"
    using assms(4,5) by (simp add: Reconcile_ts_def case_prod_beta)
  show "fst (Reconcile_ts rt k req w) = Some err" by (simp add: run)
  assume "fst (retryToolServer k ?upd (x, w1)) = None"
  then obtain s' where s': "retryToolServer k ?upd (x, w1) = (None, s')"
    by (cases "retryToolServer k ?upd (x, w1)") auto
  have upd: "?upd = write_toolserver_status k ?st" by (intro ext) (rule updateToolServerStatusNotReady_eq)
  let ?P = "\<lambda>a. tst_Url (tsv_Status a) = tst_Url (tsv_Status x)"
  have keeps: "?P a \<Longrightarrow> ?P (a\<lparr>tsv_Status := ?st a\<rparr>)" for a by (simp add: not_ready_status_ts_def)
  obtain a y where "?P a" "stored (snd s') (request_of (tsv_Meta x)) = Some y" "tsv_Status y = ?st a"
    using retried_toolserver_write[OF assms(1,2), of ?P ?st "(x, w1)" s'] keeps s' unfolding upd by auto
  then show "\<exists>y c. stored (snd (Reconcile_ts rt k req w)) (request_of (tsv_Meta x)) = Some y
      \<and> tst_Url (tsv_Status y) = tst_Url (tsv_Status x)
      \<and> findReadyCondition (tst_Conditions (tsv_Status y)) = Some c
      \<and> c_Status c = ConditionFalse \<and> c_Reason c = ''ReconciliationFailed'' \<and> c_Message c = Error err"
    using not_ready_condition_ts[OF assms(3), of "''ReconciliationFailed''" "Error err" a] s'
    by (auto simp: run not_ready_status_ts_def)
qed

text \<open>
  C22: The outcome of every reconciliation of a tool server is in its status. Without an error it
  is ready, and for the transports http and sse it has the URL of its own service, port and path,
  other transports having none. A failure is returned, and if the status write succeeds the tool
  server is not ready, for the reason \<open>ReconciliationFailed\<close> and with the error's message; unlike an
  agent it keeps the URL it had, so the agents that use it go on resolving it.
\<close>

theorem toolserver_status_reported:
  assumes "retry_ok (retryToolServer k)"
    and "status_update_ok (updateToolServerStatus k) stored tsv_Meta tsv_Status"
    and "set_condition_ok (setStatusCondition k)" and "getToolServer k w req = Inr x"
  shows "(\<forall>w'. Reconcile_ts rt k req w = (None, w') \<longrightarrow>
      (\<exists>y c. stored w' (request_of (tsv_Meta x)) = Some y
         \<and> tst_Url (tsv_Status y) =
            (if ts_TransportType (tsv_Spec x) = ''http'' \<or> ts_TransportType (tsv_Spec x) = ''sse''
             then ''http://'' @ om_Name (tsv_Meta x) @ ''.'' @ om_Namespace (tsv_Meta x) @ ''.svc.cluster.local:''
               @ show_int32 (ts_Port (tsv_Spec x)) @ ts_Path (tsv_Spec x)
             else [])
         \<and> findReadyCondition (tst_Conditions (tsv_Status y)) = Some c \<and> c_Status c = ConditionTrue))
   \<and> (\<forall>err w1. reconcileToolServer rt k x w = (Some err, w1) \<longrightarrow>
      fst (Reconcile_ts rt k req w) = Some err
      \<and> (fst (retryToolServer k (updateToolServerStatusNotReady k ''ReconciliationFailed'' (Error err)) (x, w1)) = None \<longrightarrow>
          (\<exists>y c. stored (snd (Reconcile_ts rt k req w)) (request_of (tsv_Meta x)) = Some y
             \<and> tst_Url (tsv_Status y) = tst_Url (tsv_Status x)
             \<and> findReadyCondition (tst_Conditions (tsv_Status y)) = Some c
             \<and> c_Status c = ConditionFalse \<and> c_Reason c = ''ReconciliationFailed'' \<and> c_Message c = Error err)))"
  using toolserver_success_reported[OF assms] toolserver_failure_reported[OF assms] by blast

text \<open>A cluster whose API server rejects every deployment.\<close>

definition rejecting_kube :: "cluster kube" where
  "rejecting_kube = (sim_kube ''ops'')\<lparr>createOrUpdateDeployment := (\<lambda>_ _ w. (Inl (LibErr 403 ''forbidden''), w))\<rparr>"

theorem toolserver_status_reported_witness:
  "(\<exists>w' y. Reconcile_ts rt_std (sim_kube ''ops'') (nsname ''n'' ''t'') server_cluster = (None, w')
     \<and> stored_tool_server w' (nsname ''n'' ''t'') = Some y
     \<and> tst_Url (tsv_Status y) = ''http://t.n.svc.cluster.local:8080/mcp'')
   \<and> (\<exists>y c. stored_tool_server (snd (Reconcile_ts rt_std rejecting_kube (nsname ''n'' ''t'') server_cluster))
       (nsname ''n'' ''t'') = Some y
     \<and> findReadyCondition (tst_Conditions (tsv_Status y)) = Some c
     \<and> c_Status c = ConditionFalse \<and> c_Message c = ''forbidden'')"
  (is "?A \<and> ?B")
proof
  let ?k = "sim_kube ''ops''"
  obtain w' where w': "Reconcile_ts rt_std ?k (nsname ''n'' ''t'') server_cluster = (None, w')"
    using sim_reconcile_ts[OF demo_server_get(1)] by blast
  have laws: "retry_ok (retryToolServer ?k)" "set_condition_ok (setStatusCondition ?k)"
    by (simp_all add: sim_retry_ok sim_condition_ok)
  have "show_int32 8080 = ''8080''" by (simp add: show_int32_def show_int_def show_eval)
  then show ?A
    using toolserver_status_reported[OF laws(1) sim_tool_server_status_ok laws(2) demo_server_get(1), THEN conjunct1, rule_format, OF w'] w'
    by (auto simp: demo_server_def new_tool_server_def request_of_def)
next
  let ?err = "LibErr 403 ''forbidden''" and ?k = rejecting_kube
  have laws: "retry_ok (retryToolServer ?k)" "set_condition_ok (setStatusCondition ?k)"
    "status_update_ok (updateToolServerStatus ?k) stored_tool_server tsv_Meta tsv_Status"
    using sim_tool_server_status_ok[of "''ops''"]
    by (simp_all add: rejecting_kube_def sim_retry_ok sim_condition_ok)
  have get: "getToolServer ?k server_cluster (nsname ''n'' ''t'') = Inr demo_server"
    using demo_server_get(1)[of "''ops''"] by (simp add: rejecting_kube_def)
  have run: "reconcileToolServer rt_std ?k demo_server server_cluster = (Some ?err, server_cluster)"
    by (simp add: reconcileToolServer_def ensureDeployment_ts_def rejecting_kube_def)
  have "fst (write_toolserver_status ?k f (demo_server, server_cluster)) = None" for f
    by (simp add: write_toolserver_status_def rejecting_kube_def sim_kube_def sim_update_status_def sim_get_def
        server_cluster_def Let_def)
  then have upd: "fst (retryToolServer ?k (updateToolServerStatusNotReady ?k ''ReconciliationFailed'' (Error ?err))
      (demo_server, server_cluster)) = None"
    by (simp add: rejecting_kube_def updateToolServerStatusNotReady_eq)
  show ?B
    using toolserver_status_reported[OF laws(1,3,2) get, THEN conjunct2, rule_format, OF run] upd by (auto simp del: Error.simps) simp
qed

text \<open>
  C23: Tool server reconciliation converges: once the deployment and the service are stored as
  the closures made them, reconciling again writes nothing.
\<close>

theorem toolserver_second_reconcile_writes_nothing:
  assumes "set_owner_ok (setToolServerOwner k x)"
    and "create_or_update_ok (isNotFound k) (\<lambda>w. getDeployment k w (request_of (tsv_Meta x)))
      (createOrUpdateDeployment k) (new_deployment (om_Name (tsv_Meta x)) (om_Namespace (tsv_Meta x)))"
    and "create_or_update_ok (isNotFound k) (\<lambda>w. getService k w (request_of (tsv_Meta x)))
      (createOrUpdateService k) (new_service (om_Name (tsv_Meta x)) (om_Namespace (tsv_Meta x)))"
    and "deployment_closure_ts rt k x d = Inr d'" and "stores_deployment d' dx"
    and "getDeployment k w (request_of (tsv_Meta x)) = Inr dx"
    and "service_closure_ts k x s = Inr s'" and "stores_service s' sx"
    and "getService k w (request_of (tsv_Meta x)) = Inr sx"
  shows "reconcileToolServer rt k x w = (None, w)"
proof -
  note dep = toolserver_deployment.no_rewrite[OF assms(1,2,4,5,6)]
  note svc = toolserver_service.no_rewrite[OF assms(1,3,7,8,9)]
  show ?thesis by (simp add: reconcileToolServer_def ensureDeployment_ts_def ensureService_ts_def dep svc)
qed

theorem toolserver_second_reconcile_writes_nothing_witness:
  "\<exists>w. cl_deployments w \<noteq> [] \<and> cl_services w \<noteq> [] \<and> reconcileToolServer rt_std (sim_kube ''ops'') demo_server w = (None, w)"
proof -
  let ?k = "sim_kube ''ops''" and ?d = "new_deployment ''t'' ''n''" and ?s = "new_service ''t'' ''n''"
  have "\<not> isl (deployment_closure_ts rt_std ?k demo_server ?d)"
    by (simp add: deployment_closure_ts_eq sim_set_owner_def)
  then obtain d' where d': "deployment_closure_ts rt_std ?k demo_server ?d = Inr d'"
    by (cases "deployment_closure_ts rt_std ?k demo_server ?d") auto
  have "\<not> isl (service_closure_ts ?k demo_server ?s)"
    by (simp add: service_closure_ts_def sim_set_owner_def Let_def)
  then obtain s' where s': "service_closure_ts ?k demo_server ?s = Inr s'"
    by (cases "service_closure_ts ?k demo_server ?s") auto
  let ?dx = "d'\<lparr>dp_Meta := server_meta 1 [] (dp_Meta d')\<rparr>"
  let ?sx = "s'\<lparr>sv_Meta := server_meta 1 [] (sv_Meta s')\<rparr>"
  let ?w = "server_cluster\<lparr>cl_deployments := [?dx], cl_services := [?sx]\<rparr>"
  have owner: "set_owner_ok (setToolServerOwner ?k demo_server)" by (simp add: sim_owner_ok)
  have keys: "request_of (dp_Meta d') = nsname ''n'' ''t''" "request_of (sv_Meta s') = nsname ''n'' ''t''"
    using closure_ts_keys[OF owner] d' s' by (force simp: new_deployment_def new_service_def request_of_def)+
  have stored: "stores_deployment d' ?dx" "stores_service s' ?sx"
    unfolding stores_deployment_def stores_service_def by blast+
  have get: "getDeployment ?k ?w (request_of (tsv_Meta demo_server)) = Inr ?dx"
    "getService ?k ?w (request_of (tsv_Meta demo_server)) = Inr ?sx"
    using keys unfolding demo_server_get(2) by (simp_all add: sim_get_def server_meta_def request_of_def)
  have dlaw: "create_or_update_ok (isNotFound ?k) (\<lambda>w. getDeployment ?k w (request_of (tsv_Meta demo_server)))
      (createOrUpdateDeployment ?k) (new_deployment (om_Name (tsv_Meta demo_server)) (om_Namespace (tsv_Meta demo_server)))"
    unfolding request_of_def by (rule sim_deployment_law)
  have slaw: "create_or_update_ok (isNotFound ?k) (\<lambda>w. getService ?k w (request_of (tsv_Meta demo_server)))
      (createOrUpdateService ?k) (new_service (om_Name (tsv_Meta demo_server)) (om_Namespace (tsv_Meta demo_server)))"
    unfolding request_of_def by (rule sim_service_law)
  have "reconcileToolServer rt_std ?k demo_server ?w = (None, ?w)"
    by (rule toolserver_second_reconcile_writes_nothing[OF owner dlaw slaw d' stored(1) get(1) s' stored(2) get(2)])
  then show ?thesis by (intro exI[of _ ?w]) simp
qed

end
