(* ===== verification/Workforce.thy ===== *)
theory Workforce
  imports Agent_SubAgent
begin

text \<open>
  \<open>internal/controller/agenticworkforce_reconciler.go\<close>: the check of a workforce's entry points,
  the traversal of the agents below them with the tools they use, the status, and the watch
  that enqueues the workforces an agent's change concerns. The recursion of the traversal is
  bounded by a depth, with \<open>None\<close> when it runs out; as many levels as there are agents in the
  cluster are enough.
\<close>

section \<open>Entry points\<close>

definition agent_key :: "string \<Rightarrow> string \<Rightarrow> string" where
  "agent_key namespace name = namespace @ ''/'' @ name"

fun validate_loop ::
  "'w kube \<Rightarrow> 'w \<Rightarrow> string \<Rightarrow> ObjectReference option list \<Rightarrow> bool \<Rightarrow> string list \<Rightarrow> bool \<times> string list" where
  "validate_loop k w ns [] allReady missingAgents = (allReady, missingAgents)"
| "validate_loop k w ns (None # refs) allReady missingAgents =
     validate_loop k w ns refs allReady missingAgents"
| "validate_loop k w ns (Some agentRef # refs) allReady missingAgents =
     (let namespace = getNamespaceWithDefault agentRef ns
      in case getAgent k w (nsname namespace (or_Name agentRef)) of
           Inr _ \<Rightarrow> validate_loop k w ns refs allReady missingAgents
         | Inl err \<Rightarrow>
             validate_loop k w ns refs False (missingAgents @ [agent_key namespace (or_Name agentRef)]))"

definition validateEntryPointAgents :: "'w kube \<Rightarrow> 'w \<Rightarrow> AgenticWorkforce \<Rightarrow> bool \<times> string list" where
  "validateEntryPointAgents k w workforce =
     validate_loop k w (om_Namespace (wf_Meta workforce)) (ws_EntryPointAgents (wf_Spec workforce)) True []"

section \<open>Traversal\<close>

text \<open>The maps the code passes by reference: the visited agents and the set of tools.\<close>

type_synonym tstate = "(string, TransitiveAgent) fmap \<times> (string, bool) fmap"

text \<open>The key of a tool, or none if the loop skips it.\<close>

definition tool_key :: "string \<Rightarrow> AgentTool \<Rightarrow> string option" where
  "tool_key agentNs tool =
     (let ns = (\<lambda>ref. if or_Namespace ref = [] then agentNs else or_Namespace ref);
          external = (case tu_External (at_Upstream tool) of
              Some ext \<Rightarrow> if eu_Url ext \<noteq> [] then Some (''external:'' @ eu_Url ext) else None
            | None \<Rightarrow> None);
          server = (case tu_ToolServerRef (at_Upstream tool) of
              Some ref \<Rightarrow>
                if or_Name ref \<noteq> [] then Some (''toolserver:'' @ ns ref @ ''/'' @ or_Name ref) else external
            | None \<Rightarrow> external)
      in case tu_ToolRouteRef (at_Upstream tool) of
           Some ref \<Rightarrow>
             if or_Name ref \<noteq> [] then Some (''toolroute:'' @ ns ref @ ''/'' @ or_Name ref) else server
         | None \<Rightarrow> server)"

fun collect_tools :: "string \<Rightarrow> AgentTool list \<Rightarrow> (string, bool) fmap \<Rightarrow> (string, bool) fmap" where
  "collect_tools agentNs [] allTools = allTools"
| "collect_tools agentNs (tool # tools) allTools =
     (case tool_key agentNs tool of
        None \<Rightarrow> collect_tools agentNs tools allTools
      | Some toolKey \<Rightarrow> collect_tools agentNs tools (fmupd toolKey True allTools))"

fun traverseAgent ::
    "nat \<Rightarrow> 'w kube \<Rightarrow> 'w \<Rightarrow> string \<Rightarrow> string \<Rightarrow> tstate \<Rightarrow> (go_error option \<times> tstate) option"
  and traverse_subAgents :: "nat \<Rightarrow> 'w kube \<Rightarrow> 'w \<Rightarrow> string \<Rightarrow> SubAgent list \<Rightarrow> tstate \<Rightarrow> tstate option" where
  "traverseAgent n k w namespace name (visitedAgents, allTools) =
     (let agentKey = agent_key namespace name
      in if fmlookup visitedAgents agentKey \<noteq> None then Some (None, (visitedAgents, allTools))
         else
           (let visitedAgents =
              fmupd agentKey \<lparr>ta_Name = name, ta_Namespace = namespace, ta_Url = []\<rparr> visitedAgents
            in case getAgent k w (nsname namespace name) of
                 Inl err \<Rightarrow>
                   if isNotFound k err then Some (None, (visitedAgents, allTools))
                   else Some (Some (wrap (''failed to get agent '' @ agentKey) err), (visitedAgents, allTools))
               | Inr agent \<Rightarrow>
                   (case n of
                      0 \<Rightarrow> None
                    | Suc m \<Rightarrow>
                        map_option (Pair None)
                          (traverse_subAgents m k w (om_Namespace (ag_Meta agent))
                             (as_SubAgents (ag_Spec agent))
                             (visitedAgents,
                              collect_tools (om_Namespace (ag_Meta agent)) (as_Tools (ag_Spec agent)) allTools)))))"
| "traverse_subAgents m k w agentNs [] s = Some s"
| "traverse_subAgents m k w agentNs (subAgent # subAgents) s =
     (case sa_AgentRef subAgent of
        Some ref \<Rightarrow>
          (case traverseAgent m k w (getNamespaceWithDefault ref agentNs) (or_Name ref) s of
             None \<Rightarrow> None
           | Some (_, s) \<Rightarrow> traverse_subAgents m k w agentNs subAgents s)
      | None \<Rightarrow>
          if sa_Url subAgent \<noteq> []
          then (let (visitedAgents, allTools) = s
                in traverse_subAgents m k w agentNs subAgents
                     (fmupd (sa_Url subAgent)
                        \<lparr>ta_Name = sa_Name subAgent, ta_Namespace = [], ta_Url = sa_Url subAgent\<rparr>
                        visitedAgents, allTools))
          else traverse_subAgents m k w agentNs subAgents s)"

declare traverseAgent.simps [simp del]

fun collect_entries ::
  "nat \<Rightarrow> 'w kube \<Rightarrow> 'w \<Rightarrow> string \<Rightarrow> ObjectReference option list \<Rightarrow> tstate \<Rightarrow> tstate option" where
  "collect_entries n k w ns [] s = Some s"
| "collect_entries n k w ns (None # refs) s = collect_entries n k w ns refs s"
| "collect_entries n k w ns (Some agentRef # refs) s =
     (case traverseAgent n k w (getNamespaceWithDefault agentRef ns) (or_Name agentRef) s of
        None \<Rightarrow> None
      | Some (_, s) \<Rightarrow> collect_entries n k w ns refs s)"

text \<open>The two loops over maps that build the slices run in orders the language leaves open.\<close>

record wf_orders =
  order_visited :: map_order
  order_allTools :: map_order

definition wf_orders_ok :: "wf_orders \<Rightarrow> bool" where
  "wf_orders_ok ords \<longleftrightarrow> is_order (order_visited ords) \<and> is_order (order_allTools ords)"

definition collectTransitiveAgentsAndTools ::
  "wf_orders \<Rightarrow> nat \<Rightarrow> 'w kube \<Rightarrow> 'w \<Rightarrow> AgenticWorkforce \<Rightarrow> (TransitiveAgent list \<times> string list) option" where
  "collectTransitiveAgentsAndTools ords n k w workforce =
     (case collect_entries n k w (om_Namespace (wf_Meta workforce))
             (ws_EntryPointAgents (wf_Spec workforce)) (fmempty, fmempty) of
        None \<Rightarrow> None
      | Some (visitedAgents, allTools) \<Rightarrow>
          Some (map snd (go_range (order_visited ords) visitedAgents),
                go_keys (order_allTools ords) allTools))"

section \<open>Reconcile\<close>

definition Reconcile_wf ::
  "wf_orders \<Rightarrow> nat \<Rightarrow> 'w kube \<Rightarrow> Request \<Rightarrow> 'w \<Rightarrow> (go_error option \<times> 'w) option" where
  "Reconcile_wf ords n k req w =
     (case getWorkforce k w req of
        Inl err \<Rightarrow> if isNotFound k err then Some (None, w) else Some (Some err, w)
      | Inr workforce \<Rightarrow>
          (let (allAgentsReady, missingAgents) = validateEntryPointAgents k w workforce
           in case collectTransitiveAgentsAndTools ords n k w workforce of
                None \<Rightarrow> None
              | Some (transitiveAgents, transitiveTools) \<Rightarrow>
                  (let status = wf_Status workforce;
                       generation = om_Generation (wf_Meta workforce);
                       condition =
                         (if allAgentsReady
                          then \<lparr>c_Type = conditionTypeReady, c_Status = ConditionTrue,
                            c_ObservedGeneration = generation, c_LastTransitionTime = [],
                            c_Reason = ''AllAgentsReady'',
                            c_Message = ''All entry point agents are available''\<rparr>
                          else \<lparr>c_Type = conditionTypeReady, c_Status = ConditionFalse,
                            c_ObservedGeneration = generation, c_LastTransitionTime = [],
                            c_Reason = ''AgentsMissing'',
                            c_Message = ''Missing agents: '' @ show_strings missingAgents\<rparr>);
                       status = status\<lparr>wst_Conditions :=
                         setStatusCondition k (wst_Conditions status) condition\<rparr>;
                       status = status\<lparr>wst_TransitiveAgents := transitiveAgents\<rparr>;
                       status = status\<lparr>wst_TransitiveTools := transitiveTools\<rparr>
                   in case updateWorkforceStatus k (workforce\<lparr>wf_Status := status\<rparr>) w of
                        (Some err, _, w) \<Rightarrow> Some (Some err, w)
                      | (None, _, w) \<Rightarrow> Some (None, w))))"

section \<open>The watch\<close>

fun entry_references :: "string \<Rightarrow> string \<Rightarrow> ObjectReference option list \<Rightarrow> bool" where
  "entry_references ns agentKey [] = False"
| "entry_references ns agentKey (None # refs) = entry_references ns agentKey refs"
| "entry_references ns agentKey (Some entryRef # refs) =
     (if agent_key (getNamespaceWithDefault entryRef ns) (or_Name entryRef) = agentKey then True
      else entry_references ns agentKey refs)"

definition status_references :: "Agent \<Rightarrow> TransitiveAgent list \<Rightarrow> bool" where
  "status_references agent tas \<longleftrightarrow>
     list_ex (\<lambda>t. ta_Name t = om_Name (ag_Meta agent) \<and> ta_Namespace t = om_Namespace (ag_Meta agent)) tas"

fun find_workforces_loop ::
  "Agent \<Rightarrow> AgenticWorkforce list \<Rightarrow> Request list \<Rightarrow> (NamespacedName, bool) fmap \<Rightarrow> Request list" where
  "find_workforces_loop agent [] requests enqueued = requests"
| "find_workforces_loop agent (workforce # items) requests enqueued =
     (let workforceKey = request_of (wf_Meta workforce);
          agentKey = agent_key (om_Namespace (ag_Meta agent)) (om_Name (ag_Meta agent))
      in if fmlookup enqueued workforceKey = Some True
         then find_workforces_loop agent items requests enqueued
         else if entry_references (om_Namespace (wf_Meta workforce)) agentKey
                   (ws_EntryPointAgents (wf_Spec workforce))
         then find_workforces_loop agent items (requests @ [workforceKey]) (fmupd workforceKey True enqueued)
         else if status_references agent (wst_TransitiveAgents (wf_Status workforce))
         then find_workforces_loop agent items (requests @ [workforceKey]) (fmupd workforceKey True enqueued)
         else find_workforces_loop agent items requests enqueued)"

definition findWorkforcesReferencingAgent :: "'w kube \<Rightarrow> 'w \<Rightarrow> client_object \<Rightarrow> Request list" where
  "findWorkforcesReferencingAgent k w obj =
     (case obj of
        ObjAgent agent \<Rightarrow>
          (case listWorkforces k w of
             Inl err \<Rightarrow> []
           | Inr items \<Rightarrow> find_workforces_loop agent items [] fmempty)
      | _ \<Rightarrow> [])"

text \<open>What \<open>SetupWithManager\<close> enqueues when an object changes: its own requests and the watch's.\<close>

definition workforce_watch_requests :: "'w kube \<Rightarrow> 'w \<Rightarrow> client_object \<Rightarrow> Request list" where
  "workforce_watch_requests k w obj =
     (case obj of
        ObjWorkforce workforce \<Rightarrow> [request_of (wf_Meta workforce)]
      | ObjAgent _ \<Rightarrow> findWorkforcesReferencingAgent k w obj
      | _ \<Rightarrow> [])"

end
