(* ===== verification/Workforce_Traversal.thy ===== *)
theory Workforce_Traversal
  imports Workforce
begin

text \<open>
  The traversal of \<open>Workforce\<close> against its specification, graph reachability: it visits
  exactly the agents reachable from the entry points over sub-agent references, collects
  exactly their tools and the remote agents they name, and returns within a depth of the
  number of agents in the cluster, cycles included.
\<close>

section \<open>The graph\<close>

definition sub_edge :: "'w kube \<Rightarrow> 'w \<Rightarrow> NamespacedName \<Rightarrow> NamespacedName \<Rightarrow> bool" where
  "sub_edge k w a b \<longleftrightarrow> (\<exists>agent. getAgent k w a = Inr agent \<and> b \<in> sub_refs agent)"

inductive_set reach :: "'w kube \<Rightarrow> 'w \<Rightarrow> NamespacedName set \<Rightarrow> NamespacedName set"
  for k w entries where
  entry: "a \<in> entries \<Longrightarrow> a \<in> reach k w entries"
| step: "a \<in> reach k w entries \<Longrightarrow> sub_edge k w a b \<Longrightarrow> b \<in> reach k w entries"

definition entry_nodes :: "AgenticWorkforce \<Rightarrow> NamespacedName set" where
  "entry_nodes workforce =
     {nsname (getNamespaceWithDefault ref (om_Namespace (wf_Meta workforce))) (or_Name ref) |ref.
        Some ref \<in> set (ws_EntryPointAgents (wf_Spec workforce))}"

definition remote_urls :: "Agent \<Rightarrow> string set" where
  "remote_urls agent =
     {sa_Url s |s. s \<in> set (as_SubAgents (ag_Spec agent)) \<and> sa_AgentRef s = None \<and> sa_Url s \<noteq> []}"

definition tool_keys :: "Agent \<Rightarrow> string set" where
  "tool_keys agent =
     {key. \<exists>t\<in>set (as_Tools (ag_Spec agent)). tool_key (om_Namespace (ag_Meta agent)) t = Some key}"

definition node_urls :: "'w kube \<Rightarrow> 'w \<Rightarrow> NamespacedName \<Rightarrow> string set" where
  "node_urls k w a = (case getAgent k w a of Inl _ \<Rightarrow> {} | Inr agent \<Rightarrow> remote_urls agent)"

definition node_tools :: "'w kube \<Rightarrow> 'w \<Rightarrow> NamespacedName \<Rightarrow> string set" where
  "node_tools k w a = (case getAgent k w a of Inl _ \<Rightarrow> {} | Inr agent \<Rightarrow> tool_keys agent)"

definition succs :: "'w kube \<Rightarrow> 'w \<Rightarrow> NamespacedName \<Rightarrow> NamespacedName set" where
  "succs k w a = {b. sub_edge k w a b}"

lemma reach_mono: "A \<subseteq> B \<Longrightarrow> x \<in> reach k w A \<Longrightarrow> x \<in> reach k w B"
proof -
  assume "x \<in> reach k w A" and "A \<subseteq> B"
  then show ?thesis by (induction rule: reach.induct) (auto intro: reach.intros)
qed

lemma reach_union: "reach k w (A \<union> B) = reach k w A \<union> reach k w B"
proof
  show "reach k w (A \<union> B) \<subseteq> reach k w A \<union> reach k w B"
  proof
    fix x assume "x \<in> reach k w (A \<union> B)"
    then show "x \<in> reach k w A \<union> reach k w B"
      by (induction rule: reach.induct) (auto intro: reach.intros)
  qed
qed (auto intro: reach_mono)

lemma reach_succs: "x \<in> reach k w (succs k w a) \<Longrightarrow> x \<in> reach k w {a}"
  by (induction rule: reach.induct) (auto simp: succs_def intro: reach.intros)

section \<open>Keys\<close>

text \<open>
  The code uses one string map for agents, keyed by \<open>namespace/name\<close>, and for remote agents,
  keyed by URL. The keys do not clash when namespaces have no slash and no colon, as DNS labels
  do not, and the URLs begin with a scheme.
\<close>

definition dns_ok :: "NamespacedName \<Rightarrow> bool" where
  "dns_ok n \<longleftrightarrow> CHR ''/'' \<notin> set (nn_Namespace n) \<and> CHR '':'' \<notin> set (nn_Namespace n)"

definition url_ok :: "string \<Rightarrow> bool" where
  "url_ok u \<longleftrightarrow> CHR '':'' \<in> set (takeWhile (\<lambda>c. c \<noteq> CHR ''/'') u)"

abbreviation node_key :: "NamespacedName \<Rightarrow> string" where
  "node_key n \<equiv> agent_key (nn_Namespace n) (nn_Name n)"

lemma takeWhile_key:
  "CHR ''/'' \<notin> set ns \<Longrightarrow> takeWhile (\<lambda>c. c \<noteq> CHR ''/'') (agent_key ns name) = ns"
  unfolding agent_key_def by (subst takeWhile_append2) auto

lemma agent_key_inj:
  assumes "CHR ''/'' \<notin> set ns" and "CHR ''/'' \<notin> set ns'" and "agent_key ns n = agent_key ns' n'"
  shows "ns = ns' \<and> n = n'"
proof -
  have "ns = ns'" using takeWhile_key assms by metis
  then show ?thesis using assms(3) by (simp add: agent_key_def)
qed

lemma node_key_inj: "dns_ok a \<Longrightarrow> dns_ok b \<Longrightarrow> node_key a = node_key b \<longleftrightarrow> a = b"
  unfolding dns_ok_def using agent_key_inj by (metis NamespacedName.equality old.unit.exhaust)

lemma url_not_key: "dns_ok a \<Longrightarrow> url_ok u \<Longrightarrow> u \<noteq> node_key a"
  by (auto simp: dns_ok_def url_ok_def takeWhile_key)

text \<open>What the theorems ask of the names in the cluster.\<close>

definition cluster_names_ok :: "'w kube \<Rightarrow> 'w \<Rightarrow> bool" where
  "cluster_names_ok k w \<longleftrightarrow> (\<forall>q agent. getAgent k w q = Inr agent \<longrightarrow>
     (\<forall>r\<in>sub_refs agent. dns_ok r) \<and> (\<forall>u\<in>remote_urls agent. url_ok u))"

section \<open>What a traversal adds\<close>

definition nodes :: "tstate \<Rightarrow> NamespacedName set" where
  "nodes s = {n. dns_ok n \<and> fmlookup (fst s) (node_key n) \<noteq> None}"

definition urls :: "tstate \<Rightarrow> string set" where
  "urls s = {u. url_ok u \<and> fmlookup (fst s) u \<noteq> None}"

definition tools_of :: "tstate \<Rightarrow> string set" where
  "tools_of s = fmdom' (snd s)"

text \<open>Every entry of the map is that of a cluster agent or of a remote one.\<close>

definition tstate_ok :: "tstate \<Rightarrow> bool" where
  "tstate_ok s \<longleftrightarrow> (\<forall>key ta. fmlookup (fst s) key = Some ta \<longrightarrow>
     (\<exists>n. dns_ok n \<and> key = node_key n
        \<and> ta = \<lparr>ta_Name = nn_Name n, ta_Namespace = nn_Namespace n, ta_Url = []\<rparr>)
     \<or> (url_ok key \<and> ta_Namespace ta = [] \<and> ta_Url ta = key))"

definition closed :: "'w kube \<Rightarrow> 'w \<Rightarrow> tstate \<Rightarrow> NamespacedName \<Rightarrow> bool" where
  "closed k w s n \<longleftrightarrow>
     succs k w n \<subseteq> nodes s \<and> node_urls k w n \<subseteq> urls s \<and> node_tools k w n \<subseteq> tools_of s"

text \<open>
  \<open>adds k w E U T s s'\<close>: from \<open>s\<close> to \<open>s'\<close> a traversal that was asked for the agents \<open>E\<close>, the
  remote agents \<open>U\<close> and the tools \<open>T\<close> has added those, and beyond them only what the new agents
  lead to, all of it.
\<close>

definition adds ::
  "'w kube \<Rightarrow> 'w \<Rightarrow> NamespacedName set \<Rightarrow> string set \<Rightarrow> string set \<Rightarrow> tstate \<Rightarrow> tstate \<Rightarrow> bool" where
  "adds k w E U T s s' \<longleftrightarrow>
     (tstate_ok s \<longrightarrow> tstate_ok s')
     \<and> nodes s \<union> E \<subseteq> nodes s' \<and> urls s \<union> U \<subseteq> urls s' \<and> tools_of s \<union> T \<subseteq> tools_of s'
     \<and> (\<forall>n\<in>nodes s' - nodes s. n \<in> reach k w E \<and> closed k w s' n)
     \<and> urls s' \<subseteq> urls s \<union> U \<union> (\<Union>n\<in>nodes s' - nodes s. node_urls k w n)
     \<and> tools_of s' \<subseteq> tools_of s \<union> T \<union> (\<Union>n\<in>nodes s' - nodes s. node_tools k w n)"

lemma adds_refl: "adds k w {} {} {} s s"
  by (auto simp: adds_def)

lemma closed_mono:
  "closed k w s n \<Longrightarrow> nodes s \<subseteq> nodes s' \<Longrightarrow> urls s \<subseteq> urls s' \<Longrightarrow> tools_of s \<subseteq> tools_of s' \<Longrightarrow>
   closed k w s' n"
  by (auto simp: closed_def)

lemma addsD:
  assumes "adds k w E U T s s'"
  shows "tstate_ok s \<Longrightarrow> tstate_ok s'"
    and "nodes s \<subseteq> nodes s'" and "E \<subseteq> nodes s'"
    and "urls s \<subseteq> urls s'" and "U \<subseteq> urls s'"
    and "tools_of s \<subseteq> tools_of s'" and "T \<subseteq> tools_of s'"
    and "n \<in> nodes s' - nodes s \<Longrightarrow> n \<in> reach k w E"
    and "n \<in> nodes s' - nodes s \<Longrightarrow> closed k w s' n"
    and "urls s' \<subseteq> urls s \<union> U \<union> (\<Union>n\<in>nodes s' - nodes s. node_urls k w n)"
    and "tools_of s' \<subseteq> tools_of s \<union> T \<union> (\<Union>n\<in>nodes s' - nodes s. node_tools k w n)"
  using assms by (simp_all add: adds_def)

lemma bound_trans:
  "A2 \<subseteq> A1 \<union> U' \<union> B2 \<Longrightarrow> A1 \<subseteq> A \<union> U \<union> B1 \<Longrightarrow> B1 \<subseteq> B \<Longrightarrow> B2 \<subseteq> B \<Longrightarrow>
   A2 \<subseteq> A \<union> (U \<union> U') \<union> B"
  by blast

lemma adds_trans:
  assumes 1: "adds k w E U T s s1" and 2: "adds k w E' U' T' s1 s2"
  shows "adds k w (E \<union> E') (U \<union> U') (T \<union> T') s s2"
proof -
  note d1 = addsD[OF 1] and d2 = addsD[OF 2]
  have closed: "closed k w s2 n" if "n \<in> nodes s2 - nodes s" for n
    using d1(9)[of n] d2(9)[of n] closed_mono[of k w s1 n s2, OF _ d2(2,4,6)] that
    by (cases "n \<in> nodes s1") simp_all
  have reach: "n \<in> reach k w (E \<union> E')" if "n \<in> nodes s2 - nodes s" for n
    using d1(8)[of n] d2(8)[of n] that unfolding reach_union by (cases "n \<in> nodes s1") simp_all
  have sub1: "(\<Union>n\<in>nodes s1 - nodes s. f n) \<subseteq> (\<Union>n\<in>nodes s2 - nodes s. f n)"
    for f :: "NamespacedName \<Rightarrow> string set"
    using d2(2) by (intro UN_mono) auto
  have sub2: "(\<Union>n\<in>nodes s2 - nodes s1. f n) \<subseteq> (\<Union>n\<in>nodes s2 - nodes s. f n)"
    for f :: "NamespacedName \<Rightarrow> string set"
    using d1(2) by (intro UN_mono) auto
  have urls: "urls s2 \<subseteq> urls s \<union> (U \<union> U') \<union> (\<Union>n\<in>nodes s2 - nodes s. node_urls k w n)"
    by (rule bound_trans[OF d2(10) d1(10) sub1 sub2])
  have tools: "tools_of s2 \<subseteq> tools_of s \<union> (T \<union> T') \<union> (\<Union>n\<in>nodes s2 - nodes s. node_tools k w n)"
    by (rule bound_trans[OF d2(11) d1(11) sub1 sub2])
  show ?thesis
    unfolding adds_def
  proof (intro conjI ballI)
    show "tstate_ok s \<longrightarrow> tstate_ok s2" using d1(1) d2(1) by simp
    show "nodes s \<union> (E \<union> E') \<subseteq> nodes s2" using d1(2,3) d2(2,3) by blast
    show "urls s \<union> (U \<union> U') \<subseteq> urls s2" using d1(4,5) d2(4,5) by blast
    show "tools_of s \<union> (T \<union> T') \<subseteq> tools_of s2" using d1(6,7) d2(6,7) by blast
  qed (use closed reach urls tools in \<open>simp_all\<close>)
qed

lemma adds_visited: "n \<in> nodes s \<Longrightarrow> adds k w {n} {} {} s s"
  by (auto simp: adds_def)

section \<open>The steps of the traversal\<close>

abbreviation cluster_entry :: "NamespacedName \<Rightarrow> TransitiveAgent" where
  "cluster_entry n \<equiv> \<lparr>ta_Name = nn_Name n, ta_Namespace = nn_Namespace n, ta_Url = []\<rparr>"

definition mark :: "NamespacedName \<Rightarrow> tstate \<Rightarrow> tstate" where
  "mark n s = (fmupd (node_key n) (cluster_entry n) (fst s), snd s)"

lemma mark_sets:
  assumes "dns_ok n"
  shows "nodes (mark n s) = insert n (nodes s)" and "urls (mark n s) = urls s"
    and "tools_of (mark n s) = tools_of s" and "tstate_ok s \<Longrightarrow> tstate_ok (mark n s)"
proof -
  show "nodes (mark n s) = insert n (nodes s)"
    using assms node_key_inj by (auto simp: nodes_def mark_def)
  show "urls (mark n s) = urls s"
    using assms url_not_key by (auto simp: urls_def mark_def)
  show "tools_of (mark n s) = tools_of s"
    by (simp add: tools_of_def mark_def)
  show "tstate_ok (mark n s)" if "tstate_ok s"
    using that assms by (auto simp: tstate_ok_def mark_def)
qed

lemma adds_node:
  assumes "dns_ok n" and "n \<notin> nodes s"
    and sub: "adds k w (succs k w n) (node_urls k w n) (node_tools k w n) (mark n s) s'"
  shows "adds k w {n} {} {} s s'"
proof -
  note m = mark_sets[OF assms(1), of s]
  note d = addsD[OF sub, unfolded m(1-3)]
  have new: "nodes s' - nodes s = insert n (nodes s' - insert n (nodes s))"
    using d(2) assms(2) by blast
  have closed: "closed k w s' x" if "x \<in> nodes s' - nodes s" for x
    using d(3,5,7) d(9)[of x] that new by (cases "x = n") (auto simp: closed_def)
  have reach: "x \<in> reach k w {n}" if "x \<in> nodes s' - nodes s" for x
    using d(8)[of x] reach_succs[of x k w n] that new by (cases "x = n") (auto intro: reach.intros)
  show ?thesis
    unfolding adds_def
  proof (intro conjI ballI)
    show "tstate_ok s \<longrightarrow> tstate_ok s'" using d(1) m(4) by simp
    show "urls s' \<subseteq> urls s \<union> {} \<union> (\<Union>n\<in>nodes s' - nodes s. node_urls k w n)"
      using d(10) unfolding new by auto
    show "tools_of s' \<subseteq> tools_of s \<union> {} \<union> (\<Union>n\<in>nodes s' - nodes s. node_tools k w n)"
      using d(11) unfolding new by auto
  qed (use d closed reach in \<open>simp_all\<close>)
qed

definition add_url :: "string \<Rightarrow> string \<Rightarrow> tstate \<Rightarrow> tstate" where
  "add_url u name s = (fmupd u \<lparr>ta_Name = name, ta_Namespace = [], ta_Url = u\<rparr> (fst s), snd s)"

lemma adds_url:
  assumes "url_ok u"
  shows "adds k w {} {u} {} s (add_url u name s)"
proof -
  have "nodes (add_url u name s) = nodes s"
    using assms url_not_key by (auto simp: nodes_def add_url_def)
  moreover have "urls (add_url u name s) = insert u (urls s)"
    using assms by (auto simp: urls_def add_url_def)
  moreover have "tools_of (add_url u name s) = tools_of s"
    by (simp add: tools_of_def add_url_def)
  moreover have "tstate_ok (add_url u name s)" if "tstate_ok s"
    using that assms by (auto simp: tstate_ok_def add_url_def)
  ultimately show ?thesis by (auto simp: adds_def)
qed

lemma collect_tools_dom:
  "fmdom' (collect_tools ns tools m) =
     fmdom' m \<union> {key. \<exists>t\<in>set tools. tool_key ns t = Some key}"
  by (induction ns tools m rule: collect_tools.induct) (auto split: option.splits)

lemma adds_tools:
  "adds k w {} {} {key. \<exists>t\<in>set tools. tool_key ns t = Some key} s
     (fst s, collect_tools ns tools (snd s))"
proof -
  have "nodes (fst s, m) = nodes s" "urls (fst s, m) = urls s" "tstate_ok (fst s, m) = tstate_ok s" for m
    by (simp_all add: nodes_def urls_def tstate_ok_def)
  moreover have "tools_of (fst s, collect_tools ns tools (snd s)) =
      tools_of s \<union> {key. \<exists>t\<in>set tools. tool_key ns t = Some key}"
    by (simp add: tools_of_def collect_tools_dom)
  ultimately show ?thesis by (auto simp: adds_def)
qed

section \<open>Partial correctness\<close>

definition ref_nodes :: "string \<Rightarrow> SubAgent list \<Rightarrow> NamespacedName set" where
  "ref_nodes ns subs =
     {nsname (getNamespaceWithDefault ref ns) (or_Name ref) |ref. \<exists>s\<in>set subs. sa_AgentRef s = Some ref}"

definition sub_urls :: "SubAgent list \<Rightarrow> string set" where
  "sub_urls subs = {sa_Url s |s. s \<in> set subs \<and> sa_AgentRef s = None \<and> sa_Url s \<noteq> []}"

lemma ref_nodes_simps [simp]:
  "ref_nodes ns [] = {}"
  "ref_nodes ns (s # subs) =
     (case sa_AgentRef s of None \<Rightarrow> {} | Some ref \<Rightarrow> {nsname (getNamespaceWithDefault ref ns) (or_Name ref)})
     \<union> ref_nodes ns subs"
  by (auto simp: ref_nodes_def split: option.splits)

lemma sub_urls_simps [simp]:
  "sub_urls [] = {}"
  "sub_urls (s # subs) = (if sa_AgentRef s = None \<and> sa_Url s \<noteq> [] then {sa_Url s} else {}) \<union> sub_urls subs"
  by (auto simp: sub_urls_def)

lemma sub_refs_nodes: "sub_refs agent = ref_nodes (om_Namespace (ag_Meta agent)) (as_SubAgents (ag_Spec agent))"
  by (simp add: sub_refs_def ref_nodes_def)

lemma remote_urls_subs: "remote_urls agent = sub_urls (as_SubAgents (ag_Spec agent))"
  by (simp add: remote_urls_def sub_urls_def)

lemma traverse_adds:
  shows "traverseAgent n k w ns name s = Some (e, s') \<Longrightarrow> cluster_names_ok k w \<Longrightarrow> dns_ok (nsname ns name) \<Longrightarrow>
      adds k w {nsname ns name} {} {} s s'"
    and "traverse_subAgents m k w agentNs subs t = Some t' \<Longrightarrow> cluster_names_ok k w \<Longrightarrow>
      (\<forall>r\<in>ref_nodes agentNs subs. dns_ok r) \<Longrightarrow> (\<forall>u\<in>sub_urls subs. url_ok u) \<Longrightarrow>
      adds k w (ref_nodes agentNs subs) (sub_urls subs) {} t t'"
proof (induction n k w ns name s and m k w agentNs subs t arbitrary: e s' and t'
    rule: traverseAgent_traverse_subAgents.induct)
  case (1 n k w ns name visited tools)
  let ?n = "nsname ns name" and ?s = "(visited, tools)"
  show ?case
  proof (cases "fmlookup visited (agent_key ns name)")
    case (Some ta)
    then have "?n \<in> nodes ?s" using "1.prems"(3) by (simp add: nodes_def)
    moreover have "s' = ?s" using "1.prems"(1) Some by (simp add: traverseAgent.simps)
    ultimately show ?thesis by (simp add: adds_visited)
  next
    case None
    then have new: "?n \<notin> nodes ?s" by (simp add: nodes_def)
    show ?thesis
    proof (cases "getAgent k w ?n")
      case (Inl err)
      then have "s' = mark ?n ?s"
        using "1.prems"(1) None by (auto simp: traverseAgent.simps mark_def Let_def split: if_splits)
      moreover have "succs k w ?n = {}" "node_urls k w ?n = {}" "node_tools k w ?n = {}"
        using Inl by (simp_all add: succs_def sub_edge_def node_urls_def node_tools_def)
      ultimately show ?thesis
        using adds_node[OF "1.prems"(3) new, of k w s'] by (simp add: adds_refl)
    next
      case (Inr agent)
      let ?ns = "om_Namespace (ag_Meta agent)" and ?subs = "as_SubAgents (ag_Spec agent)"
      let ?t = "(fst (mark ?n ?s), collect_tools ?ns (as_Tools (ag_Spec agent)) tools)"
      obtain m where n: "n = Suc m"
        using "1.prems"(1) None Inr by (cases n) (simp_all add: traverseAgent.simps)
      have run: "traverse_subAgents m k w ?ns ?subs ?t = Some s'"
        using "1.prems"(1) None Inr n by (auto simp: traverseAgent.simps mark_def)
      have ok: "\<forall>r\<in>ref_nodes ?ns ?subs. dns_ok r" "\<forall>u\<in>sub_urls ?subs. url_ok u"
        using "1.prems"(2) Inr unfolding cluster_names_ok_def sub_refs_nodes remote_urls_subs by blast+
      have "adds k w (ref_nodes ?ns ?subs) (sub_urls ?subs) {} ?t s'"
        using "1.IH" None Inr n run "1.prems"(2) ok by (simp add: mark_def)
      moreover have "adds k w {} {} (tool_keys agent) (mark ?n ?s) ?t"
        using adds_tools[of k w "as_Tools (ag_Spec agent)" ?ns "mark ?n ?s"]
        by (simp add: tool_keys_def mark_def)
      ultimately have "adds k w ({} \<union> ref_nodes ?ns ?subs) ({} \<union> sub_urls ?subs) (tool_keys agent \<union> {})
          (mark ?n ?s) s'" by (rule adds_trans[rotated])
      moreover have "succs k w ?n = ref_nodes ?ns ?subs" "node_urls k w ?n = sub_urls ?subs"
        "node_tools k w ?n = tool_keys agent"
        using Inr by (simp_all add: succs_def sub_edge_def node_urls_def node_tools_def
            sub_refs_nodes remote_urls_subs)
      ultimately show ?thesis
        using adds_node[OF "1.prems"(3) new, of k w s'] by simp
    qed
  qed
next
  case (2 m k w agentNs s)
  then show ?case by (simp add: adds_refl)
next
  case (3 m k w agentNs sub subs s)
  show ?case
  proof (cases "sa_AgentRef sub")
    case (Some ref)
    let ?n = "nsname (getNamespaceWithDefault ref agentNs) (or_Name ref)"
    obtain e s1 where 1: "traverseAgent m k w (getNamespaceWithDefault ref agentNs) (or_Name ref) s = Some (e, s1)"
      and 2: "traverse_subAgents m k w agentNs subs s1 = Some t'"
      using "3.prems"(1) Some by (auto split: option.splits)
    have "adds k w {?n} {} {} s s1" and "adds k w (ref_nodes agentNs subs) (sub_urls subs) {} s1 t'"
      using "3.IH"(3)[OF Some 1] "3.IH"(4)[OF Some 1 refl 2] "3.prems"(2-4) Some by auto
    then show ?thesis using adds_trans[of k w "{?n}" "{}" "{}" s s1] Some by fastforce
  next
    case None
    show ?thesis
    proof (cases "sa_Url sub = []")
      case True
      then show ?thesis using 3 None by simp
    next
      case False
      let ?s1 = "add_url (sa_Url sub) (sa_Name sub) s"
      have "adds k w {} {sa_Url sub} {} s ?s1"
        using "3.prems"(4) None False by (intro adds_url) simp
      moreover have "adds k w (ref_nodes agentNs subs) (sub_urls subs) {} ?s1 t'"
        using 3 None False by (simp add: add_url_def case_prod_beta)
      ultimately have "adds k w ({} \<union> ref_nodes agentNs subs) ({sa_Url sub} \<union> sub_urls subs) ({} \<union> {}) s t'"
        by (rule adds_trans)
      then show ?thesis using None False by simp
    qed
  qed
qed

definition entry_set :: "string \<Rightarrow> ObjectReference option list \<Rightarrow> NamespacedName set" where
  "entry_set ns refs = {nsname (getNamespaceWithDefault ref ns) (or_Name ref) |ref. Some ref \<in> set refs}"

lemma entry_set_simps [simp]:
  "entry_set ns [] = {}" "entry_set ns (None # refs) = entry_set ns refs"
  "entry_set ns (Some ref # refs) =
     insert (nsname (getNamespaceWithDefault ref ns) (or_Name ref)) (entry_set ns refs)"
  by (auto simp: entry_set_def)

lemma entry_nodes_set:
  "entry_nodes workforce =
     entry_set (om_Namespace (wf_Meta workforce)) (ws_EntryPointAgents (wf_Spec workforce))"
  by (simp add: entry_nodes_def entry_set_def)

lemma collect_entries_adds:
  "collect_entries n k w ns refs s = Some s' \<Longrightarrow> cluster_names_ok k w \<Longrightarrow>
     (\<forall>r\<in>entry_set ns refs. dns_ok r) \<Longrightarrow> adds k w (entry_set ns refs) {} {} s s'"
proof (induction n k w ns refs s arbitrary: s' rule: collect_entries.induct)
  case (3 n k w ns ref refs s)
  let ?n = "nsname (getNamespaceWithDefault ref ns) (or_Name ref)"
  obtain e s1 where 1: "traverseAgent n k w (getNamespaceWithDefault ref ns) (or_Name ref) s = Some (e, s1)"
    and 2: "collect_entries n k w ns refs s1 = Some s'"
    using "3.prems"(1) by (auto split: option.splits)
  have "adds k w {?n} {} {} s s1"
    using traverse_adds(1)[OF 1 "3.prems"(2)] "3.prems"(3) by simp
  moreover have "adds k w (entry_set ns refs) {} {} s1 s'"
    using "3.IH"[OF 1 refl 2 "3.prems"(2)] "3.prems"(3) by simp
  ultimately have "adds k w ({?n} \<union> entry_set ns refs) ({} \<union> {}) ({} \<union> {}) s s'"
    by (rule adds_trans)
  then show ?case by simp
qed (simp_all add: adds_refl)

text \<open>From nothing, the traversal ends with the reachable agents and all they lead to.\<close>

lemma empty_tstate [simp]:
  "nodes (fmempty, fmempty) = {}" "urls (fmempty, fmempty) = {}" "tools_of (fmempty, fmempty) = {}"
  "tstate_ok (fmempty, fmempty)"
  by (simp_all add: nodes_def urls_def tools_of_def tstate_ok_def)

lemma adds_from_empty:
  assumes "adds k w E {} {} (fmempty, fmempty) s"
  shows "tstate_ok s" and "nodes s = reach k w E"
    and "urls s = (\<Union>n\<in>reach k w E. node_urls k w n)"
    and "tools_of s = (\<Union>n\<in>reach k w E. node_tools k w n)"
proof -
  note d = addsD[OF assms, unfolded empty_tstate]
  show "tstate_ok s" by (rule d(1)) simp
  have "n \<in> nodes s" if "n \<in> reach k w E" for n
    using that
  proof (induction rule: reach.induct)
    case (entry a)
    then show ?case using d(3) by blast
  next
    case (step a b)
    then show ?case using d(9)[of a] by (auto simp: closed_def succs_def)
  qed
  then show nodes: "nodes s = reach k w E" using d(8) by blast
  have closed: "closed k w s n" if "n \<in> reach k w E" for n
    using d(9) that nodes by blast
  show "urls s = (\<Union>n\<in>reach k w E. node_urls k w n)"
    using d(10) closed unfolding nodes closed_def by (intro equalityI UN_least) simp_all
  show "tools_of s = (\<Union>n\<in>reach k w E. node_tools k w n)"
    using d(11) closed unfolding nodes closed_def by (intro equalityI UN_least) simp_all
qed

text \<open>The two slices.\<close>

lemma tstate_values:
  assumes "tstate_ok s" and "is_order ord"
  shows "{ta \<in> snd ` set (go_range ord (fst s)). ta_Url ta = []} = cluster_entry ` nodes s"
    and "ta_Url ` {ta \<in> snd ` set (go_range ord (fst s)). ta_Url ta \<noteq> []} = urls s"
proof -
  have vals: "ta \<in> snd ` set (go_range ord (fst s)) \<longleftrightarrow> (\<exists>key. fmlookup (fst s) key = Some ta)" for ta
    by (rule go_range_values[OF assms(2)])
  have node: "fmlookup (fst s) (node_key n) = Some (cluster_entry n)" if n: "n \<in> nodes s" for n
  proof -
    obtain ta where ta: "fmlookup (fst s) (node_key n) = Some ta" and "dns_ok n"
      using n by (auto simp: nodes_def)
    then show ?thesis
      using assms(1) node_key_inj url_not_key unfolding tstate_ok_def by metis
  qed
  have url: "\<exists>ta. fmlookup (fst s) u = Some ta \<and> ta_Url ta = u" if u: "u \<in> urls s" for u
  proof -
    obtain ta where "fmlookup (fst s) u = Some ta" and "url_ok u"
      using u by (auto simp: urls_def)
    then show ?thesis
      using assms(1) url_not_key unfolding tstate_ok_def by metis
  qed
  have url_nonempty: "u \<noteq> []" if "url_ok u" for u
    using that by (auto simp: url_ok_def)
  have kind: "(\<exists>n\<in>nodes s. ta = cluster_entry n) \<or> (ta_Url ta \<in> urls s \<and> ta_Url ta \<noteq> [])"
    if "fmlookup (fst s) key = Some ta" for key ta
    using that assms(1) url_nonempty unfolding tstate_ok_def nodes_def urls_def by fastforce
  show "{ta \<in> snd ` set (go_range ord (fst s)). ta_Url ta = []} = cluster_entry ` nodes s"
    using kind node by (auto simp: vals)
  show "ta_Url ` {ta \<in> snd ` set (go_range ord (fst s)). ta_Url ta \<noteq> []} = urls s"
  proof (intro equalityI subsetI)
    fix u assume "u \<in> ta_Url ` {ta \<in> snd ` set (go_range ord (fst s)). ta_Url ta \<noteq> []}"
    then obtain key ta where "u = ta_Url ta" "ta_Url ta \<noteq> []" "fmlookup (fst s) key = Some ta"
      using vals by auto
    then show "u \<in> urls s" using kind by fastforce
  next
    fix u assume u: "u \<in> urls s"
    then have "u \<noteq> []" using url_nonempty by (simp add: urls_def)
    moreover obtain ta where ta: "fmlookup (fst s) u = Some ta" "ta_Url ta = u"
      using url u by blast
    moreover have "ta \<in> snd ` set (go_range ord (fst s))" using vals ta(1) by blast
    ultimately show "u \<in> ta_Url ` {ta \<in> snd ` set (go_range ord (fst s)). ta_Url ta \<noteq> []}" by blast
  qed
qed

text \<open>An entry tells its key, so no entry is there twice.\<close>

lemma tstate_values_distinct:
  assumes "tstate_ok s" and "is_order ord"
  shows "distinct (map snd (go_range ord (fst s)))"
proof -
  have "inj_on (\<lambda>key. the (fmlookup (fst s) key)) (fmdom' (fst s))"
  proof (rule inj_onI)
    fix key key'
    assume "key \<in> fmdom' (fst s)" "key' \<in> fmdom' (fst s)"
      and "the (fmlookup (fst s) key) = the (fmlookup (fst s) key')"
    then obtain ta where ta: "fmlookup (fst s) key = Some ta" "fmlookup (fst s) key' = Some ta"
      by (auto simp: fmlookup_dom'_iff)
    have "k = (if ta_Url ta = [] then node_key (nsname (ta_Namespace ta) (ta_Name ta)) else ta_Url ta)"
      if "fmlookup (fst s) k = Some ta" for k
      using that assms(1) unfolding tstate_ok_def by (fastforce simp: url_ok_def)
    then show "key = key'" using ta by metis
  qed
  then show ?thesis using assms(2) by (simp add: go_range_def distinct_map comp_def)
qed

section \<open>Termination\<close>

text \<open>
  Each call below another marks one more agent of the cluster; so a depth of the number of
  agents not yet visited is enough, whatever the cycles.
\<close>

definition existing :: "'w kube \<Rightarrow> 'w \<Rightarrow> NamespacedName set" where
  "existing k w = {n. \<not> isl (getAgent k w n)}"

definition unvisited :: "'w kube \<Rightarrow> 'w \<Rightarrow> tstate \<Rightarrow> string set" where
  "unvisited k w s = node_key ` existing k w - fmdom' (fst s)"

lemma traverse_grows:
  shows "traverseAgent n k w ns name s = Some (e, s') \<Longrightarrow> fmdom' (fst s) \<subseteq> fmdom' (fst s')"
    and "traverse_subAgents m k w agentNs subs t = Some t' \<Longrightarrow> fmdom' (fst t) \<subseteq> fmdom' (fst t')"
proof (induction n k w ns name s and m k w agentNs subs t arbitrary: e s' and t'
    rule: traverseAgent_traverse_subAgents.induct)
  case (1 n k w ns name visited tools)
  show ?case
  proof (cases "fmlookup visited (agent_key ns name) = None")
    case False
    then show ?thesis using "1.prems" by (simp add: traverseAgent.simps)
  next
    case True
    then show ?thesis
      using "1.prems" "1.IH"
      by (cases "getAgent k w (nsname ns name)"; cases n)
         (fastforce simp: traverseAgent.simps Let_def split: if_splits)+
  qed
next
  case (3 m k w agentNs sub subs s)
  show ?case
  proof (cases "sa_AgentRef sub")
    case (Some ref)
    then obtain e s1 where 1: "traverseAgent m k w (getNamespaceWithDefault ref agentNs) (or_Name ref) s = Some (e, s1)"
      and 2: "traverse_subAgents m k w agentNs subs s1 = Some t'"
      using "3.prems" by (auto split: option.splits)
    show ?thesis using "3.IH"(3)[OF Some 1] "3.IH"(4)[OF Some 1 refl 2] by (rule subset_trans)
  next
    case None
    obtain v t where s: "s = (v, t)" by (cases s)
    show ?thesis
      using "3.IH"(1,2)[OF None] "3.prems" None s by (cases "sa_Url sub = []") (auto simp: Let_def)
  qed
qed simp

lemma unvisited_mono: "fmdom' (fst s) \<subseteq> fmdom' (fst s') \<Longrightarrow> unvisited k w s' \<subseteq> unvisited k w s"
  by (auto simp: unvisited_def)

lemma traverse_enough_fuel:
  shows "finite (existing k w) \<Longrightarrow> card (unvisited k w s) \<le> n \<Longrightarrow> traverseAgent n k w ns name s \<noteq> None"
    and "finite (existing k w) \<Longrightarrow> card (unvisited k w t) \<le> m \<Longrightarrow>
      traverse_subAgents m k w agentNs subs t \<noteq> None"
proof (induction n k w ns name s and m k w agentNs subs t rule: traverseAgent_traverse_subAgents.induct)
  case (1 n k w ns name visited tools)
  let ?s = "(visited, tools)" and ?n = "nsname ns name"
  show ?case
  proof (cases "fmlookup visited (agent_key ns name) \<noteq> None \<or> isl (getAgent k w ?n)")
    case True
    then show ?thesis
      by (cases "getAgent k w ?n") (auto simp: traverseAgent.simps Let_def)
  next
    case False
    then obtain agent where new: "fmlookup visited (agent_key ns name) = None"
      and agent: "getAgent k w ?n = Inr agent" by (cases "getAgent k w ?n") auto
    let ?t = "(fmupd (agent_key ns name) (cluster_entry ?n) visited,
      collect_tools (om_Namespace (ag_Meta agent)) (as_Tools (ag_Spec agent)) tools)"
    have "?n \<in> existing k w" using agent by (simp add: existing_def)
    then have mem: "agent_key ns name \<in> unvisited k w ?s"
      using new by (force simp: unvisited_def fmlookup_dom'_iff)
    have "unvisited k w ?t = unvisited k w ?s - {agent_key ns name}"
      by (auto simp: unvisited_def)
    moreover have fin: "finite (unvisited k w ?s)"
      using "1.prems"(1) by (simp add: unvisited_def)
    ultimately have less: "card (unvisited k w ?t) < card (unvisited k w ?s)"
      using mem by (metis card_Diff1_less)
    then obtain m where m: "n = Suc m" "card (unvisited k w ?t) \<le> m"
      using "1.prems"(2) by (cases n) auto
    have "traverse_subAgents m k w (om_Namespace (ag_Meta agent)) (as_SubAgents (ag_Spec agent)) ?t \<noteq> None"
      using "1.IH" new agent m "1.prems"(1) by simp
    then show ?thesis using new agent m(1) by (auto simp: traverseAgent.simps Let_def)
  qed
next
  case (2 m k w agentNs s)
  then show ?case by simp
next
  case (3 m k w agentNs sub subs s)
  have fin: "finite (unvisited k w s)" using "3.prems"(1) by (simp add: unvisited_def)
  have smaller: "card (unvisited k w s1) \<le> m" if "fmdom' (fst s) \<subseteq> fmdom' (fst s1)" for s1
    using unvisited_mono[OF that, of k w] card_mono[OF fin] "3.prems"(2) le_trans by blast
  show ?case
  proof (cases "sa_AgentRef sub")
    case (Some ref)
    then obtain e s1 where 1: "traverseAgent m k w (getNamespaceWithDefault ref agentNs) (or_Name ref) s = Some (e, s1)"
      using "3.IH"(3)[OF Some] "3.prems" by auto
    then have "traverse_subAgents m k w agentNs subs s1 \<noteq> None"
      using "3.IH"(4)[OF Some 1 refl] "3.prems"(1) smaller traverse_grows(1)[OF 1] by blast
    then show ?thesis using Some 1 by simp
  next
    case None
    have "card (unvisited k w (fmupd (sa_Url sub) x (fst s), snd s)) \<le> m" for x
      by (rule smaller) auto
    then show ?thesis using 3 None by (cases s) auto
  qed
qed

lemma collect_entries_enough_fuel:
  "finite (existing k w) \<Longrightarrow> card (unvisited k w s) \<le> n \<Longrightarrow> collect_entries n k w ns refs s \<noteq> None"
proof (induction n k w ns refs s rule: collect_entries.induct)
  case (3 n k w ns ref refs s)
  obtain e s1 where 1: "traverseAgent n k w (getNamespaceWithDefault ref ns) (or_Name ref) s = Some (e, s1)"
    using traverse_enough_fuel(1)[OF "3.prems"] by fastforce
  have "finite (unvisited k w s)" using "3.prems"(1) by (simp add: unvisited_def)
  then have "card (unvisited k w s1) \<le> n"
    using unvisited_mono[OF traverse_grows(1)[OF 1], of k w] card_mono "3.prems"(2) le_trans by blast
  then show ?case using "3.IH"[OF 1 refl "3.prems"(1)] 1 by simp
qed simp_all

lemma card_unvisited: "finite (existing k w) \<Longrightarrow> card (unvisited k w s) \<le> card (existing k w)"
  unfolding unvisited_def by (meson Diff_subset card_image_le card_mono finite_imageI le_trans)

lemma collect_terminates:
  assumes "finite (existing k w)" and "card (existing k w) \<le> n"
  shows "collectTransitiveAgentsAndTools ords n k w workforce \<noteq> None"
proof -
  have "card (unvisited k w (fmempty, fmempty)) \<le> n"
    using card_unvisited[OF assms(1)] assms(2) le_trans by blast
  then show ?thesis
    using collect_entries_enough_fuel[OF assms(1)]
    by (auto simp: collectTransitiveAgentsAndTools_def split: option.splits)
qed

section \<open>Correctness of the slices\<close>

lemma collect_correct:
  assumes "wf_orders_ok ords" and "cluster_names_ok k w"
    and "\<forall>e\<in>entry_nodes workforce. dns_ok e"
    and run: "collectTransitiveAgentsAndTools ords n k w workforce = Some (agents, tools)"
  shows "{ta \<in> set agents. ta_Url ta = []} = cluster_entry ` reach k w (entry_nodes workforce)"
    and "ta_Url ` {ta \<in> set agents. ta_Url ta \<noteq> []}
      = (\<Union>a\<in>reach k w (entry_nodes workforce). node_urls k w a)"
    and "set tools = (\<Union>a\<in>reach k w (entry_nodes workforce). node_tools k w a)"
    and "distinct tools" and "distinct agents"
proof -
  have ords: "is_order (order_visited ords)" "is_order (order_allTools ords)"
    using assms(1) by (simp_all add: wf_orders_ok_def)
  obtain s where s: "collect_entries n k w (om_Namespace (wf_Meta workforce))
      (ws_EntryPointAgents (wf_Spec workforce)) (fmempty, fmempty) = Some s"
    and list: "agents = map snd (go_range (order_visited ords) (fst s))"
    and tools: "tools = go_keys (order_allTools ords) (snd s)"
    using run by (auto simp: collectTransitiveAgentsAndTools_def split: option.splits)
  have agents: "set agents = snd ` set (go_range (order_visited ords) (fst s))" by (simp add: list)
  have "adds k w (entry_nodes workforce) {} {} (fmempty, fmempty) s"
    using collect_entries_adds[OF s assms(2)] assms(3) by (simp add: entry_nodes_set)
  note final = adds_from_empty[OF this]
  show "{ta \<in> set agents. ta_Url ta = []} = cluster_entry ` reach k w (entry_nodes workforce)"
    unfolding agents tstate_values(1)[OF final(1) ords(1)] final(2) ..
  show "ta_Url ` {ta \<in> set agents. ta_Url ta \<noteq> []}
      = (\<Union>a\<in>reach k w (entry_nodes workforce). node_urls k w a)"
    unfolding agents tstate_values(2)[OF final(1) ords(1)] final(3) ..
  show "set tools = (\<Union>a\<in>reach k w (entry_nodes workforce). node_tools k w a)" and "distinct tools"
    using ords(2) final(4) by (simp_all add: tools tools_of_def)
  show "distinct agents" unfolding list by (rule tstate_values_distinct[OF final(1) ords(1)])
qed

section \<open>The watch\<close>

text \<open>The traversal depends on the agents it can reach only.\<close>

lemma reach_step: "getAgent k w a = Inr agent \<Longrightarrow> x \<in> reach k w (sub_refs agent) \<Longrightarrow> x \<in> reach k w {a}"
  using reach_succs[of x k w a] by (simp add: succs_def sub_edge_def)

lemma reach_insert: "reach k w (insert a A) = reach k w {a} \<union> reach k w A"
  using reach_union[of k w "{a}" A] by simp

lemma traverse_local:
  shows "(\<forall>x\<in>reach k w {nsname ns name}. getAgent k w x = getAgent k w' x) \<Longrightarrow>
      traverseAgent n k w ns name s = traverseAgent n k w' ns name s"
    and "(\<forall>x\<in>reach k w (ref_nodes agentNs subs). getAgent k w x = getAgent k w' x) \<Longrightarrow>
      traverse_subAgents m k w agentNs subs t = traverse_subAgents m k w' agentNs subs t"
proof (induction n k w ns name s and m k w agentNs subs t rule: traverseAgent_traverse_subAgents.induct)
  case (1 n k w ns name visited tools)
  let ?n = "nsname ns name"
  have same: "getAgent k w ?n = getAgent k w' ?n" using "1.prems" by (auto intro: reach.intros)
  show ?case
  proof (cases "getAgent k w ?n")
    case (Inr agent)
    have "\<forall>x\<in>reach k w (ref_nodes (om_Namespace (ag_Meta agent)) (as_SubAgents (ag_Spec agent))).
        getAgent k w x = getAgent k w' x"
      using "1.prems" reach_step[OF Inr] by (simp flip: sub_refs_nodes)
    then show ?thesis
      using "1.IH" Inr same by (cases n) (auto simp: traverseAgent.simps Let_def)
  qed (use same in \<open>simp add: traverseAgent.simps Let_def\<close>)
next
  case (3 m k w agentNs sub subs s)
  show ?case
  proof (cases "sa_AgentRef sub")
    case (Some ref)
    let ?ns = "getNamespaceWithDefault ref agentNs" and ?name = "or_Name ref"
    have p: "\<forall>x\<in>reach k w {nsname ?ns ?name}. getAgent k w x = getAgent k w' x"
      "\<forall>x\<in>reach k w (ref_nodes agentNs subs). getAgent k w x = getAgent k w' x"
      using "3.prems" Some reach_insert[of k w "nsname ?ns ?name" "ref_nodes agentNs subs"] by auto
    show ?thesis
    proof (cases "traverseAgent m k w ?ns ?name s")
      case None
      then show ?thesis using "3.IH"(3)[OF Some p(1)] Some by simp
    next
      case ran: (Some r)
      obtain e s1 where r: "r = (e, s1)" by (cases r)
      note here = "3.IH"(3)[OF Some p(1)]
      have rest: "traverse_subAgents m k w agentNs subs s1 = traverse_subAgents m k w' agentNs subs s1"
        using "3.IH"(4)[OF Some ran _ p(2)] r by simp
      have ran': "traverseAgent m k w' ?ns ?name s = Some (e, s1)" using here ran r by simp
      show ?thesis by (simp add: Some ran r ran' rest)
    qed
  next
    case None
    obtain v t where s: "s = (v, t)" by (cases s)
    show ?thesis
      using "3.IH"(1,2)[OF None] "3.prems" None s by (cases "sa_Url sub = []") (auto simp: Let_def)
  qed
qed simp

lemma collect_entries_local:
  "(\<forall>x\<in>reach k w (entry_set ns refs). getAgent k w x = getAgent k w' x) \<Longrightarrow>
   collect_entries n k w ns refs s = collect_entries n k w' ns refs s"
proof (induction n k w ns refs s rule: collect_entries.induct)
  case (3 n k w ns ref refs s)
  let ?n = "nsname (getNamespaceWithDefault ref ns) (or_Name ref)"
  have p: "\<forall>x\<in>reach k w {?n}. getAgent k w x = getAgent k w' x"
    "\<forall>x\<in>reach k w (entry_set ns refs). getAgent k w x = getAgent k w' x"
    using "3.prems" reach_insert[of k w ?n "entry_set ns refs"] by auto
  show ?case
  proof (cases "traverseAgent n k w (getNamespaceWithDefault ref ns) (or_Name ref) s")
    case None
    then show ?thesis by (simp add: traverse_local(1)[OF p(1), of n s, symmetric])
  next
    case ran: (Some r)
    obtain e s1 where r: "r = (e, s1)" by (cases r)
    have rest: "collect_entries n k w ns refs s1 = collect_entries n k w' ns refs s1"
      using "3.IH"[OF ran _ p(2)] r by simp
    have ran': "traverseAgent n k w' (getNamespaceWithDefault ref ns) (or_Name ref) s = Some (e, s1)"
      using traverse_local(1)[OF p(1), of n s] ran r by simp
    show ?thesis by (simp add: ran r ran' rest)
  qed
qed simp_all

lemma validate_loop_eq:
  "validate_loop k w ns refs ready missing =
     (ready \<and> (\<forall>r\<in>entry_set ns refs. \<not> isl (getAgent k w r)),
      missing @ map node_key (filter (\<lambda>r. isl (getAgent k w r))
        (map (\<lambda>ref. nsname (getNamespaceWithDefault ref ns) (or_Name ref)) (List.map_filter id refs))))"
  by (induction k w ns refs ready missing rule: validate_loop.induct)
     (auto simp: Let_def List.map_filter_simps split: sum.splits)

lemma validate_local:
  assumes "\<forall>x\<in>entry_set ns refs. getAgent k w x = getAgent k w' x"
  shows "validate_loop k w ns refs ready missing = validate_loop k w' ns refs ready missing"
  using assms
proof (induction refs arbitrary: ready missing)
  case (Cons r refs)
  have rest: "validate_loop k w ns refs ready missing = validate_loop k w' ns refs ready missing"
    for ready missing
    using Cons.IH Cons.prems by (cases r) simp_all
  show ?case
  proof (cases r)
    case None
    then show ?thesis by (simp add: rest)
  next
    case (Some ref)
    have same: "getAgent k w (nsname (getNamespaceWithDefault ref ns) (or_Name ref))
        = getAgent k w' (nsname (getNamespaceWithDefault ref ns) (or_Name ref))"
      using Cons.prems Some by simp
    show ?thesis unfolding Some validate_loop.simps Let_def same rest ..
  qed
qed simp

text \<open>What the reconciler of a workforce computes before it writes the status.\<close>

definition workforce_view ::
  "wf_orders \<Rightarrow> nat \<Rightarrow> 'w kube \<Rightarrow> 'w \<Rightarrow> AgenticWorkforce
    \<Rightarrow> (bool \<times> string list) \<times> (TransitiveAgent list \<times> string list) option" where
  "workforce_view ords n k w workforce =
     (validateEntryPointAgents k w workforce, collectTransitiveAgentsAndTools ords n k w workforce)"

lemma workforce_view_local:
  assumes "\<And>x. x \<in> reach k w (entry_nodes workforce) \<Longrightarrow> getAgent k w x = getAgent k w' x"
  shows "workforce_view ords n k w workforce = workforce_view ords n k w' workforce"
proof -
  have all: "\<forall>x\<in>reach k w (entry_nodes workforce). getAgent k w x = getAgent k w' x"
    using assms by blast
  moreover have "\<forall>x\<in>entry_nodes workforce. getAgent k w x = getAgent k w' x"
    using assms by (auto intro: reach.intros)
  ultimately show ?thesis
    unfolding workforce_view_def validateEntryPointAgents_def collectTransitiveAgentsAndTools_def
      entry_nodes_set
    by (simp only: validate_local collect_entries_local)
qed

definition workforce_matches :: "Agent \<Rightarrow> AgenticWorkforce \<Rightarrow> bool" where
  "workforce_matches agent workforce \<longleftrightarrow>
     entry_references (om_Namespace (wf_Meta workforce))
       (agent_key (om_Namespace (ag_Meta agent)) (om_Name (ag_Meta agent)))
       (ws_EntryPointAgents (wf_Spec workforce))
     \<or> status_references agent (wst_TransitiveAgents (wf_Status workforce))"

lemma entry_references_iff:
  "entry_references ns key refs \<longleftrightarrow> key \<in> node_key ` entry_set ns refs"
  by (induction ns key refs rule: entry_references.induct) auto

lemma find_workforces_step:
  "find_workforces_loop agent (x # items) reqs enq =
     (if fmlookup enq (request_of (wf_Meta x)) \<noteq> Some True \<and> workforce_matches agent x
      then find_workforces_loop agent items (reqs @ [request_of (wf_Meta x)])
             (fmupd (request_of (wf_Meta x)) True enq)
      else find_workforces_loop agent items reqs enq)"
  by (simp add: workforce_matches_def Let_def)

lemma find_workforces_loop_set:
  "(\<forall>q. fmlookup enq q = Some True \<longleftrightarrow> q \<in> set reqs) \<Longrightarrow> distinct reqs \<Longrightarrow>
   set (find_workforces_loop agent items reqs enq) =
      set reqs \<union> {request_of (wf_Meta x) |x. x \<in> set items \<and> workforce_matches agent x}
   \<and> distinct (find_workforces_loop agent items reqs enq)"
proof (induction items arbitrary: reqs enq)
  case (Cons x items)
  let ?q = "request_of (wf_Meta x)"
  show ?case
  proof (cases "fmlookup enq ?q \<noteq> Some True \<and> workforce_matches agent x")
    case True
    then have "set (find_workforces_loop agent items (reqs @ [?q]) (fmupd ?q True enq)) =
        set (reqs @ [?q]) \<union> {request_of (wf_Meta x) |x. x \<in> set items \<and> workforce_matches agent x}
      \<and> distinct (find_workforces_loop agent items (reqs @ [?q]) (fmupd ?q True enq))"
      using Cons.prems by (intro Cons.IH) auto
    then show ?thesis using True by (auto simp: find_workforces_step simp del: find_workforces_loop.simps)
  next
    case False
    then have "?q \<in> set reqs" if "workforce_matches agent x" using that Cons.prems(1) by blast
    moreover note Cons.IH[OF Cons.prems]
    ultimately show ?thesis
      using False by (auto simp: find_workforces_step simp del: find_workforces_loop.simps)
  qed
qed simp

lemma findWorkforces_spec:
  assumes "listWorkforces k w = Inr items"
  shows "set (findWorkforcesReferencingAgent k w (ObjAgent agent)) =
      {request_of (wf_Meta x) |x. x \<in> set items \<and> workforce_matches agent x}"
    and "distinct (findWorkforcesReferencingAgent k w (ObjAgent agent))"
  using find_workforces_loop_set[of fmempty "[]" agent items] assms
  by (simp_all add: findWorkforcesReferencingAgent_def)

end
