(* ===== verification/Workforce_Properties.thy ===== *)
theory Workforce_Properties
  imports Cluster Workforce_Traversal
begin

text \<open>
  The properties of the workforce controller: its status is graph reachability, it returns on
  every cluster, and its watch misses no change.
\<close>

section \<open>A concrete workforce\<close>

text \<open>Two agents that reference each other, one of them with a remote sub-agent, the other with a tool.\<close>

definition agent_p :: Agent where
  "agent_p = new_agent ''p'' ''n'' (empty_agent_spec\<lparr>as_SubAgents :=
     [\<lparr>sa_Name = ''q'', sa_AgentRef = Some (local_ref ''q''), sa_Url = [], sa_InteractionType = ''tool_call''\<rparr>,
      \<lparr>sa_Name = ''r'', sa_AgentRef = None, sa_Url = ''http://r'', sa_InteractionType = ''tool_call''\<rparr>]\<rparr>)"

definition agent_q :: Agent where
  "agent_q = new_agent ''q'' ''n'' (empty_agent_spec\<lparr>
     as_SubAgents :=
       [\<lparr>sa_Name = ''p'', sa_AgentRef = Some (local_ref ''p''), sa_Url = [], sa_InteractionType = ''tool_call''\<rparr>],
     as_Tools := [\<lparr>at_Name = ''t'', at_Upstream = \<lparr>tu_ToolRouteRef = None, tu_ToolServerRef = Some (local_ref ''ts''),
       tu_External = None\<rparr>, at_PropagatedHeaders = []\<rparr>]\<rparr>)"

definition demo_workforce :: AgenticWorkforce where
  "demo_workforce = \<lparr>wf_Meta = new_meta ''w'' ''n'',
     wf_Spec = \<lparr>ws_Name = ''w'', ws_Description = [], ws_Owner = [], ws_Tags = [],
       ws_EntryPointAgents = [Some (local_ref ''p'')]\<rparr>,
     wf_Status = \<lparr>wst_Conditions = [], wst_TransitiveAgents = [], wst_TransitiveTools = []\<rparr>\<rparr>"

definition workforce_cluster :: cluster where
  "workforce_cluster = empty_cluster\<lparr>cl_agents := [agent_p, agent_q], cl_workforces := [demo_workforce]\<rparr>"

abbreviation wf_kube :: "cluster kube" where
  "wf_kube \<equiv> sim_kube ''ops''"

definition stored_workforce :: "cluster \<Rightarrow> NamespacedName \<Rightarrow> AgenticWorkforce option" where
  "stored_workforce w key = find (\<lambda>x. request_of (wf_Meta x) = key) (cl_workforces w)"

lemma sim_workforce_status_ok:
  "status_update_ok (updateWorkforceStatus (sim_kube ns)) stored_workforce wf_Meta wf_Status"
proof -
  have st: "stored_workforce = (\<lambda>w key. find (\<lambda>x. request_of (wf_Meta x) = key) (cl_workforces w))"
    by (intro ext) (simp add: stored_workforce_def)
  have upd: "updateWorkforceStatus (sim_kube ns) = sim_update_status wf_Meta
      (\<lambda>new old. old\<lparr>wf_Status := wf_Status new\<rparr>) cl_workforces (\<lambda>xs w. w\<lparr>cl_workforces := xs\<rparr>)"
    by (simp add: sim_kube_def)
  show ?thesis unfolding st upd by (rule sim_status_ok) simp_all
qed

lemma sim_existing:
  "existing (sim_kube ns) w \<subseteq> (\<lambda>a. request_of (ag_Meta a)) ` set (cl_agents w)"
proof
  fix key
  assume "key \<in> existing (sim_kube ns) w"
  then obtain a where a: "find (\<lambda>x. request_of (ag_Meta x) = key) (cl_agents w) = Some a"
    by (auto simp: existing_def sim_get_def split: option.splits)
  from find_SomeD[OF a] show "key \<in> (\<lambda>a. request_of (ag_Meta a)) ` set (cl_agents w)" by auto
qed

lemma sim_existing_finite: "finite (existing (sim_kube ns) w)"
  "card (existing (sim_kube ns) w) \<le> length (cl_agents w)"
proof -
  show "finite (existing (sim_kube ns) w)" using sim_existing finite_subset by blast
  have "card (existing (sim_kube ns) w) \<le> card ((\<lambda>a. request_of (ag_Meta a)) ` set (cl_agents w))"
    by (rule card_mono[OF _ sim_existing]) simp
  also have "\<dots> \<le> length (cl_agents w)" using card_image_le card_length le_trans by blast
  finally show "card (existing (sim_kube ns) w) \<le> length (cl_agents w)" .
qed

lemma demo_workforce_get [simp]:
  "getWorkforce wf_kube workforce_cluster (nsname ''n'' ''w'') = Inr demo_workforce"
  "request_of (wf_Meta demo_workforce) = nsname ''n'' ''w''"
  by (simp_all add: workforce_cluster_def demo_workforce_def sim_get_def request_of_def)

lemma demo_names_ok: "cluster_names_ok wf_kube workforce_cluster"
  "\<forall>e\<in>entry_nodes demo_workforce. dns_ok e"
proof -
  have agents: "a \<in> {agent_p, agent_q}" if "getAgent wf_kube workforce_cluster key = Inr a" for key a
    using that by (auto simp: sim_get_def workforce_cluster_def split: option.splits if_splits)
  have refs: "sub_refs a \<subseteq> {nsname ''n'' ''p'', nsname ''n'' ''q''}" "remote_urls a \<subseteq> {''http://r''}"
    if "a \<in> {agent_p, agent_q}" for a
    using that
    by (auto simp: sub_refs_def remote_urls_def agent_p_def agent_q_def new_agent_def local_ref_def
        getNamespaceWithDefault_def)
  have ok: "dns_ok (nsname ''n'' ''p'')" "dns_ok (nsname ''n'' ''q'')" "url_ok ''http://r''"
    by (simp_all add: dns_ok_def url_ok_def)
  show "cluster_names_ok wf_kube workforce_cluster"
    unfolding cluster_names_ok_def using agents refs ok by blast
  show "\<forall>e\<in>entry_nodes demo_workforce. dns_ok e"
    using ok by (simp add: entry_nodes_set demo_workforce_def local_ref_def getNamespaceWithDefault_def)
qed

section \<open>Termination\<close>

text \<open>
  C24: The reconciliation of a workforce returns. On a cluster with finitely many agents a
  recursion depth of their number is enough, whatever cycles their references form and
  whatever order Go's map loops run in.
\<close>

theorem workforce_reconcile_terminates:
  assumes "finite (existing k w)" and "card (existing k w) \<le> n"
  shows "\<exists>err w'. Reconcile_wf ords n k req w = Some (err, w')"
proof -
  have "\<exists>r. collectTransitiveAgentsAndTools ords n k w workforce = Some r" for workforce
    using collect_terminates[OF assms] by blast
  then obtain collect where "\<And>workforce. collectTransitiveAgentsAndTools ords n k w workforce = Some (collect workforce)"
    by metis
  then show ?thesis
    by (auto simp: Reconcile_wf_def Let_def split: sum.splits prod.splits option.splits)
qed

definition std_orders :: wf_orders where
  "std_orders = \<lparr>order_visited = (\<lambda>ks. ks), order_allTools = (\<lambda>ks. ks)\<rparr>"

theorem workforce_reconcile_terminates_witness:
  "\<exists>err w'. Reconcile_wf std_orders 2 wf_kube (nsname ''n'' ''w'') workforce_cluster = Some (err, w')"
proof (rule workforce_reconcile_terminates)
  show "finite (existing wf_kube workforce_cluster)" by (rule sim_existing_finite)
  show "card (existing wf_kube workforce_cluster) \<le> 2"
    using sim_existing_finite(2)[of "''ops''" workforce_cluster] by (simp add: workforce_cluster_def)
qed

section \<open>The status\<close>

lemma Reconcile_wf_success:
  assumes "getWorkforce k w req = Inr workforce" and "Reconcile_wf ords n k req w = Some (None, w')"
    and "status_update_ok (updateWorkforceStatus k) stored wf_Meta wf_Status"
    and "set_condition_ok (setStatusCondition k)"
  obtains x c agents tools where
    "collectTransitiveAgentsAndTools ords n k w workforce = Some (agents, tools)"
    "stored w' (request_of (wf_Meta workforce)) = Some x"
    "wst_TransitiveAgents (wf_Status x) = agents" "wst_TransitiveTools (wf_Status x) = tools"
    "findReadyCondition (wst_Conditions (wf_Status x)) = Some c"
    "c_Status c = (if fst (validateEntryPointAgents k w workforce) then ConditionTrue else ConditionFalse)"
    "fst (validateEntryPointAgents k w workforce) \<or>
       c_Message c = ''Missing agents: '' @ show_strings (snd (validateEntryPointAgents k w workforce))"
proof -
  obtain ready missing where v: "validateEntryPointAgents k w workforce = (ready, missing)" by (rule prod.exhaust)
  obtain agents tools where run: "collectTransitiveAgentsAndTools ords n k w workforce = Some (agents, tools)"
    using assms(1,2) by (auto simp: Reconcile_wf_def Let_def split: prod.splits option.splits)
  let ?c = "if ready
      then \<lparr>c_Type = conditionTypeReady, c_Status = ConditionTrue,
        c_ObservedGeneration = om_Generation (wf_Meta workforce), c_LastTransitionTime = [],
        c_Reason = ''AllAgentsReady'', c_Message = ''All entry point agents are available''\<rparr>
      else \<lparr>c_Type = conditionTypeReady, c_Status = ConditionFalse,
        c_ObservedGeneration = om_Generation (wf_Meta workforce), c_LastTransitionTime = [],
        c_Reason = ''AgentsMissing'', c_Message = ''Missing agents: '' @ show_strings missing\<rparr>"
  let ?st = "(wf_Status workforce)\<lparr>wst_Conditions := setStatusCondition k (wst_Conditions (wf_Status workforce)) ?c,
      wst_TransitiveAgents := agents, wst_TransitiveTools := tools\<rparr>"
  obtain obj where upd: "updateWorkforceStatus k (workforce\<lparr>wf_Status := ?st\<rparr>) w = (None, obj, w')"
    using assms(1,2) by (auto simp: Reconcile_wf_def Let_def v run split: prod.splits option.splits)
  obtain x where x: "stored w' (request_of (wf_Meta workforce)) = Some x" "wf_Status x = ?st"
    using status_update_success[OF assms(3) upd] by auto
  have type: "c_Type ?c = conditionTypeReady" by simp
  obtain c where "find_condition (c_Type ?c) (setStatusCondition k (wst_Conditions (wf_Status workforce)) ?c) = Some c"
    and c': "c_Status c = c_Status ?c" "c_Message c = c_Message ?c"
    using assms(4) unfolding set_condition_ok_def by blast
  then have c: "findReadyCondition (wst_Conditions ?st) = Some c"
    unfolding findReadyCondition_find type by simp
  show thesis
  proof (rule that[OF run x(1)])
    show "findReadyCondition (wst_Conditions (wf_Status x)) = Some c" using c x(2) by simp
    show "c_Status c = (if fst (validateEntryPointAgents k w workforce) then ConditionTrue else ConditionFalse)"
      using c'(1) by (simp add: v)
    show "fst (validateEntryPointAgents k w workforce) \<or>
        c_Message c = ''Missing agents: '' @ show_strings (snd (validateEntryPointAgents k w workforce))"
      using c'(2) by (auto simp: v)
  qed (simp_all add: x(2))
qed

text \<open>
  C25: The status a reconciliation writes is reachability. The transitive agents without a URL
  are exactly those reachable from the entry points over sub-agent references; the remote ones
  and the tools are exactly those the reachable agents name, each tool once. The condition is
  true exactly when every entry point exists.
\<close>

theorem workforce_status_is_reachability:
  assumes "wf_orders_ok ords" and "cluster_names_ok k w" and "\<forall>e\<in>entry_nodes workforce. dns_ok e"
    and "status_update_ok (updateWorkforceStatus k) stored wf_Meta wf_Status"
    and "set_condition_ok (setStatusCondition k)"
    and "getWorkforce k w req = Inr workforce" and "Reconcile_wf ords n k req w = Some (None, w')"
  defines "R \<equiv> reach k w (entry_nodes workforce)"
  shows "\<exists>x c. stored w' (request_of (wf_Meta workforce)) = Some x
    \<and> {ta \<in> set (wst_TransitiveAgents (wf_Status x)). ta_Url ta = []} = cluster_entry ` R
    \<and> ta_Url ` {ta \<in> set (wst_TransitiveAgents (wf_Status x)). ta_Url ta \<noteq> []} = (\<Union>a\<in>R. node_urls k w a)
    \<and> set (wst_TransitiveTools (wf_Status x)) = (\<Union>a\<in>R. node_tools k w a)
    \<and> distinct (wst_TransitiveTools (wf_Status x))
    \<and> findReadyCondition (wst_Conditions (wf_Status x)) = Some c
    \<and> c_Status c = (if entry_nodes workforce \<subseteq> existing k w then ConditionTrue else ConditionFalse)"
proof -
  obtain x c agents tools where
    run: "collectTransitiveAgentsAndTools ords n k w workforce = Some (agents, tools)"
    and x: "stored w' (request_of (wf_Meta workforce)) = Some x"
    "wst_TransitiveAgents (wf_Status x) = agents" "wst_TransitiveTools (wf_Status x) = tools"
    "findReadyCondition (wst_Conditions (wf_Status x)) = Some c"
    "c_Status c = (if fst (validateEntryPointAgents k w workforce) then ConditionTrue else ConditionFalse)"
    using assms(6,7,4,5) by (rule Reconcile_wf_success)
  have "fst (validateEntryPointAgents k w workforce) \<longleftrightarrow> entry_nodes workforce \<subseteq> existing k w"
    by (auto simp: validateEntryPointAgents_def validate_loop_eq entry_nodes_set existing_def)
  then show ?thesis
    using collect_correct[OF assms(1,2,3) run] x unfolding R_def by (intro exI[of _ x] exI[of _ c]) simp
qed

lemma std_orders_ok: "wf_orders_ok std_orders"
  by (simp add: wf_orders_ok_def std_orders_def)

lemma demo_workforce_reconciled:
  obtains w' where "Reconcile_wf std_orders 2 wf_kube (nsname ''n'' ''w'') workforce_cluster = Some (None, w')"
proof -
  let ?k = wf_kube and ?w = workforce_cluster
  obtain agents tools where run: "collectTransitiveAgentsAndTools std_orders 2 ?k ?w demo_workforce = Some (agents, tools)"
    using collect_terminates[OF sim_existing_finite(1), of "''ops''" ?w 2 std_orders demo_workforce]
      sim_existing_finite(2)[of "''ops''" ?w] by (fastforce simp: workforce_cluster_def)
  obtain ready missing where v: "validateEntryPointAgents ?k ?w demo_workforce = (ready, missing)"
    by (rule prod.exhaust)
  have "fst (updateWorkforceStatus ?k (demo_workforce\<lparr>wf_Status := st\<rparr>) ?w) = None" for st
    by (simp add: sim_kube_def sim_update_status_def sim_get_def workforce_cluster_def Let_def)
  then have "\<exists>w'. Reconcile_wf std_orders 2 ?k (nsname ''n'' ''w'') ?w = Some (None, w')"
    by (auto simp: Reconcile_wf_def Let_def v run simp del: sim_kube_sel split: prod.splits option.splits)
       (metis fst_conv option.distinct(1))+
  then show thesis using that by blast
qed

theorem workforce_status_is_reachability_witness:
  "\<exists>w' x. Reconcile_wf std_orders 2 wf_kube (nsname ''n'' ''w'') workforce_cluster = Some (None, w')
     \<and> stored_workforce w' (nsname ''n'' ''w'') = Some x
     \<and> cluster_entry (nsname ''n'' ''q'') \<in> set (wst_TransitiveAgents (wf_Status x))
     \<and> ''toolserver:n/ts'' \<in> set (wst_TransitiveTools (wf_Status x))"
proof -
  let ?k = wf_kube and ?w = workforce_cluster and ?e = "entry_nodes demo_workforce"
  obtain w' where w': "Reconcile_wf std_orders 2 ?k (nsname ''n'' ''w'') ?w = Some (None, w')"
    by (rule demo_workforce_reconciled)
  have p: "nsname ''n'' ''p'' \<in> reach ?k ?w ?e"
    by (rule reach.entry) (simp add: entry_nodes_set demo_workforce_def local_ref_def getNamespaceWithDefault_def)
  have agents: "getAgent ?k ?w (nsname ''n'' ''p'') = Inr agent_p" "getAgent ?k ?w (nsname ''n'' ''q'') = Inr agent_q"
    by (simp_all add: workforce_cluster_def agent_p_def agent_q_def new_agent_def sim_get_def request_of_def)
  have "sub_edge ?k ?w (nsname ''n'' ''p'') (nsname ''n'' ''q'')"
    unfolding sub_edge_def agents(1)
    by (simp add: sub_refs_def agent_p_def new_agent_def local_ref_def getNamespaceWithDefault_def)
  then have q: "nsname ''n'' ''q'' \<in> reach ?k ?w ?e" using p by (rule reach.step[rotated])
  have tool: "''toolserver:n/ts'' \<in> node_tools ?k ?w (nsname ''n'' ''q'')"
    unfolding node_tools_def agents(2)
    by (simp add: tool_keys_def tool_key_def agent_q_def new_agent_def local_ref_def Let_def)
  have cond: "set_condition_ok (setStatusCondition ?k)" by (simp add: sim_condition_ok)
  obtain x where x: "stored_workforce w' (nsname ''n'' ''w'') = Some x"
    and ag: "{ta \<in> set (wst_TransitiveAgents (wf_Status x)). ta_Url ta = []} = cluster_entry ` reach ?k ?w ?e"
    and tl: "set (wst_TransitiveTools (wf_Status x)) = (\<Union>a\<in>reach ?k ?w ?e. node_tools ?k ?w a)"
    using workforce_status_is_reachability[OF std_orders_ok demo_names_ok sim_workforce_status_ok cond
        demo_workforce_get(1) w'] unfolding demo_workforce_get(2) by (elim exE conjE) (rule that)
  have "cluster_entry (nsname ''n'' ''q'') \<in> {ta \<in> set (wst_TransitiveAgents (wf_Status x)). ta_Url ta = []}"
    unfolding ag using q by (rule imageI)
  then have "cluster_entry (nsname ''n'' ''q'') \<in> set (wst_TransitiveAgents (wf_Status x))" by blast
  moreover have "''toolserver:n/ts'' \<in> set (wst_TransitiveTools (wf_Status x))"
    unfolding tl using q tool by (rule UN_I)
  ultimately show ?thesis using w' x by (intro exI conjI)
qed

section \<open>The watch\<close>

lemma workforce_watch_complete:
  assumes "listWorkforces k w' = Inr items" and "workforce \<in> set items"
    and "\<forall>a\<in>reach k w (entry_nodes workforce). \<exists>ta\<in>set (wst_TransitiveAgents (wf_Status workforce)).
      ta_Name ta = nn_Name a \<and> ta_Namespace ta = nn_Namespace a"
    and "\<And>q. q \<noteq> request_of (ag_Meta agent) \<Longrightarrow> getAgent k w q = getAgent k w' q"
    and "workforce_view ords n k w workforce \<noteq> workforce_view ords n k w' workforce"
  shows "request_of (wf_Meta workforce) \<in> set (workforce_watch_requests k w' (ObjAgent agent))"
proof -
  let ?a = "request_of (ag_Meta agent)"
  have "?a \<in> reach k w (entry_nodes workforce)"
  proof (rule ccontr)
    assume "?a \<notin> reach k w (entry_nodes workforce)"
    then have "getAgent k w x = getAgent k w' x" if "x \<in> reach k w (entry_nodes workforce)" for x
      using assms(4) that by metis
    then show False using workforce_view_local assms(5) by metis
  qed
  then have "status_references agent (wst_TransitiveAgents (wf_Status workforce))"
    using assms(3) by (fastforce simp: status_references_def list_ex_iff request_of_def)
  then have "workforce_matches agent workforce" by (simp add: workforce_matches_def)
  then show ?thesis using findWorkforces_spec(1)[OF assms(1), of agent] assms(2) unfolding workforce_watch_requests_def by auto
qed

lemma workforce_watch_exact:
  "set (findWorkforcesReferencingAgent k w (ObjAgent agent)) =
     {request_of (wf_Meta x) |x items. listWorkforces k w = Inr items \<and> x \<in> set items
        \<and> (request_of (ag_Meta agent) \<in> node_key -` node_key ` entry_nodes x
           \<or> (\<exists>ta\<in>set (wst_TransitiveAgents (wf_Status x)).
                nsname (ta_Namespace ta) (ta_Name ta) = request_of (ag_Meta agent)))}
   \<and> distinct (findWorkforcesReferencingAgent k w (ObjAgent agent))"
proof -
  have matches: "workforce_matches agent x \<longleftrightarrow>
      request_of (ag_Meta agent) \<in> node_key -` node_key ` entry_nodes x
      \<or> (\<exists>ta\<in>set (wst_TransitiveAgents (wf_Status x)). nsname (ta_Namespace ta) (ta_Name ta) = request_of (ag_Meta agent))"
    for x
    by (auto simp: workforce_matches_def entry_references_iff entry_nodes_set status_references_def
        list_ex_iff request_of_def)
  show ?thesis
  proof (cases "listWorkforces k w")
    case (Inr items)
    show ?thesis
      using findWorkforces_spec[OF Inr, of agent] unfolding matches Inr by auto
  qed (simp add: findWorkforcesReferencingAgent_def)
qed


text \<open>A workforce whose entry point does not exist yet; then it is created.\<close>

definition waiting_workforce :: AgenticWorkforce where
  "waiting_workforce = demo_workforce\<lparr>wf_Status := \<lparr>wst_Conditions = [],
     wst_TransitiveAgents = [cluster_entry (nsname ''n'' ''p'')], wst_TransitiveTools = []\<rparr>\<rparr>"


section \<open>The order of the lists\<close>

text \<open>Another order of Go's map loops returns the same lists reversed.\<close>

lemma collect_reversed:
  assumes "wf_orders_ok ords"
    and "collectTransitiveAgentsAndTools ords n k w workforce = Some (agents, tools)"
  obtains ords' where "wf_orders_ok ords'"
    and "collectTransitiveAgentsAndTools ords' n k w workforce = Some (rev agents, rev tools)"
proof
  let ?o = "\<lparr>order_visited = rev \<circ> order_visited ords, order_allTools = rev \<circ> order_allTools ords\<rparr>"
  show "wf_orders_ok ?o" using assms(1) by (simp add: wf_orders_ok_def is_order_def)
  have "go_keys (rev \<circ> f) m = rev (go_keys f m)" for f and m :: "(string, 'v) fmap"
    by (simp add: go_keys_def)
  then show "collectTransitiveAgentsAndTools ?o n k w workforce = Some (rev agents, rev tools)"
    using assms(2)
    by (auto simp: collectTransitiveAgentsAndTools_def go_range_def go_keys_def rev_map split: option.splits)
qed

text \<open>
  What the API server documents of the status subresource of workforces: a request changes nothing
  of the stored object but its status, and no agent.
\<close>

definition workforce_status_subresource :: "'w kube \<Rightarrow> bool" where
  "workforce_status_subresource k \<longleftrightarrow> (\<forall>x w w'. w' = snd (snd (updateWorkforceStatus k x w)) \<longrightarrow>
     (\<forall>q. getAgent k w' q = getAgent k w q)
     \<and> (\<forall>y y'. getWorkforce k w (request_of (wf_Meta x)) = Inr y
          \<and> getWorkforce k w' (request_of (wf_Meta x)) = Inr y' \<longrightarrow>
          wf_Spec y' = wf_Spec y \<and> request_of (wf_Meta y') = request_of (wf_Meta y)))"

lemma Reconcile_wf_update:
  assumes "getWorkforce k w req = Inr workforce"
    and "collectTransitiveAgentsAndTools ords n k w workforce = Some (agents, tools)"
    and "Reconcile_wf ords n k req w = Some (None, w')"
  shows "\<exists>st. w' = snd (snd (updateWorkforceStatus k (workforce\<lparr>wf_Status := st\<rparr>) w))"
proof -
  obtain ready missing where v: "validateEntryPointAgents k w workforce = (ready, missing)" by (rule prod.exhaust)
  have upd: "\<exists>st. w' = snd (snd (updateWorkforceStatus k (workforce\<lparr>wf_Status := st\<rparr>) w))"
    if "(case updateWorkforceStatus k (workforce\<lparr>wf_Status := st\<rparr>) w of
        (Some err, _, w) \<Rightarrow> Some (Some err, w) | (None, _, w) \<Rightarrow> Some (None, w)) = Some (None, w')" for st
    using that by (intro exI[of _ st]) (auto split: prod.splits option.splits)
  show ?thesis
    using assms(3) unfolding Reconcile_wf_def assms(1) sum.case Let_def v assms(2) prod.case option.case by (rule upd)
qed

lemma reconcile_wf_stores:
  assumes "status_update_ok (updateWorkforceStatus k) (readable (getWorkforce k)) wf_Meta wf_Status"
    and "set_condition_ok (setStatusCondition k)" and "workforce_status_subresource k"
    and "getWorkforce k w req = Inr workforce" and "request_of (wf_Meta workforce) = req"
    and "collectTransitiveAgentsAndTools ords n k w workforce = Some (agents, tools)"
    and "Reconcile_wf ords n k req w = Some (None, w')"
  shows "\<exists>x. getWorkforce k w' req = Inr x \<and> request_of (wf_Meta x) = req \<and> wf_Spec x = wf_Spec workforce
    \<and> wst_TransitiveAgents (wf_Status x) = agents \<and> wst_TransitiveTools (wf_Status x) = tools
    \<and> (\<forall>ords n. collectTransitiveAgentsAndTools ords n k w' x = collectTransitiveAgentsAndTools ords n k w workforce)"
proof -
  obtain x where x: "readable (getWorkforce k) w' (request_of (wf_Meta workforce)) = Some x"
    "wst_TransitiveAgents (wf_Status x) = agents" "wst_TransitiveTools (wf_Status x) = tools"
    using Reconcile_wf_success[OF assms(4,7,1,2)] assms(6) by (metis option.inject prod.inject)
  then have get: "getWorkforce k w' req = Inr x" by (simp add: assms(5))
  obtain st where "w' = snd (snd (updateWorkforceStatus k (workforce\<lparr>wf_Status := st\<rparr>) w))"
    using Reconcile_wf_update[OF assms(4,6,7)] by blast
  then obtain y where w': "w' = snd (snd (updateWorkforceStatus k y w))" and y: "wf_Meta y = wf_Meta workforce"
    by (metis AgenticWorkforce.select_convs(1) AgenticWorkforce.update_convs(3) AgenticWorkforce.surjective)
  have same: "getAgent k w' q = getAgent k w q" for q
    using assms(3) w' unfolding workforce_status_subresource_def by blast
  have spec: "wf_Spec x = wf_Spec workforce" "request_of (wf_Meta x) = req"
    using assms(3,4,5) get w' y unfolding workforce_status_subresource_def by metis+
  have ns: "om_Namespace (wf_Meta x) = om_Namespace (wf_Meta workforce)"
    using spec(2) assms(5) by (auto simp: request_of_def)
  have "collectTransitiveAgentsAndTools ords n k w' x = collectTransitiveAgentsAndTools ords n k w workforce" for ords n
    unfolding collectTransitiveAgentsAndTools_def ns spec(1)
    by (subst collect_entries_local[where w = w' and w' = w]) (simp_all add: same)
  then show ?thesis using get x(2,3) spec by blast
qed

text \<open>
  C27: The status of a workforce never settles. The lists of transitive agents and tools have the
  order in which Go happens to range over a map. So after every reconciliation that succeeds, the
  next one may write the same lists reversed, whatever their order: if there are two agents or
  more, that is another status, and its event enqueues the workforce once more.
\<close>

theorem workforce_status_never_settles:
  assumes "status_update_ok (updateWorkforceStatus k) (readable (getWorkforce k)) wf_Meta wf_Status"
    and "set_condition_ok (setStatusCondition k)" and "workforce_status_subresource k"
    and "getWorkforce k w req = Inr workforce" and "request_of (wf_Meta workforce) = req"
    and "wf_orders_ok ords" and "cluster_names_ok k w" and "\<forall>e\<in>entry_nodes workforce. dns_ok e"
    and "Reconcile_wf ords n k req w = Some (None, w')"
  shows "\<exists>x ords'. getWorkforce k w' req = Inr x \<and> wf_orders_ok ords'
    \<and> (\<forall>w''. Reconcile_wf ords' n k req w' = Some (None, w'') \<longrightarrow> (\<exists>y. getWorkforce k w'' req = Inr y
         \<and> wst_TransitiveAgents (wf_Status y) = rev (wst_TransitiveAgents (wf_Status x))
         \<and> wst_TransitiveTools (wf_Status y) = rev (wst_TransitiveTools (wf_Status x))
         \<and> (1 < length (wst_TransitiveAgents (wf_Status x)) \<longrightarrow> y \<noteq> x)
         \<and> req \<in> set (workforce_watch_requests k w'' (ObjWorkforce y))))"
proof -
  obtain agents tools where run: "collectTransitiveAgentsAndTools ords n k w workforce = Some (agents, tools)"
    using assms(4,9) by (auto simp: Reconcile_wf_def Let_def split: prod.splits option.splits)
  obtain ords' where ords': "wf_orders_ok ords'"
    and rev: "collectTransitiveAgentsAndTools ords' n k w workforce = Some (rev agents, rev tools)"
    using assms(6) run by (rule collect_reversed)
  obtain x where x: "getWorkforce k w' req = Inr x" "request_of (wf_Meta x) = req"
    "wst_TransitiveAgents (wf_Status x) = agents" "wst_TransitiveTools (wf_Status x) = tools"
    and again: "collectTransitiveAgentsAndTools ords' n k w' x = Some (rev agents, rev tools)"
    using reconcile_wf_stores[OF assms(1-5) run assms(9)] rev by auto
  have "distinct agents" by (rule collect_correct(5)[OF assms(6-8) run])
  then have changed: "rev agents \<noteq> agents" if "1 < length agents"
    using that by (cases agents) (auto simp: neq_Nil_conv dest!: arg_cong[of _ _ last] split: if_splits)
  have "\<exists>y. getWorkforce k w'' req = Inr y \<and> wst_TransitiveAgents (wf_Status y) = rev (wst_TransitiveAgents (wf_Status x))
      \<and> wst_TransitiveTools (wf_Status y) = rev (wst_TransitiveTools (wf_Status x))
      \<and> (1 < length (wst_TransitiveAgents (wf_Status x)) \<longrightarrow> y \<noteq> x)
      \<and> req \<in> set (workforce_watch_requests k w'' (ObjWorkforce y))"
    if "Reconcile_wf ords' n k req w' = Some (None, w'')" for w''
    using reconcile_wf_stores[OF assms(1-3) x(1,2) again that] x(3,4) changed
    by (auto simp: workforce_watch_requests_def)
  then show ?thesis using x(1) ords' by blast
qed

lemma sim_workforce_subresource: "workforce_status_subresource (sim_kube ns)"
proof -
  have frame: "cl_agents (snd (snd (updateWorkforceStatus (sim_kube ns) x w))) = cl_agents w" for x w
    unfolding sim_kube_def by (simp add: sim_update_status_frame)
  have store: "getWorkforce (sim_kube ns) (snd (snd (updateWorkforceStatus (sim_kube ns) x w))) (request_of (wf_Meta x))
      = Inr (y\<lparr>wf_Status := wf_Status x\<rparr>)"
    if "getWorkforce (sim_kube ns) w (request_of (wf_Meta x)) = Inr y" for x :: AgenticWorkforce and w y
  proof -
    have "request_of (wf_Meta y) = request_of (wf_Meta x)" using that by (auto dest: sim_get_key)
    moreover have "snd (snd (updateWorkforceStatus (sim_kube ns) x w))
        = w\<lparr>cl_workforces := sim_put wf_Meta (y\<lparr>wf_Status := wf_Status x\<rparr>) (cl_workforces w)\<rparr>"
      using that by (simp add: sim_kube_def sim_update_status_def Let_def)
    ultimately show ?thesis using sim_get_put[of wf_Meta "y\<lparr>wf_Status := wf_Status x\<rparr>"] by simp
  qed
  show ?thesis
    unfolding workforce_status_subresource_def using store by (auto simp: frame simp del: sim_kube_sel(8))
qed

lemma sim_readable_workforce: "readable (getWorkforce (sim_kube ns)) = stored_workforce"
  by (intro ext) (simp add: readable_def stored_workforce_def sim_get_def split: option.splits)

theorem workforce_status_never_settles_witness:
  "\<exists>w' x ords'. Reconcile_wf std_orders 2 wf_kube (nsname ''n'' ''w'') workforce_cluster = Some (None, w')
     \<and> getWorkforce wf_kube w' (nsname ''n'' ''w'') = Inr x \<and> wf_orders_ok ords'
     \<and> (\<forall>w'' y. Reconcile_wf ords' 2 wf_kube (nsname ''n'' ''w'') w' = Some (None, w'')
          \<and> getWorkforce wf_kube w'' (nsname ''n'' ''w'') = Inr y \<longrightarrow>
          wst_TransitiveAgents (wf_Status y) = rev (wst_TransitiveAgents (wf_Status x)))"
proof -
  obtain w' where w': "Reconcile_wf std_orders 2 wf_kube (nsname ''n'' ''w'') workforce_cluster = Some (None, w')"
    by (rule demo_workforce_reconciled)
  have cond: "set_condition_ok (setStatusCondition wf_kube)" by (simp add: sim_condition_ok)
  have upd: "status_update_ok (updateWorkforceStatus wf_kube) (readable (getWorkforce wf_kube)) wf_Meta wf_Status"
    by (simp add: sim_readable_workforce sim_workforce_status_ok)
  show ?thesis
    using workforce_status_never_settles[OF upd cond
        sim_workforce_subresource demo_workforce_get(1,2) std_orders_ok demo_names_ok w'] w'
    by fastforce
qed

end
