(* ===== verification/Go_Path.thy ===== *)
theory Go_Path
  imports Go_Strings
begin

text \<open>
  \<open>filepath.Clean\<close> on a system with slashes: the components of a path, with the empty ones and
  the dots dropped and \<open>..\<close> resolved, written back. The facts at the end turn the textual test
  for nested paths into one on components.
\<close>

text \<open>The components between the slashes.\<close>

fun split_slash :: "string \<Rightarrow> string list" where
  "split_slash [] = [[]]"
| "split_slash (c # cs) =
     (if c = CHR ''/'' then [] # split_slash cs
      else (case split_slash cs of [] \<Rightarrow> [[c]] | x # xs \<Rightarrow> (c # x) # xs))"

text \<open>The cleaned components, the last one first.\<close>

fun clean_components :: "bool \<Rightarrow> string list \<Rightarrow> string list \<Rightarrow> string list" where
  "clean_components rooted [] out = out"
| "clean_components rooted (c # cs) out =
     (if c = [] \<or> c = ''.'' then clean_components rooted cs out
      else if c = ''..'' then
        (case out of
           [] \<Rightarrow> clean_components rooted cs (if rooted then [] else [''..''])
         | t # below \<Rightarrow>
             clean_components rooted cs (if t = ''..'' then ''..'' # out else below))
      else clean_components rooted cs (c # out))"

definition path_rooted :: "string \<Rightarrow> bool" where
  "path_rooted p \<longleftrightarrow> (case p of [] \<Rightarrow> False | c # _ \<Rightarrow> c = CHR ''/'')"

definition path_components :: "string \<Rightarrow> string list" where
  "path_components p = rev (clean_components (path_rooted p) (split_slash p) [])"

definition Clean :: "string \<Rightarrow> string" where
  "Clean path =
     (if path = [] then ''.''
      else (let out = (if path_rooted path then ''/'' else []) @ join (path_components path) ''/''
            in if out = [] then ''.'' else out))"

section \<open>Components\<close>

definition component_ok :: "string \<Rightarrow> bool" where
  "component_ok c \<longleftrightarrow> c \<noteq> [] \<and> CHR ''/'' \<notin> set c"

lemma split_slash_no_slash: "c \<in> set (split_slash p) \<Longrightarrow> CHR ''/'' \<notin> set c"
  by (induction p arbitrary: c rule: split_slash.induct) (auto split: if_splits list.splits)

lemma clean_components_set:
  "set (clean_components rooted cs out) \<subseteq> set out \<union> (set cs - {[]})"
proof (induction cs arbitrary: out)
  case (Cons c cs)
  consider "c = [] \<or> c = ''.''" | "c = ''..''" "c \<noteq> []" "c \<noteq> ''.''"
    | "c \<noteq> []" "c \<noteq> ''.''" "c \<noteq> ''..''" by blast
  then show ?case
  proof cases
    case 1
    then show ?thesis using Cons.IH[of out] by auto
  next
    case 2
    have H: "set (clean_components rooted cs out') \<subseteq> set out \<union> (set (c # cs) - {[]})"
      if "set out' \<subseteq> insert c (set out)" for out'
      using Cons.IH[of out'] that 2(2) by auto
    show ?thesis
    proof (cases out)
      case Nil
      then show ?thesis using 2 H[of "[]"] H[of "[''..'']"] by (cases rooted) simp_all
    next
      case Out: (Cons t ts)
      have "set ts \<subseteq> set out" using Out by auto
      then show ?thesis using 2 Out H[of "''..'' # out"] H[of ts]
        by (cases "t = ''..''") (simp_all add: subset_insertI2)
    qed
  next
    case 3
    then show ?thesis using Cons.IH[of "c # out"] by auto
  qed
qed simp

lemma path_components_ok: "c \<in> set (path_components p) \<Longrightarrow> component_ok c"
  using clean_components_set[of "path_rooted p" "split_slash p" "[]"] split_slash_no_slash[of c p]
  unfolding path_components_def component_ok_def by auto

text \<open>Writing slash-free components with a slash after each is injective on prefixes.\<close>

definition terminated :: "string list \<Rightarrow> string" where
  "terminated cs = concat (map (\<lambda>c. c @ ''/'') cs)"

lemma join_terminated: "cs \<noteq> [] \<Longrightarrow> join cs ''/'' @ ''/'' = terminated cs"
proof (induction cs rule: induct_list012)
  case (3 x y zs)
  then show ?case by (simp add: terminated_def)
qed (simp_all add: terminated_def)

lemma slash_split:
  assumes "CHR ''/'' \<notin> set a" and "CHR ''/'' \<notin> set b"
  shows "prefix (a @ ''/'' @ xs) (b @ ''/'' @ ys) \<longleftrightarrow> a = b \<and> prefix xs ys"
  using assms
proof (induction a arbitrary: b)
  case Nil
  then show ?case by (cases b) auto
next
  case (Cons x a)
  then show ?case by (cases b) auto
qed

lemma terminated_prefix:
  assumes "\<forall>c\<in>set xs. component_ok c" and "\<forall>c\<in>set ys. component_ok c"
  shows "prefix (terminated xs) (terminated ys) \<longleftrightarrow> prefix xs ys"
  using assms
proof (induction xs arbitrary: ys)
  case Nil
  then show ?case by (simp add: terminated_def)
next
  case (Cons a xs)
  show ?case
  proof (cases ys)
    case Nil
    then show ?thesis by (simp add: terminated_def)
  next
    case (Cons b ys')
    have "prefix (terminated (a # xs)) (terminated ys) \<longleftrightarrow> a = b \<and> prefix (terminated xs) (terminated ys')"
      using slash_split[of a b "terminated xs" "terminated ys'"] Cons.prems Cons
      by (simp add: terminated_def component_ok_def)
    then show ?thesis using Cons.IH[of ys'] Cons.prems Cons by simp
  qed
qed

text \<open>
  The test the operator makes on two cleaned absolute paths: one textual prefix with slashes
  added is one list of components being a prefix of the other, unless the outer path is the
  root.
\<close>

lemma clean_rooted:
  assumes "path_rooted p"
  shows "Clean p = ''/'' @ join (path_components p) ''/''"
proof -
  have "p \<noteq> []" using assms by (auto simp: path_rooted_def)
  then show ?thesis using assms by (simp add: Clean_def)
qed

lemma clean_prefix_iff:
  assumes "path_rooted p" and "path_rooted q" and "path_components p \<noteq> []" and "path_components q \<noteq> []"
  shows "prefix (Clean p @ ''/'') (Clean q @ ''/'') \<longleftrightarrow> prefix (path_components p) (path_components q)"
proof -
  have "Clean p @ ''/'' = ''/'' @ terminated (path_components p)"
    "Clean q @ ''/'' = ''/'' @ terminated (path_components q)"
    using join_terminated[OF assms(3)] join_terminated[OF assms(4)]
    by (simp_all add: clean_rooted assms(1,2))
  then show ?thesis
    using terminated_prefix[of "path_components p" "path_components q"] path_components_ok by auto
qed

lemma clean_eq_iff:
  assumes "path_rooted p" and "path_rooted q" and "path_components p \<noteq> []" and "path_components q \<noteq> []"
  shows "Clean p = Clean q \<longleftrightarrow> path_components p = path_components q"
proof
  assume "Clean p = Clean q"
  then have "prefix (path_components p) (path_components q)" "prefix (path_components q) (path_components p)"
    using clean_prefix_iff[OF assms] clean_prefix_iff[OF assms(2,1,4,3)] by simp_all
  then show "path_components p = path_components q" by (rule prefix_order.antisym)
next
  assume "path_components p = path_components q"
  then show "Clean p = Clean q" by (simp add: clean_rooted assms(1,2))
qed

end
