(* ===== verification/Go_Url.thy ===== *)
theory Go_Url
  imports Go_Strings
begin

text \<open>
  \<open>net/url.Parse\<close> as far as the webhooks use it: whether a string parses, and the scheme, the
  host and the path of the result. An IP literal in brackets is parsed by \<open>net/netip\<close>; that part
  is an argument, \<open>lit\<close>, from the bracketed host to its normal form, or none on an error.
\<close>

record url =
  u_Scheme :: string
  u_Host :: string
  u_Path :: string

definition is_lower_letter :: "char \<Rightarrow> bool" where
  "is_lower_letter c \<longleftrightarrow> CHR ''a'' \<le> c \<and> c \<le> CHR ''z''"

definition is_upper_letter :: "char \<Rightarrow> bool" where
  "is_upper_letter c \<longleftrightarrow> CHR ''A'' \<le> c \<and> c \<le> CHR ''Z''"

definition is_letter :: "char \<Rightarrow> bool" where
  "is_letter c \<longleftrightarrow> is_lower_letter c \<or> is_upper_letter c"

definition lower_char :: "char \<Rightarrow> char" where
  "lower_char c = (if is_upper_letter c then char_of (byte c + 32) else c)"

text \<open>\<open>strings.Cut\<close> at the first occurrence of a character.\<close>

definition cut :: "char \<Rightarrow> string \<Rightarrow> string \<times> string \<times> bool" where
  "cut c s = (takeWhile (\<lambda>x. x \<noteq> c) s, tl (dropWhile (\<lambda>x. x \<noteq> c) s), c \<in> set s)"

section \<open>Escapes\<close>

definition is_hex :: "char \<Rightarrow> bool" where
  "is_hex c \<longleftrightarrow> is_digit c \<or> (CHR ''a'' \<le> c \<and> c \<le> CHR ''f'') \<or> (CHR ''A'' \<le> c \<and> c \<le> CHR ''F'')"

definition unhex :: "char \<Rightarrow> nat" where
  "unhex c = (if is_digit c then byte c - 48 else if is_lower_letter c then byte c - 87 else byte c - 55)"

text \<open>\<open>unescape\<close> of a path, a fragment or user information: each percent sign needs two digits.\<close>

fun unescape :: "string \<Rightarrow> string option" where
  "unescape [] = Some []"
| "unescape (c # cs) =
     (if c = CHR ''%''
      then (case cs of
          a # b # rest \<Rightarrow>
            if is_hex a \<and> is_hex b
            then map_option (\<lambda>r. char_of (unhex a * 16 + unhex b) # r) (unescape rest)
            else None
        | _ \<Rightarrow> None)
      else map_option (\<lambda>r. c # r) (unescape cs))"

text \<open>\<open>unescape\<close> of a host: only bytes beyond ASCII (and \<open>%25\<close>) may be escaped, and the others
  must be host characters.\<close>

definition host_char :: "char \<Rightarrow> bool" where
  "host_char c \<longleftrightarrow> is_letter c \<or> is_digit c
     \<or> c \<in> set ''!$&()*+,;=:[]<>-_.~'' \<or> c = CHR 0x22 \<or> c = CHR 0x27"

fun unescape_host :: "string \<Rightarrow> string option" where
  "unescape_host [] = Some []"
| "unescape_host (c # cs) =
     (if c = CHR ''%''
      then (case cs of
          a # b # rest \<Rightarrow>
            if is_hex a \<and> is_hex b \<and> (8 \<le> unhex a \<or> (a = CHR ''2'' \<and> b = CHR ''5''))
            then map_option (\<lambda>r. char_of (unhex a * 16 + unhex b) # r) (unescape_host rest)
            else None
        | _ \<Rightarrow> None)
      else if byte c < 128 \<and> \<not> host_char c then None
      else map_option (\<lambda>r. c # r) (unescape_host cs))"

section \<open>The parts of a URL\<close>

text \<open>\<open>getScheme\<close>: the scheme and the rest; none on a missing scheme.\<close>

fun scheme_scan :: "string \<Rightarrow> string \<Rightarrow> (string \<times> string) option option" where
  "scheme_scan seen [] = Some None"
| "scheme_scan seen (c # cs) =
     (if is_letter c then scheme_scan (seen @ [c]) cs
      else if is_digit c \<or> c \<in> set ''+-.'' then
        (if seen = [] then Some None else scheme_scan (seen @ [c]) cs)
      else if c = CHR '':'' then (if seen = [] then None else Some (Some (seen, cs)))
      else Some None)"

definition getScheme :: "string \<Rightarrow> (string \<times> string) option" where
  "getScheme rawURL =
     (case scheme_scan [] rawURL of
        None \<Rightarrow> None
      | Some None \<Rightarrow> Some ([], rawURL)
      | Some (Some (scheme, rest)) \<Rightarrow> Some (scheme, rest))"

definition validOptionalPort :: "string \<Rightarrow> bool" where
  "validOptionalPort port \<longleftrightarrow> (case port of [] \<Rightarrow> True | c # cs \<Rightarrow> c = CHR '':'' \<and> list_all is_digit cs)"

text \<open>Everything from the first, or the last, colon of a host on.\<close>

definition from_first_colon :: "string \<Rightarrow> string" where
  "from_first_colon host = dropWhile (\<lambda>c. c \<noteq> CHR '':'') host"

definition from_last_colon :: "string \<Rightarrow> string" where
  "from_last_colon host = CHR '':'' # rev (takeWhile (\<lambda>c. c \<noteq> CHR '':'') (rev host))"

definition parseHost :: "(string \<Rightarrow> string option) \<Rightarrow> string \<Rightarrow> string \<Rightarrow> string option" where
  "parseHost lit scheme host =
     (if CHR ''['' \<in> set host then lit host
      else if CHR '':'' \<in> set host \<and> \<not> validOptionalPort
            (if scheme = ''postgresql'' \<or> scheme = ''postgres'' then from_last_colon host
             else from_first_colon host)
      then None
      else unescape_host host)"

definition validUserinfo :: "string \<Rightarrow> bool" where
  "validUserinfo s \<longleftrightarrow>
     list_all (\<lambda>c. is_letter c \<or> is_digit c \<or> c \<in> set ''-._:~!$&()*+,;=%@'' \<or> c = CHR 0x27) s"

text \<open>The host after the last at sign; the user information before it must be valid.\<close>

definition parseAuthority :: "(string \<Rightarrow> string option) \<Rightarrow> string \<Rightarrow> string \<Rightarrow> string option" where
  "parseAuthority lit scheme authority =
     (if CHR ''@'' \<notin> set authority then parseHost lit scheme authority
      else
        (let host = rev (takeWhile (\<lambda>c. c \<noteq> CHR ''@'') (rev authority));
             userinfo = take (length authority - length host - 1) authority;
             (username, password, _) = cut (CHR '':'') userinfo
         in case parseHost lit scheme host of
              None \<Rightarrow> None
            | Some h \<Rightarrow>
                if validUserinfo userinfo \<and> unescape username \<noteq> None \<and> unescape password \<noteq> None
                then Some h else None))"

text \<open>The query is cut off; a single question mark at the end counts as one.\<close>

definition parse_url :: "(string \<Rightarrow> string option) \<Rightarrow> string \<Rightarrow> url option" where
  "parse_url lit rawURL =
     (if list_ex (\<lambda>c. byte c < 32 \<or> byte c = 127) rawURL then None
      else if rawURL = ''*'' then Some \<lparr>u_Scheme = [], u_Host = [], u_Path = ''*''\<rparr>
      else (case getScheme rawURL of
          None \<Rightarrow> None
        | Some (scheme, rest) \<Rightarrow>
            (let scheme = map lower_char scheme;
                 rest = fst (cut (CHR ''?'') rest);
                 setPath = (\<lambda>host p. map_option
                   (\<lambda>path. \<lparr>u_Scheme = scheme, u_Host = host, u_Path = path\<rparr>) (unescape p))
             in if \<not> has_prefix rest ''/'' \<and> scheme \<noteq> []
                then Some \<lparr>u_Scheme = scheme, u_Host = [], u_Path = []\<rparr>
                else if \<not> has_prefix rest ''/'' \<and> CHR '':'' \<in> set (fst (cut (CHR ''/'') rest))
                then None
                else if (scheme \<noteq> [] \<or> \<not> has_prefix rest ''///'') \<and> has_prefix rest ''//''
                then (let authority = takeWhile (\<lambda>c. c \<noteq> CHR ''/'') (drop 2 rest);
                          rest = dropWhile (\<lambda>c. c \<noteq> CHR ''/'') (drop 2 rest)
                      in case parseAuthority lit scheme authority of
                           None \<Rightarrow> None
                         | Some host \<Rightarrow> setPath host rest)
                else setPath [] rest)))"

definition url_Parse :: "(string \<Rightarrow> string option) \<Rightarrow> string \<Rightarrow> url option" where
  "url_Parse lit rawURL =
     (let (u, frag, _) = cut (CHR ''#'') rawURL
      in case parse_url lit u of
           None \<Rightarrow> None
         | Some url \<Rightarrow> if frag \<noteq> [] \<and> unescape frag = None then None else Some url)"

section \<open>Facts\<close>

lemma unescape_plain: "CHR ''%'' \<notin> set s \<Longrightarrow> unescape s = Some s"
  by (induction s) auto

text \<open>Unescaping never lengthens, and a percent sign makes the result shorter.\<close>

lemma unescape_length: "unescape s = Some t \<Longrightarrow> length t \<le> length s"
  by (induction s arbitrary: t rule: unescape.induct)
     (fastforce split: if_splits list.splits)+

lemma unescape_percent: "unescape s = Some t \<Longrightarrow> CHR ''%'' \<in> set s \<Longrightarrow> length t < length s"
proof (induction s arbitrary: t rule: unescape.induct)
  case (2 c cs)
  show ?case
  proof (cases "c = CHR ''%''")
    case True
    then show ?thesis
      using "2.prems"(1) unescape_length by (fastforce split: if_splits list.splits)
  next
    case False
    then show ?thesis using 2 by auto
  qed
qed simp

lemma unescape_self_iff: "unescape s = Some s \<longleftrightarrow> CHR ''%'' \<notin> set s"
  using unescape_plain unescape_percent by blast

lemma unescape_host_empty: "unescape_host s = Some [] \<longleftrightarrow> s = []"
  by (cases s) (auto split: if_splits list.splits)

end
