(* ===== verification/Agent_Webhook.thy ===== *)
theory Agent_Webhook
  imports Go_Path Go_Url Interfaces
begin

text \<open>
  \<open>internal/webhook/v1alpha1/agent_webhook.go\<close>: the defaults written into an agent and the
  validation of an agent on creation and update. Field errors are structured values: the path,
  the offending value and the detail; aggregating them into one error is the library's.
\<close>

datatype path_element = Field string | Index nat

datatype field_error =
  Invalid "path_element list" string string
| Required "path_element list" string
| Forbidden "path_element list" string

section \<open>Port names\<close>

definition is_port_rune :: "nat \<Rightarrow> bool" where
  "is_port_rune r \<longleftrightarrow> (97 \<le> r \<and> r \<le> 122) \<or> (48 \<le> r \<and> r \<le> 57) \<or> r = 45"

text \<open>\<open>strings.ToLower\<close>, rune by rune; the lower case of a rune beyond ASCII is table data.\<close>

definition lower_rune :: "unicode \<Rightarrow> nat \<Rightarrow> string" where
  "lower_rune u r =
     (if r < 128 then [char_of (if 65 \<le> r \<and> r \<le> 90 then r + 32 else r)] else uni_lower u r)"

definition ToLower :: "unicode \<Rightarrow> string \<Rightarrow> string" where
  "ToLower u s = concat (map (lower_rune u \<circ> fst) (runes s))"

definition sanitizeForPortName :: "unicode \<Rightarrow> string \<Rightarrow> string" where
  "sanitizeForPortName u name =
     (let result = ToLower u name;
          result = map (\<lambda>rb. if is_port_rune (fst rb) then char_of (fst rb) else CHR ''-'') (runes result);
          result = trim_char (CHR ''-'') result
      in if result = [] then ''port'' else result)"

section \<open>Defaults\<close>

record AgentCustomDefaulter =
  DefaultReplicas :: int32
  DefaultPort :: int32

definition default_protocol :: "AgentCustomDefaulter \<Rightarrow> unicode \<Rightarrow> AgentProtocol \<Rightarrow> AgentProtocol" where
  "default_protocol d u protocol =
     (let p = (if ap_Port protocol = 0 then protocol\<lparr>ap_Port := DefaultPort d\<rparr> else protocol)
      in if ap_Name protocol = []
         then p\<lparr>ap_Name := sanitizeForPortName u (ap_Type protocol) @ ''-'' @ show_int32 (ap_Port p)\<rparr>
         else p)"

definition applyDefaults :: "AgentCustomDefaulter \<Rightarrow> unicode \<Rightarrow> Agent \<Rightarrow> Agent" where
  "applyDefaults d u agent =
     (let spec = ag_Spec agent;
          spec = (if as_Replicas spec = None then spec\<lparr>as_Replicas := Some (DefaultReplicas d)\<rparr> else spec);
          spec = (if length (as_Protocols spec) = 0
                  then spec\<lparr>as_Protocols :=
                    [\<lparr>ap_Name = [], ap_Type = A2AProtocol, ap_Port = 0, ap_Path = []\<rparr>]\<rparr>
                  else spec);
          spec = spec\<lparr>as_Protocols := map (default_protocol d u) (as_Protocols spec)\<rparr>
      in agent\<lparr>ag_Spec := spec\<rparr>)"

text \<open>\<open>Default\<close>: the handler of the mutating webhook, and the agent as it leaves it.\<close>

definition Default :: "AgentCustomDefaulter \<Rightarrow> unicode \<Rightarrow> Agent \<Rightarrow> go_error option \<times> Agent" where
  "Default d u agent = (None, applyDefaults d u agent)"

text \<open>The defaulter \<open>SetupAgentWebhookWithManager\<close> registers.\<close>

definition agent_defaulter :: AgentCustomDefaulter where
  "agent_defaulter = \<lparr>DefaultReplicas = 1, DefaultPort = 8000\<rparr>"

section \<open>Validation\<close>

definition validateHTTPScheme :: "(string \<Rightarrow> string option) \<Rightarrow> unicode \<Rightarrow> string \<Rightarrow> string option" where
  "validateHTTPScheme lit u urlStr =
     (if urlStr = [] then None
      else (case url_Parse lit urlStr of
          None \<Rightarrow> Some ''invalid URL format''
        | Some parsedURL \<Rightarrow>
            if u_Scheme parsedURL \<noteq> ''https'' \<and> u_Scheme parsedURL \<noteq> ''http''
            then Some (''must use HTTP or HTTPS scheme, got '' @ quote u (u_Scheme parsedURL))
            else if u_Host parsedURL = [] then Some ''must have a valid host''
            else None))"

definition validateSubAgent ::
  "(string \<Rightarrow> string option) \<Rightarrow> unicode \<Rightarrow> SubAgent \<Rightarrow> nat \<Rightarrow> field_error list" where
  "validateSubAgent lit u subAgent index =
     (let path = [Field ''spec'', Field ''subAgents'', Index index];
          hasAgentRef = (sa_AgentRef subAgent \<noteq> None);
          hasURL = (sa_Url subAgent \<noteq> []);
          errs = (if hasAgentRef \<and> hasURL
                  then [Forbidden path ''agentRef and url are mutually exclusive - specify exactly one'']
                  else []);
          errs = (if \<not> hasAgentRef \<and> \<not> hasURL
                  then errs @ [Required path ''either agentRef or url must be specified''] else errs);
          errs = (case sa_AgentRef subAgent of
              None \<Rightarrow> errs
            | Some ref \<Rightarrow>
                if or_Name ref = []
                then errs @ [Required (path @ [Field ''agentRef'', Field ''name''])
                               ''agentRef.name must be specified'']
                else errs)
      in if hasURL
         then (case validateHTTPScheme lit u (sa_Url subAgent) of
             None \<Rightarrow> errs
           | Some err \<Rightarrow>
               errs @ [Invalid (path @ [Field ''url'']) (sa_Url subAgent)
                         (''SubAgent['' @ show_nat index @ ''].Url: '' @ err)])
         else errs)"

definition validateTool :: "AgentTool \<Rightarrow> nat \<Rightarrow> field_error list" where
  "validateTool tool index =
     (let path = [Field ''spec'', Field ''tools'', Index index, Field ''upstream''];
          errs = (case tu_ToolRouteRef (at_Upstream tool) of
              Some ref \<Rightarrow>
                if or_Name ref = []
                then [Required (path @ [Field ''toolRouteRef'', Field ''name'']) ''toolRouteRef.name must be set'']
                else []
            | None \<Rightarrow> [])
      in case tu_ToolServerRef (at_Upstream tool) of
           Some ref \<Rightarrow>
             if or_Name ref = []
             then errs @ [Required (path @ [Field ''toolServerRef'', Field ''name''])
                            ''toolServerRef.name must be set'']
             else errs
         | None \<Rightarrow> errs)"

text \<open>The inner loop: mount \<open>i\<close> against the mounts from \<open>j\<close> on.\<close>

fun check_nested :: "unicode \<Rightarrow> nat \<Rightarrow> VolumeMount \<Rightarrow> nat \<Rightarrow> VolumeMount list \<Rightarrow> field_error list" where
  "check_nested u i vm j [] = []"
| "check_nested u i vm j (other # rest) =
     (if vm_MountPath other = [] then check_nested u i vm (j + 1) rest
      else
        (let path1 = Clean (vm_MountPath vm); path2 = Clean (vm_MountPath other)
         in if path1 = path2 then check_nested u i vm (j + 1) rest
            else if has_prefix (path2 @ ''/'') (path1 @ ''/'')
            then Invalid [Field ''spec'', Field ''volumeMounts'', Index j, Field ''mountPath''] path2
                   (''mountPath '' @ quote u path2 @ '' is nested under '' @ quote u path1
                     @ '' (index '' @ show_nat i @ '')'')
                 # check_nested u i vm (j + 1) rest
            else if has_prefix (path1 @ ''/'') (path2 @ ''/'')
            then Invalid [Field ''spec'', Field ''volumeMounts'', Index i, Field ''mountPath''] path1
                   (''mountPath '' @ quote u path1 @ '' is nested under '' @ quote u path2
                     @ '' (index '' @ show_nat j @ '')'')
                 # check_nested u i vm (j + 1) rest
            else check_nested u i vm (j + 1) rest))"

fun check_mounts :: "unicode \<Rightarrow> string set \<Rightarrow> nat \<Rightarrow> VolumeMount list \<Rightarrow> field_error list" where
  "check_mounts u volumeNames i [] = []"
| "check_mounts u volumeNames i (volumeMount # rest) =
     (if vm_Name volumeMount \<notin> volumeNames
      then [Invalid [Field ''spec'', Field ''volumeMounts'', Index i, Field ''name''] (vm_Name volumeMount)
              (''volumeMount references volume '' @ quote u (vm_Name volumeMount)
                @ '' which does not exist in spec.volumes'')]
      else [])
     @ check_nested u i volumeMount (i + 1) rest
     @ check_mounts u volumeNames (i + 1) rest"

definition validateVolumeMounts :: "unicode \<Rightarrow> Agent \<Rightarrow> field_error list" where
  "validateVolumeMounts u agent =
     check_mounts u (set (map vol_Name (as_Volumes (ag_Spec agent)))) 0 (as_VolumeMounts (ag_Spec agent))"

definition templateFrameworks :: "string list" where
  "templateFrameworks = [''google-adk'', ''msaf'']"

text \<open>The list of all errors; the agent is admitted when it is empty.\<close>

definition validateAgent :: "(string \<Rightarrow> string option) \<Rightarrow> unicode \<Rightarrow> Agent \<Rightarrow> field_error list" where
  "validateAgent lit u agent =
     (let spec = ag_Spec agent;
          fw = as_Framework spec;
          allErrs = (if fw \<noteq> [] \<and> as_Image spec = [] \<and> fw \<notin> set templateFrameworks
             then [Invalid [Field ''spec'', Field ''framework''] fw
                     (''framework '' @ quote u fw @ '' requires a custom image. ''
                       @ ''Template agents are only supported for frameworks: '' @ ''google-adk, msaf'')]
             else []);
          allErrs = allErrs @ concat (map (\<lambda>(i, s). validateSubAgent lit u s i)
                                        (enumerate 0 (as_SubAgents spec)));
          allErrs = allErrs @ concat (map (\<lambda>(i, t). validateTool t i) (enumerate 0 (as_Tools spec)))
      in allErrs @ validateVolumeMounts u agent)"

text \<open>
  The handlers of the validating webhook, each without warnings: creation and update look at
  the new agent only, and a deletion is always admitted.
\<close>

definition ValidateCreate :: "(string \<Rightarrow> string option) \<Rightarrow> unicode \<Rightarrow> Agent \<Rightarrow> field_error list" where
  "ValidateCreate lit u agent = validateAgent lit u agent"

definition ValidateUpdate ::
  "(string \<Rightarrow> string option) \<Rightarrow> unicode \<Rightarrow> Agent \<Rightarrow> Agent \<Rightarrow> field_error list" where
  "ValidateUpdate lit u oldAgent newAgent = validateAgent lit u newAgent"

definition ValidateDelete :: "Agent \<Rightarrow> field_error list" where
  "ValidateDelete agent = []"

section \<open>Port names are valid\<close>

definition port_char :: "char \<Rightarrow> bool" where
  "port_char c \<longleftrightarrow> is_port_rune (byte c)"

definition alnum_char :: "char \<Rightarrow> bool" where
  "alnum_char c \<longleftrightarrow> port_char c \<and> c \<noteq> CHR ''-''"

definition is_port_name :: "string \<Rightarrow> bool" where
  "is_port_name s \<longleftrightarrow> s \<noteq> [] \<and> list_all port_char s \<and> alnum_char (hd s) \<and> alnum_char (last s)"

lemma port_rune_char: "port_char (if is_port_rune r then char_of r else CHR ''-'')"
proof -
  have "is_port_rune 45" by (simp add: is_port_rune_def)
  moreover have "r mod 256 = r" if "is_port_rune r" using that by (auto simp: is_port_rune_def)
  ultimately show ?thesis by (simp add: port_char_def)
qed

lemma trim_char_ends:
  assumes "trim_char c s \<noteq> []"
  shows "hd (trim_char c s) \<noteq> c" and "last (trim_char c s) \<noteq> c"
    and "set (trim_char c s) \<subseteq> set s"
proof -
  define a where "a = dropWhile (\<lambda>x. x = c) s"
  define b where "b = dropWhile (\<lambda>x. x = c) (rev a)"
  have t: "trim_char c s = rev b" by (simp add: trim_char_def a_def b_def)
  have b: "b \<noteq> []" using assms t by simp
  then show "last (trim_char c s) \<noteq> c"
    using hd_dropWhile[of "\<lambda>x. x = c" "rev a"] by (simp add: t last_rev b_def)
  have "suffix b (rev a)" unfolding b_def by (rule suffix_dropWhile)
  then have pre: "prefix (rev b) a" by (simp add: suffix_to_prefix)
  then obtain zs where zs: "a = rev b @ zs" by (auto simp: prefix_def)
  then have "hd a = hd (rev b)" and "a \<noteq> []" using b by simp_all
  then show "hd (trim_char c s) \<noteq> c" using hd_dropWhile[of "\<lambda>x. x = c" s] by (simp add: t a_def)
  have "set (rev b) \<subseteq> set a" using zs by auto
  moreover have "set a \<subseteq> set s" unfolding a_def using set_dropWhileD by fast
  ultimately show "set (trim_char c s) \<subseteq> set s" by (simp add: t)
qed

lemma sanitize_port_name: "is_port_name (sanitizeForPortName u name)"
proof -
  let ?chars = "map (\<lambda>rb. if is_port_rune (fst rb) then char_of (fst rb) else CHR ''-'') (runes (ToLower u name))"
  let ?r = "trim_char (CHR ''-'') ?chars"
  have chars: "port_char c" if "c \<in> set ?chars" for c
    using that unfolding set_map by (elim imageE) (simp only: port_rune_char)
  show ?thesis
  proof (cases "?r = []")
    case True
    then show ?thesis
      by (simp add: sanitizeForPortName_def Let_def is_port_name_def alnum_char_def port_char_def
          is_port_rune_def)
  next
    case False
    note ends = trim_char_ends[OF False]
    have all: "port_char c" if "c \<in> set ?r" for c using ends(3) chars that by blast
    have "alnum_char (hd ?r)" "alnum_char (last ?r)"
      using ends(1,2) all[OF hd_in_set[OF False]] all[OF last_in_set[OF False]]
      by (simp_all add: alnum_char_def)
    then show ?thesis
      using False all
      unfolding sanitizeForPortName_def Let_def is_port_name_def by (simp only: list_all_iff if_False) blast
  qed
qed

section \<open>Defaulting completes an agent\<close>

definition agent_complete :: "Agent \<Rightarrow> bool" where
  "agent_complete agent \<longleftrightarrow>
     as_Replicas (ag_Spec agent) \<noteq> None \<and> as_Protocols (ag_Spec agent) \<noteq> []
     \<and> (\<forall>p\<in>set (as_Protocols (ag_Spec agent)). ap_Port p \<noteq> 0 \<and> ap_Name p \<noteq> [])"

lemma default_protocol_complete:
  "DefaultPort d \<noteq> 0 \<Longrightarrow>
   ap_Port (default_protocol d u p) \<noteq> 0 \<and> ap_Name (default_protocol d u p) \<noteq> []"
  by (simp add: default_protocol_def Let_def)

lemma default_protocol_fixed:
  "ap_Port p \<noteq> 0 \<Longrightarrow> ap_Name p \<noteq> [] \<Longrightarrow> default_protocol d u p = p"
  by (simp add: default_protocol_def)

lemma applyDefaults_complete:
  assumes "DefaultPort d \<noteq> 0"
  shows "agent_complete (applyDefaults d u agent)"
  using default_protocol_complete[OF assms]
  by (simp add: agent_complete_def applyDefaults_def Let_def)

lemma applyDefaults_fixed:
  assumes "agent_complete agent"
  shows "applyDefaults d u agent = agent"
proof -
  have "map (default_protocol d u) (as_Protocols (ag_Spec agent)) = as_Protocols (ag_Spec agent)"
    using assms by (intro map_idI default_protocol_fixed) (simp_all add: agent_complete_def)
  then show ?thesis
    using assms by (simp add: applyDefaults_def agent_complete_def Let_def)
qed

lemma agent_defaulter_port: "DefaultPort agent_defaulter \<noteq> 0"
  by (simp add: agent_defaulter_def)

interpretation agent_defaults: defaulter "applyDefaults agent_defaulter u" agent_complete for u
  by unfold_locales (simp_all add: applyDefaults_complete agent_defaulter_port applyDefaults_fixed)

section \<open>What validation accepts\<close>

lemma validateHTTPScheme_ok_iff:
  "validateHTTPScheme lit u s = None \<longleftrightarrow>
     s = [] \<or> (\<exists>url. url_Parse lit s = Some url \<and> u_Scheme url \<in> {''http'', ''https''} \<and> u_Host url \<noteq> [])"
  by (auto simp: validateHTTPScheme_def split: option.splits)

definition subAgent_valid :: "(string \<Rightarrow> string option) \<Rightarrow> SubAgent \<Rightarrow> bool" where
  "subAgent_valid lit s \<longleftrightarrow>
     (case sa_AgentRef s of
        Some ref \<Rightarrow> sa_Url s = [] \<and> or_Name ref \<noteq> []
      | None \<Rightarrow> \<exists>url. url_Parse lit (sa_Url s) = Some url \<and> u_Scheme url \<in> {''http'', ''https''}
                  \<and> u_Host url \<noteq> [] \<and> sa_Url s \<noteq> [])"

lemma validateSubAgent_ok_iff: "validateSubAgent lit u s i = [] \<longleftrightarrow> subAgent_valid lit s"
  using validateHTTPScheme_ok_iff[of lit u "sa_Url s"]
  by (auto simp: validateSubAgent_def subAgent_valid_def Let_def split: option.splits)

definition tool_valid :: "AgentTool \<Rightarrow> bool" where
  "tool_valid t \<longleftrightarrow>
     (\<forall>ref. tu_ToolRouteRef (at_Upstream t) = Some ref \<longrightarrow> or_Name ref \<noteq> [])
     \<and> (\<forall>ref. tu_ToolServerRef (at_Upstream t) = Some ref \<longrightarrow> or_Name ref \<noteq> [])"

lemma validateTool_ok_iff: "validateTool t i = [] \<longleftrightarrow> tool_valid t"
  by (auto simp: validateTool_def tool_valid_def Let_def split: option.splits)

text \<open>Two mounts the loop does not complain about, the second one later in the list.\<close>

definition mounts_ok :: "VolumeMount \<Rightarrow> VolumeMount \<Rightarrow> bool" where
  "mounts_ok a b \<longleftrightarrow>
     vm_MountPath b = [] \<or> Clean (vm_MountPath a) = Clean (vm_MountPath b)
     \<or> (\<not> prefix (Clean (vm_MountPath a) @ ''/'') (Clean (vm_MountPath b) @ ''/'')
        \<and> \<not> prefix (Clean (vm_MountPath b) @ ''/'') (Clean (vm_MountPath a) @ ''/''))"

lemma check_nested_ok_iff: "check_nested u i vm j rest = [] \<longleftrightarrow> (\<forall>b\<in>set rest. mounts_ok vm b)"
  by (induction u i vm j rest rule: check_nested.induct)
     (auto simp: mounts_ok_def has_prefix_iff Let_def)

lemma check_mounts_ok_iff:
  "check_mounts u names i mounts = [] \<longleftrightarrow>
     (\<forall>m\<in>set mounts. vm_Name m \<in> names) \<and> sorted_wrt mounts_ok mounts"
  by (induction u names i mounts rule: check_mounts.induct) (auto simp: check_nested_ok_iff)

lemma concat_enumerate_Nil:
  "(\<And>x i. f x i = [] \<longleftrightarrow> P x) \<Longrightarrow>
   concat (map (\<lambda>(i, x). f x i) (enumerate n xs)) = [] \<longleftrightarrow> (\<forall>x\<in>set xs. P x)"
  by (induction xs arbitrary: n) (simp_all add: enumerate_simps)

lemma validateAgent_ok_iff:
  "validateAgent lit u agent = [] \<longleftrightarrow>
     (as_Framework (ag_Spec agent) \<noteq> [] \<and> as_Image (ag_Spec agent) = []
        \<longrightarrow> as_Framework (ag_Spec agent) \<in> {''google-adk'', ''msaf''})
     \<and> (\<forall>s\<in>set (as_SubAgents (ag_Spec agent)). subAgent_valid lit s)
     \<and> (\<forall>t\<in>set (as_Tools (ag_Spec agent)). tool_valid t)
     \<and> (\<forall>m\<in>set (as_VolumeMounts (ag_Spec agent)). vm_Name m \<in> vol_Name ` set (as_Volumes (ag_Spec agent)))
     \<and> sorted_wrt mounts_ok (as_VolumeMounts (ag_Spec agent))"
proof -
  note subs = concat_enumerate_Nil[of "validateSubAgent lit u", OF validateSubAgent_ok_iff]
  note tools = concat_enumerate_Nil[of validateTool, OF validateTool_ok_iff]
  show ?thesis
    unfolding validateAgent_def Let_def append_is_Nil_conv subs tools validateVolumeMounts_def
      check_mounts_ok_iff
    by (auto simp: templateFrameworks_def)
qed

end
