(* ===== verification/ToolServer_Webhook.thy ===== *)
theory ToolServer_Webhook
  imports Agent_Webhook
begin

text \<open>
  \<open>internal/webhook/v1alpha1/toolserver_webhook.go\<close> and \<open>agentgateway_webhook.go\<close>: defaults
  and validation of a tool server, with the check of its path reduced to the characters it
  may have, and the defaults of an agent gateway.
\<close>

definition mcpProtocol :: string where
  "mcpProtocol = ''mcp''"

definition http_transport :: string where
  "http_transport = ''http''"

definition sse_transport :: string where
  "sse_transport = ''sse''"

definition defaultPort :: int32 where
  "defaultPort = 8080"

definition defaultReplicas_ts :: int32 where
  "defaultReplicas_ts = 1"

definition defaultHttpPath :: string where
  "defaultHttpPath = ''/mcp''"

definition defaultSsePath :: string where
  "defaultSsePath = ''/sse''"

section \<open>Defaults of a tool server\<close>

definition applyDefaults_ts :: "ToolServer \<Rightarrow> ToolServer" where
  "applyDefaults_ts toolserver =
     (let spec = tsv_Spec toolserver;
          spec = (if ts_Protocol spec = [] then spec\<lparr>ts_Protocol := mcpProtocol\<rparr> else spec);
          spec = (if (ts_TransportType spec = http_transport \<or> ts_TransportType spec = sse_transport)
                     \<and> ts_Port spec = 0
                  then spec\<lparr>ts_Port := defaultPort\<rparr> else spec);
          spec = (if ts_Path spec = []
                  then (if ts_TransportType spec = http_transport then spec\<lparr>ts_Path := defaultHttpPath\<rparr>
                        else if ts_TransportType spec = sse_transport then spec\<lparr>ts_Path := defaultSsePath\<rparr>
                        else spec)
                  else spec);
          spec = (if (ts_TransportType spec = http_transport \<or> ts_TransportType spec = sse_transport)
                     \<and> ts_Replicas spec = None
                  then spec\<lparr>ts_Replicas := Some defaultReplicas_ts\<rparr> else spec)
      in toolserver\<lparr>tsv_Spec := spec\<rparr>)"

definition Default_ts :: "ToolServer \<Rightarrow> go_error option \<times> ToolServer" where
  "Default_ts toolserver = (None, applyDefaults_ts toolserver)"

definition toolserver_complete :: "ToolServer \<Rightarrow> bool" where
  "toolserver_complete toolserver \<longleftrightarrow>
     (let spec = tsv_Spec toolserver
      in ts_Protocol spec \<noteq> []
         \<and> (ts_TransportType spec = http_transport \<or> ts_TransportType spec = sse_transport \<longrightarrow>
              ts_Port spec \<noteq> 0 \<and> ts_Path spec \<noteq> [] \<and> ts_Replicas spec \<noteq> None))"

lemma applyDefaults_ts_complete: "toolserver_complete (applyDefaults_ts toolserver)"
  by (auto simp: toolserver_complete_def applyDefaults_ts_def mcpProtocol_def http_transport_def
        sse_transport_def defaultPort_def defaultHttpPath_def defaultSsePath_def Let_def)

lemma applyDefaults_ts_fixed: "toolserver_complete toolserver \<Longrightarrow> applyDefaults_ts toolserver = toolserver"
  by (auto simp: toolserver_complete_def applyDefaults_ts_def Let_def)

interpretation toolserver_defaults: defaulter applyDefaults_ts toolserver_complete
  by unfold_locales (simp_all add: applyDefaults_ts_complete applyDefaults_ts_fixed)

section \<open>Validation of a tool server\<close>

text \<open>The two loops and the parse, in the order of the code; the parser is that of \<open>Go_Url\<close>.\<close>

definition isValidPathFormat :: "(string \<Rightarrow> string option) \<Rightarrow> string \<Rightarrow> bool" where
  "isValidPathFormat lit path =
     (case path of
        [] \<Rightarrow> False
      | c # _ \<Rightarrow>
          if c \<noteq> CHR ''/'' then False
          else if list_ex (\<lambda>rb. fst rb < 32 \<or> fst rb = 127 \<or> fst rb = 32) (runes path) then False
          else if contains_char path (CHR ''?'') \<or> contains_char path (CHR ''#'') then False
          else (case url_Parse lit (''http://example.com'' @ path) of
              None \<Rightarrow> False
            | Some parsedURL \<Rightarrow> if u_Path parsedURL \<noteq> path then False else True))"

definition validateToolServer :: "(string \<Rightarrow> string option) \<Rightarrow> ToolServer \<Rightarrow> field_error list" where
  "validateToolServer lit toolserver =
     (let spec = tsv_Spec toolserver;
          allErrs = (if ts_Port spec = 0
             then [Required [Field ''spec'', Field ''port'']
                     (''port is required for '' @ ts_TransportType spec @ '' transport'')]
             else [])
      in if ts_Path spec \<noteq> [] \<and> ts_Path spec \<noteq> ''/'' \<and> \<not> isValidPathFormat lit (ts_Path spec)
         then allErrs @ [Invalid [Field ''spec'', Field ''path''] (ts_Path spec)
                ''path must start with '/' and contain only valid URL path characters'']
         else allErrs)"

definition ValidateCreate_ts :: "(string \<Rightarrow> string option) \<Rightarrow> ToolServer \<Rightarrow> field_error list" where
  "ValidateCreate_ts lit toolserver = validateToolServer lit toolserver"

definition ValidateUpdate_ts ::
  "(string \<Rightarrow> string option) \<Rightarrow> ToolServer \<Rightarrow> ToolServer \<Rightarrow> field_error list" where
  "ValidateUpdate_ts lit oldToolServer newToolServer = validateToolServer lit newToolServer"

definition ValidateDelete_ts :: "ToolServer \<Rightarrow> field_error list" where
  "ValidateDelete_ts toolserver = []"

section \<open>Defaults of an agent gateway\<close>

text \<open>A duration is a number of nanoseconds.\<close>

definition default_timeout :: int64 where
  "default_timeout = 360 * 1000000000"

definition applyDefaults_agw :: "int32 \<Rightarrow> AgentGateway \<Rightarrow> AgentGateway" where
  "applyDefaults_agw defaultReplicas agentgateway =
     (let spec = agw_Spec agentgateway;
          spec = (if ags_Replicas spec = None then spec\<lparr>ags_Replicas := Some defaultReplicas\<rparr> else spec);
          spec = (if ags_Timeout spec = None then spec\<lparr>ags_Timeout := Some default_timeout\<rparr> else spec)
      in agentgateway\<lparr>agw_Spec := spec\<rparr>)"

text \<open>The number of replicas of the defaulter \<open>SetupAgentGatewayWebhookWithManager\<close> registers.\<close>

definition agentgateway_defaulter :: int32 where
  "agentgateway_defaulter = 1"

definition Default_agw :: "int32 \<Rightarrow> AgentGateway \<Rightarrow> go_error option \<times> AgentGateway" where
  "Default_agw defaultReplicas agentgateway = (None, applyDefaults_agw defaultReplicas agentgateway)"

definition agentgateway_complete :: "AgentGateway \<Rightarrow> bool" where
  "agentgateway_complete g \<longleftrightarrow> ags_Replicas (agw_Spec g) \<noteq> None \<and> ags_Timeout (agw_Spec g) \<noteq> None"

interpretation agentgateway_defaults: defaulter "applyDefaults_agw n" agentgateway_complete for n
  by unfold_locales (auto simp: applyDefaults_agw_def agentgateway_complete_def Let_def)

section \<open>The characters of a path\<close>

text \<open>
  A rune below 128 of a byte string is one of its bytes, and each such byte is a rune of its
  own; so the loop over runes looks at the ASCII bytes.
\<close>

lemma decode_rune_width:
  assumes "x \<in> set (take (snd (decode_rune (c # cs)) - 1) cs)"
  shows "128 \<le> byte x"
proof -
  have cont: "cont_byte b \<Longrightarrow> 128 \<le> b" for b by (simp add: cont_byte_def)
  consider "cs = []" | b1 where "cs = [b1]" | b1 b2 where "cs = [b1, b2]"
    | b1 b2 b3 ds where "cs = b1 # b2 # b3 # ds"
    by (metis list.exhaust)
  then show ?thesis
    using assms cont
    by cases (auto simp: decode_rune_def decode4_def decode3_def decode2_def split: if_splits)
qed

lemma ascii_byte_rune:
  "x \<in> set s \<Longrightarrow> byte x < 128 \<Longrightarrow> byte x \<in> fst ` set (runes s)"
proof (induction s rule: runes.induct)
  case (2 c cs)
  obtain r w where d: "decode_rune (c # cs) = (r, w)" by (cases "decode_rune (c # cs)")
  have runes: "runes (c # cs) = (r, c # take (w - 1) cs) # runes (drop (w - 1) cs)"
    using d by simp
  consider "x = c" | "x \<in> set (take (w - 1) cs)" | "x \<in> set (drop (w - 1) cs)"
    using "2.prems"(1) by (metis append_take_drop_id set_ConsD Un_iff set_append)
  then show ?case
  proof cases
    case 1
    then have "r = byte x" using d decode_rune_ascii[of c cs] "2.prems"(2) by simp
    then show ?thesis unfolding runes by simp
  next
    case 2
    then have "128 \<le> byte x" using decode_rune_width[of x c cs] d by simp
    then show ?thesis using "2.prems"(2) by simp
  next
    case 3
    then show ?thesis using "2.IH"[OF d[symmetric] refl] "2.prems"(2) unfolding runes by simp
  qed
qed simp

lemma low_runes_iff:
  assumes "\<And>r. P r \<Longrightarrow> r < 128"
  shows "list_ex (\<lambda>rb. P (fst rb)) (runes s) \<longleftrightarrow> list_ex (\<lambda>c. P (byte c)) s"
proof
  assume "list_ex (\<lambda>rb. P (fst rb)) (runes s)"
  then obtain r bs where rb: "(r, bs) \<in> set (runes s)" "P r" by (auto simp: list_ex_iff)
  then have bs: "bs = [char_of r]" and "r < 128" using runes_low assms by blast+
  have "set bs \<subseteq> set (concat (map snd (runes s)))" using rb(1) by force
  then have "char_of r \<in> set s" by (simp add: runes_bytes bs)
  then show "list_ex (\<lambda>c. P (byte c)) s" using rb(2) \<open>r < 128\<close> by (auto simp: list_ex_iff intro!: bexI)
next
  assume "list_ex (\<lambda>c. P (byte c)) s"
  then obtain c where "c \<in> set s" "P (byte c)" by (auto simp: list_ex_iff)
  then show "list_ex (\<lambda>rb. P (fst rb)) (runes s)"
    using ascii_byte_rune[of c s] assms by (force simp: list_ex_iff)
qed

text \<open>Parsing a path behind the dummy host gives the path with its escapes undone.\<close>

lemma getScheme_example:
  "getScheme (''http://example.com'' @ p) = Some (''http'', ''//example.com'' @ p)"
  by (simp add: getScheme_def is_letter_def is_lower_letter_def is_upper_letter_def is_digit_def
      less_eq_char_def)

lemma parseAuthority_example: "parseAuthority lit s ''example.com'' = Some ''example.com''"
  by (simp add: parseAuthority_def parseHost_def host_char_def is_letter_def is_lower_letter_def
      is_upper_letter_def less_eq_char_def)

lemma cut_absent: "c \<notin> set s \<Longrightarrow> cut c s = (s, [], False)"
proof -
  assume c: "c \<notin> set s"
  then have "takeWhile (\<lambda>x. x \<noteq> c) s = s" "dropWhile (\<lambda>x. x \<noteq> c) s = []"
    by (auto simp: takeWhile_eq_all_conv dropWhile_eq_Nil_conv)
  then show ?thesis using c unfolding cut_def by (simp only: list.sel)
qed

lemma parse_example:
  assumes "hd p = CHR ''/''" and "p \<noteq> []" and "CHR ''#'' \<notin> set p" and "CHR ''?'' \<notin> set p"
    and "list_all (\<lambda>c. 32 \<le> byte c \<and> byte c \<noteq> 127) p"
  shows "url_Parse lit (''http://example.com'' @ p) =
     map_option (\<lambda>path. \<lparr>u_Scheme = ''http'', u_Host = ''example.com'', u_Path = path\<rparr>) (unescape p)"
proof -
  obtain q where p: "p = CHR ''/'' # q" using assms(1,2) by (cases p) auto
  let ?raw = "''http://example.com'' @ p" and ?rest = "''//example.com'' @ p"
  have no_hash: "cut (CHR ''#'') ?raw = (?raw, [], False)"
    using assms(3) by (intro cut_absent) simp
  have no_query: "fst (cut (CHR ''?'') ?rest) = ?rest"
    using assms(4) by (subst cut_absent) simp_all
  have ctl: "\<not> list_ex (\<lambda>c. byte c < 32 \<or> byte c = 127) ?raw"
    using assms(5) by (auto simp: list_ex_iff list_all_iff)
  have auth: "takeWhile (\<lambda>c. c \<noteq> CHR ''/'') (drop 2 ?rest) = ''example.com''"
    "dropWhile (\<lambda>c. c \<noteq> CHR ''/'') (drop 2 ?rest) = p"
    by (simp_all add: p)
  have pre: "has_prefix ?rest ''/''" "has_prefix ?rest ''//''"
    by (simp_all add: has_prefix_def)
  have scheme: "map lower_char ''http'' = ''http''"
    by (simp add: lower_char_def is_upper_letter_def less_eq_char_def)
  have "parse_url lit ?raw =
      map_option (\<lambda>path. \<lparr>u_Scheme = ''http'', u_Host = ''example.com'', u_Path = path\<rparr>) (unescape p)"
    unfolding parse_url_def getScheme_example Let_def option.case prod.case no_query auth scheme
      parseAuthority_example
    using ctl pre by simp
  then show ?thesis
    unfolding url_Parse_def no_hash Let_def by (simp split: option.splits)
qed

text \<open>What the check accepts, as a condition on the bytes.\<close>

definition path_chars_ok :: "string \<Rightarrow> bool" where
  "path_chars_ok p \<longleftrightarrow> p \<noteq> [] \<and> hd p = CHR ''/''
     \<and> list_all (\<lambda>c. 32 < byte c \<and> byte c \<noteq> 127 \<and> c \<noteq> CHR ''?'' \<and> c \<noteq> CHR ''#'' \<and> c \<noteq> CHR ''%'') p"

lemma isValidPathFormat_iff:
  "isValidPathFormat lit p \<longleftrightarrow>
     p \<noteq> [] \<and> hd p = CHR ''/'' \<and> \<not> list_ex (\<lambda>rb. fst rb < 32 \<or> fst rb = 127 \<or> fst rb = 32) (runes p)
     \<and> CHR ''?'' \<notin> set p \<and> CHR ''#'' \<notin> set p
     \<and> (\<exists>u. url_Parse lit (''http://example.com'' @ p) = Some u \<and> u_Path u = p)"
proof -
  have parse: "(case x of None \<Rightarrow> False | Some u \<Rightarrow> if u_Path u \<noteq> p then False else True)
      \<longleftrightarrow> (\<exists>u. x = Some u \<and> u_Path u = p)" for x :: "url option"
    by (cases x) auto
  show ?thesis
    unfolding isValidPathFormat_def parse by (cases p) (simp_all del: runes.simps)
qed

lemma isValidPathFormat_chars: "isValidPathFormat lit p \<longleftrightarrow> path_chars_ok p"
proof (cases "p \<noteq> [] \<and> hd p = CHR ''/''")
  case False
  then show ?thesis by (cases p) (auto simp: isValidPathFormat_def path_chars_ok_def)
next
  case True
  let ?bad = "\<lambda>r. r < 32 \<or> r = 127 \<or> r = (32::nat)"
  have runes: "list_ex (\<lambda>rb. ?bad (fst rb)) (runes p) \<longleftrightarrow> list_ex (\<lambda>c. ?bad (byte c)) p"
    by (rule low_runes_iff) auto
  have bad: "32 < n \<and> n \<noteq> 127 \<longleftrightarrow> \<not> ?bad n" for n :: nat by linarith
  have nb: "\<not> list_ex (\<lambda>c. ?bad (byte c)) p \<longleftrightarrow> (\<forall>c\<in>set p. 32 < byte c \<and> byte c \<noteq> 127)"
    unfolding list_ex_iff bad by blast
  have ok: "path_chars_ok p \<longleftrightarrow> \<not> list_ex (\<lambda>c. ?bad (byte c)) p
      \<and> CHR ''?'' \<notin> set p \<and> CHR ''#'' \<notin> set p \<and> CHR ''%'' \<notin> set p"
    using True unfolding path_chars_ok_def nb list_all_iff by blast
  show ?thesis
  proof (cases "list_ex (\<lambda>c. ?bad (byte c)) p \<or> CHR ''?'' \<in> set p \<or> CHR ''#'' \<in> set p")
    case True
    then have "\<not> path_chars_ok p" unfolding ok by blast
    moreover have "\<not> isValidPathFormat lit p"
      unfolding isValidPathFormat_iff runes using True by blast
    ultimately show ?thesis by simp
  next
    case False
    have clean: "list_all (\<lambda>c. 32 \<le> byte c \<and> byte c \<noteq> 127) p"
      using False unfolding list_ex_iff list_all_iff by (meson not_less)
    have parse: "(\<exists>u. url_Parse lit (''http://example.com'' @ p) = Some u \<and> u_Path u = p)
        \<longleftrightarrow> unescape p = Some p"
      using False clean \<open>p \<noteq> [] \<and> hd p = CHR ''/''\<close> by (subst parse_example) auto
    have "isValidPathFormat lit p \<longleftrightarrow> CHR ''%'' \<notin> set p"
      using False \<open>p \<noteq> [] \<and> hd p = CHR ''/''\<close>
      unfolding isValidPathFormat_iff runes parse unescape_self_iff by blast
    also have "\<dots> \<longleftrightarrow> path_chars_ok p"
      using False unfolding ok by blast
    finally show ?thesis .
  qed
qed

end
