(* ===== verification/Webhook_Properties.thy ===== *)
theory Webhook_Properties
  imports Agent_Desired ToolServer_Webhook
begin

text \<open>
  The properties of the admission webhooks: what they write into an object, which objects they
  admit, and the one kind of nested mount they miss.
\<close>

section \<open>Defaults\<close>

text \<open>The agent's: only replicas and protocols differ, and no verdict of the validation changes.\<close>

lemma agent_defaults:
  "agent_complete (applyDefaults agent_defaulter u agent)
   \<and> (applyDefaults agent_defaulter u agent = agent \<longleftrightarrow> agent_complete agent)
   \<and> Default agent_defaulter u (applyDefaults agent_defaulter u agent)
       = (None, applyDefaults agent_defaulter u agent)
   \<and> (\<exists>replicas protocols. applyDefaults agent_defaulter u agent =
        agent\<lparr>ag_Spec := (ag_Spec agent)\<lparr>as_Replicas := replicas, as_Protocols := protocols\<rparr>\<rparr>
        \<and> map (\<lambda>p. (ap_Type p, ap_Path p)) protocols =
            (if as_Protocols (ag_Spec agent) = [] then [(''A2A'', [])]
             else map (\<lambda>p. (ap_Type p, ap_Path p)) (as_Protocols (ag_Spec agent))))
   \<and> ValidateCreate lit u (applyDefaults agent_defaulter u agent) = ValidateCreate lit u agent"
proof (intro conjI)
  let ?d = "applyDefaults agent_defaulter u"
  have shape: "?d agent = agent\<lparr>ag_Spec := (ag_Spec agent)\<lparr>
      as_Replicas := as_Replicas (ag_Spec (?d agent)), as_Protocols := as_Protocols (ag_Spec (?d agent))\<rparr>\<rparr>"
    by (simp add: applyDefaults_def Let_def)
  have kinds: "ap_Type (default_protocol d u p) = ap_Type p" "ap_Path (default_protocol d u p) = ap_Path p"
    for d p
    by (simp_all add: default_protocol_def Let_def)
  have "map (\<lambda>p. (ap_Type p, ap_Path p)) (as_Protocols (ag_Spec (?d agent))) =
      (if as_Protocols (ag_Spec agent) = [] then [(''A2A'', [])]
       else map (\<lambda>p. (ap_Type p, ap_Path p)) (as_Protocols (ag_Spec agent)))"
    by (simp add: applyDefaults_def Let_def kinds A2AProtocol_def)
  with shape show "\<exists>replicas protocols. ?d agent =
        agent\<lparr>ag_Spec := (ag_Spec agent)\<lparr>as_Replicas := replicas, as_Protocols := protocols\<rparr>\<rparr>
        \<and> map (\<lambda>p. (ap_Type p, ap_Path p)) protocols =
            (if as_Protocols (ag_Spec agent) = [] then [(''A2A'', [])]
             else map (\<lambda>p. (ap_Type p, ap_Path p)) (as_Protocols (ag_Spec agent)))"
    by blast
  show "ValidateCreate lit u (?d agent) = ValidateCreate lit u agent"
    by (simp add: ValidateCreate_def validateAgent_def validateVolumeMounts_def applyDefaults_def Let_def)
qed (simp_all add: agent_defaults.completes agent_defaults.fixed_iff Default_def agent_defaults.idempotent)

text \<open>A conditional update of a field is an update with a conditional value.\<close>

lemma toolserver_spec_if:
  "(if c then spec\<lparr>ts_Protocol := protocol\<rparr> else spec) = spec\<lparr>ts_Protocol := if c then protocol else ts_Protocol spec\<rparr>"
  "(if c then spec\<lparr>ts_Port := port\<rparr> else spec) = spec\<lparr>ts_Port := if c then port else ts_Port spec\<rparr>"
  "(if c then spec\<lparr>ts_Path := path\<rparr> else spec) = spec\<lparr>ts_Path := if c then path else ts_Path spec\<rparr>"
  "(if c then spec\<lparr>ts_Path := path\<rparr> else spec\<lparr>ts_Path := path'\<rparr>) = spec\<lparr>ts_Path := if c then path else path'\<rparr>"
  "(if c then spec\<lparr>ts_Replicas := replicas\<rparr> else spec) = spec\<lparr>ts_Replicas := if c then replicas else ts_Replicas spec\<rparr>"
  by simp_all

text \<open>The tool server's and the agent gateway's.\<close>

lemma toolserver_and_gateway_defaults:
  "toolserver_complete (applyDefaults_ts x)
   \<and> (applyDefaults_ts x = x \<longleftrightarrow> toolserver_complete x)
   \<and> Default_ts (applyDefaults_ts x) = (None, applyDefaults_ts x)
   \<and> applyDefaults_ts x = (let spec = tsv_Spec x; fill = ts_TransportType spec \<in> {''http'', ''sse''}
        in x\<lparr>tsv_Spec := spec\<lparr>
          ts_Protocol := (if ts_Protocol spec = [] then ''mcp'' else ts_Protocol spec),
          ts_Port := (if fill \<and> ts_Port spec = 0 then 8080 else ts_Port spec),
          ts_Path := (if fill \<and> ts_Path spec = [] then ''/'' @ (if ts_TransportType spec = ''http'' then ''mcp'' else ''sse'')
                      else ts_Path spec),
          ts_Replicas := (if fill \<and> ts_Replicas spec = None then Some 1 else ts_Replicas spec)\<rparr>\<rparr>)
   \<and> applyDefaults_agw agentgateway_defaulter g = g\<lparr>agw_Spec := (agw_Spec g)\<lparr>
      ags_Replicas := Some (case ags_Replicas (agw_Spec g) of None \<Rightarrow> 1 | Some n \<Rightarrow> n),
      ags_Timeout := Some (case ags_Timeout (agw_Spec g) of None \<Rightarrow> default_timeout | Some t \<Rightarrow> t)\<rparr>\<rparr>
   \<and> sint default_timeout = 6 * 60 * 10 ^ 9
   \<and> Default_agw agentgateway_defaulter (applyDefaults_agw agentgateway_defaulter g)
       = (None, applyDefaults_agw agentgateway_defaulter g)"
proof (intro conjI)
  note defs = applyDefaults_ts_def mcpProtocol_def http_transport_def sse_transport_def defaultPort_def
    defaultReplicas_ts_def defaultHttpPath_def defaultSsePath_def Let_def
  show "applyDefaults_ts x = (let spec = tsv_Spec x; fill = ts_TransportType spec \<in> {''http'', ''sse''}
        in x\<lparr>tsv_Spec := spec\<lparr>
          ts_Protocol := (if ts_Protocol spec = [] then ''mcp'' else ts_Protocol spec),
          ts_Port := (if fill \<and> ts_Port spec = 0 then 8080 else ts_Port spec),
          ts_Path := (if fill \<and> ts_Path spec = [] then ''/'' @ (if ts_TransportType spec = ''http'' then ''mcp'' else ''sse'')
                      else ts_Path spec),
          ts_Replicas := (if fill \<and> ts_Replicas spec = None then Some 1 else ts_Replicas spec)\<rparr>\<rparr>)"
    unfolding defs toolserver_spec_if by simp
  show "applyDefaults_agw agentgateway_defaulter g = g\<lparr>agw_Spec := (agw_Spec g)\<lparr>
      ags_Replicas := Some (case ags_Replicas (agw_Spec g) of None \<Rightarrow> 1 | Some n \<Rightarrow> n),
      ags_Timeout := Some (case ags_Timeout (agw_Spec g) of None \<Rightarrow> default_timeout | Some t \<Rightarrow> t)\<rparr>\<rparr>"
    by (auto simp: applyDefaults_agw_def agentgateway_defaulter_def Let_def split: option.splits)
  show "sint default_timeout = 6 * 60 * 10 ^ 9" by (simp add: default_timeout_def)
qed (simp_all add: toolserver_defaults.completes toolserver_defaults.fixed_iff Default_ts_def
      toolserver_defaults.idempotent Default_agw_def agentgateway_defaults.idempotent)


section \<open>Port names\<close>

text \<open>What Kubernetes asks of the name of a port.\<close>

definition kube_port_name :: "string \<Rightarrow> bool" where
  "kube_port_name s \<longleftrightarrow> is_port_name s \<and> length s \<le> 15
     \<and> list_ex (\<lambda>c. 97 \<le> byte c \<and> byte c \<le> 122) s \<and> \<not> sublist ''--'' s"

lemma show_nat_length: "n < 10 ^ Suc k \<Longrightarrow> length (show_nat n) \<le> Suc k"
proof (induction k arbitrary: n)
  case 0
  then show ?case by (subst show_nat.simps) simp
next
  case (Suc k)
  show ?case
  proof (cases "n < 10")
    case True
    then show ?thesis by (subst show_nat.simps) simp
  next
    case False
    have "n div 10 < 10 ^ Suc k" using Suc.prems by (simp add: less_mult_imp_div_less mult.commute)
    from Suc.IH[OF this] show ?thesis using False by (subst show_nat.simps) simp
  qed
qed

lemma sanitize_A2A: "sanitizeForPortName u ''A2A'' = ''a2a''"
proof -
  have "is_ascii ''A2A''" "is_ascii ''a2a''" by (simp_all add: is_ascii_def)
  then have runes: "runes ''A2A'' = [(65, ''A''), (50, ''2''), (65, ''A'')]"
    "runes ''a2a'' = [(97, ''a''), (50, ''2''), (97, ''a'')]"
    by (simp_all add: runes_ascii del: runes.simps)
  have chars: "char_of (97::nat) = CHR ''a''" "char_of (50::nat) = CHR ''2''" by code_simp+
  have "ToLower u ''A2A'' = ''a2a''"
    unfolding ToLower_def runes by (simp add: lower_rune_def chars)
  then show ?thesis
    unfolding sanitizeForPortName_def Let_def by (simp add: runes is_port_rune_def chars trim_char_def del: runes.simps)
qed

text \<open>
  C29: The name given to a protocol is a valid name of a port. For an A2A protocol whose port,
  after defaulting, is a TCP port, the default name is \<open>a2a-\<close> and the port in decimal: at most
  15 characters, lower case letters, digits and single hyphens, with a letter, and no hyphen
  at an end. Kubernetes then accepts the service that carries it.
\<close>

theorem default_port_name_valid:
  assumes "ap_Type p = A2AProtocol" and "ap_Name p = []"
    and "0 < sint (ap_Port (default_protocol d u p))" and "sint (ap_Port (default_protocol d u p)) < 65536"
  shows "ap_Name (default_protocol d u p) = ''a2a-'' @ show_int32 (ap_Port (default_protocol d u p))
    \<and> kube_port_name (ap_Name (default_protocol d u p))"
proof -
  let ?n = "nat (sint (ap_Port (default_protocol d u p)))"
  have name: "ap_Name (default_protocol d u p) = ''a2a-'' @ show_int32 (ap_Port (default_protocol d u p))"
    using assms(1,2) by (simp add: default_protocol_def Let_def A2AProtocol_def sanitize_A2A)
  have digits: "show_int32 (ap_Port (default_protocol d u p)) = show_nat ?n"
    using assms(3) by (simp add: show_int32_def show_int_def)
  have digit: "port_char c \<and> c \<noteq> CHR ''-''" if "c \<in> set (show_nat ?n)" for c
    using show_nat_digits[OF that] by (auto simp: is_digit_def less_eq_char_def port_char_def is_port_rune_def)
  have "length (show_nat ?n) \<le> Suc 4" using assms(4) by (intro show_nat_length) simp
  moreover have "last (show_nat ?n) \<in> set (show_nat ?n)" by simp
  moreover have "\<not> sublist ''--'' (''a2a-'' @ show_nat ?n)"
  proof
    assume "sublist ''--'' (''a2a-'' @ show_nat ?n)"
    then obtain xs ys where "''a2a-'' @ show_nat ?n = xs @ ''--'' @ ys" by (auto simp: sublist_def)
    then have "CHR ''-'' \<in> set (show_nat ?n)"
      by (auto simp: append_eq_Cons_conv Cons_eq_append_conv)
    then show False using digit by blast
  qed
  ultimately show ?thesis
    using digit by (simp add: name digits kube_port_name_def is_port_name_def alnum_char_def
        list_all_iff port_char_def is_port_rune_def)
qed

theorem default_port_name_valid_witness:
  "\<forall>u. kube_port_name (ap_Name (default_protocol agent_defaulter u
     \<lparr>ap_Name = [], ap_Type = A2AProtocol, ap_Port = 0, ap_Path = []\<rparr>))"
proof
  fix u
  have "ap_Port (default_protocol agent_defaulter u
      \<lparr>ap_Name = [], ap_Type = A2AProtocol, ap_Port = 0, ap_Path = []\<rparr>) = 8000"
    by (simp add: default_protocol_def agent_defaulter_def Let_def)
  then show "kube_port_name (ap_Name (default_protocol agent_defaulter u
      \<lparr>ap_Name = [], ap_Type = A2AProtocol, ap_Port = 0, ap_Path = []\<rparr>))"
    by (intro conjunct2[OF default_port_name_valid]) simp_all
qed

section \<open>What the validation of an agent admits\<close>

text \<open>
  C30: The verdict on an agent. It is admitted exactly when a framework without a custom image
  has a template image, every sub-agent has either a reference with a name or an HTTP or HTTPS
  URL with a host, every reference of a tool has a name, and the mounts pass their own check.
  An update is judged by the new agent alone, and a deletion is always admitted.
\<close>

theorem agent_admission_exact:
  "(ValidateCreate lit u agent = [] \<longleftrightarrow>
      as_Framework (ag_Spec agent) \<in> {[], ''google-adk'', ''msaf''} \<union> {f. as_Image (ag_Spec agent) \<noteq> []}
      \<and> (\<forall>s\<in>set (as_SubAgents (ag_Spec agent)). subAgent_valid lit s)
      \<and> (\<forall>t\<in>set (as_Tools (ag_Spec agent)). tool_valid t)
      \<and> validateVolumeMounts u agent = [])
   \<and> ValidateUpdate lit u old agent = ValidateCreate lit u agent
   \<and> ValidateDelete old = []"
  unfolding ValidateCreate_def ValidateUpdate_def ValidateDelete_def validateAgent_ok_iff
    validateVolumeMounts_def check_mounts_ok_iff by auto

definition admitted_agent :: Agent where
  "admitted_agent = new_agent ''a'' ''n'' (empty_agent_spec\<lparr>as_Framework := ''msaf'',
     as_SubAgents := [\<lparr>sa_Name = ''s'', sa_AgentRef = Some (local_ref ''b''), sa_Url = [],
       sa_InteractionType = ''tool_call''\<rparr>]\<rparr>)"

theorem agent_admission_exact_witness:
  "\<forall>lit u. ValidateCreate lit u admitted_agent = []
   \<and> ValidateCreate lit u (new_agent ''a'' ''n'' (empty_agent_spec\<lparr>as_Framework := ''custom''\<rparr>)) \<noteq> []"
  using agent_admission_exact[of _ _ admitted_agent admitted_agent]
    agent_admission_exact[of _ _ "new_agent ''a'' ''n'' (empty_agent_spec\<lparr>as_Framework := ''custom''\<rparr>)"
      admitted_agent]
  by (simp add: admitted_agent_def new_agent_def empty_agent_spec_def subAgent_valid_def local_ref_def
      validateVolumeMounts_def)

section \<open>Mounts\<close>

lemma mounts_ok_components:
  assumes "path_rooted (vm_MountPath a)" and "path_components (vm_MountPath a) \<noteq> []"
    and "path_rooted (vm_MountPath b)" and "path_components (vm_MountPath b) \<noteq> []"
  shows "mounts_ok a b \<longleftrightarrow>
     \<not> strict_prefix (path_components (vm_MountPath a)) (path_components (vm_MountPath b))
     \<and> \<not> strict_prefix (path_components (vm_MountPath b)) (path_components (vm_MountPath a))"
proof -
  have "vm_MountPath b \<noteq> []" using assms(3) by (auto simp: path_rooted_def)
  then show ?thesis
    unfolding mounts_ok_def strict_prefix_def clean_prefix_iff[OF assms(1,3,2,4)]
      clean_prefix_iff[OF assms(3,1,4,2)] clean_eq_iff[OF assms(1,3,2,4)] by auto
qed

lemma sorted_wrt_symmetric:
  assumes "\<And>x y. x \<in> set xs \<Longrightarrow> y \<in> set xs \<Longrightarrow> R x y \<longleftrightarrow> P x y \<and> P y x" and "\<And>x. P x x"
  shows "sorted_wrt R xs \<longleftrightarrow> (\<forall>x\<in>set xs. \<forall>y\<in>set xs. P x y)"
  using assms
proof (induction xs)
  case (Cons x xs)
  have "sorted_wrt R xs \<longleftrightarrow> (\<forall>x\<in>set xs. \<forall>y\<in>set xs. P x y)"
    by (rule Cons.IH) (simp_all add: Cons.prems)
  moreover have "(\<forall>y\<in>set xs. R x y) \<longleftrightarrow> (\<forall>y\<in>set xs. P x y \<and> P y x)"
    using Cons.prems(1) by (intro ball_cong) simp_all
  ultimately show ?case using Cons.prems(2) by auto
qed simp

text \<open>Below the root the check is the nesting of the cleaned components.\<close>

lemma mounts_checked:
  assumes "\<forall>m\<in>set (as_VolumeMounts (ag_Spec agent)).
    path_rooted (vm_MountPath m) \<and> path_components (vm_MountPath m) \<noteq> []"
  shows "validateVolumeMounts u agent = [] \<longleftrightarrow>
     vm_Name ` set (as_VolumeMounts (ag_Spec agent)) \<subseteq> vol_Name ` set (as_Volumes (ag_Spec agent))
     \<and> (\<forall>a\<in>set (as_VolumeMounts (ag_Spec agent)). \<forall>b\<in>set (as_VolumeMounts (ag_Spec agent)).
          \<not> strict_prefix (path_components (vm_MountPath a)) (path_components (vm_MountPath b)))"
proof -
  have "sorted_wrt mounts_ok (as_VolumeMounts (ag_Spec agent)) \<longleftrightarrow>
      (\<forall>a\<in>set (as_VolumeMounts (ag_Spec agent)). \<forall>b\<in>set (as_VolumeMounts (ag_Spec agent)).
          \<not> strict_prefix (path_components (vm_MountPath a)) (path_components (vm_MountPath b)))"
    using assms mounts_ok_components by (intro sorted_wrt_symmetric) (blast, simp)
  then show ?thesis unfolding validateVolumeMounts_def check_mounts_ok_iff by auto
qed

definition mounting_agent :: "string \<Rightarrow> string \<Rightarrow> Agent" where
  "mounting_agent p q = new_agent ''a'' ''n'' (empty_agent_spec\<lparr>
     as_Volumes := [\<lparr>vol_Name = ''v'', vol_HostPath = None, vol_rest = []\<rparr>],
     as_VolumeMounts := [\<lparr>vm_Name = ''v'', vm_MountPath = p, vm_rest = []\<rparr>,
       \<lparr>vm_Name = ''v'', vm_MountPath = q, vm_rest = []\<rparr>]\<rparr>)"

lemma mounting_agent_sel [simp]:
  "as_VolumeMounts (ag_Spec (mounting_agent p q)) =
     [\<lparr>vm_Name = ''v'', vm_MountPath = p, vm_rest = []\<rparr>, \<lparr>vm_Name = ''v'', vm_MountPath = q, vm_rest = []\<rparr>]"
  "as_Volumes (ag_Spec (mounting_agent p q)) = [\<lparr>vol_Name = ''v'', vol_HostPath = None, vol_rest = []\<rparr>]"
  by (simp_all add: mounting_agent_def new_agent_def empty_agent_spec_def)

lemma example_paths:
  "path_rooted ''/data''" "path_rooted ''/data-b''" "path_rooted ''/x/../data/c''"
  "path_components ''/data'' = [''data'']" "path_components ''/data-b'' = [''data-b'']"
  "path_components ''/x/../data/c'' = [''data'', ''c'']"
  by (simp_all add: path_rooted_def path_components_def)

text \<open>At the root it is not: the test puts a slash behind the root's own slash.\<close>

lemma root_mount_missed:
  assumes "path_rooted p" and "path_components p \<noteq> []"
  shows "strict_prefix (path_components ''/'') (path_components p)
     \<and> validateVolumeMounts u (mounting_agent ''/'' p) = []
     \<and> validateVolumeMounts u (mounting_agent p ''/'') = []"
proof -
  have root: "path_components ''/'' = []" "Clean ''/'' = ''/''"
    by (simp_all add: path_components_def Clean_def path_rooted_def)
  obtain c cs where comps: "path_components p = c # cs" using assms(2) by (cases "path_components p") auto
  then have "component_ok c" using path_components_ok[of c p] by simp
  then obtain x xs where c: "c = x # xs" "x \<noteq> CHR ''/''" by (cases c) (auto simp: component_ok_def)
  obtain rest where "join (path_components p) ''/'' = x # rest"
    unfolding comps c by (cases cs) simp_all
  then have clean: "Clean p = ''/'' @ x # rest" using clean_rooted[OF assms(1)] by simp
  have "p \<noteq> []" using assms(1) by (auto simp: path_rooted_def)
  then show ?thesis
    using c(2) unfolding validateVolumeMounts_def check_mounts_ok_iff
    by (simp add: mounts_ok_def root clean comps)
qed

text \<open>
  C31: The check of the mounts is the one meant, but for the root. For mounts at absolute paths other
  than the root it passes exactly when every mount names a volume of the agent and no mount is
  nested in another: the components of no cleaned path are a strict prefix of those of another. The
  order of the mounts does not matter, and \<open>/data\<close> and \<open>/data-backup\<close> do not clash. Every path
  is nested in the root, yet an agent that mounts one volume at the root and another
  anywhere below it is admitted, in either order.
\<close>

theorem nested_mounts_exact:
  "((\<forall>m\<in>set (as_VolumeMounts (ag_Spec agent)). path_rooted (vm_MountPath m) \<and> path_components (vm_MountPath m) \<noteq> [])
     \<longrightarrow> (validateVolumeMounts u agent = [] \<longleftrightarrow>
       vm_Name ` set (as_VolumeMounts (ag_Spec agent)) \<subseteq> vol_Name ` set (as_Volumes (ag_Spec agent))
       \<and> (\<forall>a\<in>set (as_VolumeMounts (ag_Spec agent)). \<forall>b\<in>set (as_VolumeMounts (ag_Spec agent)).
            \<not> strict_prefix (path_components (vm_MountPath a)) (path_components (vm_MountPath b)))))
   \<and> (path_rooted p \<and> path_components p \<noteq> [] \<longrightarrow>
       strict_prefix (path_components ''/'') (path_components p)
       \<and> validateVolumeMounts u (mounting_agent ''/'' p) = []
       \<and> validateVolumeMounts u (mounting_agent p ''/'') = [])"
  using mounts_checked[of agent u] root_mount_missed[of p u] by blast

theorem nested_mounts_exact_witness:
  "\<forall>u. validateVolumeMounts u (mounting_agent ''/data'' ''/data-b'') = []
   \<and> validateVolumeMounts u (mounting_agent ''/x/../data/c'' ''/data'') \<noteq> []
   \<and> validateVolumeMounts u (mounting_agent ''/'' ''/data'') = []"
  using nested_mounts_exact[of "mounting_agent ''/data'' ''/data-b''" _ "''/data''"]
    nested_mounts_exact[of "mounting_agent ''/x/../data/c'' ''/data''" _ "''/data''"]
  by (simp add: example_paths)

section \<open>The verdict on a tool server\<close>

text \<open>A path is checked byte by byte.\<close>

lemma path_check_exact:
  "isValidPathFormat lit p \<longleftrightarrow>
     (\<exists>q. p = CHR ''/'' # q \<and> set q \<inter> ({CHR ''?'', CHR ''#'', CHR ''%''} \<union> {c. byte c \<le> 32 \<or> byte c = 127}) = {})"
proof -
  have chars: "list_all (\<lambda>c. 32 < byte c \<and> byte c \<noteq> 127 \<and> c \<noteq> CHR ''?'' \<and> c \<noteq> CHR ''#'' \<and> c \<noteq> CHR ''%'') q
      \<longleftrightarrow> set q \<inter> ({CHR ''?'', CHR ''#'', CHR ''%''} \<union> {c. byte c \<le> 32 \<or> byte c = 127}) = {}" for q
    unfolding list_all_iff disjoint_iff Un_iff insert_iff mem_Collect_eq empty_iff not_less[symmetric] by blast
  show ?thesis
    unfolding isValidPathFormat_chars path_chars_ok_def chars[symmetric] by (cases p) auto
qed

text \<open>
  C32: The verdict on a tool server after defaulting, the order in which the API server asks
  the two webhooks: it is admitted exactly when it has a transport that is given a port or a
  port of its own, and its path is empty or valid. The check of a path by parsing a URL is a check
  of its bytes: a path is valid exactly when it begins with a slash and has no space, no control
  character, and none of \<open>?\<close>, \<open>#\<close> and \<open>%\<close>; in particular no escaped path is valid, and no IP
  literal is ever parsed. An update is judged by the new tool server alone.
\<close>

theorem toolserver_admission_exact:
  "(ValidateCreate_ts lit (applyDefaults_ts x) = [] \<longleftrightarrow>
      \<not> (ts_TransportType (tsv_Spec x) \<notin> {''http'', ''sse''} \<and> ts_Port (tsv_Spec x) = 0)
      \<and> (ts_Path (tsv_Spec x) = [] \<or> isValidPathFormat lit (ts_Path (tsv_Spec x))))
   \<and> (isValidPathFormat lit p \<longleftrightarrow>
      (\<exists>q. p = CHR ''/'' # q \<and> set q \<inter> ({CHR ''?'', CHR ''#'', CHR ''%''} \<union> {c. byte c \<le> 32 \<or> byte c = 127}) = {}))
   \<and> ValidateUpdate_ts lit old x = ValidateCreate_ts lit x
   \<and> ValidateDelete_ts old = []"
proof -
  have ok: "validateToolServer lit y = [] \<longleftrightarrow> ts_Port (tsv_Spec y) \<noteq> 0
      \<and> (ts_Path (tsv_Spec y) = [] \<or> path_chars_ok (ts_Path (tsv_Spec y)))" for y
    by (auto simp: validateToolServer_def Let_def isValidPathFormat_chars path_chars_ok_def)
  have given: "path_chars_ok ''/mcp''" "path_chars_ok ''/sse''"
    by (simp_all add: path_chars_ok_def)
  have valid: "isValidPathFormat lit (ts_Path (tsv_Spec x)) \<longleftrightarrow> path_chars_ok (ts_Path (tsv_Spec x))"
    by (auto simp: isValidPathFormat_chars path_chars_ok_def)
  show ?thesis
    unfolding ValidateCreate_ts_def ValidateUpdate_ts_def ValidateDelete_ts_def ok valid path_check_exact[of lit p]
    by (auto simp: applyDefaults_ts_def http_transport_def sse_transport_def defaultPort_def
        defaultHttpPath_def defaultSsePath_def Let_def given)
qed

end
