(* ===== verification/Manager.thy ===== *)
theory Manager
  imports Kube Go_Path
begin

text \<open>
  \<open>cmd/main.go\<close>: the start of the operator. The flags are a record of their parsed values; the
  options handed to the servers and the manager are the values the code builds; and what it
  asks of controller-runtime, in order, is a list of steps, any of which may fail and end the
  process with status 1. Logging is left out.
\<close>

section \<open>Flags\<close>

record options =
  metricsAddr :: string
  probeAddr :: string
  enableLeaderElection :: bool
  secureMetrics :: bool
  webhookCertPath :: string
  webhookCertName :: string
  webhookCertKey :: string
  metricsCertPath :: string
  metricsCertName :: string
  metricsCertKey :: string
  enableHTTP2 :: bool
  allowHostPath :: bool

text \<open>Without any argument on the command line.\<close>

definition default_options :: options where
  "default_options =
     \<lparr>metricsAddr = ''0'', probeAddr = '':8081'', enableLeaderElection = False, secureMetrics = True,
      webhookCertPath = [], webhookCertName = ''tls.crt'', webhookCertKey = ''tls.key'',
      metricsCertPath = [], metricsCertName = ''tls.crt'', metricsCertKey = ''tls.key'',
      enableHTTP2 = False, allowHostPath = False\<rparr>"

section \<open>Options of the servers and the manager\<close>

text \<open>\<open>tls.Config\<close>, of which an option sets a field; \<open>'c\<close> is the type of the certificate watchers.\<close>

record 'c tls_config =
  NextProtos :: "string list"
  GetCertificate :: "'c option"

type_synonym 'c tls_opt = "'c tls_config \<Rightarrow> 'c tls_config"

definition disableHTTP2 :: "'c tls_opt" where
  "disableHTTP2 c = c\<lparr>NextProtos := [''http/1.1'']\<rparr>"

definition use_watcher :: "'c \<Rightarrow> 'c tls_opt" where
  "use_watcher watcher config = config\<lparr>GetCertificate := Some watcher\<rparr>"

record 'c metrics_options =
  BindAddress :: string
  SecureServing :: bool
  FilterProvider :: bool  \<comment> \<open>whether \<open>WithAuthenticationAndAuthorization\<close> is set\<close>
  m_TLSOpts :: "'c tls_opt list"

record 'c manager_options =
  Metrics :: "'c metrics_options"
  w_TLSOpts :: "'c tls_opt list"  \<comment> \<open>of the webhook server\<close>
  HealthProbeBindAddress :: string
  LeaderElection :: bool
  LeaderElectionID :: string

text \<open>\<open>filepath.Join\<close> of two elements.\<close>

definition filepath_Join :: "string \<Rightarrow> string \<Rightarrow> string" where
  "filepath_Join a b =
     (if a \<noteq> [] then Clean (a @ ''/'' @ b) else if b \<noteq> [] then Clean b else [])"

section \<open>Steps\<close>

datatype 'c step =
  GetConfig
| NewManager "'c manager_options"
| SetupController string
| SetupWebhook string
| AddRunnable 'c
| AddHealthzCheck string
| AddReadyzCheck string
| StartManager

datatype outcome = Returned | Exited nat

text \<open>What the code calls: the certificate watchers, the steps and the process environment.\<close>

record ('c, 'w) libs =
  newCertWatcher :: "string \<Rightarrow> string \<Rightarrow> 'w \<Rightarrow> (go_error + 'c) \<times> 'w"
  perform :: "'c step \<Rightarrow> 'w \<Rightarrow> go_error option \<times> 'w"
  os_Getenv :: "string \<Rightarrow> string"

fun run_steps :: "('c, 'w) libs \<Rightarrow> 'c step list \<Rightarrow> 'w \<Rightarrow> outcome \<times> 'w" where
  "run_steps l [] w = (Returned, w)"
| "run_steps l (s # ss) w =
     (case perform l s w of
        (Some _, w') \<Rightarrow> (Exited 1, w')
      | (None, w') \<Rightarrow> run_steps l ss w')"

section \<open>The program\<close>

text \<open>The watcher of a pair of certificate files, if a directory is given.\<close>

definition cert_watcher ::
  "('c, 'w) libs \<Rightarrow> string \<Rightarrow> string \<Rightarrow> string \<Rightarrow> 'w \<Rightarrow> (go_error + 'c option) \<times> 'w" where
  "cert_watcher l path name key w =
     (if length path > 0
      then (case newCertWatcher l (filepath_Join path name) (filepath_Join path key) w of
          (Inl err, w') \<Rightarrow> (Inl err, w')
        | (Inr watcher, w') \<Rightarrow> (Inr (Some watcher), w'))
      else (Inr None, w))"

definition with_watcher :: "'c tls_opt list \<Rightarrow> 'c option \<Rightarrow> 'c tls_opt list" where
  "with_watcher opts watcher = (case watcher of None \<Rightarrow> opts | Some c \<Rightarrow> opts @ [use_watcher c])"

definition metrics_server_options :: "options \<Rightarrow> 'c tls_opt list \<Rightarrow> 'c option \<Rightarrow> 'c metrics_options" where
  "metrics_server_options opts tlsOpts watcher =
     (let m = \<lparr>BindAddress = metricsAddr opts, SecureServing = secureMetrics opts, FilterProvider = False,
            m_TLSOpts = tlsOpts\<rparr>;
          m = (if secureMetrics opts then m\<lparr>FilterProvider := True\<rparr> else m)
      in m\<lparr>m_TLSOpts := with_watcher (m_TLSOpts m) watcher\<rparr>)"

definition registrations :: "('c, 'w) libs \<Rightarrow> 'c option \<Rightarrow> 'c option \<Rightarrow> 'c step list" where
  "registrations l metricsCertWatcher webhookCertWatcher =
     [SetupController ''Agent'', SetupController ''AgenticWorkforce'', SetupController ''ToolServer'']
     @ (if os_Getenv l ''ENABLE_WEBHOOKS'' \<noteq> ''false''
        then [SetupWebhook ''Agent'', SetupWebhook ''AgentGateway'', SetupWebhook ''ToolServer'',
              AddReadyzCheck ''webhook'']
        else [])
     @ (case metricsCertWatcher of None \<Rightarrow> [] | Some c \<Rightarrow> [AddRunnable c])
     @ (case webhookCertWatcher of None \<Rightarrow> [] | Some c \<Rightarrow> [AddRunnable c])
     @ [AddHealthzCheck ''healthz'', AddReadyzCheck ''readyz'']"

definition main :: "('c, 'w) libs \<Rightarrow> options \<Rightarrow> 'w \<Rightarrow> outcome \<times> 'w" where
  "main l opts w =
     (let tlsOpts = (if \<not> enableHTTP2 opts then [disableHTTP2] else [])
      in case cert_watcher l (webhookCertPath opts) (webhookCertName opts) (webhookCertKey opts) w of
           (Inl _, w) \<Rightarrow> (Exited 1, w)
         | (Inr webhookCertWatcher, w) \<Rightarrow>
             (let webhookTLSOpts = with_watcher tlsOpts webhookCertWatcher
              in case cert_watcher l (metricsCertPath opts) (metricsCertName opts) (metricsCertKey opts) w of
                   (Inl _, w) \<Rightarrow> (Exited 1, w)
                 | (Inr metricsCertWatcher, w) \<Rightarrow>
                     run_steps l
                       ([GetConfig,
                         NewManager \<lparr>Metrics = metrics_server_options opts tlsOpts metricsCertWatcher,
                           w_TLSOpts = webhookTLSOpts, HealthProbeBindAddress = probeAddr opts,
                           LeaderElection = enableLeaderElection opts,
                           LeaderElectionID = ''5edf38ef.agentic-layer.ai''\<rparr>]
                        @ registrations l metricsCertWatcher webhookCertWatcher
                        @ [StartManager]) w))"

section \<open>What a run asks for\<close>

text \<open>
  A runtime that records the steps it is asked for, fails those of a given set and watches
  every pair of files, by the name of the certificate.
\<close>

definition recording :: "string step set \<Rightarrow> (string \<Rightarrow> string) \<Rightarrow> (string, string step list) libs" where
  "recording bad env =
     \<lparr>newCertWatcher = (\<lambda>cert key w. (Inr cert, w)),
      perform = (\<lambda>s w. (if s \<in> bad then Some (Errorf ''failed'') else None, w @ [s])),
      os_Getenv = env\<rparr>"

lemma recording_sel [simp]:
  "newCertWatcher (recording bad env) c key w = (Inr c, w)"
  "perform (recording bad env) s w = (if s \<in> bad then Some (Errorf ''failed'') else None, w @ [s])"
  "os_Getenv (recording bad env) = env"
  by (simp_all add: recording_def)

text \<open>If the last step was asked for, all the others have been, and none has failed.\<close>

lemma run_to_start:
  assumes "run_steps (recording bad env) (ss @ [StartManager]) w = (out, log)"
    and "StartManager \<in> set log" and "StartManager \<notin> set ss" and "StartManager \<notin> set w"
  shows "log = w @ ss @ [StartManager] \<and> set ss \<inter> bad = {}
     \<and> out = (if StartManager \<in> bad then Exited 1 else Returned)"
  using assms
proof (induction ss arbitrary: w)
  case Nil
  then show ?case by (auto split: if_splits)
next
  case (Cons s ss)
  have good: "s \<notin> bad" using Cons.prems by (auto split: if_splits)
  then have "run_steps (recording bad env) (ss @ [StartManager]) (w @ [s]) = (out, log)"
    using Cons.prems(1) by simp
  from Cons.IH[OF this] show ?case using good Cons.prems(2-4) by auto
qed

definition apply_tls :: "'c tls_opt list \<Rightarrow> 'c tls_config \<Rightarrow> 'c tls_config" where
  "apply_tls opts c = fold (\<lambda>f c. f c) opts c"

lemma apply_with_watcher:
  "NextProtos (apply_tls (with_watcher (if \<not> on then [disableHTTP2] else []) watcher) c) =
     (if on then NextProtos c else [''http/1.1''])"
  "GetCertificate (apply_tls (with_watcher (if \<not> on then [disableHTTP2] else []) watcher) c) =
     (case watcher of None \<Rightarrow> GetCertificate c | Some x \<Rightarrow> Some x)"
  by (simp_all add: apply_tls_def with_watcher_def disableHTTP2_def use_watcher_def split: option.split)



end
