(* ===== verification/Deep_Copy.thy ===== *)
theory Deep_Copy
  imports Prelude
begin

text \<open>
  Go's memory as far as a deep copy touches it, and the statements the generated functions of
  \<open>zz_generated.deepcopy.go\<close> are made of. A value holds scalars, structs and references; a
  pointer, a slice and a map refer to a cell of the heap, which grows at its end. A copy is
  deep when it stands for the same tree of values and refers to new cells only.
\<close>

section \<open>Values, heap and trees\<close>

datatype val =
  VScalar string  \<comment> \<open>a number, boolean or string\<close>
| VStruct "(string \<times> val) list"
| VNil
| VRef nat

datatype cell =
  CVar val  \<comment> \<open>the target of a pointer\<close>
| CArray "val list"  \<comment> \<open>the elements of a slice\<close>
| CMap strmap

type_synonym heap = "cell list"

definition load :: "heap \<Rightarrow> nat \<Rightarrow> cell option" where
  "load h a = (if a < length h then Some (h ! a) else None)"

text \<open>What a value stands for, without the places it is stored at.\<close>

datatype tree =
  TScalar string
| TStruct "(string \<times> tree) list"
| TNil
| TPtr tree
| TSlice "tree list"
| TMap strmap

text \<open>\<open>rep lo h v t\<close>: in \<open>h\<close> the value \<open>v\<close> stands for \<open>t\<close> and refers to cells from \<open>lo\<close> on only.\<close>

fun rep :: "nat \<Rightarrow> heap \<Rightarrow> val \<Rightarrow> tree \<Rightarrow> bool"
  and rep_fields :: "nat \<Rightarrow> heap \<Rightarrow> (string \<times> val) list \<Rightarrow> (string \<times> tree) list \<Rightarrow> bool"
  and rep_list :: "nat \<Rightarrow> heap \<Rightarrow> val list \<Rightarrow> tree list \<Rightarrow> bool" where
  "rep lo h v (TScalar s) \<longleftrightarrow> v = VScalar s"
| "rep lo h v (TStruct ts) \<longleftrightarrow> (case v of VStruct vs \<Rightarrow> rep_fields lo h vs ts | _ \<Rightarrow> False)"
| "rep lo h v TNil \<longleftrightarrow> v = VNil"
| "rep lo h v (TPtr t) \<longleftrightarrow>
     (case v of VRef a \<Rightarrow> lo \<le> a \<and> (case load h a of Some (CVar x) \<Rightarrow> rep lo h x t | _ \<Rightarrow> False) | _ \<Rightarrow> False)"
| "rep lo h v (TSlice ts) \<longleftrightarrow>
     (case v of VRef a \<Rightarrow> lo \<le> a \<and> (case load h a of Some (CArray xs) \<Rightarrow> rep_list lo h xs ts | _ \<Rightarrow> False) | _ \<Rightarrow> False)"
| "rep lo h v (TMap m) \<longleftrightarrow> (case v of VRef a \<Rightarrow> lo \<le> a \<and> load h a = Some (CMap m) | _ \<Rightarrow> False)"
| "rep_fields lo h vs [] \<longleftrightarrow> vs = []"
| "rep_fields lo h vs ((n, t) # ts) \<longleftrightarrow>
     (case vs of (m, v) # ws \<Rightarrow> m = n \<and> rep lo h v t \<and> rep_fields lo h ws ts | [] \<Rightarrow> False)"
| "rep_list lo h vs [] \<longleftrightarrow> vs = []"
| "rep_list lo h vs (t # ts) \<longleftrightarrow>
     (case vs of v # ws \<Rightarrow> rep lo h v t \<and> rep_list lo h ws ts | [] \<Rightarrow> False)"

text \<open>Only the cells from the bound on matter, and there may be more of them.\<close>

lemma rep_cells:
  assumes "\<And>a c. lo \<le> a \<Longrightarrow> load h a = Some c \<Longrightarrow> load h' a = Some c" and "lo' \<le> lo"
  shows "rep lo h v t \<Longrightarrow> rep lo' h' v t"
    and "rep_fields lo h vs ts \<Longrightarrow> rep_fields lo' h' vs ts"
    and "rep_list lo h ws us \<Longrightarrow> rep_list lo' h' ws us"
  using assms
  by (induction lo h v t and lo h vs ts and lo h ws us rule: rep_rep_fields_rep_list.induct)
     (force split: val.splits option.splits cell.splits list.splits)+

lemma load_append: "load h a = Some c \<Longrightarrow> load (h @ g) a = Some c"
  by (auto simp: load_def nth_append split: if_splits)

lemma load_snoc [simp]: "load (h @ [c]) (length h) = Some c"
  by (simp add: load_def)

lemma rep_mono:
  "rep lo h v t \<Longrightarrow> lo' \<le> lo \<Longrightarrow> rep lo' (h @ g) v t"
  "rep_list lo h vs ts \<Longrightarrow> lo' \<le> lo \<Longrightarrow> rep_list lo' (h @ g) vs ts"
  using rep_cells(1,3)[of lo h "h @ g" lo'] load_append by blast+

text \<open>What is written into the cells of the one does not change what the other stands for.\<close>

lemma rep_separate:
  assumes "rep (length h) (h @ g) v t" and "length h' = length h"
  shows "rep 0 (h' @ g) v t"
proof (rule rep_cells(1)[OF _ _ assms(1)])
  show "load (h' @ g) a = Some c" if "length h \<le> a" "load (h @ g) a = Some c" for a c
    using that assms(2) by (auto simp: load_def nth_append split: if_splits)
qed simp

section \<open>Statements\<close>

text \<open>A copy takes a value and the heap to the copied value and the heap after; none is a panic.\<close>

type_synonym copier = "val \<Rightarrow> heap \<Rightarrow> (val \<times> heap) option"

text \<open>\<open>*out = *in\<close>: what is referred to is shared.\<close>

definition assign :: copier where
  "assign v h = Some (v, h)"

text \<open>
  \<open>if in != nil { *out = new(T); f(*in, *out) }\<close>, where \<open>f\<close> is the assignment or a \<open>DeepCopyInto\<close>.
  The new cell is allocated after those its content needs, which no one can observe.
\<close>

definition new_copy :: "copier \<Rightarrow> copier" where
  "new_copy f v h =
     (case v of
        VNil \<Rightarrow> Some (VNil, h)
      | VRef a \<Rightarrow>
          (case load h a of
             Some (CVar x) \<Rightarrow>
               (case f x h of None \<Rightarrow> None | Some (x', h') \<Rightarrow> Some (VRef (length h'), h' @ [CVar x']))
           | _ \<Rightarrow> None)
      | _ \<Rightarrow> None)"

text \<open>\<open>for i := range *in\<close>, each element with \<open>f\<close>; \<open>copy(*out, *in)\<close> is the loop with the assignment.\<close>

fun copy_elements :: "copier \<Rightarrow> val list \<Rightarrow> heap \<Rightarrow> (val list \<times> heap) option" where
  "copy_elements f [] h = Some ([], h)"
| "copy_elements f (v # vs) h =
     (case f v h of
        None \<Rightarrow> None
      | Some (v', h') \<Rightarrow>
          (case copy_elements f vs h' of None \<Rightarrow> None | Some (vs', h'') \<Rightarrow> Some (v' # vs', h'')))"

text \<open>\<open>if in != nil { *out = make([]T, len(*in)); ... }\<close>.\<close>

definition make_slice :: "copier \<Rightarrow> copier" where
  "make_slice f v h =
     (case v of
        VNil \<Rightarrow> Some (VNil, h)
      | VRef a \<Rightarrow>
          (case load h a of
             Some (CArray xs) \<Rightarrow>
               (case copy_elements f xs h of
                  None \<Rightarrow> None | Some (xs', h') \<Rightarrow> Some (VRef (length h'), h' @ [CArray xs']))
           | _ \<Rightarrow> None)
      | _ \<Rightarrow> None)"

text \<open>\<open>*out = make(map[string]string, len(*in)); for key, val := range *in { (*out)[key] = val }\<close>.\<close>

definition make_map :: "map_order \<Rightarrow> copier" where
  "make_map ord v h =
     (case v of
        VNil \<Rightarrow> Some (VNil, h)
      | VRef a \<Rightarrow>
          (case load h a of
             Some (CMap m) \<Rightarrow>
               Some (VRef (length h), h @ [CMap (foldl (\<lambda>m (key, x). fmupd key x m) fmempty (go_range ord m))])
           | _ \<Rightarrow> None)
      | _ \<Rightarrow> None)"

text \<open>
  The body of a \<open>DeepCopyInto\<close>: \<open>*out = *in\<close>, then a statement for each of the fields listed, in
  that order. A field that is not listed stays shared.
\<close>

definition set_field :: "string \<Rightarrow> val \<Rightarrow> (string \<times> val) list \<Rightarrow> (string \<times> val) list" where
  "set_field n v fields = map (\<lambda>(m, w). if m = n then (m, v) else (m, w)) fields"

fun copy_fields ::
  "(string \<times> copier) list \<Rightarrow> (string \<times> val) list \<Rightarrow> (string \<times> val) list \<Rightarrow> heap
    \<Rightarrow> ((string \<times> val) list \<times> heap) option" where
  "copy_fields [] fields out h = Some (out, h)"
| "copy_fields ((n, f) # statements) fields out h =
     (case map_of fields n of
        None \<Rightarrow> None
      | Some v \<Rightarrow>
          (case f v h of
             None \<Rightarrow> None
           | Some (v', h') \<Rightarrow> copy_fields statements fields (set_field n v' out) h'))"

definition copy_struct :: "(string \<times> copier) list \<Rightarrow> copier" where
  "copy_struct statements v h =
     (case v of
        VStruct fields \<Rightarrow>
          (case copy_fields statements fields fields h of
             None \<Rightarrow> None | Some (out, h') \<Rightarrow> Some (VStruct out, h'))
      | _ \<Rightarrow> None)"

text \<open>
  \<open>DeepCopyObject\<close> returns an interface value: nil for a nil receiver, and not the receiver's nil
  pointer with its type, which would compare unequal to nil.
\<close>

definition copy_object :: "string \<Rightarrow> copier \<Rightarrow> val \<Rightarrow> heap \<Rightarrow> ((string \<times> val) option \<times> heap) option" where
  "copy_object kind deepCopy v h =
     (case deepCopy v h of
        None \<Rightarrow> None
      | Some (c, h') \<Rightarrow> Some (if c \<noteq> VNil then Some (kind, c) else None, h'))"

section \<open>Types\<close>

datatype gotype =
  Basic
| Struct "(string \<times> gotype) list"
| Pointer gotype
| SliceOf gotype
| StringMap
| Lib string  \<comment> \<open>a type of a library, by its name\<close>

text \<open>The trees of a type; those of a library's type are an argument.\<close>

fun conforms :: "(string \<Rightarrow> tree \<Rightarrow> bool) \<Rightarrow> gotype \<Rightarrow> tree \<Rightarrow> bool"
  and conforms_fields :: "(string \<Rightarrow> tree \<Rightarrow> bool) \<Rightarrow> (string \<times> gotype) list \<Rightarrow> (string \<times> tree) list \<Rightarrow> bool" where
  "conforms lib Basic t \<longleftrightarrow> (case t of TScalar _ \<Rightarrow> True | _ \<Rightarrow> False)"
| "conforms lib (Struct fs) t \<longleftrightarrow> (case t of TStruct ts \<Rightarrow> conforms_fields lib fs ts | _ \<Rightarrow> False)"
| "conforms lib (Pointer ty) t \<longleftrightarrow> (case t of TNil \<Rightarrow> True | TPtr x \<Rightarrow> conforms lib ty x | _ \<Rightarrow> False)"
| "conforms lib (SliceOf ty) t \<longleftrightarrow>
     (case t of TNil \<Rightarrow> True | TSlice xs \<Rightarrow> list_all (conforms lib ty) xs | _ \<Rightarrow> False)"
| "conforms lib StringMap t \<longleftrightarrow> (case t of TNil \<Rightarrow> True | TMap _ \<Rightarrow> True | _ \<Rightarrow> False)"
| "conforms lib (Lib name) t \<longleftrightarrow> lib name t"
| "conforms_fields lib [] ts \<longleftrightarrow> ts = []"
| "conforms_fields lib ((n, ty) # fs) ts \<longleftrightarrow>
     (case ts of (m, t) # us \<Rightarrow> m = n \<and> conforms lib ty t \<and> conforms_fields lib fs us | [] \<Rightarrow> False)"

text \<open>A flat tree refers to nothing; a flat type has flat trees only.\<close>

fun flat :: "tree \<Rightarrow> bool" where
  "flat (TStruct ts) \<longleftrightarrow> list_all (\<lambda>(n, t). flat t) ts"
| "flat (TScalar s) \<longleftrightarrow> True"
| "flat TNil \<longleftrightarrow> True"
| "flat (TPtr t) \<longleftrightarrow> False"
| "flat (TSlice ts) \<longleftrightarrow> False"
| "flat (TMap m) \<longleftrightarrow> False"

fun flat_type :: "string set \<Rightarrow> gotype \<Rightarrow> bool" where
  "flat_type flats (Struct fs) \<longleftrightarrow> list_all (\<lambda>(n, ty). flat_type flats ty) fs"
| "flat_type flats Basic \<longleftrightarrow> True"
| "flat_type flats (Pointer ty) \<longleftrightarrow> False"
| "flat_type flats (SliceOf ty) \<longleftrightarrow> False"
| "flat_type flats StringMap \<longleftrightarrow> False"
| "flat_type flats (Lib name) \<longleftrightarrow> name \<in> flats"

end
