(* ===== verification/Deep_Copy_Laws.thy ===== *)
theory Deep_Copy_Laws
  imports Deep_Copy
begin

text \<open>
  What it means for a copy to be deep, and that each statement of \<open>Deep_Copy\<close> keeps it: the
  assignment for flat types only, the others for the types they are generated for.
\<close>

named_theorems deep_intros "a statement makes a deep copy"

definition deep_copies :: "(string \<Rightarrow> tree \<Rightarrow> bool) \<Rightarrow> gotype \<Rightarrow> copier \<Rightarrow> bool" where
  "deep_copies lib ty f \<longleftrightarrow> (\<forall>h v t. conforms lib ty t \<longrightarrow> rep 0 h v t \<longrightarrow>
     (\<exists>v' g. f v h = Some (v', h @ g) \<and> rep (length h) (h @ g) v' t))"

lemma deep_copiesD:
  assumes "deep_copies lib ty f" and "conforms lib ty t" and "rep 0 h v t"
  obtains v' g where "f v h = Some (v', h @ g)" and "rep (length h) (h @ g) v' t"
  using assms unfolding deep_copies_def by blast

section \<open>Flat types\<close>

lemma rep_flat:
  "flat t \<Longrightarrow> rep lo h v t \<Longrightarrow> rep lo' h' v t"
  "list_all (\<lambda>(n, t). flat t) ts \<Longrightarrow> rep_fields lo h vs ts \<Longrightarrow> rep_fields lo' h' vs ts"
  "list_all flat us \<Longrightarrow> rep_list lo h ws us \<Longrightarrow> rep_list lo' h' ws us"
  by (induction lo h v t and lo h vs ts and lo h ws us rule: rep_rep_fields_rep_list.induct)
     (auto split: val.splits list.splits)

text \<open>What the theorems assume of the libraries' types: which are flat.\<close>

definition flat_libs :: "(string \<Rightarrow> tree \<Rightarrow> bool) \<Rightarrow> string set \<Rightarrow> bool" where
  "flat_libs lib flats \<longleftrightarrow> (\<forall>name\<in>flats. \<forall>t. lib name t \<longrightarrow> flat t)"

lemma conforms_flat:
  "flat_libs lib flats \<Longrightarrow> flat_type flats ty \<Longrightarrow> conforms lib ty t \<Longrightarrow> flat t"
  "flat_libs lib flats \<Longrightarrow> list_all (\<lambda>(n, ty). flat_type flats ty) fs \<Longrightarrow> conforms_fields lib fs ts \<Longrightarrow>
     list_all (\<lambda>(n, t). flat t) ts"
  by (induction lib ty t and lib fs ts rule: conforms_conforms_fields.induct)
     (auto simp: flat_libs_def split: tree.splits list.splits)

lemma assign_deep [deep_intros]:
  assumes "flat_libs lib flats" and "flat_type flats ty"
  shows "deep_copies lib ty assign"
  unfolding deep_copies_def
proof (intro allI impI)
  fix h v t
  assume t: "conforms lib ty t" and r: "rep 0 h v t"
  have "flat t" using conforms_flat(1)[OF assms t] .
  then have "rep (length h) (h @ []) v t" using rep_flat(1) r by blast
  then show "\<exists>v' g. assign v h = Some (v', h @ g) \<and> rep (length h) (h @ g) v' t"
    by (intro exI[of _ v] exI[of _ "[]"]) (simp add: assign_def)
qed

section \<open>Pointers, slices and maps\<close>

lemma rep_ptr_cell: "rep lo h x t \<Longrightarrow> lo \<le> length h \<Longrightarrow> rep lo (h @ [CVar x]) (VRef (length h)) (TPtr t)"
  using rep_mono(1)[of lo h x t lo "[CVar x]"] by simp

lemma rep_slice_cell:
  "rep_list lo h xs ts \<Longrightarrow> lo \<le> length h \<Longrightarrow> rep lo (h @ [CArray xs]) (VRef (length h)) (TSlice ts)"
  using rep_mono(2)[of lo h xs ts lo "[CArray xs]"] by simp

lemma nil_deep: "f VNil h = Some (VNil, h) \<Longrightarrow> rep 0 h v TNil \<Longrightarrow>
    \<exists>v' g. f v h = Some (v', h @ g) \<and> rep (length h) (h @ g) v' TNil"
  by (intro exI[of _ VNil] exI[of _ "[]"]) simp

lemma new_copy_deep [deep_intros]:
  assumes "deep_copies lib ty f"
  shows "deep_copies lib (Pointer ty) (new_copy f)"
  unfolding deep_copies_def
proof (intro allI impI)
  fix h v t
  assume t: "conforms lib (Pointer ty) t" and r: "rep 0 h v t"
  show "\<exists>v' g. new_copy f v h = Some (v', h @ g) \<and> rep (length h) (h @ g) v' t"
  proof (cases t)
    case TNil
    then show ?thesis using nil_deep[of "new_copy f"] r by (simp add: new_copy_def)
  next
    case (TPtr u)
    obtain a x where v: "v = VRef a" "load h a = Some (CVar x)" and x: "rep 0 h x u"
      using r TPtr by (auto split: val.splits option.splits cell.splits)
    have "conforms lib ty u" using t TPtr by simp
    then obtain x' g where f: "f x h = Some (x', h @ g)" and x': "rep (length h) (h @ g) x' u"
      using deep_copiesD[OF assms _ x] by blast
    have "rep (length h) (h @ g @ [CVar x']) (VRef (length (h @ g))) (TPtr u)"
      using rep_ptr_cell[OF x'] by simp
    then show ?thesis using v f TPtr
      by (intro exI[of _ "VRef (length (h @ g))"] exI[of _ "g @ [CVar x']"]) (simp add: new_copy_def)
  qed (use t in simp_all)
qed

lemma copy_elements_deep:
  assumes "deep_copies lib ty f"
  shows "list_all (conforms lib ty) ts \<Longrightarrow> rep_list 0 h vs ts \<Longrightarrow>
     \<exists>vs' g. copy_elements f vs h = Some (vs', h @ g) \<and> rep_list (length h) (h @ g) vs' ts"
proof (induction ts arbitrary: vs h)
  case Nil
  then show ?case by simp
next
  case (Cons t ts)
  obtain v ws where vs: "vs = v # ws" and v: "rep 0 h v t" and ws: "rep_list 0 h ws ts"
    using Cons.prems(2) by (auto split: list.splits)
  have "conforms lib ty t" using Cons.prems(1) by simp
  then obtain v' g where f: "f v h = Some (v', h @ g)" and v': "rep (length h) (h @ g) v' t"
    using deep_copiesD[OF assms _ v] by blast
  have "rep_list 0 (h @ g) ws ts" using rep_mono(2)[OF ws] by simp
  then obtain ws' g' where e: "copy_elements f ws (h @ g) = Some (ws', (h @ g) @ g')"
    and ws': "rep_list (length (h @ g)) ((h @ g) @ g') ws' ts"
    using Cons.IH[of "h @ g" ws] Cons.prems(1) by auto
  have "rep_list (length h) (h @ g @ g') ws' ts"
    using rep_mono(2)[OF ws', of "length h" "[]"] by simp
  moreover have "rep (length h) (h @ g @ g') v' t" using rep_mono(1)[OF v', of "length h" g'] by simp
  ultimately show ?case
    using f e vs by (intro exI[of _ "v' # ws'"] exI[of _ "g @ g'"]) simp
qed

lemma make_slice_deep [deep_intros]:
  assumes "deep_copies lib ty f"
  shows "deep_copies lib (SliceOf ty) (make_slice f)"
  unfolding deep_copies_def
proof (intro allI impI)
  fix h v t
  assume t: "conforms lib (SliceOf ty) t" and r: "rep 0 h v t"
  show "\<exists>v' g. make_slice f v h = Some (v', h @ g) \<and> rep (length h) (h @ g) v' t"
  proof (cases t)
    case TNil
    then show ?thesis using nil_deep[of "make_slice f"] r by (simp add: make_slice_def)
  next
    case (TSlice us)
    obtain a xs where v: "v = VRef a" "load h a = Some (CArray xs)" and xs: "rep_list 0 h xs us"
      using r TSlice by (auto split: val.splits option.splits cell.splits)
    have "list_all (conforms lib ty) us" using t TSlice by simp
    then obtain xs' g where f: "copy_elements f xs h = Some (xs', h @ g)"
      and xs': "rep_list (length h) (h @ g) xs' us"
      using copy_elements_deep[OF assms _ xs] by blast
    have "rep (length h) (h @ g @ [CArray xs']) (VRef (length (h @ g))) (TSlice us)"
      using rep_slice_cell[OF xs'] by simp
    then show ?thesis using v f TSlice
      by (intro exI[of _ "VRef (length (h @ g))"] exI[of _ "g @ [CArray xs']"]) (simp add: make_slice_def)
  qed (use t in simp_all)
qed

text \<open>The loop over a map fills an equal map, whatever its order.\<close>

lemma foldl_fmupd_other:
  "n \<notin> fst ` set kvs \<Longrightarrow> fmlookup (foldl (\<lambda>m (key, x). fmupd key x m) m kvs) n = fmlookup m n"
  by (induction kvs arbitrary: m) auto

lemma foldl_fmupd:
  "distinct (map fst kvs) \<Longrightarrow> fmlookup (foldl (\<lambda>m (key, x). fmupd key x m) m kvs) n =
     (case map_of kvs n of None \<Rightarrow> fmlookup m n | Some x \<Rightarrow> Some x)"
proof (induction kvs arbitrary: m)
  case (Cons kv kvs)
  obtain key x where kv: "kv = (key, x)" by fastforce
  show ?case
  proof (cases "n = key")
    case True
    then show ?thesis using Cons.prems foldl_fmupd_other[of key kvs "fmupd key x m"] by (simp add: kv)
  next
    case False
    then show ?thesis using Cons.IH[of "fmupd key x m"] Cons.prems by (simp add: kv split: option.split)
  qed
qed simp

lemma range_copy:
  assumes "is_order ord"
  shows "foldl (\<lambda>m (key, x). fmupd key x m) fmempty (go_range ord m) = m"
proof (rule fmap_ext)
  fix n
  have "distinct (map fst (go_range ord m))" using assms by simp
  then show "fmlookup (foldl (\<lambda>m (key, x). fmupd key x m) fmempty (go_range ord m)) n = fmlookup m n"
    using go_range_map_of[OF assms, of m] by (simp add: foldl_fmupd split: option.split)
qed

lemma make_map_deep [deep_intros]:
  assumes "is_order ord"
  shows "deep_copies lib StringMap (make_map ord)"
  unfolding deep_copies_def
proof (intro allI impI)
  fix h v t
  assume t: "conforms lib StringMap t" and r: "rep 0 h v t"
  show "\<exists>v' g. make_map ord v h = Some (v', h @ g) \<and> rep (length h) (h @ g) v' t"
  proof (cases t)
    case TNil
    then show ?thesis using nil_deep[of "make_map ord"] r by (simp add: make_map_def)
  next
    case (TMap m)
    obtain a where v: "v = VRef a" "load h a = Some (CMap m)" using r TMap by (auto split: val.splits)
    then show ?thesis using TMap
      by (intro exI[of _ "VRef (length h)"] exI[of _ "[CMap m]"]) (simp add: make_map_def range_copy[OF assms])
  qed (use t in simp_all)
qed

section \<open>Structs\<close>

text \<open>Fields by name.\<close>

lemma rep_fields_iff:
  "distinct (map fst ts) \<Longrightarrow> rep_fields lo h vs ts \<longleftrightarrow>
     map fst vs = map fst ts \<and> (\<forall>n t. map_of ts n = Some t \<longrightarrow> (\<exists>v. map_of vs n = Some v \<and> rep lo h v t))"
proof (induction ts arbitrary: vs)
  case (Cons nt ts)
  obtain n t where nt: "nt = (n, t)" by fastforce
  have n: "map_of ts n = None" using Cons.prems nt by (simp add: map_of_eq_None_iff)
  show ?case
  proof (cases vs)
    case Nil
    then show ?thesis by (simp add: nt)
  next
    case (Cons mv ws)
    obtain m v where mv: "mv = (m, v)" by fastforce
    have IH: "rep_fields lo h ws ts \<longleftrightarrow> map fst ws = map fst ts \<and>
        (\<forall>n t. map_of ts n = Some t \<longrightarrow> (\<exists>v. map_of ws n = Some v \<and> rep lo h v t))"
      using Cons.IH[of ws] Cons.prems by simp
    show ?thesis unfolding \<open>vs = mv # ws\<close> nt mv rep_fields.simps IH list.case prod.case
      using n by auto
  qed
qed simp

lemma conforms_fields_iff:
  "distinct (map fst fs) \<Longrightarrow> conforms_fields lib fs ts \<longleftrightarrow>
     map fst ts = map fst fs \<and> (\<forall>n ty. map_of fs n = Some ty \<longrightarrow> (\<exists>t. map_of ts n = Some t \<and> conforms lib ty t))"
proof (induction fs arbitrary: ts)
  case (Cons nt fs)
  obtain n ty where nt: "nt = (n, ty)" by fastforce
  have n: "map_of fs n = None" using Cons.prems nt by (simp add: map_of_eq_None_iff)
  show ?case
  proof (cases ts)
    case Nil
    then show ?thesis by (simp add: nt)
  next
    case (Cons mv ws)
    obtain m v where mv: "mv = (m, v)" by fastforce
    have IH: "conforms_fields lib fs ws \<longleftrightarrow> map fst ws = map fst fs \<and>
        (\<forall>n ty. map_of fs n = Some ty \<longrightarrow> (\<exists>t. map_of ws n = Some t \<and> conforms lib ty t))"
      using Cons.IH[of ws] Cons.prems by simp
    show ?thesis unfolding \<open>ts = mv # ws\<close> nt mv conforms_fields.simps IH list.case prod.case
      using n by auto
  qed
qed simp

lemma set_field_keys [simp]: "map fst (set_field n v out) = map fst out"
  by (induction out) (auto simp: set_field_def)

lemma set_field_lookup:
  "map_of (set_field n v out) m =
     (if m = n then map_option (\<lambda>_. v) (map_of out n) else map_of out m)"
  by (induction out) (auto simp: set_field_def)

text \<open>
  \<open>separated h0 h ts out n\<close>: the field \<open>n\<close> of \<open>out\<close> stands for that of \<open>ts\<close> and refers to cells
  allocated after \<open>h0\<close>. Each statement adds its field to those that are separated.
\<close>

definition separated :: "heap \<Rightarrow> heap \<Rightarrow> (string \<times> tree) list \<Rightarrow> (string \<times> val) list \<Rightarrow> string \<Rightarrow> bool" where
  "separated h0 h ts out n \<longleftrightarrow>
     (\<forall>t. map_of ts n = Some t \<longrightarrow> (\<exists>v. map_of out n = Some v \<and> rep (length h0) h v t))"

lemma separated_mono: "separated h0 h ts out n \<Longrightarrow> separated h0 (h @ g) ts out n"
  unfolding separated_def by (meson order_refl rep_mono(1))

lemma copy_fields_deep:
  assumes "\<And>n t. map_of ts n = Some t \<Longrightarrow> \<exists>v. map_of fields n = Some v \<and> rep 0 h0 v t"
  shows "\<forall>(n, f)\<in>set ss. \<exists>ty t. deep_copies lib ty f \<and> map_of ts n = Some t \<and> conforms lib ty t \<Longrightarrow>
     map fst out = map fst fields \<Longrightarrow> \<forall>n\<in>D. separated h0 (h0 @ g) ts out n \<Longrightarrow>
     \<exists>out' g'. copy_fields ss fields out (h0 @ g) = Some (out', h0 @ g') \<and> map fst out' = map fst fields \<and>
        (\<forall>n \<in> D \<union> fst ` set ss. separated h0 (h0 @ g') ts out' n)"
proof (induction ss arbitrary: out g D)
  case Nil
  then show ?case by auto
next
  case (Cons s ss)
  obtain n f where s: "s = (n, f)" by fastforce
  obtain ty t where f: "deep_copies lib ty f" and t: "map_of ts n = Some t" "conforms lib ty t"
    using Cons.prems(1) s by auto
  obtain v where v: "map_of fields n = Some v" "rep 0 h0 v t" using assms t(1) by blast
  have "rep 0 (h0 @ g) v t" using rep_mono(1)[OF v(2)] by simp
  then obtain v' g' where v': "f v (h0 @ g) = Some (v', (h0 @ g) @ g')"
    and r: "rep (length (h0 @ g)) ((h0 @ g) @ g') v' t"
    using deep_copiesD[OF f t(2)] by blast
  have "rep (length h0) (h0 @ g @ g') v' t" using rep_mono(1)[OF r, of "length h0" "[]"] by simp
  moreover have "map_of out n \<noteq> None"
    using v(1) Cons.prems(2) by (metis map_of_eq_None_iff list.set_map option.distinct(1))
  ultimately have new: "separated h0 (h0 @ g @ g') ts (set_field n v' out) n"
    using t(1) by (auto simp: separated_def set_field_lookup)
  have "separated h0 (h0 @ g @ g') ts (set_field n v' out) m" if m: "m \<in> D" for m
  proof (cases "m = n")
    case False
    have "separated h0 ((h0 @ g) @ g') ts out m" using Cons.prems(3) m separated_mono by blast
    then show ?thesis using False by (simp add: separated_def set_field_lookup)
  qed (use new in simp)
  with new have all: "\<forall>m\<in>insert n D. separated h0 (h0 @ g @ g') ts (set_field n v' out) m" by blast
  have "\<exists>out' g''. copy_fields ss fields (set_field n v' out) (h0 @ g @ g') = Some (out', h0 @ g'') \<and>
      map fst out' = map fst fields \<and> (\<forall>m\<in>insert n D \<union> fst ` set ss. separated h0 (h0 @ g'') ts out' m)"
    by (rule Cons.IH) (use Cons.prems all in simp_all)
  then show ?case using v(1) v' s by simp
qed

text \<open>A \<open>DeepCopyInto\<close> is deep when it treats each field that is not flat.\<close>

definition statements_cover ::
  "(string \<Rightarrow> tree \<Rightarrow> bool) \<Rightarrow> string set \<Rightarrow> (string \<times> gotype) list \<Rightarrow> (string \<times> copier) list \<Rightarrow> bool" where
  "statements_cover lib flats fs ss \<longleftrightarrow>
     list_all (\<lambda>(n, f). case map_of fs n of None \<Rightarrow> False | Some ty \<Rightarrow> deep_copies lib ty f) ss \<and>
     list_all (\<lambda>(n, ty). n \<in> fst ` set ss \<or> flat_type flats ty) fs"

lemma copy_struct_deep:
  assumes flats: "flat_libs lib flats" and d: "distinct (map fst fs)" and c: "statements_cover lib flats fs ss"
  shows "deep_copies lib (Struct fs) (copy_struct ss)"
  unfolding deep_copies_def
proof (intro allI impI)
  fix h v t
  assume t: "conforms lib (Struct fs) t" and r: "rep 0 h v t"
  obtain ts where ts: "t = TStruct ts" "conforms_fields lib fs ts" using t by (auto split: tree.splits)
  obtain vs where vs: "v = VStruct vs" "rep_fields 0 h vs ts" using r ts(1) by (auto split: val.splits)
  have tsd: "map fst ts = map fst fs" "distinct (map fst ts)"
    using ts(2) d by (simp_all add: conforms_fields_iff)
  have tt: "\<And>n ty. map_of fs n = Some ty \<Longrightarrow> \<exists>t. map_of ts n = Some t \<and> conforms lib ty t"
    using ts(2) conforms_fields_iff[OF d] by blast
  have vsd: "map fst vs = map fst ts"
    using vs(2) tsd(2) by (simp add: rep_fields_iff)
  have vv: "\<And>n t. map_of ts n = Some t \<Longrightarrow> \<exists>v. map_of vs n = Some v \<and> rep 0 h v t"
    using vs(2) rep_fields_iff[OF tsd(2)] by blast
  have listed: "\<forall>(n, f)\<in>set ss. \<exists>ty t. deep_copies lib ty f \<and> map_of ts n = Some t \<and> conforms lib ty t"
  proof (intro ballI, clarify)
    fix n f assume "(n, f) \<in> set ss"
    then obtain ty where ty: "map_of fs n = Some ty" "deep_copies lib ty f"
      using c by (auto simp: statements_cover_def list_all_iff split: option.splits)
    then show "\<exists>ty t. deep_copies lib ty f \<and> map_of ts n = Some t \<and> conforms lib ty t"
      using tt[OF ty(1)] by blast
  qed
  have flat_ones: "separated h (h @ []) ts vs n" if n: "n \<notin> fst ` set ss" for n
    unfolding separated_def
  proof (intro allI impI)
    fix t assume tn: "map_of ts n = Some t"
    have "n \<in> set (map fst fs)"
      unfolding tsd(1)[symmetric] using tn by (force dest: map_of_SomeD)
    then obtain ty where ty: "map_of fs n = Some ty" by (metis map_of_eq_None_iff list.set_map not_Some_eq)
    have "flat_type flats ty"
      using c n map_of_SomeD[OF ty] by (auto simp: statements_cover_def list_all_iff)
    moreover have "conforms lib ty t" using tt[OF ty] tn by simp
    ultimately have "flat t" using conforms_flat(1)[OF flats] by blast
    then show "\<exists>v. map_of vs n = Some v \<and> rep (length h) (h @ []) v t" using vv[OF tn] rep_flat(1) by blast
  qed
  obtain out g where out: "copy_fields ss vs vs (h @ []) = Some (out, h @ g)" "map fst out = map fst vs"
      "\<forall>n \<in> - fst ` set ss \<union> fst ` set ss. separated h (h @ g) ts out n"
    using copy_fields_deep[OF vv listed refl, of "- fst ` set ss" "[]"] flat_ones by auto
  have "rep_fields (length h) (h @ g) out ts"
    unfolding rep_fields_iff[OF tsd(2)] using out(2,3) vsd by (simp add: separated_def)
  then show "\<exists>v' g. copy_struct ss v h = Some (v', h @ g) \<and> rep (length h) (h @ g) v' t"
    using out(1) vs(1) ts(1) by (intro exI[of _ "VStruct out"] exI[of _ g]) (simp add: copy_struct_def)
qed

text \<open>
  \<open>DeepCopyObject\<close>: the copy under the name of its type, and no object for a nil receiver.
\<close>

definition object_copies ::
  "(string \<Rightarrow> tree \<Rightarrow> bool) \<Rightarrow> string \<Rightarrow> gotype \<Rightarrow> (val \<Rightarrow> heap \<Rightarrow> ((string \<times> val) option \<times> heap) option) \<Rightarrow> bool"
  where
  "object_copies lib name ty f \<longleftrightarrow> (\<forall>h v t. conforms lib (Pointer ty) t \<longrightarrow> rep 0 h v t \<longrightarrow>
     (\<exists>c g. f v h = Some (if v = VNil then None else Some (name, c), h @ g) \<and> rep (length h) (h @ g) c t))"

lemma rep_pointer_nil: "conforms lib (Pointer ty) t \<Longrightarrow> rep lo h v t \<Longrightarrow> v = VNil \<longleftrightarrow> t = TNil"
  by (auto split: tree.splits val.splits)

lemma copy_object_deep [deep_intros]:
  assumes "deep_copies lib (Pointer ty) f"
  shows "object_copies lib name ty (copy_object name f)"
  unfolding object_copies_def
proof (intro allI impI)
  fix h v t
  assume t: "conforms lib (Pointer ty) t" and r: "rep 0 h v t"
  obtain c g where f: "f v h = Some (c, h @ g)" "rep (length h) (h @ g) c t"
    using deep_copiesD[OF assms t r] by blast
  have "c = VNil \<longleftrightarrow> v = VNil" using rep_pointer_nil[OF t] r f(2) by blast
  then show "\<exists>c g. copy_object name f v h = Some (if v = VNil then None else Some (name, c), h @ g) \<and>
      rep (length h) (h @ g) c t"
    using f by (intro exI[of _ c] exI[of _ g]) (simp add: copy_object_def)
qed

end
