(* ===== verification/Deep_Copy_Types.thy ===== *)
theory Deep_Copy_Types
  imports Deep_Copy
begin

text \<open>
  The struct types of \<open>api/v1alpha1\<close> as \<open>gotype\<close>s, field by field: \<open>string\<close> and its named variants,
  \<open>bool\<close> and the integers are \<open>Basic\<close>; a type of a library is \<open>Lib\<close> with its qualified name. A type
  stands after those its fields mention.
\<close>

definition AgentProtocol_type :: gotype where
  "AgentProtocol_type = Struct
     [(''Name'', Basic), (''Type'', Basic), (''Port'', Basic), (''Path'', Basic)]"

definition SubAgent_type :: gotype where
  "SubAgent_type = Struct
     [(''Name'', Basic), (''AgentRef'', Pointer (Lib ''v1.ObjectReference'')), (''Url'', Basic),
      (''InteractionType'', Basic)]"

definition ExternalUpstream_type :: gotype where
  "ExternalUpstream_type = Struct
     [(''Url'', Basic)]"

definition AgentToolUpstream_type :: gotype where
  "AgentToolUpstream_type = Struct
     [(''ToolRouteRef'', Pointer (Lib ''v1.ObjectReference'')),
      (''ToolServerRef'', Pointer (Lib ''v1.ObjectReference'')),
      (''External'', Pointer ExternalUpstream_type)]"

definition AgentTool_type :: gotype where
  "AgentTool_type = Struct
     [(''Name'', Basic), (''Upstream'', AgentToolUpstream_type), (''PropagatedHeaders'', SliceOf Basic)]"

definition EmbeddedMetadata_type :: gotype where
  "EmbeddedMetadata_type = Struct
     [(''Labels'', StringMap), (''Annotations'', StringMap)]"

definition AgentSpec_type :: gotype where
  "AgentSpec_type = Struct
     [(''Framework'', Basic), (''Replicas'', Pointer Basic), (''Image'', Basic),
      (''Description'', Basic), (''Instruction'', Basic), (''Model'', Basic),
      (''SubAgents'', SliceOf SubAgent_type), (''Tools'', SliceOf AgentTool_type),
      (''Protocols'', SliceOf AgentProtocol_type), (''Exposed'', Basic),
      (''AiGatewayRef'', Pointer (Lib ''v1.ObjectReference'')), (''Env'', SliceOf (Lib ''v1.EnvVar'')),
      (''EnvFrom'', SliceOf (Lib ''v1.EnvFromSource'')),
      (''VolumeMounts'', SliceOf (Lib ''v1.VolumeMount'')), (''Volumes'', SliceOf (Lib ''v1.Volume'')),
      (''Resources'', Pointer (Lib ''v1.ResourceRequirements'')),
      (''CommonMetadata'', Pointer EmbeddedMetadata_type),
      (''PodMetadata'', Pointer EmbeddedMetadata_type)]"

definition AgentStatus_type :: gotype where
  "AgentStatus_type = Struct
     [(''Conditions'', SliceOf (Lib ''metav1.Condition'')), (''Url'', Basic),
      (''AiGatewayRef'', Pointer (Lib ''v1.ObjectReference''))]"

definition Agent_type :: gotype where
  "Agent_type = Struct
     [(''TypeMeta'', Lib ''metav1.TypeMeta''), (''ObjectMeta'', Lib ''metav1.ObjectMeta''),
      (''Spec'', AgentSpec_type), (''Status'', AgentStatus_type)]"

definition AgentList_type :: gotype where
  "AgentList_type = Struct
     [(''TypeMeta'', Lib ''metav1.TypeMeta''), (''ListMeta'', Lib ''metav1.ListMeta''),
      (''Items'', SliceOf Agent_type)]"

definition AgentGatewaySpec_type :: gotype where
  "AgentGatewaySpec_type = Struct
     [(''AgentGatewayClassName'', Basic), (''Replicas'', Pointer Basic),
      (''Timeout'', Pointer (Lib ''metav1.Duration'')), (''Env'', SliceOf (Lib ''v1.EnvVar'')),
      (''EnvFrom'', SliceOf (Lib ''v1.EnvFromSource'')),
      (''CommonMetadata'', Pointer EmbeddedMetadata_type),
      (''PodMetadata'', Pointer EmbeddedMetadata_type),
      (''Guardrails'', SliceOf (Lib ''v1.ObjectReference''))]"

definition AgentGatewayStatus_type :: gotype where
  "AgentGatewayStatus_type = Struct
     [(''Conditions'', SliceOf (Lib ''metav1.Condition''))]"

definition AgentGateway_type :: gotype where
  "AgentGateway_type = Struct
     [(''TypeMeta'', Lib ''metav1.TypeMeta''), (''ObjectMeta'', Lib ''metav1.ObjectMeta''),
      (''Spec'', AgentGatewaySpec_type), (''Status'', AgentGatewayStatus_type)]"

definition AgentGatewayList_type :: gotype where
  "AgentGatewayList_type = Struct
     [(''TypeMeta'', Lib ''metav1.TypeMeta''), (''ListMeta'', Lib ''metav1.ListMeta''),
      (''Items'', SliceOf AgentGateway_type)]"

definition AgentGatewayClassSpec_type :: gotype where
  "AgentGatewayClassSpec_type = Struct
     [(''Controller'', Basic)]"

definition AgentGatewayClassStatus_type :: gotype where
  "AgentGatewayClassStatus_type = Struct
     [(''Conditions'', SliceOf (Lib ''metav1.Condition''))]"

definition AgentGatewayClass_type :: gotype where
  "AgentGatewayClass_type = Struct
     [(''TypeMeta'', Lib ''metav1.TypeMeta''), (''ObjectMeta'', Lib ''metav1.ObjectMeta''),
      (''Spec'', AgentGatewayClassSpec_type), (''Status'', AgentGatewayClassStatus_type)]"

definition AgentGatewayClassList_type :: gotype where
  "AgentGatewayClassList_type = Struct
     [(''TypeMeta'', Lib ''metav1.TypeMeta''), (''ListMeta'', Lib ''metav1.ListMeta''),
      (''Items'', SliceOf AgentGatewayClass_type)]"

definition TransitiveAgent_type :: gotype where
  "TransitiveAgent_type = Struct
     [(''Name'', Basic), (''Namespace'', Basic), (''Url'', Basic)]"

definition AgenticWorkforceSpec_type :: gotype where
  "AgenticWorkforceSpec_type = Struct
     [(''Name'', Basic), (''Description'', Basic), (''Owner'', Basic), (''Tags'', SliceOf Basic),
      (''EntryPointAgents'', SliceOf (Pointer (Lib ''v1.ObjectReference'')))]"

definition AgenticWorkforceStatus_type :: gotype where
  "AgenticWorkforceStatus_type = Struct
     [(''Conditions'', SliceOf (Lib ''metav1.Condition'')),
      (''TransitiveAgents'', SliceOf TransitiveAgent_type), (''TransitiveTools'', SliceOf Basic)]"

definition AgenticWorkforce_type :: gotype where
  "AgenticWorkforce_type = Struct
     [(''TypeMeta'', Lib ''metav1.TypeMeta''), (''ObjectMeta'', Lib ''metav1.ObjectMeta''),
      (''Spec'', AgenticWorkforceSpec_type), (''Status'', AgenticWorkforceStatus_type)]"

definition AgenticWorkforceList_type :: gotype where
  "AgenticWorkforceList_type = Struct
     [(''TypeMeta'', Lib ''metav1.TypeMeta''), (''ListMeta'', Lib ''metav1.ListMeta''),
      (''Items'', SliceOf AgenticWorkforce_type)]"

definition AgentTemplateImages_type :: gotype where
  "AgentTemplateImages_type = Struct
     [(''GoogleAdk'', Basic), (''Msaf'', Basic)]"

definition AgentRuntimeConfigurationSpec_type :: gotype where
  "AgentRuntimeConfigurationSpec_type = Struct
     [(''DefaultFramework'', Basic), (''AgentTemplateImages'', Pointer AgentTemplateImages_type)]"

definition AgentRuntimeConfigurationStatus_type :: gotype where
  "AgentRuntimeConfigurationStatus_type = Struct
     [(''Conditions'', SliceOf (Lib ''metav1.Condition''))]"

definition AgentRuntimeConfiguration_type :: gotype where
  "AgentRuntimeConfiguration_type = Struct
     [(''TypeMeta'', Lib ''metav1.TypeMeta''), (''ObjectMeta'', Lib ''metav1.ObjectMeta''),
      (''Spec'', AgentRuntimeConfigurationSpec_type),
      (''Status'', AgentRuntimeConfigurationStatus_type)]"

definition AgentRuntimeConfigurationList_type :: gotype where
  "AgentRuntimeConfigurationList_type = Struct
     [(''TypeMeta'', Lib ''metav1.TypeMeta''), (''ListMeta'', Lib ''metav1.ListMeta''),
      (''Items'', SliceOf AgentRuntimeConfiguration_type)]"

definition AiModel_type :: gotype where
  "AiModel_type = Struct
     [(''Name'', Basic), (''Provider'', Basic)]"

definition AiGatewaySpec_type :: gotype where
  "AiGatewaySpec_type = Struct
     [(''AiGatewayClassName'', Basic), (''Port'', Basic), (''AiModels'', SliceOf AiModel_type),
      (''Env'', SliceOf (Lib ''v1.EnvVar'')), (''EnvFrom'', SliceOf (Lib ''v1.EnvFromSource'')),
      (''Guardrails'', SliceOf (Lib ''v1.ObjectReference'')),
      (''CommonMetadata'', Pointer EmbeddedMetadata_type),
      (''PodMetadata'', Pointer EmbeddedMetadata_type)]"

definition AiGatewayStatus_type :: gotype where
  "AiGatewayStatus_type = Struct
     [(''Conditions'', SliceOf (Lib ''metav1.Condition''))]"

definition AiGateway_type :: gotype where
  "AiGateway_type = Struct
     [(''TypeMeta'', Lib ''metav1.TypeMeta''), (''ObjectMeta'', Lib ''metav1.ObjectMeta''),
      (''Spec'', AiGatewaySpec_type), (''Status'', AiGatewayStatus_type)]"

definition AiGatewayList_type :: gotype where
  "AiGatewayList_type = Struct
     [(''TypeMeta'', Lib ''metav1.TypeMeta''), (''ListMeta'', Lib ''metav1.ListMeta''),
      (''Items'', SliceOf AiGateway_type)]"

definition AiGatewayClassSpec_type :: gotype where
  "AiGatewayClassSpec_type = Struct
     [(''Controller'', Basic)]"

definition AiGatewayClassStatus_type :: gotype where
  "AiGatewayClassStatus_type = Struct
     [(''Conditions'', SliceOf (Lib ''metav1.Condition''))]"

definition AiGatewayClass_type :: gotype where
  "AiGatewayClass_type = Struct
     [(''TypeMeta'', Lib ''metav1.TypeMeta''), (''ObjectMeta'', Lib ''metav1.ObjectMeta''),
      (''Spec'', AiGatewayClassSpec_type), (''Status'', AiGatewayClassStatus_type)]"

definition AiGatewayClassList_type :: gotype where
  "AiGatewayClassList_type = Struct
     [(''TypeMeta'', Lib ''metav1.TypeMeta''), (''ListMeta'', Lib ''metav1.ListMeta''),
      (''Items'', SliceOf AiGatewayClass_type)]"

definition OpenAIModerationGuardConfig_type :: gotype where
  "OpenAIModerationGuardConfig_type = Struct
     [(''Model'', Basic)]"

definition BedrockGuardConfig_type :: gotype where
  "BedrockGuardConfig_type = Struct
     [(''GuardrailId'', Basic), (''GuardrailVersion'', Basic)]"

definition PresidioGuardConfig_type :: gotype where
  "PresidioGuardConfig_type = Struct
     [(''Language'', Basic), (''ScoreThresholds'', StringMap), (''EntityActions'', StringMap)]"

definition GuardSpec_type :: gotype where
  "GuardSpec_type = Struct
     [(''Mode'', SliceOf Basic), (''Description'', Basic),
      (''ProviderRef'', Lib ''v1.ObjectReference''),
      (''OpenAIModeration'', Pointer OpenAIModerationGuardConfig_type),
      (''Bedrock'', Pointer BedrockGuardConfig_type), (''Presidio'', Pointer PresidioGuardConfig_type)]"

definition GuardStatus_type :: gotype where
  "GuardStatus_type = Struct
     [(''Conditions'', SliceOf (Lib ''metav1.Condition''))]"

definition Guard_type :: gotype where
  "Guard_type = Struct
     [(''TypeMeta'', Lib ''metav1.TypeMeta''), (''ObjectMeta'', Lib ''metav1.ObjectMeta''),
      (''Spec'', GuardSpec_type), (''Status'', GuardStatus_type)]"

definition GuardList_type :: gotype where
  "GuardList_type = Struct
     [(''TypeMeta'', Lib ''metav1.TypeMeta''), (''ListMeta'', Lib ''metav1.ListMeta''),
      (''Items'', SliceOf Guard_type)]"

definition OpenAIModerationProviderConfig_type :: gotype where
  "OpenAIModerationProviderConfig_type = Struct
     [(''BaseUrl'', Basic), (''ApiKeySecretRef'', Pointer (Lib ''v1.SecretKeySelector''))]"

definition BedrockProviderConfig_type :: gotype where
  "BedrockProviderConfig_type = Struct
     [(''Region'', Basic), (''CredentialsSecretRef'', Pointer (Lib ''v1.SecretReference''))]"

definition PresidioProviderConfig_type :: gotype where
  "PresidioProviderConfig_type = Struct
     [(''BaseUrl'', Basic), (''ApiKeySecretRef'', Pointer (Lib ''v1.SecretKeySelector''))]"

definition GuardrailProviderSpec_type :: gotype where
  "GuardrailProviderSpec_type = Struct
     [(''Type'', Basic), (''OpenAIModeration'', Pointer OpenAIModerationProviderConfig_type),
      (''Bedrock'', Pointer BedrockProviderConfig_type),
      (''Presidio'', Pointer PresidioProviderConfig_type)]"

definition GuardrailProviderStatus_type :: gotype where
  "GuardrailProviderStatus_type = Struct
     [(''Conditions'', SliceOf (Lib ''metav1.Condition''))]"

definition GuardrailProvider_type :: gotype where
  "GuardrailProvider_type = Struct
     [(''TypeMeta'', Lib ''metav1.TypeMeta''), (''ObjectMeta'', Lib ''metav1.ObjectMeta''),
      (''Spec'', GuardrailProviderSpec_type), (''Status'', GuardrailProviderStatus_type)]"

definition GuardrailProviderList_type :: gotype where
  "GuardrailProviderList_type = Struct
     [(''TypeMeta'', Lib ''metav1.TypeMeta''), (''ListMeta'', Lib ''metav1.ListMeta''),
      (''Items'', SliceOf GuardrailProvider_type)]"

definition ToolGatewaySpec_type :: gotype where
  "ToolGatewaySpec_type = Struct
     [(''ToolGatewayClassName'', Basic), (''Env'', SliceOf (Lib ''v1.EnvVar'')),
      (''EnvFrom'', SliceOf (Lib ''v1.EnvFromSource'')),
      (''CommonMetadata'', Pointer EmbeddedMetadata_type),
      (''PodMetadata'', Pointer EmbeddedMetadata_type),
      (''Guardrails'', SliceOf (Lib ''v1.ObjectReference''))]"

definition ToolGatewayStatus_type :: gotype where
  "ToolGatewayStatus_type = Struct
     [(''Conditions'', SliceOf (Lib ''metav1.Condition'')), (''Url'', Basic)]"

definition ToolGateway_type :: gotype where
  "ToolGateway_type = Struct
     [(''TypeMeta'', Lib ''metav1.TypeMeta''), (''ObjectMeta'', Lib ''metav1.ObjectMeta''),
      (''Spec'', ToolGatewaySpec_type), (''Status'', ToolGatewayStatus_type)]"

definition ToolGatewayList_type :: gotype where
  "ToolGatewayList_type = Struct
     [(''TypeMeta'', Lib ''metav1.TypeMeta''), (''ListMeta'', Lib ''metav1.ListMeta''),
      (''Items'', SliceOf ToolGateway_type)]"

definition ToolGatewayClassSpec_type :: gotype where
  "ToolGatewayClassSpec_type = Struct
     [(''Controller'', Basic)]"

definition ToolGatewayClassStatus_type :: gotype where
  "ToolGatewayClassStatus_type = Struct
     [(''Conditions'', SliceOf (Lib ''metav1.Condition''))]"

definition ToolGatewayClass_type :: gotype where
  "ToolGatewayClass_type = Struct
     [(''TypeMeta'', Lib ''metav1.TypeMeta''), (''ObjectMeta'', Lib ''metav1.ObjectMeta''),
      (''Spec'', ToolGatewayClassSpec_type), (''Status'', ToolGatewayClassStatus_type)]"

definition ToolGatewayClassList_type :: gotype where
  "ToolGatewayClassList_type = Struct
     [(''TypeMeta'', Lib ''metav1.TypeMeta''), (''ListMeta'', Lib ''metav1.ListMeta''),
      (''Items'', SliceOf ToolGatewayClass_type)]"

definition ToolRouteUpstream_type :: gotype where
  "ToolRouteUpstream_type = Struct
     [(''ToolServerRef'', Pointer (Lib ''v1.ObjectReference'')),
      (''External'', Pointer ExternalUpstream_type)]"

definition ToolFilter_type :: gotype where
  "ToolFilter_type = Struct
     [(''Allow'', SliceOf Basic), (''Deny'', SliceOf Basic)]"

definition ToolRouteSpec_type :: gotype where
  "ToolRouteSpec_type = Struct
     [(''ToolGatewayRef'', Pointer (Lib ''v1.ObjectReference'')),
      (''Upstream'', ToolRouteUpstream_type), (''ToolFilter'', Pointer ToolFilter_type)]"

definition ToolRouteStatus_type :: gotype where
  "ToolRouteStatus_type = Struct
     [(''Url'', Basic), (''Conditions'', SliceOf (Lib ''metav1.Condition''))]"

definition ToolRoute_type :: gotype where
  "ToolRoute_type = Struct
     [(''TypeMeta'', Lib ''metav1.TypeMeta''), (''ObjectMeta'', Lib ''metav1.ObjectMeta''),
      (''Spec'', ToolRouteSpec_type), (''Status'', ToolRouteStatus_type)]"

definition ToolRouteList_type :: gotype where
  "ToolRouteList_type = Struct
     [(''TypeMeta'', Lib ''metav1.TypeMeta''), (''ListMeta'', Lib ''metav1.ListMeta''),
      (''Items'', SliceOf ToolRoute_type)]"

definition ToolServerSpec_type :: gotype where
  "ToolServerSpec_type = Struct
     [(''Protocol'', Basic), (''TransportType'', Basic), (''Image'', Basic),
      (''ImagePullSecrets'', SliceOf (Lib ''v1.LocalObjectReference'')), (''Command'', SliceOf Basic),
      (''Args'', SliceOf Basic), (''Port'', Basic), (''Path'', Basic), (''Replicas'', Pointer Basic),
      (''Env'', SliceOf (Lib ''v1.EnvVar'')), (''EnvFrom'', SliceOf (Lib ''v1.EnvFromSource'')),
      (''Resources'', Pointer (Lib ''v1.ResourceRequirements'')),
      (''CommonMetadata'', Pointer EmbeddedMetadata_type),
      (''PodMetadata'', Pointer EmbeddedMetadata_type)]"

definition ToolServerStatus_type :: gotype where
  "ToolServerStatus_type = Struct
     [(''Conditions'', SliceOf (Lib ''metav1.Condition'')), (''Url'', Basic)]"

definition ToolServer_type :: gotype where
  "ToolServer_type = Struct
     [(''TypeMeta'', Lib ''metav1.TypeMeta''), (''ObjectMeta'', Lib ''metav1.ObjectMeta''),
      (''Spec'', ToolServerSpec_type), (''Status'', ToolServerStatus_type)]"

definition ToolServerList_type :: gotype where
  "ToolServerList_type = Struct
     [(''TypeMeta'', Lib ''metav1.TypeMeta''), (''ListMeta'', Lib ''metav1.ListMeta''),
      (''Items'', SliceOf ToolServer_type)]"

end
