(* ===== verification/Deep_Copy_Api.thy ===== *)
theory Deep_Copy_Api
  imports Deep_Copy
begin

text \<open>
  The functions of \<open>zz_generated.deepcopy.go\<close>, type by type: \<open>DeepCopyInto\<close> with its statements in the
  order of the file, \<open>DeepCopy\<close>, and \<open>DeepCopyObject\<close> for the types the API server serves. What they
  call of the Kubernetes libraries, and the order a map is ranged over in, is an argument.
\<close>

record library =
  lib_copy :: "string \<Rightarrow> copier"  \<comment> \<open>\<open>DeepCopyInto\<close> of a library's type\<close>
  range_order :: map_order

definition AgentProtocol_DeepCopyInto :: "library \<Rightarrow> copier" where
  "AgentProtocol_DeepCopyInto l = copy_struct
     []"

definition AgentProtocol_DeepCopy :: "library \<Rightarrow> copier" where
  "AgentProtocol_DeepCopy l = new_copy (AgentProtocol_DeepCopyInto l)"

definition SubAgent_DeepCopyInto :: "library \<Rightarrow> copier" where
  "SubAgent_DeepCopyInto l = copy_struct
     [(''AgentRef'', new_copy assign)]"

definition SubAgent_DeepCopy :: "library \<Rightarrow> copier" where
  "SubAgent_DeepCopy l = new_copy (SubAgent_DeepCopyInto l)"

definition ExternalUpstream_DeepCopyInto :: "library \<Rightarrow> copier" where
  "ExternalUpstream_DeepCopyInto l = copy_struct
     []"

definition ExternalUpstream_DeepCopy :: "library \<Rightarrow> copier" where
  "ExternalUpstream_DeepCopy l = new_copy (ExternalUpstream_DeepCopyInto l)"

definition AgentToolUpstream_DeepCopyInto :: "library \<Rightarrow> copier" where
  "AgentToolUpstream_DeepCopyInto l = copy_struct
     [(''ToolRouteRef'', new_copy assign), (''ToolServerRef'', new_copy assign),
      (''External'', new_copy assign)]"

definition AgentToolUpstream_DeepCopy :: "library \<Rightarrow> copier" where
  "AgentToolUpstream_DeepCopy l = new_copy (AgentToolUpstream_DeepCopyInto l)"

definition AgentTool_DeepCopyInto :: "library \<Rightarrow> copier" where
  "AgentTool_DeepCopyInto l = copy_struct
     [(''Upstream'', AgentToolUpstream_DeepCopyInto l), (''PropagatedHeaders'', make_slice assign)]"

definition AgentTool_DeepCopy :: "library \<Rightarrow> copier" where
  "AgentTool_DeepCopy l = new_copy (AgentTool_DeepCopyInto l)"

definition EmbeddedMetadata_DeepCopyInto :: "library \<Rightarrow> copier" where
  "EmbeddedMetadata_DeepCopyInto l = copy_struct
     [(''Labels'', make_map (range_order l)), (''Annotations'', make_map (range_order l))]"

definition EmbeddedMetadata_DeepCopy :: "library \<Rightarrow> copier" where
  "EmbeddedMetadata_DeepCopy l = new_copy (EmbeddedMetadata_DeepCopyInto l)"

definition AgentSpec_DeepCopyInto :: "library \<Rightarrow> copier" where
  "AgentSpec_DeepCopyInto l = copy_struct
     [(''Replicas'', new_copy assign), (''SubAgents'', make_slice (SubAgent_DeepCopyInto l)),
      (''Tools'', make_slice (AgentTool_DeepCopyInto l)), (''Protocols'', make_slice assign),
      (''AiGatewayRef'', new_copy assign), (''Env'', make_slice (lib_copy l ''v1.EnvVar'')),
      (''EnvFrom'', make_slice (lib_copy l ''v1.EnvFromSource'')),
      (''VolumeMounts'', make_slice (lib_copy l ''v1.VolumeMount'')),
      (''Volumes'', make_slice (lib_copy l ''v1.Volume'')),
      (''Resources'', new_copy (lib_copy l ''v1.ResourceRequirements'')),
      (''CommonMetadata'', new_copy (EmbeddedMetadata_DeepCopyInto l)),
      (''PodMetadata'', new_copy (EmbeddedMetadata_DeepCopyInto l))]"

definition AgentSpec_DeepCopy :: "library \<Rightarrow> copier" where
  "AgentSpec_DeepCopy l = new_copy (AgentSpec_DeepCopyInto l)"

definition AgentStatus_DeepCopyInto :: "library \<Rightarrow> copier" where
  "AgentStatus_DeepCopyInto l = copy_struct
     [(''Conditions'', make_slice (lib_copy l ''metav1.Condition'')),
      (''AiGatewayRef'', new_copy assign)]"

definition AgentStatus_DeepCopy :: "library \<Rightarrow> copier" where
  "AgentStatus_DeepCopy l = new_copy (AgentStatus_DeepCopyInto l)"

definition Agent_DeepCopyInto :: "library \<Rightarrow> copier" where
  "Agent_DeepCopyInto l = copy_struct
     [(''TypeMeta'', assign), (''ObjectMeta'', lib_copy l ''metav1.ObjectMeta''),
      (''Spec'', AgentSpec_DeepCopyInto l), (''Status'', AgentStatus_DeepCopyInto l)]"

definition Agent_DeepCopy :: "library \<Rightarrow> copier" where
  "Agent_DeepCopy l = new_copy (Agent_DeepCopyInto l)"

definition Agent_DeepCopyObject :: "library \<Rightarrow> val \<Rightarrow> heap \<Rightarrow> ((string \<times> val) option \<times> heap) option" where
  "Agent_DeepCopyObject l = copy_object ''Agent'' (Agent_DeepCopy l)"

definition AgentList_DeepCopyInto :: "library \<Rightarrow> copier" where
  "AgentList_DeepCopyInto l = copy_struct
     [(''TypeMeta'', assign), (''ListMeta'', lib_copy l ''metav1.ListMeta''),
      (''Items'', make_slice (Agent_DeepCopyInto l))]"

definition AgentList_DeepCopy :: "library \<Rightarrow> copier" where
  "AgentList_DeepCopy l = new_copy (AgentList_DeepCopyInto l)"

definition AgentList_DeepCopyObject :: "library \<Rightarrow> val \<Rightarrow> heap \<Rightarrow> ((string \<times> val) option \<times> heap) option" where
  "AgentList_DeepCopyObject l = copy_object ''AgentList'' (AgentList_DeepCopy l)"

definition AgentGatewaySpec_DeepCopyInto :: "library \<Rightarrow> copier" where
  "AgentGatewaySpec_DeepCopyInto l = copy_struct
     [(''Replicas'', new_copy assign), (''Timeout'', new_copy assign),
      (''Env'', make_slice (lib_copy l ''v1.EnvVar'')),
      (''EnvFrom'', make_slice (lib_copy l ''v1.EnvFromSource'')),
      (''CommonMetadata'', new_copy (EmbeddedMetadata_DeepCopyInto l)),
      (''PodMetadata'', new_copy (EmbeddedMetadata_DeepCopyInto l)),
      (''Guardrails'', make_slice assign)]"

definition AgentGatewaySpec_DeepCopy :: "library \<Rightarrow> copier" where
  "AgentGatewaySpec_DeepCopy l = new_copy (AgentGatewaySpec_DeepCopyInto l)"

definition AgentGatewayStatus_DeepCopyInto :: "library \<Rightarrow> copier" where
  "AgentGatewayStatus_DeepCopyInto l = copy_struct
     [(''Conditions'', make_slice (lib_copy l ''metav1.Condition''))]"

definition AgentGatewayStatus_DeepCopy :: "library \<Rightarrow> copier" where
  "AgentGatewayStatus_DeepCopy l = new_copy (AgentGatewayStatus_DeepCopyInto l)"

definition AgentGateway_DeepCopyInto :: "library \<Rightarrow> copier" where
  "AgentGateway_DeepCopyInto l = copy_struct
     [(''TypeMeta'', assign), (''ObjectMeta'', lib_copy l ''metav1.ObjectMeta''),
      (''Spec'', AgentGatewaySpec_DeepCopyInto l), (''Status'', AgentGatewayStatus_DeepCopyInto l)]"

definition AgentGateway_DeepCopy :: "library \<Rightarrow> copier" where
  "AgentGateway_DeepCopy l = new_copy (AgentGateway_DeepCopyInto l)"

definition AgentGateway_DeepCopyObject :: "library \<Rightarrow> val \<Rightarrow> heap \<Rightarrow> ((string \<times> val) option \<times> heap) option" where
  "AgentGateway_DeepCopyObject l = copy_object ''AgentGateway'' (AgentGateway_DeepCopy l)"

definition AgentGatewayList_DeepCopyInto :: "library \<Rightarrow> copier" where
  "AgentGatewayList_DeepCopyInto l = copy_struct
     [(''TypeMeta'', assign), (''ListMeta'', lib_copy l ''metav1.ListMeta''),
      (''Items'', make_slice (AgentGateway_DeepCopyInto l))]"

definition AgentGatewayList_DeepCopy :: "library \<Rightarrow> copier" where
  "AgentGatewayList_DeepCopy l = new_copy (AgentGatewayList_DeepCopyInto l)"

definition AgentGatewayList_DeepCopyObject :: "library \<Rightarrow> val \<Rightarrow> heap \<Rightarrow> ((string \<times> val) option \<times> heap) option" where
  "AgentGatewayList_DeepCopyObject l = copy_object ''AgentGatewayList'' (AgentGatewayList_DeepCopy l)"

definition AgentGatewayClassSpec_DeepCopyInto :: "library \<Rightarrow> copier" where
  "AgentGatewayClassSpec_DeepCopyInto l = copy_struct
     []"

definition AgentGatewayClassSpec_DeepCopy :: "library \<Rightarrow> copier" where
  "AgentGatewayClassSpec_DeepCopy l = new_copy (AgentGatewayClassSpec_DeepCopyInto l)"

definition AgentGatewayClassStatus_DeepCopyInto :: "library \<Rightarrow> copier" where
  "AgentGatewayClassStatus_DeepCopyInto l = copy_struct
     [(''Conditions'', make_slice (lib_copy l ''metav1.Condition''))]"

definition AgentGatewayClassStatus_DeepCopy :: "library \<Rightarrow> copier" where
  "AgentGatewayClassStatus_DeepCopy l = new_copy (AgentGatewayClassStatus_DeepCopyInto l)"

definition AgentGatewayClass_DeepCopyInto :: "library \<Rightarrow> copier" where
  "AgentGatewayClass_DeepCopyInto l = copy_struct
     [(''TypeMeta'', assign), (''ObjectMeta'', lib_copy l ''metav1.ObjectMeta''), (''Spec'', assign),
      (''Status'', AgentGatewayClassStatus_DeepCopyInto l)]"

definition AgentGatewayClass_DeepCopy :: "library \<Rightarrow> copier" where
  "AgentGatewayClass_DeepCopy l = new_copy (AgentGatewayClass_DeepCopyInto l)"

definition AgentGatewayClass_DeepCopyObject :: "library \<Rightarrow> val \<Rightarrow> heap \<Rightarrow> ((string \<times> val) option \<times> heap) option" where
  "AgentGatewayClass_DeepCopyObject l = copy_object ''AgentGatewayClass'' (AgentGatewayClass_DeepCopy l)"

definition AgentGatewayClassList_DeepCopyInto :: "library \<Rightarrow> copier" where
  "AgentGatewayClassList_DeepCopyInto l = copy_struct
     [(''TypeMeta'', assign), (''ListMeta'', lib_copy l ''metav1.ListMeta''),
      (''Items'', make_slice (AgentGatewayClass_DeepCopyInto l))]"

definition AgentGatewayClassList_DeepCopy :: "library \<Rightarrow> copier" where
  "AgentGatewayClassList_DeepCopy l = new_copy (AgentGatewayClassList_DeepCopyInto l)"

definition AgentGatewayClassList_DeepCopyObject :: "library \<Rightarrow> val \<Rightarrow> heap \<Rightarrow> ((string \<times> val) option \<times> heap) option" where
  "AgentGatewayClassList_DeepCopyObject l = copy_object ''AgentGatewayClassList'' (AgentGatewayClassList_DeepCopy l)"

definition TransitiveAgent_DeepCopyInto :: "library \<Rightarrow> copier" where
  "TransitiveAgent_DeepCopyInto l = copy_struct
     []"

definition TransitiveAgent_DeepCopy :: "library \<Rightarrow> copier" where
  "TransitiveAgent_DeepCopy l = new_copy (TransitiveAgent_DeepCopyInto l)"

definition AgenticWorkforceSpec_DeepCopyInto :: "library \<Rightarrow> copier" where
  "AgenticWorkforceSpec_DeepCopyInto l = copy_struct
     [(''Tags'', make_slice assign), (''EntryPointAgents'', make_slice (new_copy assign))]"

definition AgenticWorkforceSpec_DeepCopy :: "library \<Rightarrow> copier" where
  "AgenticWorkforceSpec_DeepCopy l = new_copy (AgenticWorkforceSpec_DeepCopyInto l)"

definition AgenticWorkforceStatus_DeepCopyInto :: "library \<Rightarrow> copier" where
  "AgenticWorkforceStatus_DeepCopyInto l = copy_struct
     [(''Conditions'', make_slice (lib_copy l ''metav1.Condition'')),
      (''TransitiveAgents'', make_slice assign), (''TransitiveTools'', make_slice assign)]"

definition AgenticWorkforceStatus_DeepCopy :: "library \<Rightarrow> copier" where
  "AgenticWorkforceStatus_DeepCopy l = new_copy (AgenticWorkforceStatus_DeepCopyInto l)"

definition AgenticWorkforce_DeepCopyInto :: "library \<Rightarrow> copier" where
  "AgenticWorkforce_DeepCopyInto l = copy_struct
     [(''TypeMeta'', assign), (''ObjectMeta'', lib_copy l ''metav1.ObjectMeta''),
      (''Spec'', AgenticWorkforceSpec_DeepCopyInto l),
      (''Status'', AgenticWorkforceStatus_DeepCopyInto l)]"

definition AgenticWorkforce_DeepCopy :: "library \<Rightarrow> copier" where
  "AgenticWorkforce_DeepCopy l = new_copy (AgenticWorkforce_DeepCopyInto l)"

definition AgenticWorkforce_DeepCopyObject :: "library \<Rightarrow> val \<Rightarrow> heap \<Rightarrow> ((string \<times> val) option \<times> heap) option" where
  "AgenticWorkforce_DeepCopyObject l = copy_object ''AgenticWorkforce'' (AgenticWorkforce_DeepCopy l)"

definition AgenticWorkforceList_DeepCopyInto :: "library \<Rightarrow> copier" where
  "AgenticWorkforceList_DeepCopyInto l = copy_struct
     [(''TypeMeta'', assign), (''ListMeta'', lib_copy l ''metav1.ListMeta''),
      (''Items'', make_slice (AgenticWorkforce_DeepCopyInto l))]"

definition AgenticWorkforceList_DeepCopy :: "library \<Rightarrow> copier" where
  "AgenticWorkforceList_DeepCopy l = new_copy (AgenticWorkforceList_DeepCopyInto l)"

definition AgenticWorkforceList_DeepCopyObject :: "library \<Rightarrow> val \<Rightarrow> heap \<Rightarrow> ((string \<times> val) option \<times> heap) option" where
  "AgenticWorkforceList_DeepCopyObject l = copy_object ''AgenticWorkforceList'' (AgenticWorkforceList_DeepCopy l)"

definition AgentTemplateImages_DeepCopyInto :: "library \<Rightarrow> copier" where
  "AgentTemplateImages_DeepCopyInto l = copy_struct
     []"

definition AgentTemplateImages_DeepCopy :: "library \<Rightarrow> copier" where
  "AgentTemplateImages_DeepCopy l = new_copy (AgentTemplateImages_DeepCopyInto l)"

definition AgentRuntimeConfigurationSpec_DeepCopyInto :: "library \<Rightarrow> copier" where
  "AgentRuntimeConfigurationSpec_DeepCopyInto l = copy_struct
     [(''AgentTemplateImages'', new_copy assign)]"

definition AgentRuntimeConfigurationSpec_DeepCopy :: "library \<Rightarrow> copier" where
  "AgentRuntimeConfigurationSpec_DeepCopy l = new_copy (AgentRuntimeConfigurationSpec_DeepCopyInto l)"

definition AgentRuntimeConfigurationStatus_DeepCopyInto :: "library \<Rightarrow> copier" where
  "AgentRuntimeConfigurationStatus_DeepCopyInto l = copy_struct
     [(''Conditions'', make_slice (lib_copy l ''metav1.Condition''))]"

definition AgentRuntimeConfigurationStatus_DeepCopy :: "library \<Rightarrow> copier" where
  "AgentRuntimeConfigurationStatus_DeepCopy l = new_copy (AgentRuntimeConfigurationStatus_DeepCopyInto l)"

definition AgentRuntimeConfiguration_DeepCopyInto :: "library \<Rightarrow> copier" where
  "AgentRuntimeConfiguration_DeepCopyInto l = copy_struct
     [(''TypeMeta'', assign), (''ObjectMeta'', lib_copy l ''metav1.ObjectMeta''),
      (''Spec'', AgentRuntimeConfigurationSpec_DeepCopyInto l),
      (''Status'', AgentRuntimeConfigurationStatus_DeepCopyInto l)]"

definition AgentRuntimeConfiguration_DeepCopy :: "library \<Rightarrow> copier" where
  "AgentRuntimeConfiguration_DeepCopy l = new_copy (AgentRuntimeConfiguration_DeepCopyInto l)"

definition AgentRuntimeConfiguration_DeepCopyObject :: "library \<Rightarrow> val \<Rightarrow> heap \<Rightarrow> ((string \<times> val) option \<times> heap) option" where
  "AgentRuntimeConfiguration_DeepCopyObject l = copy_object ''AgentRuntimeConfiguration'' (AgentRuntimeConfiguration_DeepCopy l)"

definition AgentRuntimeConfigurationList_DeepCopyInto :: "library \<Rightarrow> copier" where
  "AgentRuntimeConfigurationList_DeepCopyInto l = copy_struct
     [(''TypeMeta'', assign), (''ListMeta'', lib_copy l ''metav1.ListMeta''),
      (''Items'', make_slice (AgentRuntimeConfiguration_DeepCopyInto l))]"

definition AgentRuntimeConfigurationList_DeepCopy :: "library \<Rightarrow> copier" where
  "AgentRuntimeConfigurationList_DeepCopy l = new_copy (AgentRuntimeConfigurationList_DeepCopyInto l)"

definition AgentRuntimeConfigurationList_DeepCopyObject :: "library \<Rightarrow> val \<Rightarrow> heap \<Rightarrow> ((string \<times> val) option \<times> heap) option" where
  "AgentRuntimeConfigurationList_DeepCopyObject l = copy_object ''AgentRuntimeConfigurationList'' (AgentRuntimeConfigurationList_DeepCopy l)"

definition AiModel_DeepCopyInto :: "library \<Rightarrow> copier" where
  "AiModel_DeepCopyInto l = copy_struct
     []"

definition AiModel_DeepCopy :: "library \<Rightarrow> copier" where
  "AiModel_DeepCopy l = new_copy (AiModel_DeepCopyInto l)"

definition AiGatewaySpec_DeepCopyInto :: "library \<Rightarrow> copier" where
  "AiGatewaySpec_DeepCopyInto l = copy_struct
     [(''AiModels'', make_slice assign), (''Env'', make_slice (lib_copy l ''v1.EnvVar'')),
      (''EnvFrom'', make_slice (lib_copy l ''v1.EnvFromSource'')), (''Guardrails'', make_slice assign),
      (''CommonMetadata'', new_copy (EmbeddedMetadata_DeepCopyInto l)),
      (''PodMetadata'', new_copy (EmbeddedMetadata_DeepCopyInto l))]"

definition AiGatewaySpec_DeepCopy :: "library \<Rightarrow> copier" where
  "AiGatewaySpec_DeepCopy l = new_copy (AiGatewaySpec_DeepCopyInto l)"

definition AiGatewayStatus_DeepCopyInto :: "library \<Rightarrow> copier" where
  "AiGatewayStatus_DeepCopyInto l = copy_struct
     [(''Conditions'', make_slice (lib_copy l ''metav1.Condition''))]"

definition AiGatewayStatus_DeepCopy :: "library \<Rightarrow> copier" where
  "AiGatewayStatus_DeepCopy l = new_copy (AiGatewayStatus_DeepCopyInto l)"

definition AiGateway_DeepCopyInto :: "library \<Rightarrow> copier" where
  "AiGateway_DeepCopyInto l = copy_struct
     [(''TypeMeta'', assign), (''ObjectMeta'', lib_copy l ''metav1.ObjectMeta''),
      (''Spec'', AiGatewaySpec_DeepCopyInto l), (''Status'', AiGatewayStatus_DeepCopyInto l)]"

definition AiGateway_DeepCopy :: "library \<Rightarrow> copier" where
  "AiGateway_DeepCopy l = new_copy (AiGateway_DeepCopyInto l)"

definition AiGateway_DeepCopyObject :: "library \<Rightarrow> val \<Rightarrow> heap \<Rightarrow> ((string \<times> val) option \<times> heap) option" where
  "AiGateway_DeepCopyObject l = copy_object ''AiGateway'' (AiGateway_DeepCopy l)"

definition AiGatewayList_DeepCopyInto :: "library \<Rightarrow> copier" where
  "AiGatewayList_DeepCopyInto l = copy_struct
     [(''TypeMeta'', assign), (''ListMeta'', lib_copy l ''metav1.ListMeta''),
      (''Items'', make_slice (AiGateway_DeepCopyInto l))]"

definition AiGatewayList_DeepCopy :: "library \<Rightarrow> copier" where
  "AiGatewayList_DeepCopy l = new_copy (AiGatewayList_DeepCopyInto l)"

definition AiGatewayList_DeepCopyObject :: "library \<Rightarrow> val \<Rightarrow> heap \<Rightarrow> ((string \<times> val) option \<times> heap) option" where
  "AiGatewayList_DeepCopyObject l = copy_object ''AiGatewayList'' (AiGatewayList_DeepCopy l)"

definition AiGatewayClassSpec_DeepCopyInto :: "library \<Rightarrow> copier" where
  "AiGatewayClassSpec_DeepCopyInto l = copy_struct
     []"

definition AiGatewayClassSpec_DeepCopy :: "library \<Rightarrow> copier" where
  "AiGatewayClassSpec_DeepCopy l = new_copy (AiGatewayClassSpec_DeepCopyInto l)"

definition AiGatewayClassStatus_DeepCopyInto :: "library \<Rightarrow> copier" where
  "AiGatewayClassStatus_DeepCopyInto l = copy_struct
     [(''Conditions'', make_slice (lib_copy l ''metav1.Condition''))]"

definition AiGatewayClassStatus_DeepCopy :: "library \<Rightarrow> copier" where
  "AiGatewayClassStatus_DeepCopy l = new_copy (AiGatewayClassStatus_DeepCopyInto l)"

definition AiGatewayClass_DeepCopyInto :: "library \<Rightarrow> copier" where
  "AiGatewayClass_DeepCopyInto l = copy_struct
     [(''TypeMeta'', assign), (''ObjectMeta'', lib_copy l ''metav1.ObjectMeta''), (''Spec'', assign),
      (''Status'', AiGatewayClassStatus_DeepCopyInto l)]"

definition AiGatewayClass_DeepCopy :: "library \<Rightarrow> copier" where
  "AiGatewayClass_DeepCopy l = new_copy (AiGatewayClass_DeepCopyInto l)"

definition AiGatewayClass_DeepCopyObject :: "library \<Rightarrow> val \<Rightarrow> heap \<Rightarrow> ((string \<times> val) option \<times> heap) option" where
  "AiGatewayClass_DeepCopyObject l = copy_object ''AiGatewayClass'' (AiGatewayClass_DeepCopy l)"

definition AiGatewayClassList_DeepCopyInto :: "library \<Rightarrow> copier" where
  "AiGatewayClassList_DeepCopyInto l = copy_struct
     [(''TypeMeta'', assign), (''ListMeta'', lib_copy l ''metav1.ListMeta''),
      (''Items'', make_slice (AiGatewayClass_DeepCopyInto l))]"

definition AiGatewayClassList_DeepCopy :: "library \<Rightarrow> copier" where
  "AiGatewayClassList_DeepCopy l = new_copy (AiGatewayClassList_DeepCopyInto l)"

definition AiGatewayClassList_DeepCopyObject :: "library \<Rightarrow> val \<Rightarrow> heap \<Rightarrow> ((string \<times> val) option \<times> heap) option" where
  "AiGatewayClassList_DeepCopyObject l = copy_object ''AiGatewayClassList'' (AiGatewayClassList_DeepCopy l)"

definition OpenAIModerationGuardConfig_DeepCopyInto :: "library \<Rightarrow> copier" where
  "OpenAIModerationGuardConfig_DeepCopyInto l = copy_struct
     []"

definition OpenAIModerationGuardConfig_DeepCopy :: "library \<Rightarrow> copier" where
  "OpenAIModerationGuardConfig_DeepCopy l = new_copy (OpenAIModerationGuardConfig_DeepCopyInto l)"

definition BedrockGuardConfig_DeepCopyInto :: "library \<Rightarrow> copier" where
  "BedrockGuardConfig_DeepCopyInto l = copy_struct
     []"

definition BedrockGuardConfig_DeepCopy :: "library \<Rightarrow> copier" where
  "BedrockGuardConfig_DeepCopy l = new_copy (BedrockGuardConfig_DeepCopyInto l)"

definition PresidioGuardConfig_DeepCopyInto :: "library \<Rightarrow> copier" where
  "PresidioGuardConfig_DeepCopyInto l = copy_struct
     [(''ScoreThresholds'', make_map (range_order l)), (''EntityActions'', make_map (range_order l))]"

definition PresidioGuardConfig_DeepCopy :: "library \<Rightarrow> copier" where
  "PresidioGuardConfig_DeepCopy l = new_copy (PresidioGuardConfig_DeepCopyInto l)"

definition GuardSpec_DeepCopyInto :: "library \<Rightarrow> copier" where
  "GuardSpec_DeepCopyInto l = copy_struct
     [(''Mode'', make_slice assign), (''ProviderRef'', assign), (''OpenAIModeration'', new_copy assign),
      (''Bedrock'', new_copy assign), (''Presidio'', new_copy (PresidioGuardConfig_DeepCopyInto l))]"

definition GuardSpec_DeepCopy :: "library \<Rightarrow> copier" where
  "GuardSpec_DeepCopy l = new_copy (GuardSpec_DeepCopyInto l)"

definition GuardStatus_DeepCopyInto :: "library \<Rightarrow> copier" where
  "GuardStatus_DeepCopyInto l = copy_struct
     [(''Conditions'', make_slice (lib_copy l ''metav1.Condition''))]"

definition GuardStatus_DeepCopy :: "library \<Rightarrow> copier" where
  "GuardStatus_DeepCopy l = new_copy (GuardStatus_DeepCopyInto l)"

definition Guard_DeepCopyInto :: "library \<Rightarrow> copier" where
  "Guard_DeepCopyInto l = copy_struct
     [(''TypeMeta'', assign), (''ObjectMeta'', lib_copy l ''metav1.ObjectMeta''),
      (''Spec'', GuardSpec_DeepCopyInto l), (''Status'', GuardStatus_DeepCopyInto l)]"

definition Guard_DeepCopy :: "library \<Rightarrow> copier" where
  "Guard_DeepCopy l = new_copy (Guard_DeepCopyInto l)"

definition Guard_DeepCopyObject :: "library \<Rightarrow> val \<Rightarrow> heap \<Rightarrow> ((string \<times> val) option \<times> heap) option" where
  "Guard_DeepCopyObject l = copy_object ''Guard'' (Guard_DeepCopy l)"

definition GuardList_DeepCopyInto :: "library \<Rightarrow> copier" where
  "GuardList_DeepCopyInto l = copy_struct
     [(''TypeMeta'', assign), (''ListMeta'', lib_copy l ''metav1.ListMeta''),
      (''Items'', make_slice (Guard_DeepCopyInto l))]"

definition GuardList_DeepCopy :: "library \<Rightarrow> copier" where
  "GuardList_DeepCopy l = new_copy (GuardList_DeepCopyInto l)"

definition GuardList_DeepCopyObject :: "library \<Rightarrow> val \<Rightarrow> heap \<Rightarrow> ((string \<times> val) option \<times> heap) option" where
  "GuardList_DeepCopyObject l = copy_object ''GuardList'' (GuardList_DeepCopy l)"

definition OpenAIModerationProviderConfig_DeepCopyInto :: "library \<Rightarrow> copier" where
  "OpenAIModerationProviderConfig_DeepCopyInto l = copy_struct
     [(''ApiKeySecretRef'', new_copy (lib_copy l ''v1.SecretKeySelector''))]"

definition OpenAIModerationProviderConfig_DeepCopy :: "library \<Rightarrow> copier" where
  "OpenAIModerationProviderConfig_DeepCopy l = new_copy (OpenAIModerationProviderConfig_DeepCopyInto l)"

definition BedrockProviderConfig_DeepCopyInto :: "library \<Rightarrow> copier" where
  "BedrockProviderConfig_DeepCopyInto l = copy_struct
     [(''CredentialsSecretRef'', new_copy assign)]"

definition BedrockProviderConfig_DeepCopy :: "library \<Rightarrow> copier" where
  "BedrockProviderConfig_DeepCopy l = new_copy (BedrockProviderConfig_DeepCopyInto l)"

definition PresidioProviderConfig_DeepCopyInto :: "library \<Rightarrow> copier" where
  "PresidioProviderConfig_DeepCopyInto l = copy_struct
     [(''ApiKeySecretRef'', new_copy (lib_copy l ''v1.SecretKeySelector''))]"

definition PresidioProviderConfig_DeepCopy :: "library \<Rightarrow> copier" where
  "PresidioProviderConfig_DeepCopy l = new_copy (PresidioProviderConfig_DeepCopyInto l)"

definition GuardrailProviderSpec_DeepCopyInto :: "library \<Rightarrow> copier" where
  "GuardrailProviderSpec_DeepCopyInto l = copy_struct
     [(''OpenAIModeration'', new_copy (OpenAIModerationProviderConfig_DeepCopyInto l)),
      (''Bedrock'', new_copy (BedrockProviderConfig_DeepCopyInto l)),
      (''Presidio'', new_copy (PresidioProviderConfig_DeepCopyInto l))]"

definition GuardrailProviderSpec_DeepCopy :: "library \<Rightarrow> copier" where
  "GuardrailProviderSpec_DeepCopy l = new_copy (GuardrailProviderSpec_DeepCopyInto l)"

definition GuardrailProviderStatus_DeepCopyInto :: "library \<Rightarrow> copier" where
  "GuardrailProviderStatus_DeepCopyInto l = copy_struct
     [(''Conditions'', make_slice (lib_copy l ''metav1.Condition''))]"

definition GuardrailProviderStatus_DeepCopy :: "library \<Rightarrow> copier" where
  "GuardrailProviderStatus_DeepCopy l = new_copy (GuardrailProviderStatus_DeepCopyInto l)"

definition GuardrailProvider_DeepCopyInto :: "library \<Rightarrow> copier" where
  "GuardrailProvider_DeepCopyInto l = copy_struct
     [(''TypeMeta'', assign), (''ObjectMeta'', lib_copy l ''metav1.ObjectMeta''),
      (''Spec'', GuardrailProviderSpec_DeepCopyInto l),
      (''Status'', GuardrailProviderStatus_DeepCopyInto l)]"

definition GuardrailProvider_DeepCopy :: "library \<Rightarrow> copier" where
  "GuardrailProvider_DeepCopy l = new_copy (GuardrailProvider_DeepCopyInto l)"

definition GuardrailProvider_DeepCopyObject :: "library \<Rightarrow> val \<Rightarrow> heap \<Rightarrow> ((string \<times> val) option \<times> heap) option" where
  "GuardrailProvider_DeepCopyObject l = copy_object ''GuardrailProvider'' (GuardrailProvider_DeepCopy l)"

definition GuardrailProviderList_DeepCopyInto :: "library \<Rightarrow> copier" where
  "GuardrailProviderList_DeepCopyInto l = copy_struct
     [(''TypeMeta'', assign), (''ListMeta'', lib_copy l ''metav1.ListMeta''),
      (''Items'', make_slice (GuardrailProvider_DeepCopyInto l))]"

definition GuardrailProviderList_DeepCopy :: "library \<Rightarrow> copier" where
  "GuardrailProviderList_DeepCopy l = new_copy (GuardrailProviderList_DeepCopyInto l)"

definition GuardrailProviderList_DeepCopyObject :: "library \<Rightarrow> val \<Rightarrow> heap \<Rightarrow> ((string \<times> val) option \<times> heap) option" where
  "GuardrailProviderList_DeepCopyObject l = copy_object ''GuardrailProviderList'' (GuardrailProviderList_DeepCopy l)"

definition ToolGatewaySpec_DeepCopyInto :: "library \<Rightarrow> copier" where
  "ToolGatewaySpec_DeepCopyInto l = copy_struct
     [(''Env'', make_slice (lib_copy l ''v1.EnvVar'')),
      (''EnvFrom'', make_slice (lib_copy l ''v1.EnvFromSource'')),
      (''CommonMetadata'', new_copy (EmbeddedMetadata_DeepCopyInto l)),
      (''PodMetadata'', new_copy (EmbeddedMetadata_DeepCopyInto l)),
      (''Guardrails'', make_slice assign)]"

definition ToolGatewaySpec_DeepCopy :: "library \<Rightarrow> copier" where
  "ToolGatewaySpec_DeepCopy l = new_copy (ToolGatewaySpec_DeepCopyInto l)"

definition ToolGatewayStatus_DeepCopyInto :: "library \<Rightarrow> copier" where
  "ToolGatewayStatus_DeepCopyInto l = copy_struct
     [(''Conditions'', make_slice (lib_copy l ''metav1.Condition''))]"

definition ToolGatewayStatus_DeepCopy :: "library \<Rightarrow> copier" where
  "ToolGatewayStatus_DeepCopy l = new_copy (ToolGatewayStatus_DeepCopyInto l)"

definition ToolGateway_DeepCopyInto :: "library \<Rightarrow> copier" where
  "ToolGateway_DeepCopyInto l = copy_struct
     [(''TypeMeta'', assign), (''ObjectMeta'', lib_copy l ''metav1.ObjectMeta''),
      (''Spec'', ToolGatewaySpec_DeepCopyInto l), (''Status'', ToolGatewayStatus_DeepCopyInto l)]"

definition ToolGateway_DeepCopy :: "library \<Rightarrow> copier" where
  "ToolGateway_DeepCopy l = new_copy (ToolGateway_DeepCopyInto l)"

definition ToolGateway_DeepCopyObject :: "library \<Rightarrow> val \<Rightarrow> heap \<Rightarrow> ((string \<times> val) option \<times> heap) option" where
  "ToolGateway_DeepCopyObject l = copy_object ''ToolGateway'' (ToolGateway_DeepCopy l)"

definition ToolGatewayList_DeepCopyInto :: "library \<Rightarrow> copier" where
  "ToolGatewayList_DeepCopyInto l = copy_struct
     [(''TypeMeta'', assign), (''ListMeta'', lib_copy l ''metav1.ListMeta''),
      (''Items'', make_slice (ToolGateway_DeepCopyInto l))]"

definition ToolGatewayList_DeepCopy :: "library \<Rightarrow> copier" where
  "ToolGatewayList_DeepCopy l = new_copy (ToolGatewayList_DeepCopyInto l)"

definition ToolGatewayList_DeepCopyObject :: "library \<Rightarrow> val \<Rightarrow> heap \<Rightarrow> ((string \<times> val) option \<times> heap) option" where
  "ToolGatewayList_DeepCopyObject l = copy_object ''ToolGatewayList'' (ToolGatewayList_DeepCopy l)"

definition ToolGatewayClassSpec_DeepCopyInto :: "library \<Rightarrow> copier" where
  "ToolGatewayClassSpec_DeepCopyInto l = copy_struct
     []"

definition ToolGatewayClassSpec_DeepCopy :: "library \<Rightarrow> copier" where
  "ToolGatewayClassSpec_DeepCopy l = new_copy (ToolGatewayClassSpec_DeepCopyInto l)"

definition ToolGatewayClassStatus_DeepCopyInto :: "library \<Rightarrow> copier" where
  "ToolGatewayClassStatus_DeepCopyInto l = copy_struct
     [(''Conditions'', make_slice (lib_copy l ''metav1.Condition''))]"

definition ToolGatewayClassStatus_DeepCopy :: "library \<Rightarrow> copier" where
  "ToolGatewayClassStatus_DeepCopy l = new_copy (ToolGatewayClassStatus_DeepCopyInto l)"

definition ToolGatewayClass_DeepCopyInto :: "library \<Rightarrow> copier" where
  "ToolGatewayClass_DeepCopyInto l = copy_struct
     [(''TypeMeta'', assign), (''ObjectMeta'', lib_copy l ''metav1.ObjectMeta''), (''Spec'', assign),
      (''Status'', ToolGatewayClassStatus_DeepCopyInto l)]"

definition ToolGatewayClass_DeepCopy :: "library \<Rightarrow> copier" where
  "ToolGatewayClass_DeepCopy l = new_copy (ToolGatewayClass_DeepCopyInto l)"

definition ToolGatewayClass_DeepCopyObject :: "library \<Rightarrow> val \<Rightarrow> heap \<Rightarrow> ((string \<times> val) option \<times> heap) option" where
  "ToolGatewayClass_DeepCopyObject l = copy_object ''ToolGatewayClass'' (ToolGatewayClass_DeepCopy l)"

definition ToolGatewayClassList_DeepCopyInto :: "library \<Rightarrow> copier" where
  "ToolGatewayClassList_DeepCopyInto l = copy_struct
     [(''TypeMeta'', assign), (''ListMeta'', lib_copy l ''metav1.ListMeta''),
      (''Items'', make_slice (ToolGatewayClass_DeepCopyInto l))]"

definition ToolGatewayClassList_DeepCopy :: "library \<Rightarrow> copier" where
  "ToolGatewayClassList_DeepCopy l = new_copy (ToolGatewayClassList_DeepCopyInto l)"

definition ToolGatewayClassList_DeepCopyObject :: "library \<Rightarrow> val \<Rightarrow> heap \<Rightarrow> ((string \<times> val) option \<times> heap) option" where
  "ToolGatewayClassList_DeepCopyObject l = copy_object ''ToolGatewayClassList'' (ToolGatewayClassList_DeepCopy l)"

definition ToolRouteUpstream_DeepCopyInto :: "library \<Rightarrow> copier" where
  "ToolRouteUpstream_DeepCopyInto l = copy_struct
     [(''ToolServerRef'', new_copy assign), (''External'', new_copy assign)]"

definition ToolRouteUpstream_DeepCopy :: "library \<Rightarrow> copier" where
  "ToolRouteUpstream_DeepCopy l = new_copy (ToolRouteUpstream_DeepCopyInto l)"

definition ToolFilter_DeepCopyInto :: "library \<Rightarrow> copier" where
  "ToolFilter_DeepCopyInto l = copy_struct
     [(''Allow'', make_slice assign), (''Deny'', make_slice assign)]"

definition ToolFilter_DeepCopy :: "library \<Rightarrow> copier" where
  "ToolFilter_DeepCopy l = new_copy (ToolFilter_DeepCopyInto l)"

definition ToolRouteSpec_DeepCopyInto :: "library \<Rightarrow> copier" where
  "ToolRouteSpec_DeepCopyInto l = copy_struct
     [(''ToolGatewayRef'', new_copy assign), (''Upstream'', ToolRouteUpstream_DeepCopyInto l),
      (''ToolFilter'', new_copy (ToolFilter_DeepCopyInto l))]"

definition ToolRouteSpec_DeepCopy :: "library \<Rightarrow> copier" where
  "ToolRouteSpec_DeepCopy l = new_copy (ToolRouteSpec_DeepCopyInto l)"

definition ToolRouteStatus_DeepCopyInto :: "library \<Rightarrow> copier" where
  "ToolRouteStatus_DeepCopyInto l = copy_struct
     [(''Conditions'', make_slice (lib_copy l ''metav1.Condition''))]"

definition ToolRouteStatus_DeepCopy :: "library \<Rightarrow> copier" where
  "ToolRouteStatus_DeepCopy l = new_copy (ToolRouteStatus_DeepCopyInto l)"

definition ToolRoute_DeepCopyInto :: "library \<Rightarrow> copier" where
  "ToolRoute_DeepCopyInto l = copy_struct
     [(''TypeMeta'', assign), (''ObjectMeta'', lib_copy l ''metav1.ObjectMeta''),
      (''Spec'', ToolRouteSpec_DeepCopyInto l), (''Status'', ToolRouteStatus_DeepCopyInto l)]"

definition ToolRoute_DeepCopy :: "library \<Rightarrow> copier" where
  "ToolRoute_DeepCopy l = new_copy (ToolRoute_DeepCopyInto l)"

definition ToolRoute_DeepCopyObject :: "library \<Rightarrow> val \<Rightarrow> heap \<Rightarrow> ((string \<times> val) option \<times> heap) option" where
  "ToolRoute_DeepCopyObject l = copy_object ''ToolRoute'' (ToolRoute_DeepCopy l)"

definition ToolRouteList_DeepCopyInto :: "library \<Rightarrow> copier" where
  "ToolRouteList_DeepCopyInto l = copy_struct
     [(''TypeMeta'', assign), (''ListMeta'', lib_copy l ''metav1.ListMeta''),
      (''Items'', make_slice (ToolRoute_DeepCopyInto l))]"

definition ToolRouteList_DeepCopy :: "library \<Rightarrow> copier" where
  "ToolRouteList_DeepCopy l = new_copy (ToolRouteList_DeepCopyInto l)"

definition ToolRouteList_DeepCopyObject :: "library \<Rightarrow> val \<Rightarrow> heap \<Rightarrow> ((string \<times> val) option \<times> heap) option" where
  "ToolRouteList_DeepCopyObject l = copy_object ''ToolRouteList'' (ToolRouteList_DeepCopy l)"

definition ToolServerSpec_DeepCopyInto :: "library \<Rightarrow> copier" where
  "ToolServerSpec_DeepCopyInto l = copy_struct
     [(''ImagePullSecrets'', make_slice assign), (''Command'', make_slice assign),
      (''Args'', make_slice assign), (''Replicas'', new_copy assign),
      (''Env'', make_slice (lib_copy l ''v1.EnvVar'')),
      (''EnvFrom'', make_slice (lib_copy l ''v1.EnvFromSource'')),
      (''Resources'', new_copy (lib_copy l ''v1.ResourceRequirements'')),
      (''CommonMetadata'', new_copy (EmbeddedMetadata_DeepCopyInto l)),
      (''PodMetadata'', new_copy (EmbeddedMetadata_DeepCopyInto l))]"

definition ToolServerSpec_DeepCopy :: "library \<Rightarrow> copier" where
  "ToolServerSpec_DeepCopy l = new_copy (ToolServerSpec_DeepCopyInto l)"

definition ToolServerStatus_DeepCopyInto :: "library \<Rightarrow> copier" where
  "ToolServerStatus_DeepCopyInto l = copy_struct
     [(''Conditions'', make_slice (lib_copy l ''metav1.Condition''))]"

definition ToolServerStatus_DeepCopy :: "library \<Rightarrow> copier" where
  "ToolServerStatus_DeepCopy l = new_copy (ToolServerStatus_DeepCopyInto l)"

definition ToolServer_DeepCopyInto :: "library \<Rightarrow> copier" where
  "ToolServer_DeepCopyInto l = copy_struct
     [(''TypeMeta'', assign), (''ObjectMeta'', lib_copy l ''metav1.ObjectMeta''),
      (''Spec'', ToolServerSpec_DeepCopyInto l), (''Status'', ToolServerStatus_DeepCopyInto l)]"

definition ToolServer_DeepCopy :: "library \<Rightarrow> copier" where
  "ToolServer_DeepCopy l = new_copy (ToolServer_DeepCopyInto l)"

definition ToolServer_DeepCopyObject :: "library \<Rightarrow> val \<Rightarrow> heap \<Rightarrow> ((string \<times> val) option \<times> heap) option" where
  "ToolServer_DeepCopyObject l = copy_object ''ToolServer'' (ToolServer_DeepCopy l)"

definition ToolServerList_DeepCopyInto :: "library \<Rightarrow> copier" where
  "ToolServerList_DeepCopyInto l = copy_struct
     [(''TypeMeta'', assign), (''ListMeta'', lib_copy l ''metav1.ListMeta''),
      (''Items'', make_slice (ToolServer_DeepCopyInto l))]"

definition ToolServerList_DeepCopy :: "library \<Rightarrow> copier" where
  "ToolServerList_DeepCopy l = new_copy (ToolServerList_DeepCopyInto l)"

definition ToolServerList_DeepCopyObject :: "library \<Rightarrow> val \<Rightarrow> heap \<Rightarrow> ((string \<times> val) option \<times> heap) option" where
  "ToolServerList_DeepCopyObject l = copy_object ''ToolServerList'' (ToolServerList_DeepCopy l)"

end
