(* ===== verification/Deep_Copy_Correct.thy ===== *)
theory Deep_Copy_Correct
  imports Deep_Copy_Laws Deep_Copy_Types Deep_Copy_Api
begin

text \<open>
  Every \<open>DeepCopyInto\<close> of \<open>Deep_Copy_Api\<close> is deep for its type of \<open>Deep_Copy_Types\<close>: a lemma per type,
  each resting on those of the types its fields mention; then the tables of all types and of the
  types with a \<open>DeepCopyObject\<close>.
\<close>

text \<open>
  What is assumed of the libraries. The types assigned as a whole consist of strings and
  numbers only, as their documentation has it, and the \<open>DeepCopyInto\<close> of the others are deep.
\<close>

definition flat_library :: "string set" where
  "flat_library = {''metav1.TypeMeta'', ''metav1.Duration'', ''v1.ObjectReference'', ''v1.LocalObjectReference'',
     ''v1.SecretReference''}"

definition copied_library :: "string set" where
  "copied_library = {''metav1.Condition'', ''metav1.ListMeta'', ''metav1.ObjectMeta'', ''v1.EnvFromSource'',
     ''v1.EnvVar'', ''v1.ResourceRequirements'', ''v1.SecretKeySelector'', ''v1.Volume'',
     ''v1.VolumeMount''}"

definition library_ok :: "(string \<Rightarrow> tree \<Rightarrow> bool) \<Rightarrow> library \<Rightarrow> bool" where
  "library_ok lib l \<longleftrightarrow> flat_libs lib flat_library \<and> is_order (range_order l) \<and>
     (\<forall>name\<in>copied_library. deep_copies lib (Lib name) (lib_copy l name))"

lemma library_flat: "library_ok lib l \<Longrightarrow> flat_libs lib flat_library"
  by (simp add: library_ok_def)

lemma library_copy [deep_intros]:
  "library_ok lib l \<Longrightarrow> name \<in> copied_library \<Longrightarrow> deep_copies lib (Lib name) (lib_copy l name)"
  by (simp add: library_ok_def)

lemma library_map [deep_intros]: "library_ok lib l \<Longrightarrow> deep_copies lib StringMap (make_map (range_order l))"
  by (simp add: library_ok_def make_map_deep)

lemma library_assign [deep_intros]:
  "flat_libs lib flat_library \<Longrightarrow> flat_type flat_library ty \<Longrightarrow> deep_copies lib ty assign"
  by (rule assign_deep)

lemma struct_deep:
  "library_ok lib l \<Longrightarrow> distinct (map fst fs) \<Longrightarrow>
     (flat_libs lib flat_library \<Longrightarrow> statements_cover lib flat_library fs ss) \<Longrightarrow>
     deep_copies lib (Struct fs) (copy_struct ss)"
  using copy_struct_deep library_flat by blast

named_theorems flat_types "the types that refer to nothing"

text \<open>Membership only: the sets themselves stay folded in the hypotheses.\<close>

lemma flat_library_mem:
  "name \<in> flat_library \<longleftrightarrow>
     name \<in> {''metav1.TypeMeta'', ''metav1.Duration'', ''v1.ObjectReference'',
        ''v1.LocalObjectReference'', ''v1.SecretReference''}"
  by (simp add: flat_library_def)

lemma copied_library_mem:
  "name \<in> copied_library \<longleftrightarrow>
     name \<in> {''metav1.Condition'', ''metav1.ListMeta'', ''metav1.ObjectMeta'', ''v1.EnvFromSource'',
        ''v1.EnvVar'', ''v1.ResourceRequirements'', ''v1.SecretKeySelector'', ''v1.Volume'',
        ''v1.VolumeMount''}"
  by (simp add: copied_library_def)

lemmas cover_simps = statements_cover_def flat_library_mem copied_library_mem

lemma AgentProtocol_flat [flat_types]: "flat_type flat_library AgentProtocol_type"
  by (simp add: AgentProtocol_type_def flat_library_mem)

lemma ExternalUpstream_flat [flat_types]: "flat_type flat_library ExternalUpstream_type"
  by (simp add: ExternalUpstream_type_def flat_library_mem)

lemma AgentGatewayClassSpec_flat [flat_types]: "flat_type flat_library AgentGatewayClassSpec_type"
  by (simp add: AgentGatewayClassSpec_type_def flat_library_mem)

lemma TransitiveAgent_flat [flat_types]: "flat_type flat_library TransitiveAgent_type"
  by (simp add: TransitiveAgent_type_def flat_library_mem)

lemma AgentTemplateImages_flat [flat_types]: "flat_type flat_library AgentTemplateImages_type"
  by (simp add: AgentTemplateImages_type_def flat_library_mem)

lemma AiModel_flat [flat_types]: "flat_type flat_library AiModel_type"
  by (simp add: AiModel_type_def flat_library_mem)

lemma AiGatewayClassSpec_flat [flat_types]: "flat_type flat_library AiGatewayClassSpec_type"
  by (simp add: AiGatewayClassSpec_type_def flat_library_mem)

lemma OpenAIModerationGuardConfig_flat [flat_types]: "flat_type flat_library OpenAIModerationGuardConfig_type"
  by (simp add: OpenAIModerationGuardConfig_type_def flat_library_mem)

lemma BedrockGuardConfig_flat [flat_types]: "flat_type flat_library BedrockGuardConfig_type"
  by (simp add: BedrockGuardConfig_type_def flat_library_mem)

lemma ToolGatewayClassSpec_flat [flat_types]: "flat_type flat_library ToolGatewayClassSpec_type"
  by (simp add: ToolGatewayClassSpec_type_def flat_library_mem)

lemma AgentProtocol_deep [deep_intros]:
  "library_ok lib l \<Longrightarrow> deep_copies lib AgentProtocol_type (AgentProtocol_DeepCopyInto l)"
  unfolding AgentProtocol_type_def AgentProtocol_DeepCopyInto_def
  by (rule struct_deep, assumption, simp, simp add: cover_simps deep_intros flat_types)

lemma SubAgent_deep [deep_intros]:
  "library_ok lib l \<Longrightarrow> deep_copies lib SubAgent_type (SubAgent_DeepCopyInto l)"
  unfolding SubAgent_type_def SubAgent_DeepCopyInto_def
  by (rule struct_deep, assumption, simp, simp add: cover_simps deep_intros flat_types)

lemma ExternalUpstream_deep [deep_intros]:
  "library_ok lib l \<Longrightarrow> deep_copies lib ExternalUpstream_type (ExternalUpstream_DeepCopyInto l)"
  unfolding ExternalUpstream_type_def ExternalUpstream_DeepCopyInto_def
  by (rule struct_deep, assumption, simp, simp add: cover_simps deep_intros flat_types)

lemma AgentToolUpstream_deep [deep_intros]:
  "library_ok lib l \<Longrightarrow> deep_copies lib AgentToolUpstream_type (AgentToolUpstream_DeepCopyInto l)"
  unfolding AgentToolUpstream_type_def AgentToolUpstream_DeepCopyInto_def
  by (rule struct_deep, assumption, simp, simp add: cover_simps deep_intros flat_types)

lemma AgentTool_deep [deep_intros]:
  "library_ok lib l \<Longrightarrow> deep_copies lib AgentTool_type (AgentTool_DeepCopyInto l)"
  unfolding AgentTool_type_def AgentTool_DeepCopyInto_def
  by (rule struct_deep, assumption, simp, simp add: cover_simps deep_intros flat_types)

lemma EmbeddedMetadata_deep [deep_intros]:
  "library_ok lib l \<Longrightarrow> deep_copies lib EmbeddedMetadata_type (EmbeddedMetadata_DeepCopyInto l)"
  unfolding EmbeddedMetadata_type_def EmbeddedMetadata_DeepCopyInto_def
  by (rule struct_deep, assumption, simp, simp add: cover_simps deep_intros flat_types)

lemma AgentSpec_deep [deep_intros]:
  "library_ok lib l \<Longrightarrow> deep_copies lib AgentSpec_type (AgentSpec_DeepCopyInto l)"
  unfolding AgentSpec_type_def AgentSpec_DeepCopyInto_def
  by (rule struct_deep, assumption, simp, simp add: cover_simps deep_intros flat_types)

lemma AgentStatus_deep [deep_intros]:
  "library_ok lib l \<Longrightarrow> deep_copies lib AgentStatus_type (AgentStatus_DeepCopyInto l)"
  unfolding AgentStatus_type_def AgentStatus_DeepCopyInto_def
  by (rule struct_deep, assumption, simp, simp add: cover_simps deep_intros flat_types)

lemma Agent_deep [deep_intros]:
  "library_ok lib l \<Longrightarrow> deep_copies lib Agent_type (Agent_DeepCopyInto l)"
  unfolding Agent_type_def Agent_DeepCopyInto_def
  by (rule struct_deep, assumption, simp, simp add: cover_simps deep_intros flat_types)

lemma AgentList_deep [deep_intros]:
  "library_ok lib l \<Longrightarrow> deep_copies lib AgentList_type (AgentList_DeepCopyInto l)"
  unfolding AgentList_type_def AgentList_DeepCopyInto_def
  by (rule struct_deep, assumption, simp, simp add: cover_simps deep_intros flat_types)

lemma AgentGatewaySpec_deep [deep_intros]:
  "library_ok lib l \<Longrightarrow> deep_copies lib AgentGatewaySpec_type (AgentGatewaySpec_DeepCopyInto l)"
  unfolding AgentGatewaySpec_type_def AgentGatewaySpec_DeepCopyInto_def
  by (rule struct_deep, assumption, simp, simp add: cover_simps deep_intros flat_types)

lemma AgentGatewayStatus_deep [deep_intros]:
  "library_ok lib l \<Longrightarrow> deep_copies lib AgentGatewayStatus_type (AgentGatewayStatus_DeepCopyInto l)"
  unfolding AgentGatewayStatus_type_def AgentGatewayStatus_DeepCopyInto_def
  by (rule struct_deep, assumption, simp, simp add: cover_simps deep_intros flat_types)

lemma AgentGateway_deep [deep_intros]:
  "library_ok lib l \<Longrightarrow> deep_copies lib AgentGateway_type (AgentGateway_DeepCopyInto l)"
  unfolding AgentGateway_type_def AgentGateway_DeepCopyInto_def
  by (rule struct_deep, assumption, simp, simp add: cover_simps deep_intros flat_types)

lemma AgentGatewayList_deep [deep_intros]:
  "library_ok lib l \<Longrightarrow> deep_copies lib AgentGatewayList_type (AgentGatewayList_DeepCopyInto l)"
  unfolding AgentGatewayList_type_def AgentGatewayList_DeepCopyInto_def
  by (rule struct_deep, assumption, simp, simp add: cover_simps deep_intros flat_types)

lemma AgentGatewayClassSpec_deep [deep_intros]:
  "library_ok lib l \<Longrightarrow> deep_copies lib AgentGatewayClassSpec_type (AgentGatewayClassSpec_DeepCopyInto l)"
  unfolding AgentGatewayClassSpec_type_def AgentGatewayClassSpec_DeepCopyInto_def
  by (rule struct_deep, assumption, simp, simp add: cover_simps deep_intros flat_types)

lemma AgentGatewayClassStatus_deep [deep_intros]:
  "library_ok lib l \<Longrightarrow> deep_copies lib AgentGatewayClassStatus_type (AgentGatewayClassStatus_DeepCopyInto l)"
  unfolding AgentGatewayClassStatus_type_def AgentGatewayClassStatus_DeepCopyInto_def
  by (rule struct_deep, assumption, simp, simp add: cover_simps deep_intros flat_types)

lemma AgentGatewayClass_deep [deep_intros]:
  "library_ok lib l \<Longrightarrow> deep_copies lib AgentGatewayClass_type (AgentGatewayClass_DeepCopyInto l)"
  unfolding AgentGatewayClass_type_def AgentGatewayClass_DeepCopyInto_def
  by (rule struct_deep, assumption, simp, simp add: cover_simps deep_intros flat_types)

lemma AgentGatewayClassList_deep [deep_intros]:
  "library_ok lib l \<Longrightarrow> deep_copies lib AgentGatewayClassList_type (AgentGatewayClassList_DeepCopyInto l)"
  unfolding AgentGatewayClassList_type_def AgentGatewayClassList_DeepCopyInto_def
  by (rule struct_deep, assumption, simp, simp add: cover_simps deep_intros flat_types)

lemma TransitiveAgent_deep [deep_intros]:
  "library_ok lib l \<Longrightarrow> deep_copies lib TransitiveAgent_type (TransitiveAgent_DeepCopyInto l)"
  unfolding TransitiveAgent_type_def TransitiveAgent_DeepCopyInto_def
  by (rule struct_deep, assumption, simp, simp add: cover_simps deep_intros flat_types)

lemma AgenticWorkforceSpec_deep [deep_intros]:
  "library_ok lib l \<Longrightarrow> deep_copies lib AgenticWorkforceSpec_type (AgenticWorkforceSpec_DeepCopyInto l)"
  unfolding AgenticWorkforceSpec_type_def AgenticWorkforceSpec_DeepCopyInto_def
  by (rule struct_deep, assumption, simp, simp add: cover_simps deep_intros flat_types)

lemma AgenticWorkforceStatus_deep [deep_intros]:
  "library_ok lib l \<Longrightarrow> deep_copies lib AgenticWorkforceStatus_type (AgenticWorkforceStatus_DeepCopyInto l)"
  unfolding AgenticWorkforceStatus_type_def AgenticWorkforceStatus_DeepCopyInto_def
  by (rule struct_deep, assumption, simp, simp add: cover_simps deep_intros flat_types)

lemma AgenticWorkforce_deep [deep_intros]:
  "library_ok lib l \<Longrightarrow> deep_copies lib AgenticWorkforce_type (AgenticWorkforce_DeepCopyInto l)"
  unfolding AgenticWorkforce_type_def AgenticWorkforce_DeepCopyInto_def
  by (rule struct_deep, assumption, simp, simp add: cover_simps deep_intros flat_types)

lemma AgenticWorkforceList_deep [deep_intros]:
  "library_ok lib l \<Longrightarrow> deep_copies lib AgenticWorkforceList_type (AgenticWorkforceList_DeepCopyInto l)"
  unfolding AgenticWorkforceList_type_def AgenticWorkforceList_DeepCopyInto_def
  by (rule struct_deep, assumption, simp, simp add: cover_simps deep_intros flat_types)

lemma AgentTemplateImages_deep [deep_intros]:
  "library_ok lib l \<Longrightarrow> deep_copies lib AgentTemplateImages_type (AgentTemplateImages_DeepCopyInto l)"
  unfolding AgentTemplateImages_type_def AgentTemplateImages_DeepCopyInto_def
  by (rule struct_deep, assumption, simp, simp add: cover_simps deep_intros flat_types)

lemma AgentRuntimeConfigurationSpec_deep [deep_intros]:
  "library_ok lib l \<Longrightarrow> deep_copies lib AgentRuntimeConfigurationSpec_type (AgentRuntimeConfigurationSpec_DeepCopyInto l)"
  unfolding AgentRuntimeConfigurationSpec_type_def AgentRuntimeConfigurationSpec_DeepCopyInto_def
  by (rule struct_deep, assumption, simp, simp add: cover_simps deep_intros flat_types)

lemma AgentRuntimeConfigurationStatus_deep [deep_intros]:
  "library_ok lib l \<Longrightarrow> deep_copies lib AgentRuntimeConfigurationStatus_type (AgentRuntimeConfigurationStatus_DeepCopyInto l)"
  unfolding AgentRuntimeConfigurationStatus_type_def AgentRuntimeConfigurationStatus_DeepCopyInto_def
  by (rule struct_deep, assumption, simp, simp add: cover_simps deep_intros flat_types)

lemma AgentRuntimeConfiguration_deep [deep_intros]:
  "library_ok lib l \<Longrightarrow> deep_copies lib AgentRuntimeConfiguration_type (AgentRuntimeConfiguration_DeepCopyInto l)"
  unfolding AgentRuntimeConfiguration_type_def AgentRuntimeConfiguration_DeepCopyInto_def
  by (rule struct_deep, assumption, simp, simp add: cover_simps deep_intros flat_types)

lemma AgentRuntimeConfigurationList_deep [deep_intros]:
  "library_ok lib l \<Longrightarrow> deep_copies lib AgentRuntimeConfigurationList_type (AgentRuntimeConfigurationList_DeepCopyInto l)"
  unfolding AgentRuntimeConfigurationList_type_def AgentRuntimeConfigurationList_DeepCopyInto_def
  by (rule struct_deep, assumption, simp, simp add: cover_simps deep_intros flat_types)

lemma AiModel_deep [deep_intros]:
  "library_ok lib l \<Longrightarrow> deep_copies lib AiModel_type (AiModel_DeepCopyInto l)"
  unfolding AiModel_type_def AiModel_DeepCopyInto_def
  by (rule struct_deep, assumption, simp, simp add: cover_simps deep_intros flat_types)

lemma AiGatewaySpec_deep [deep_intros]:
  "library_ok lib l \<Longrightarrow> deep_copies lib AiGatewaySpec_type (AiGatewaySpec_DeepCopyInto l)"
  unfolding AiGatewaySpec_type_def AiGatewaySpec_DeepCopyInto_def
  by (rule struct_deep, assumption, simp, simp add: cover_simps deep_intros flat_types)

lemma AiGatewayStatus_deep [deep_intros]:
  "library_ok lib l \<Longrightarrow> deep_copies lib AiGatewayStatus_type (AiGatewayStatus_DeepCopyInto l)"
  unfolding AiGatewayStatus_type_def AiGatewayStatus_DeepCopyInto_def
  by (rule struct_deep, assumption, simp, simp add: cover_simps deep_intros flat_types)

lemma AiGateway_deep [deep_intros]:
  "library_ok lib l \<Longrightarrow> deep_copies lib AiGateway_type (AiGateway_DeepCopyInto l)"
  unfolding AiGateway_type_def AiGateway_DeepCopyInto_def
  by (rule struct_deep, assumption, simp, simp add: cover_simps deep_intros flat_types)

lemma AiGatewayList_deep [deep_intros]:
  "library_ok lib l \<Longrightarrow> deep_copies lib AiGatewayList_type (AiGatewayList_DeepCopyInto l)"
  unfolding AiGatewayList_type_def AiGatewayList_DeepCopyInto_def
  by (rule struct_deep, assumption, simp, simp add: cover_simps deep_intros flat_types)

lemma AiGatewayClassSpec_deep [deep_intros]:
  "library_ok lib l \<Longrightarrow> deep_copies lib AiGatewayClassSpec_type (AiGatewayClassSpec_DeepCopyInto l)"
  unfolding AiGatewayClassSpec_type_def AiGatewayClassSpec_DeepCopyInto_def
  by (rule struct_deep, assumption, simp, simp add: cover_simps deep_intros flat_types)

lemma AiGatewayClassStatus_deep [deep_intros]:
  "library_ok lib l \<Longrightarrow> deep_copies lib AiGatewayClassStatus_type (AiGatewayClassStatus_DeepCopyInto l)"
  unfolding AiGatewayClassStatus_type_def AiGatewayClassStatus_DeepCopyInto_def
  by (rule struct_deep, assumption, simp, simp add: cover_simps deep_intros flat_types)

lemma AiGatewayClass_deep [deep_intros]:
  "library_ok lib l \<Longrightarrow> deep_copies lib AiGatewayClass_type (AiGatewayClass_DeepCopyInto l)"
  unfolding AiGatewayClass_type_def AiGatewayClass_DeepCopyInto_def
  by (rule struct_deep, assumption, simp, simp add: cover_simps deep_intros flat_types)

lemma AiGatewayClassList_deep [deep_intros]:
  "library_ok lib l \<Longrightarrow> deep_copies lib AiGatewayClassList_type (AiGatewayClassList_DeepCopyInto l)"
  unfolding AiGatewayClassList_type_def AiGatewayClassList_DeepCopyInto_def
  by (rule struct_deep, assumption, simp, simp add: cover_simps deep_intros flat_types)

lemma OpenAIModerationGuardConfig_deep [deep_intros]:
  "library_ok lib l \<Longrightarrow> deep_copies lib OpenAIModerationGuardConfig_type (OpenAIModerationGuardConfig_DeepCopyInto l)"
  unfolding OpenAIModerationGuardConfig_type_def OpenAIModerationGuardConfig_DeepCopyInto_def
  by (rule struct_deep, assumption, simp, simp add: cover_simps deep_intros flat_types)

lemma BedrockGuardConfig_deep [deep_intros]:
  "library_ok lib l \<Longrightarrow> deep_copies lib BedrockGuardConfig_type (BedrockGuardConfig_DeepCopyInto l)"
  unfolding BedrockGuardConfig_type_def BedrockGuardConfig_DeepCopyInto_def
  by (rule struct_deep, assumption, simp, simp add: cover_simps deep_intros flat_types)

lemma PresidioGuardConfig_deep [deep_intros]:
  "library_ok lib l \<Longrightarrow> deep_copies lib PresidioGuardConfig_type (PresidioGuardConfig_DeepCopyInto l)"
  unfolding PresidioGuardConfig_type_def PresidioGuardConfig_DeepCopyInto_def
  by (rule struct_deep, assumption, simp, simp add: cover_simps deep_intros flat_types)

lemma GuardSpec_deep [deep_intros]:
  "library_ok lib l \<Longrightarrow> deep_copies lib GuardSpec_type (GuardSpec_DeepCopyInto l)"
  unfolding GuardSpec_type_def GuardSpec_DeepCopyInto_def
  by (rule struct_deep, assumption, simp, simp add: cover_simps deep_intros flat_types)

lemma GuardStatus_deep [deep_intros]:
  "library_ok lib l \<Longrightarrow> deep_copies lib GuardStatus_type (GuardStatus_DeepCopyInto l)"
  unfolding GuardStatus_type_def GuardStatus_DeepCopyInto_def
  by (rule struct_deep, assumption, simp, simp add: cover_simps deep_intros flat_types)

lemma Guard_deep [deep_intros]:
  "library_ok lib l \<Longrightarrow> deep_copies lib Guard_type (Guard_DeepCopyInto l)"
  unfolding Guard_type_def Guard_DeepCopyInto_def
  by (rule struct_deep, assumption, simp, simp add: cover_simps deep_intros flat_types)

lemma GuardList_deep [deep_intros]:
  "library_ok lib l \<Longrightarrow> deep_copies lib GuardList_type (GuardList_DeepCopyInto l)"
  unfolding GuardList_type_def GuardList_DeepCopyInto_def
  by (rule struct_deep, assumption, simp, simp add: cover_simps deep_intros flat_types)

lemma OpenAIModerationProviderConfig_deep [deep_intros]:
  "library_ok lib l \<Longrightarrow> deep_copies lib OpenAIModerationProviderConfig_type (OpenAIModerationProviderConfig_DeepCopyInto l)"
  unfolding OpenAIModerationProviderConfig_type_def OpenAIModerationProviderConfig_DeepCopyInto_def
  by (rule struct_deep, assumption, simp, simp add: cover_simps deep_intros flat_types)

lemma BedrockProviderConfig_deep [deep_intros]:
  "library_ok lib l \<Longrightarrow> deep_copies lib BedrockProviderConfig_type (BedrockProviderConfig_DeepCopyInto l)"
  unfolding BedrockProviderConfig_type_def BedrockProviderConfig_DeepCopyInto_def
  by (rule struct_deep, assumption, simp, simp add: cover_simps deep_intros flat_types)

lemma PresidioProviderConfig_deep [deep_intros]:
  "library_ok lib l \<Longrightarrow> deep_copies lib PresidioProviderConfig_type (PresidioProviderConfig_DeepCopyInto l)"
  unfolding PresidioProviderConfig_type_def PresidioProviderConfig_DeepCopyInto_def
  by (rule struct_deep, assumption, simp, simp add: cover_simps deep_intros flat_types)

lemma GuardrailProviderSpec_deep [deep_intros]:
  "library_ok lib l \<Longrightarrow> deep_copies lib GuardrailProviderSpec_type (GuardrailProviderSpec_DeepCopyInto l)"
  unfolding GuardrailProviderSpec_type_def GuardrailProviderSpec_DeepCopyInto_def
  by (rule struct_deep, assumption, simp, simp add: cover_simps deep_intros flat_types)

lemma GuardrailProviderStatus_deep [deep_intros]:
  "library_ok lib l \<Longrightarrow> deep_copies lib GuardrailProviderStatus_type (GuardrailProviderStatus_DeepCopyInto l)"
  unfolding GuardrailProviderStatus_type_def GuardrailProviderStatus_DeepCopyInto_def
  by (rule struct_deep, assumption, simp, simp add: cover_simps deep_intros flat_types)

lemma GuardrailProvider_deep [deep_intros]:
  "library_ok lib l \<Longrightarrow> deep_copies lib GuardrailProvider_type (GuardrailProvider_DeepCopyInto l)"
  unfolding GuardrailProvider_type_def GuardrailProvider_DeepCopyInto_def
  by (rule struct_deep, assumption, simp, simp add: cover_simps deep_intros flat_types)

lemma GuardrailProviderList_deep [deep_intros]:
  "library_ok lib l \<Longrightarrow> deep_copies lib GuardrailProviderList_type (GuardrailProviderList_DeepCopyInto l)"
  unfolding GuardrailProviderList_type_def GuardrailProviderList_DeepCopyInto_def
  by (rule struct_deep, assumption, simp, simp add: cover_simps deep_intros flat_types)

lemma ToolGatewaySpec_deep [deep_intros]:
  "library_ok lib l \<Longrightarrow> deep_copies lib ToolGatewaySpec_type (ToolGatewaySpec_DeepCopyInto l)"
  unfolding ToolGatewaySpec_type_def ToolGatewaySpec_DeepCopyInto_def
  by (rule struct_deep, assumption, simp, simp add: cover_simps deep_intros flat_types)

lemma ToolGatewayStatus_deep [deep_intros]:
  "library_ok lib l \<Longrightarrow> deep_copies lib ToolGatewayStatus_type (ToolGatewayStatus_DeepCopyInto l)"
  unfolding ToolGatewayStatus_type_def ToolGatewayStatus_DeepCopyInto_def
  by (rule struct_deep, assumption, simp, simp add: cover_simps deep_intros flat_types)

lemma ToolGateway_deep [deep_intros]:
  "library_ok lib l \<Longrightarrow> deep_copies lib ToolGateway_type (ToolGateway_DeepCopyInto l)"
  unfolding ToolGateway_type_def ToolGateway_DeepCopyInto_def
  by (rule struct_deep, assumption, simp, simp add: cover_simps deep_intros flat_types)

lemma ToolGatewayList_deep [deep_intros]:
  "library_ok lib l \<Longrightarrow> deep_copies lib ToolGatewayList_type (ToolGatewayList_DeepCopyInto l)"
  unfolding ToolGatewayList_type_def ToolGatewayList_DeepCopyInto_def
  by (rule struct_deep, assumption, simp, simp add: cover_simps deep_intros flat_types)

lemma ToolGatewayClassSpec_deep [deep_intros]:
  "library_ok lib l \<Longrightarrow> deep_copies lib ToolGatewayClassSpec_type (ToolGatewayClassSpec_DeepCopyInto l)"
  unfolding ToolGatewayClassSpec_type_def ToolGatewayClassSpec_DeepCopyInto_def
  by (rule struct_deep, assumption, simp, simp add: cover_simps deep_intros flat_types)

lemma ToolGatewayClassStatus_deep [deep_intros]:
  "library_ok lib l \<Longrightarrow> deep_copies lib ToolGatewayClassStatus_type (ToolGatewayClassStatus_DeepCopyInto l)"
  unfolding ToolGatewayClassStatus_type_def ToolGatewayClassStatus_DeepCopyInto_def
  by (rule struct_deep, assumption, simp, simp add: cover_simps deep_intros flat_types)

lemma ToolGatewayClass_deep [deep_intros]:
  "library_ok lib l \<Longrightarrow> deep_copies lib ToolGatewayClass_type (ToolGatewayClass_DeepCopyInto l)"
  unfolding ToolGatewayClass_type_def ToolGatewayClass_DeepCopyInto_def
  by (rule struct_deep, assumption, simp, simp add: cover_simps deep_intros flat_types)

lemma ToolGatewayClassList_deep [deep_intros]:
  "library_ok lib l \<Longrightarrow> deep_copies lib ToolGatewayClassList_type (ToolGatewayClassList_DeepCopyInto l)"
  unfolding ToolGatewayClassList_type_def ToolGatewayClassList_DeepCopyInto_def
  by (rule struct_deep, assumption, simp, simp add: cover_simps deep_intros flat_types)

lemma ToolRouteUpstream_deep [deep_intros]:
  "library_ok lib l \<Longrightarrow> deep_copies lib ToolRouteUpstream_type (ToolRouteUpstream_DeepCopyInto l)"
  unfolding ToolRouteUpstream_type_def ToolRouteUpstream_DeepCopyInto_def
  by (rule struct_deep, assumption, simp, simp add: cover_simps deep_intros flat_types)

lemma ToolFilter_deep [deep_intros]:
  "library_ok lib l \<Longrightarrow> deep_copies lib ToolFilter_type (ToolFilter_DeepCopyInto l)"
  unfolding ToolFilter_type_def ToolFilter_DeepCopyInto_def
  by (rule struct_deep, assumption, simp, simp add: cover_simps deep_intros flat_types)

lemma ToolRouteSpec_deep [deep_intros]:
  "library_ok lib l \<Longrightarrow> deep_copies lib ToolRouteSpec_type (ToolRouteSpec_DeepCopyInto l)"
  unfolding ToolRouteSpec_type_def ToolRouteSpec_DeepCopyInto_def
  by (rule struct_deep, assumption, simp, simp add: cover_simps deep_intros flat_types)

lemma ToolRouteStatus_deep [deep_intros]:
  "library_ok lib l \<Longrightarrow> deep_copies lib ToolRouteStatus_type (ToolRouteStatus_DeepCopyInto l)"
  unfolding ToolRouteStatus_type_def ToolRouteStatus_DeepCopyInto_def
  by (rule struct_deep, assumption, simp, simp add: cover_simps deep_intros flat_types)

lemma ToolRoute_deep [deep_intros]:
  "library_ok lib l \<Longrightarrow> deep_copies lib ToolRoute_type (ToolRoute_DeepCopyInto l)"
  unfolding ToolRoute_type_def ToolRoute_DeepCopyInto_def
  by (rule struct_deep, assumption, simp, simp add: cover_simps deep_intros flat_types)

lemma ToolRouteList_deep [deep_intros]:
  "library_ok lib l \<Longrightarrow> deep_copies lib ToolRouteList_type (ToolRouteList_DeepCopyInto l)"
  unfolding ToolRouteList_type_def ToolRouteList_DeepCopyInto_def
  by (rule struct_deep, assumption, simp, simp add: cover_simps deep_intros flat_types)

lemma ToolServerSpec_deep [deep_intros]:
  "library_ok lib l \<Longrightarrow> deep_copies lib ToolServerSpec_type (ToolServerSpec_DeepCopyInto l)"
  unfolding ToolServerSpec_type_def ToolServerSpec_DeepCopyInto_def
  by (rule struct_deep, assumption, simp, simp add: cover_simps deep_intros flat_types)

lemma ToolServerStatus_deep [deep_intros]:
  "library_ok lib l \<Longrightarrow> deep_copies lib ToolServerStatus_type (ToolServerStatus_DeepCopyInto l)"
  unfolding ToolServerStatus_type_def ToolServerStatus_DeepCopyInto_def
  by (rule struct_deep, assumption, simp, simp add: cover_simps deep_intros flat_types)

lemma ToolServer_deep [deep_intros]:
  "library_ok lib l \<Longrightarrow> deep_copies lib ToolServer_type (ToolServer_DeepCopyInto l)"
  unfolding ToolServer_type_def ToolServer_DeepCopyInto_def
  by (rule struct_deep, assumption, simp, simp add: cover_simps deep_intros flat_types)

lemma ToolServerList_deep [deep_intros]:
  "library_ok lib l \<Longrightarrow> deep_copies lib ToolServerList_type (ToolServerList_DeepCopyInto l)"
  unfolding ToolServerList_type_def ToolServerList_DeepCopyInto_def
  by (rule struct_deep, assumption, simp, simp add: cover_simps deep_intros flat_types)

section \<open>The tables\<close>

text \<open>Every type with its schema and its \<open>DeepCopy\<close>.\<close>

definition deep_copy_table :: "library \<Rightarrow> (string \<times> gotype \<times> copier) list" where
  "deep_copy_table l =
     [(''AgentProtocol'', AgentProtocol_type, AgentProtocol_DeepCopy l),
      (''SubAgent'', SubAgent_type, SubAgent_DeepCopy l),
      (''ExternalUpstream'', ExternalUpstream_type, ExternalUpstream_DeepCopy l),
      (''AgentToolUpstream'', AgentToolUpstream_type, AgentToolUpstream_DeepCopy l),
      (''AgentTool'', AgentTool_type, AgentTool_DeepCopy l),
      (''EmbeddedMetadata'', EmbeddedMetadata_type, EmbeddedMetadata_DeepCopy l),
      (''AgentSpec'', AgentSpec_type, AgentSpec_DeepCopy l),
      (''AgentStatus'', AgentStatus_type, AgentStatus_DeepCopy l),
      (''Agent'', Agent_type, Agent_DeepCopy l),
      (''AgentList'', AgentList_type, AgentList_DeepCopy l),
      (''AgentGatewaySpec'', AgentGatewaySpec_type, AgentGatewaySpec_DeepCopy l),
      (''AgentGatewayStatus'', AgentGatewayStatus_type, AgentGatewayStatus_DeepCopy l),
      (''AgentGateway'', AgentGateway_type, AgentGateway_DeepCopy l),
      (''AgentGatewayList'', AgentGatewayList_type, AgentGatewayList_DeepCopy l),
      (''AgentGatewayClassSpec'', AgentGatewayClassSpec_type, AgentGatewayClassSpec_DeepCopy l),
      (''AgentGatewayClassStatus'', AgentGatewayClassStatus_type, AgentGatewayClassStatus_DeepCopy l),
      (''AgentGatewayClass'', AgentGatewayClass_type, AgentGatewayClass_DeepCopy l),
      (''AgentGatewayClassList'', AgentGatewayClassList_type, AgentGatewayClassList_DeepCopy l),
      (''TransitiveAgent'', TransitiveAgent_type, TransitiveAgent_DeepCopy l),
      (''AgenticWorkforceSpec'', AgenticWorkforceSpec_type, AgenticWorkforceSpec_DeepCopy l),
      (''AgenticWorkforceStatus'', AgenticWorkforceStatus_type, AgenticWorkforceStatus_DeepCopy l),
      (''AgenticWorkforce'', AgenticWorkforce_type, AgenticWorkforce_DeepCopy l),
      (''AgenticWorkforceList'', AgenticWorkforceList_type, AgenticWorkforceList_DeepCopy l),
      (''AgentTemplateImages'', AgentTemplateImages_type, AgentTemplateImages_DeepCopy l),
      (''AgentRuntimeConfigurationSpec'', AgentRuntimeConfigurationSpec_type, AgentRuntimeConfigurationSpec_DeepCopy l),
      (''AgentRuntimeConfigurationStatus'', AgentRuntimeConfigurationStatus_type, AgentRuntimeConfigurationStatus_DeepCopy l),
      (''AgentRuntimeConfiguration'', AgentRuntimeConfiguration_type, AgentRuntimeConfiguration_DeepCopy l),
      (''AgentRuntimeConfigurationList'', AgentRuntimeConfigurationList_type, AgentRuntimeConfigurationList_DeepCopy l),
      (''AiModel'', AiModel_type, AiModel_DeepCopy l),
      (''AiGatewaySpec'', AiGatewaySpec_type, AiGatewaySpec_DeepCopy l),
      (''AiGatewayStatus'', AiGatewayStatus_type, AiGatewayStatus_DeepCopy l),
      (''AiGateway'', AiGateway_type, AiGateway_DeepCopy l),
      (''AiGatewayList'', AiGatewayList_type, AiGatewayList_DeepCopy l),
      (''AiGatewayClassSpec'', AiGatewayClassSpec_type, AiGatewayClassSpec_DeepCopy l),
      (''AiGatewayClassStatus'', AiGatewayClassStatus_type, AiGatewayClassStatus_DeepCopy l),
      (''AiGatewayClass'', AiGatewayClass_type, AiGatewayClass_DeepCopy l),
      (''AiGatewayClassList'', AiGatewayClassList_type, AiGatewayClassList_DeepCopy l),
      (''OpenAIModerationGuardConfig'', OpenAIModerationGuardConfig_type, OpenAIModerationGuardConfig_DeepCopy l),
      (''BedrockGuardConfig'', BedrockGuardConfig_type, BedrockGuardConfig_DeepCopy l),
      (''PresidioGuardConfig'', PresidioGuardConfig_type, PresidioGuardConfig_DeepCopy l),
      (''GuardSpec'', GuardSpec_type, GuardSpec_DeepCopy l),
      (''GuardStatus'', GuardStatus_type, GuardStatus_DeepCopy l),
      (''Guard'', Guard_type, Guard_DeepCopy l),
      (''GuardList'', GuardList_type, GuardList_DeepCopy l),
      (''OpenAIModerationProviderConfig'', OpenAIModerationProviderConfig_type, OpenAIModerationProviderConfig_DeepCopy l),
      (''BedrockProviderConfig'', BedrockProviderConfig_type, BedrockProviderConfig_DeepCopy l),
      (''PresidioProviderConfig'', PresidioProviderConfig_type, PresidioProviderConfig_DeepCopy l),
      (''GuardrailProviderSpec'', GuardrailProviderSpec_type, GuardrailProviderSpec_DeepCopy l),
      (''GuardrailProviderStatus'', GuardrailProviderStatus_type, GuardrailProviderStatus_DeepCopy l),
      (''GuardrailProvider'', GuardrailProvider_type, GuardrailProvider_DeepCopy l),
      (''GuardrailProviderList'', GuardrailProviderList_type, GuardrailProviderList_DeepCopy l),
      (''ToolGatewaySpec'', ToolGatewaySpec_type, ToolGatewaySpec_DeepCopy l),
      (''ToolGatewayStatus'', ToolGatewayStatus_type, ToolGatewayStatus_DeepCopy l),
      (''ToolGateway'', ToolGateway_type, ToolGateway_DeepCopy l),
      (''ToolGatewayList'', ToolGatewayList_type, ToolGatewayList_DeepCopy l),
      (''ToolGatewayClassSpec'', ToolGatewayClassSpec_type, ToolGatewayClassSpec_DeepCopy l),
      (''ToolGatewayClassStatus'', ToolGatewayClassStatus_type, ToolGatewayClassStatus_DeepCopy l),
      (''ToolGatewayClass'', ToolGatewayClass_type, ToolGatewayClass_DeepCopy l),
      (''ToolGatewayClassList'', ToolGatewayClassList_type, ToolGatewayClassList_DeepCopy l),
      (''ToolRouteUpstream'', ToolRouteUpstream_type, ToolRouteUpstream_DeepCopy l),
      (''ToolFilter'', ToolFilter_type, ToolFilter_DeepCopy l),
      (''ToolRouteSpec'', ToolRouteSpec_type, ToolRouteSpec_DeepCopy l),
      (''ToolRouteStatus'', ToolRouteStatus_type, ToolRouteStatus_DeepCopy l),
      (''ToolRoute'', ToolRoute_type, ToolRoute_DeepCopy l),
      (''ToolRouteList'', ToolRouteList_type, ToolRouteList_DeepCopy l),
      (''ToolServerSpec'', ToolServerSpec_type, ToolServerSpec_DeepCopy l),
      (''ToolServerStatus'', ToolServerStatus_type, ToolServerStatus_DeepCopy l),
      (''ToolServer'', ToolServer_type, ToolServer_DeepCopy l),
      (''ToolServerList'', ToolServerList_type, ToolServerList_DeepCopy l)]"

text \<open>The types that are runtime objects.\<close>

definition object_table ::
  "library \<Rightarrow> (string \<times> gotype \<times> (val \<Rightarrow> heap \<Rightarrow> ((string \<times> val) option \<times> heap) option)) list" where
  "object_table l =
     [(''Agent'', Agent_type, Agent_DeepCopyObject l),
      (''AgentList'', AgentList_type, AgentList_DeepCopyObject l),
      (''AgentGateway'', AgentGateway_type, AgentGateway_DeepCopyObject l),
      (''AgentGatewayList'', AgentGatewayList_type, AgentGatewayList_DeepCopyObject l),
      (''AgentGatewayClass'', AgentGatewayClass_type, AgentGatewayClass_DeepCopyObject l),
      (''AgentGatewayClassList'', AgentGatewayClassList_type, AgentGatewayClassList_DeepCopyObject l),
      (''AgenticWorkforce'', AgenticWorkforce_type, AgenticWorkforce_DeepCopyObject l),
      (''AgenticWorkforceList'', AgenticWorkforceList_type, AgenticWorkforceList_DeepCopyObject l),
      (''AgentRuntimeConfiguration'', AgentRuntimeConfiguration_type, AgentRuntimeConfiguration_DeepCopyObject l),
      (''AgentRuntimeConfigurationList'', AgentRuntimeConfigurationList_type, AgentRuntimeConfigurationList_DeepCopyObject l),
      (''AiGateway'', AiGateway_type, AiGateway_DeepCopyObject l),
      (''AiGatewayList'', AiGatewayList_type, AiGatewayList_DeepCopyObject l),
      (''AiGatewayClass'', AiGatewayClass_type, AiGatewayClass_DeepCopyObject l),
      (''AiGatewayClassList'', AiGatewayClassList_type, AiGatewayClassList_DeepCopyObject l),
      (''Guard'', Guard_type, Guard_DeepCopyObject l),
      (''GuardList'', GuardList_type, GuardList_DeepCopyObject l),
      (''GuardrailProvider'', GuardrailProvider_type, GuardrailProvider_DeepCopyObject l),
      (''GuardrailProviderList'', GuardrailProviderList_type, GuardrailProviderList_DeepCopyObject l),
      (''ToolGateway'', ToolGateway_type, ToolGateway_DeepCopyObject l),
      (''ToolGatewayList'', ToolGatewayList_type, ToolGatewayList_DeepCopyObject l),
      (''ToolGatewayClass'', ToolGatewayClass_type, ToolGatewayClass_DeepCopyObject l),
      (''ToolGatewayClassList'', ToolGatewayClassList_type, ToolGatewayClassList_DeepCopyObject l),
      (''ToolRoute'', ToolRoute_type, ToolRoute_DeepCopyObject l),
      (''ToolRouteList'', ToolRouteList_type, ToolRouteList_DeepCopyObject l),
      (''ToolServer'', ToolServer_type, ToolServer_DeepCopyObject l),
      (''ToolServerList'', ToolServerList_type, ToolServerList_DeepCopyObject l)]"

lemmas deep_copy_defs =
  AgentProtocol_DeepCopy_def SubAgent_DeepCopy_def ExternalUpstream_DeepCopy_def
  AgentToolUpstream_DeepCopy_def AgentTool_DeepCopy_def EmbeddedMetadata_DeepCopy_def
  AgentSpec_DeepCopy_def AgentStatus_DeepCopy_def Agent_DeepCopy_def AgentList_DeepCopy_def
  AgentGatewaySpec_DeepCopy_def AgentGatewayStatus_DeepCopy_def AgentGateway_DeepCopy_def
  AgentGatewayList_DeepCopy_def AgentGatewayClassSpec_DeepCopy_def
  AgentGatewayClassStatus_DeepCopy_def AgentGatewayClass_DeepCopy_def
  AgentGatewayClassList_DeepCopy_def TransitiveAgent_DeepCopy_def AgenticWorkforceSpec_DeepCopy_def
  AgenticWorkforceStatus_DeepCopy_def AgenticWorkforce_DeepCopy_def
  AgenticWorkforceList_DeepCopy_def AgentTemplateImages_DeepCopy_def
  AgentRuntimeConfigurationSpec_DeepCopy_def AgentRuntimeConfigurationStatus_DeepCopy_def
  AgentRuntimeConfiguration_DeepCopy_def AgentRuntimeConfigurationList_DeepCopy_def
  AiModel_DeepCopy_def AiGatewaySpec_DeepCopy_def AiGatewayStatus_DeepCopy_def
  AiGateway_DeepCopy_def AiGatewayList_DeepCopy_def AiGatewayClassSpec_DeepCopy_def
  AiGatewayClassStatus_DeepCopy_def AiGatewayClass_DeepCopy_def AiGatewayClassList_DeepCopy_def
  OpenAIModerationGuardConfig_DeepCopy_def BedrockGuardConfig_DeepCopy_def
  PresidioGuardConfig_DeepCopy_def GuardSpec_DeepCopy_def GuardStatus_DeepCopy_def
  Guard_DeepCopy_def GuardList_DeepCopy_def OpenAIModerationProviderConfig_DeepCopy_def
  BedrockProviderConfig_DeepCopy_def PresidioProviderConfig_DeepCopy_def
  GuardrailProviderSpec_DeepCopy_def GuardrailProviderStatus_DeepCopy_def
  GuardrailProvider_DeepCopy_def GuardrailProviderList_DeepCopy_def ToolGatewaySpec_DeepCopy_def
  ToolGatewayStatus_DeepCopy_def ToolGateway_DeepCopy_def ToolGatewayList_DeepCopy_def
  ToolGatewayClassSpec_DeepCopy_def ToolGatewayClassStatus_DeepCopy_def
  ToolGatewayClass_DeepCopy_def ToolGatewayClassList_DeepCopy_def ToolRouteUpstream_DeepCopy_def
  ToolFilter_DeepCopy_def ToolRouteSpec_DeepCopy_def ToolRouteStatus_DeepCopy_def
  ToolRoute_DeepCopy_def ToolRouteList_DeepCopy_def ToolServerSpec_DeepCopy_def
  ToolServerStatus_DeepCopy_def ToolServer_DeepCopy_def ToolServerList_DeepCopy_def

lemma deep_copy_table_deep:
  assumes "library_ok lib l"
  shows "list_all (\<lambda>(name, ty, deepCopy). deep_copies lib (Pointer ty) deepCopy) (deep_copy_table l)"
  using assms by (simp add: deep_copy_table_def deep_copy_defs deep_intros)

lemmas deep_copy_object_defs =
  Agent_DeepCopyObject_def AgentList_DeepCopyObject_def AgentGateway_DeepCopyObject_def
  AgentGatewayList_DeepCopyObject_def AgentGatewayClass_DeepCopyObject_def
  AgentGatewayClassList_DeepCopyObject_def AgenticWorkforce_DeepCopyObject_def
  AgenticWorkforceList_DeepCopyObject_def AgentRuntimeConfiguration_DeepCopyObject_def
  AgentRuntimeConfigurationList_DeepCopyObject_def AiGateway_DeepCopyObject_def
  AiGatewayList_DeepCopyObject_def AiGatewayClass_DeepCopyObject_def
  AiGatewayClassList_DeepCopyObject_def Guard_DeepCopyObject_def GuardList_DeepCopyObject_def
  GuardrailProvider_DeepCopyObject_def GuardrailProviderList_DeepCopyObject_def
  ToolGateway_DeepCopyObject_def ToolGatewayList_DeepCopyObject_def
  ToolGatewayClass_DeepCopyObject_def ToolGatewayClassList_DeepCopyObject_def
  ToolRoute_DeepCopyObject_def ToolRouteList_DeepCopyObject_def ToolServer_DeepCopyObject_def
  ToolServerList_DeepCopyObject_def

lemma object_table_deep:
  assumes "library_ok lib l"
  shows "list_all (\<lambda>(name, ty, deepCopyObject). object_copies lib name ty deepCopyObject) (object_table l)"
  using assms by (simp add: object_table_def deep_copy_object_defs deep_copy_defs deep_intros)

end
