(* ===== verification/Scheme.thy ===== *)
theory Scheme
  imports Prelude
begin

text \<open>
  How the types of \<open>api/v1alpha1\<close> come into the operator's scheme: \<open>groupversion_info.go\<close>, the
  \<open>init\<close> functions of the type files and that of \<open>cmd/main.go\<close>. The builder and the scheme are those
  of apimachinery, so they are types of their own, with their operations as an argument.
\<close>

record group_version =
  gvGroup :: string
  gvVersion :: string

definition GroupVersion :: group_version where
  "GroupVersion = \<lparr>gvGroup = ''runtime.agentic-layer.ai'', gvVersion = ''v1alpha1''\<rparr>"

text \<open>
  The operations of \<open>runtime.SchemeBuilder\<close>, \<open>runtime.Scheme\<close> and \<open>metav1\<close> the code calls. \<open>None\<close> is
  an error or a panic: \<open>AddKnownTypes\<close> panics when a kind is already known by another type.
\<close>

record ('b, 's) machinery =
  zero_builder :: 'b
  builder_Register :: "('s \<Rightarrow> 's option) \<Rightarrow> 'b \<Rightarrow> 'b"
  builder_AddToScheme :: "'b \<Rightarrow> 's \<Rightarrow> 's option"
  AddKnownTypes :: "group_version \<Rightarrow> string list \<Rightarrow> 's \<Rightarrow> 's option"
  AddToGroupVersion :: "group_version \<Rightarrow> 's \<Rightarrow> 's"
  NewScheme :: 's
  clientgoscheme_AddToScheme :: "'s \<Rightarrow> 's option"

text \<open>\<open>schemeBuilder\<close>; an object is given by the name of its type, which is its kind.\<close>

record 'b schemeBuilder =
  embedded :: 'b
  sb_GroupVersion :: group_version

definition SchemeBuilder :: "('b, 's) machinery \<Rightarrow> 'b schemeBuilder" where
  "SchemeBuilder M = \<lparr>embedded = zero_builder M, sb_GroupVersion = GroupVersion\<rparr>"

definition add_objects ::
  "('b, 's) machinery \<Rightarrow> group_version \<Rightarrow> string list \<Rightarrow> 's \<Rightarrow> 's option" where
  "add_objects M gv objects s =
     (case AddKnownTypes M gv objects s of None \<Rightarrow> None | Some s' \<Rightarrow> Some (AddToGroupVersion M gv s'))"

definition Register :: "('b, 's) machinery \<Rightarrow> string list \<Rightarrow> 'b schemeBuilder \<Rightarrow> 'b schemeBuilder" where
  "Register M objects bld =
     bld\<lparr>embedded := builder_Register M (add_objects M (sb_GroupVersion bld) objects) (embedded bld)\<rparr>"

text \<open>
  \<open>AddToScheme\<close> is a method value of the pointer \<open>SchemeBuilder\<close>: it runs what is registered when it is
  called, and not what was when the variable was set.
\<close>

definition AddToScheme :: "('b, 's) machinery \<Rightarrow> 'b schemeBuilder \<Rightarrow> 's \<Rightarrow> 's option" where
  "AddToScheme M bld = builder_AddToScheme M (embedded bld)"

section \<open>The init functions\<close>

text \<open>One per type file, each with the objects it registers; they run in the order of the files' names.\<close>

definition init_agent :: "('b, 's) machinery \<Rightarrow> 'b schemeBuilder \<Rightarrow> 'b schemeBuilder" where
  "init_agent M = Register M [''Agent'', ''AgentList'']"

definition init_agentgateway :: "('b, 's) machinery \<Rightarrow> 'b schemeBuilder \<Rightarrow> 'b schemeBuilder" where
  "init_agentgateway M = Register M [''AgentGateway'', ''AgentGatewayList'', ''AgentGatewayClass'', ''AgentGatewayClassList'']"

definition init_agenticworkforce :: "('b, 's) machinery \<Rightarrow> 'b schemeBuilder \<Rightarrow> 'b schemeBuilder" where
  "init_agenticworkforce M = Register M [''AgenticWorkforce'', ''AgenticWorkforceList'']"

definition init_agentruntimeconfiguration :: "('b, 's) machinery \<Rightarrow> 'b schemeBuilder \<Rightarrow> 'b schemeBuilder" where
  "init_agentruntimeconfiguration M = Register M [''AgentRuntimeConfiguration'', ''AgentRuntimeConfigurationList'']"

definition init_aigateway :: "('b, 's) machinery \<Rightarrow> 'b schemeBuilder \<Rightarrow> 'b schemeBuilder" where
  "init_aigateway M = Register M [''AiGateway'', ''AiGatewayList'']"

definition init_aigatewayclass :: "('b, 's) machinery \<Rightarrow> 'b schemeBuilder \<Rightarrow> 'b schemeBuilder" where
  "init_aigatewayclass M = Register M [''AiGatewayClass'', ''AiGatewayClassList'']"

definition init_guard :: "('b, 's) machinery \<Rightarrow> 'b schemeBuilder \<Rightarrow> 'b schemeBuilder" where
  "init_guard M = Register M [''Guard'', ''GuardList'']"

definition init_guardrailprovider :: "('b, 's) machinery \<Rightarrow> 'b schemeBuilder \<Rightarrow> 'b schemeBuilder" where
  "init_guardrailprovider M = Register M [''GuardrailProvider'', ''GuardrailProviderList'']"

definition init_toolgateway :: "('b, 's) machinery \<Rightarrow> 'b schemeBuilder \<Rightarrow> 'b schemeBuilder" where
  "init_toolgateway M = Register M [''ToolGateway'', ''ToolGatewayList'', ''ToolGatewayClass'', ''ToolGatewayClassList'']"

definition init_toolroute :: "('b, 's) machinery \<Rightarrow> 'b schemeBuilder \<Rightarrow> 'b schemeBuilder" where
  "init_toolroute M = Register M [''ToolRoute'', ''ToolRouteList'']"

definition init_toolserver :: "('b, 's) machinery \<Rightarrow> 'b schemeBuilder \<Rightarrow> 'b schemeBuilder" where
  "init_toolserver M = Register M [''ToolServer'', ''ToolServerList'']"

definition initialised :: "('b, 's) machinery \<Rightarrow> 'b schemeBuilder" where
  "initialised M =
     foldl (\<lambda>bld init. init bld) (SchemeBuilder M)
       [init_agent M, init_agentgateway M, init_agenticworkforce M,
        init_agentruntimeconfiguration M, init_aigateway M, init_aigatewayclass M,
        init_guard M, init_guardrailprovider M, init_toolgateway M, init_toolroute M,
        init_toolserver M]"

text \<open>\<open>init\<close> of \<open>cmd/main.go\<close>: \<open>utilruntime.Must\<close> panics on an error, which is \<open>None\<close> here too.\<close>

definition main_init :: "('b, 's) machinery \<Rightarrow> 's option" where
  "main_init M =
     (case clientgoscheme_AddToScheme M (NewScheme M) of
        None \<Rightarrow> None
      | Some s \<Rightarrow> AddToScheme M (initialised M) s)"

section \<open>What the libraries promise\<close>

text \<open>
  \<open>known s\<close> is the kinds \<open>s\<close> knows of \<open>GroupVersion\<close>, and \<open>meta\<close> the kinds \<open>AddToGroupVersion\<close> adds to
  every group version (\<open>WatchEvent\<close>, \<open>ListOptions\<close>, ...). The builder runs the functions in the
  order they were registered and stops at the first error. New kinds are added without a panic
  when the version has a name and none of them is known.
\<close>

definition machinery_ok :: "('b, 's) machinery \<Rightarrow> ('s \<Rightarrow> string set) \<Rightarrow> string set \<Rightarrow> bool" where
  "machinery_ok M known meta \<longleftrightarrow>
     (\<forall>s. builder_AddToScheme M (zero_builder M) s = Some s) \<and>
     (\<forall>f b s. builder_AddToScheme M (builder_Register M f b) s =
        (case builder_AddToScheme M b s of None \<Rightarrow> None | Some s' \<Rightarrow> f s')) \<and>
     (\<forall>ks s. gvVersion GroupVersion \<noteq> [] \<longrightarrow> distinct ks \<longrightarrow> set ks \<inter> known s = {} \<longrightarrow>
        (\<exists>s'. AddKnownTypes M GroupVersion ks s = Some s' \<and> known s' = known s \<union> set ks)) \<and>
     (\<forall>s. known (AddToGroupVersion M GroupVersion s) = known s \<union> meta)"

text \<open>The builder's state after a registration, in terms of the scheme it makes.\<close>

lemma register_adds:
  assumes ok: "machinery_ok M known meta" and gv: "sb_GroupVersion bld = GroupVersion"
    and b: "AddToScheme M bld s = Some s'" and ks: "distinct ks" "set ks \<inter> known s' = {}"
  obtains s'' where "AddToScheme M (Register M ks bld) s = Some s''" and "known s'' = known s' \<union> set ks \<union> meta"
proof -
  have "gvVersion GroupVersion \<noteq> []" by (simp add: GroupVersion_def)
  then obtain r where r: "AddKnownTypes M GroupVersion ks s' = Some r" "known r = known s' \<union> set ks"
    using ok ks unfolding machinery_ok_def by meson
  have "AddToScheme M (Register M ks bld) s = Some (AddToGroupVersion M GroupVersion r)"
    using ok b r(1) gv by (simp add: AddToScheme_def Register_def add_objects_def machinery_ok_def)
  moreover have "known (AddToGroupVersion M GroupVersion r) = known s' \<union> set ks \<union> meta"
    using ok r(2) by (simp add: machinery_ok_def)
  ultimately show thesis using that by blast
qed

text \<open>A sequence of registrations of kinds that do not clash adds them all.\<close>

lemma registers_add:
  assumes ok: "machinery_ok M known meta"
  shows "sb_GroupVersion bld = GroupVersion \<Longrightarrow> AddToScheme M bld s = Some s' \<Longrightarrow> distinct (concat kss) \<Longrightarrow>
     set (concat kss) \<inter> (known s' \<union> meta) = {} \<Longrightarrow>
     \<exists>s''. AddToScheme M (foldl (\<lambda>bld ks. Register M ks bld) bld kss) s = Some s'' \<and>
        known s'' = known s' \<union> set (concat kss) \<union> (if kss = [] then {} else meta)"
proof (induction kss arbitrary: bld s')
  case Nil
  then show ?case by simp
next
  case (Cons ks kss)
  have d: "distinct ks" "set ks \<inter> known s' = {}" using Cons.prems by auto
  obtain t where t: "AddToScheme M (Register M ks bld) s = Some t" "known t = known s' \<union> set ks \<union> meta"
    using register_adds[OF ok Cons.prems(1,2) d] by blast
  have "sb_GroupVersion (Register M ks bld) = GroupVersion" using Cons.prems(1) by (simp add: Register_def)
  moreover have "distinct (concat kss)" "set (concat kss) \<inter> (known t \<union> meta) = {}"
    using Cons.prems(3,4) t(2) by auto
  ultimately obtain u where "AddToScheme M (foldl (\<lambda>bld ks. Register M ks bld) (Register M ks bld) kss) s = Some u"
      "known u = known t \<union> set (concat kss) \<union> (if kss = [] then {} else meta)"
    using Cons.IH[OF _ t(1)] by blast
  then show ?case using t(2) by (auto split: if_splits)
qed

text \<open>The kinds of the API, file by file.\<close>

definition registered_kinds :: "string list list" where
  "registered_kinds =
     [[''Agent'', ''AgentList''],
      [''AgentGateway'', ''AgentGatewayList'', ''AgentGatewayClass'', ''AgentGatewayClassList''],
      [''AgenticWorkforce'', ''AgenticWorkforceList''],
      [''AgentRuntimeConfiguration'', ''AgentRuntimeConfigurationList''],
      [''AiGateway'', ''AiGatewayList''],
      [''AiGatewayClass'', ''AiGatewayClassList''],
      [''Guard'', ''GuardList''],
      [''GuardrailProvider'', ''GuardrailProviderList''],
      [''ToolGateway'', ''ToolGatewayList'', ''ToolGatewayClass'', ''ToolGatewayClassList''],
      [''ToolRoute'', ''ToolRouteList''],
      [''ToolServer'', ''ToolServerList'']]"

lemma initialised_registers:
  "initialised M = foldl (\<lambda>bld ks. Register M ks bld) (SchemeBuilder M) registered_kinds"
  by (simp add: initialised_def registered_kinds_def init_agent_def init_agentgateway_def init_agenticworkforce_def init_agentruntimeconfiguration_def init_aigateway_def init_aigatewayclass_def init_guard_def init_guardrailprovider_def init_toolgateway_def init_toolroute_def init_toolserver_def)

end
