(* ===== verification/Api_Properties.thy ===== *)
theory Api_Properties
  imports Deep_Copy_Correct Scheme
begin

text \<open>
  The properties of the API package: that its copies are independent of what they were made
  from, and that the operator's scheme knows the kinds of the API, each of which can be copied.
\<close>

section \<open>Deep copies\<close>

text \<open>
  C34: A deep copy is equal to its original and independent of it. For every struct type of the
  API, \<open>DeepCopy\<close> of a pointer to a value of that type (or of nil) returns without a panic a pointer
  to a value that stands for the same tree; the original stands for what it did. Whatever is
  written afterwards into the cells there were before, the copy stands for that tree still; and
  whatever is written into the cells the copy was given, the original does. So a controller may
  change what it reads from the shared cache after copying it.
\<close>

theorem deep_copy_independent:
  assumes "library_ok lib l" and "(name, ty, deepCopy) \<in> set (deep_copy_table l)"
    and "conforms lib (Pointer ty) t" and "rep 0 h v t"
  shows "\<exists>c g. deepCopy v h = Some (c, h @ g) \<and> rep 0 (h @ g) c t \<and> rep 0 (h @ g) v t
     \<and> (c = VNil \<longleftrightarrow> v = VNil)
     \<and> (\<forall>h'. length h' = length h \<longrightarrow> rep 0 (h' @ g) c t)
     \<and> (\<forall>g'. length g' = length g \<longrightarrow> rep 0 (h @ g') v t)"
proof -
  have "deep_copies lib (Pointer ty) deepCopy"
    using deep_copy_table_deep[OF assms(1)] assms(2) by (auto simp: list_all_iff)
  then obtain c g where c: "deepCopy v h = Some (c, h @ g)" "rep (length h) (h @ g) c t"
    using deep_copiesD[OF _ assms(3,4)] by blast
  have "rep 0 (h @ g') v t" for g' using rep_mono(1)[OF assms(4)] by simp
  moreover have "rep 0 (h' @ g) c t" if len: "length h' = length h" for h'
    using rep_separate[OF c(2) len] .
  moreover have "c = VNil \<longleftrightarrow> v = VNil"
    using rep_pointer_nil[OF assms(3)] assms(4) c(2) by blast
  ultimately show ?thesis using c(1) by blast
qed

text \<open>
  A guard whose configuration of Presidio has a map, and libraries whose types are all scalars.
\<close>

definition scalar_lib :: "string \<Rightarrow> tree \<Rightarrow> bool" where
  "scalar_lib name t \<longleftrightarrow> (case t of TScalar s \<Rightarrow> True | _ \<Rightarrow> False)"

definition scalar_library :: library where
  "scalar_library = \<lparr>lib_copy = (\<lambda>_. assign), range_order = (\<lambda>m. m)\<rparr>"

lemma scalar_library_ok: "library_ok scalar_lib scalar_library"
proof -
  have flats: "flat_libs scalar_lib S" for S
    by (auto simp: flat_libs_def scalar_lib_def split: tree.splits)
  have "deep_copies scalar_lib (Lib name) assign" for name
    by (rule assign_deep[OF flats[of "{name}"]]) simp
  then show ?thesis using flats by (simp add: library_ok_def scalar_library_def is_order_def)
qed

definition presidio_heap :: heap where
  "presidio_heap = [CMap (fmap_of_list [(''ALL'', ''0.5'')]),
     CVar (VStruct [(''Language'', VScalar ''en''), (''ScoreThresholds'', VRef 0), (''EntityActions'', VNil)])]"

definition presidio_tree :: tree where
  "presidio_tree = TPtr (TStruct [(''Language'', TScalar ''en''),
     (''ScoreThresholds'', TMap (fmap_of_list [(''ALL'', ''0.5'')])), (''EntityActions'', TNil)])"

theorem deep_copy_independent_witness:
  "\<exists>c g. PresidioGuardConfig_DeepCopy scalar_library (VRef 1) presidio_heap = Some (c, presidio_heap @ g)
     \<and> (\<forall>h'. length h' = 2 \<longrightarrow> rep 0 (h' @ g) c presidio_tree)"
proof -
  have "(''PresidioGuardConfig'', PresidioGuardConfig_type, PresidioGuardConfig_DeepCopy scalar_library)
      \<in> set (deep_copy_table scalar_library)"
    by (simp add: deep_copy_table_def)
  moreover have "conforms scalar_lib (Pointer PresidioGuardConfig_type) presidio_tree"
    by (simp add: PresidioGuardConfig_type_def presidio_tree_def)
  moreover have "rep 0 presidio_heap (VRef 1) presidio_tree"
    by (simp add: presidio_heap_def presidio_tree_def load_def)
  ultimately obtain c g where "PresidioGuardConfig_DeepCopy scalar_library (VRef 1) presidio_heap = Some (c, presidio_heap @ g)"
      "\<forall>h'. length h' = length presidio_heap \<longrightarrow> rep 0 (h' @ g) c presidio_tree"
    using deep_copy_independent[OF scalar_library_ok] by blast
  then show ?thesis by (intro exI[of _ c] exI[of _ g]) (simp add: presidio_heap_def)
qed

section \<open>The scheme\<close>

lemma registered_kinds_objects: "concat registered_kinds = map fst (object_table l)"
  by (simp add: registered_kinds_def object_table_def)

lemma registered_kinds_distinct: "distinct (concat registered_kinds)"
  by (simp add: registered_kinds_def)

text \<open>
  C35: The scheme is complete. If client-go's types can be added to the new scheme and they have
  none of this group, the start of the operator adds to it exactly the kinds of the API, an object
  and its list for each, without registering a kind twice, which would panic. Each of the kinds
  has a \<open>DeepCopyObject\<close> that returns a deep copy under the kind's own name, and the nil object,
  not a nil pointer in an object, for a nil receiver.
\<close>

theorem scheme_complete:
  assumes "machinery_ok M known meta" and "library_ok lib l"
    and "clientgoscheme_AddToScheme M (NewScheme M) = Some s" and "known s = {}"
    and "meta \<inter> fst ` set (object_table l) = {}"
  shows "(\<exists>s'. main_init M = Some s' \<and> known s' = fst ` set (object_table l) \<union> meta)
   \<and> (\<forall>(kind, ty, deepCopyObject) \<in> set (object_table l).
        \<forall>h v t. conforms lib (Pointer ty) t \<longrightarrow> rep 0 h v t \<longrightarrow>
          (\<exists>c g. deepCopyObject v h = Some (if v = VNil then None else Some (kind, c), h @ g)
             \<and> rep (length h) (h @ g) c t))"
proof
  have kinds: "set (concat registered_kinds) = fst ` set (object_table l)"
    unfolding registered_kinds_objects[of l] by simp
  have nonempty: "registered_kinds \<noteq> []" by (simp add: registered_kinds_def)
  have "AddToScheme M (SchemeBuilder M) s = Some s"
    using assms(1) by (simp add: AddToScheme_def SchemeBuilder_def machinery_ok_def)
  then obtain s' where "AddToScheme M (initialised M) s = Some s'"
      "known s' = known s \<union> set (concat registered_kinds) \<union> (if registered_kinds = [] then {} else meta)"
    unfolding initialised_registers
    using registers_add[OF assms(1), of "SchemeBuilder M" s s registered_kinds] registered_kinds_distinct
      assms(4,5) kinds by (auto simp: SchemeBuilder_def)
  then show "\<exists>s'. main_init M = Some s' \<and> known s' = fst ` set (object_table l) \<union> meta"
    unfolding kinds using assms(3,4) nonempty by (simp add: main_init_def)
next
  show "\<forall>(kind, ty, deepCopyObject) \<in> set (object_table l).
        \<forall>h v t. conforms lib (Pointer ty) t \<longrightarrow> rep 0 h v t \<longrightarrow>
          (\<exists>c g. deepCopyObject v h = Some (if v = VNil then None else Some (kind, c), h @ g)
             \<and> rep (length h) (h @ g) c t)"
    using object_table_deep[OF assms(2)] unfolding list_all_iff object_copies_def .
qed

text \<open>Builders that are lists of functions, and schemes that are sets of kinds.\<close>

definition simple_machinery :: "((string set \<Rightarrow> string set option) list, string set) machinery" where
  "simple_machinery = \<lparr>zero_builder = [], builder_Register = (\<lambda>f b. b @ [f]),
     builder_AddToScheme = (\<lambda>b s. foldl (\<lambda>r f. case r of None \<Rightarrow> None | Some s \<Rightarrow> f s) (Some s) b),
     AddKnownTypes = (\<lambda>gv ks s. if set ks \<inter> s = {} then Some (s \<union> set ks) else None),
     AddToGroupVersion = (\<lambda>gv s. s \<union> {''WatchEvent''}), NewScheme = {}, clientgoscheme_AddToScheme = Some\<rparr>"

lemma simple_machinery_ok: "machinery_ok simple_machinery (\<lambda>s. s) {''WatchEvent''}"
  by (auto simp: machinery_ok_def simple_machinery_def split: option.splits)

theorem scheme_complete_witness:
  "\<exists>s. main_init simple_machinery = Some s \<and> ''Agent'' \<in> s \<and> ''AgentList'' \<in> s \<and> ''WatchEvent'' \<in> s"
proof -
  have "clientgoscheme_AddToScheme simple_machinery (NewScheme simple_machinery) = Some {}"
    by (simp add: simple_machinery_def)
  moreover have "{''WatchEvent''} \<inter> fst ` set (object_table scalar_library) = {}"
    and "''Agent'' \<in> fst ` set (object_table scalar_library)" "''AgentList'' \<in> fst ` set (object_table scalar_library)"
    by (simp_all add: object_table_def)
  ultimately show ?thesis
    using scheme_complete[OF simple_machinery_ok scalar_library_ok] by auto
qed

end
