(* ===== verification/Controller_Loop.thy ===== *)
theory Controller_Loop
  imports Kube
begin

text \<open>
  A controller as a state machine, whatever it reconciles: events of the cluster and the
  reconciliations of several owners interleave, and a reconciliation works with what it read when it
  began. The queue is the documented contract of a controller-runtime work queue: it holds a request
  at most once, one worker at a time has a given request, a request that is added meanwhile stays
  for later, and a failed one is added again.
\<close>

section \<open>States and steps\<close>

text \<open>
  \<open>view w r\<close> is what the reconciliation of \<open>r\<close> starts from in the cluster \<open>w\<close>, if its object exists;
  \<open>event w e w'\<close> says that the event \<open>e\<close> takes the cluster from \<open>w\<close> to \<open>w'\<close> and \<open>wakes w' e\<close> is what it
  enqueues; \<open>act r x w\<close> is the reconciliation of \<open>r\<close> that began with \<open>x\<close>, as its success and the cluster
  it leaves, and \<open>echo r w w'\<close> is what the events of its own writes enqueue.
\<close>

record ('w, 'x) loop_state =
  world :: 'w
  queued :: "Request set"
  running :: "Request \<Rightarrow> 'x option"

inductive loop_step ::
  "('w \<Rightarrow> Request \<Rightarrow> 'x option) \<Rightarrow> ('w \<Rightarrow> 'e \<Rightarrow> 'w \<Rightarrow> bool) \<Rightarrow> ('w \<Rightarrow> 'e \<Rightarrow> Request set)
    \<Rightarrow> (Request \<Rightarrow> 'x \<Rightarrow> 'w \<Rightarrow> bool \<times> 'w) \<Rightarrow> (Request \<Rightarrow> 'w \<Rightarrow> 'w \<Rightarrow> Request set)
    \<Rightarrow> ('w, 'x) loop_state \<Rightarrow> ('w, 'x) loop_state \<Rightarrow> bool"
  for view event wakes act echo where
  changed: "event (world s) e w' \<Longrightarrow>
     loop_step view event wakes act echo s (s\<lparr>world := w', queued := queued s \<union> wakes w' e\<rparr>)"
| resynced: "loop_step view event wakes act echo s (s\<lparr>queued := insert r (queued s)\<rparr>)"
| started: "r \<in> queued s \<Longrightarrow> running s r = None \<Longrightarrow> view (world s) r = Some x \<Longrightarrow>
     loop_step view event wakes act echo s (s\<lparr>queued := queued s - {r}, running := (running s)(r := Some x)\<rparr>)"
| dropped: "r \<in> queued s \<Longrightarrow> running s r = None \<Longrightarrow> view (world s) r = None \<Longrightarrow>
     loop_step view event wakes act echo s (s\<lparr>queued := queued s - {r}\<rparr>)"
| finished: "running s r = Some x \<Longrightarrow> act r x (world s) = (ok, w') \<Longrightarrow>
     loop_step view event wakes act echo s
       \<lparr>world = w', queued = queued s \<union> echo r (world s) w' \<union> (if ok then {} else {r}),
        running = (running s)(r := None)\<rparr>"

text \<open>At the start the informers have listed every object, and nothing has been reconciled.\<close>

inductive loop_reachable ::
  "('w \<Rightarrow> Request \<Rightarrow> 'x option) \<Rightarrow> ('w \<Rightarrow> 'e \<Rightarrow> 'w \<Rightarrow> bool) \<Rightarrow> ('w \<Rightarrow> 'e \<Rightarrow> Request set)
    \<Rightarrow> (Request \<Rightarrow> 'x \<Rightarrow> 'w \<Rightarrow> bool \<times> 'w) \<Rightarrow> (Request \<Rightarrow> 'w \<Rightarrow> 'w \<Rightarrow> Request set)
    \<Rightarrow> ('w, 'x) loop_state \<Rightarrow> bool"
  for view event wakes act echo where
  listed: "(\<And>r. view w r \<noteq> None \<Longrightarrow> r \<in> q) \<Longrightarrow>
     loop_reachable view event wakes act echo \<lparr>world = w, queued = q, running = (\<lambda>_. None)\<rparr>"
| stepped: "loop_reachable view event wakes act echo s \<Longrightarrow> loop_step view event wakes act echo s t \<Longrightarrow>
     loop_reachable view event wakes act echo t"

inductive_cases loop_stepE: "loop_step view event wakes act echo s t"

lemma reachable_steps:
  assumes "(loop_step view event wakes act echo)\<^sup>*\<^sup>* s t" and "loop_reachable view event wakes act echo s"
  shows "loop_reachable view event wakes act echo t"
  using assms by (induction rule: rtranclp_induct) (auto intro: loop_reachable.stepped)

text \<open>One reconciliation from the beginning, with nothing in between.\<close>

lemma first_run:
  assumes "r \<in> q" and "view w r = Some x" and "act r x w = (ok, w')"
  shows "(loop_step view event wakes act echo)\<^sup>*\<^sup>* \<lparr>world = w, queued = q, running = (\<lambda>_. None)\<rparr>
    \<lparr>world = w', queued = q - {r} \<union> echo r w w' \<union> (if ok then {} else {r}), running = (\<lambda>_. None)\<rparr>"
proof -
  let ?s = "\<lparr>world = w, queued = q, running = (\<lambda>_. None)\<rparr>"
  let ?t = "\<lparr>world = w', queued = q - {r} \<union> echo r w w' \<union> (if ok then {} else {r}), running = (\<lambda>_. None)\<rparr>"
  let ?m = "\<lparr>world = w, queued = q - {r}, running = (\<lambda>_. None)(r := Some x)\<rparr>"
  have 1: "loop_step view event wakes act echo ?s ?m"
    using loop_step.started[where s = ?s and r = r and x = x and view = view] assms(1,2) by simp
  have 2: "loop_step view event wakes act echo ?m ?t"
  proof -
    have "running ?m r = Some x" and idle: "(running ?m)(r := None) = (\<lambda>_. None)" by simp_all
    from loop_step.finished[where s = ?m and act = act and echo = echo and view = view and ok = ok and w' = w', OF this(1)] assms(3)
    show ?thesis unfolding idle by (cases ok) simp_all
  qed
  show ?thesis using 1 2 by (meson converse_rtranclp_into_rtranclp rtranclp.rtrancl_refl)
qed

section \<open>No change is lost\<close>

text \<open>
  What a controller has to promise: an event or a write that changes what a request starts from, or
  undoes what had been achieved for it, enqueues it; and a successful reconciliation achieves what
  it is for if what it started from is still current. An event may leave out a request that is
  being reconciled if it is \<open>pending\<close>: if the write that ends the reconciliation will enqueue it
  anyway. \<open>laws\<close> is what the controller relies on in turn.
\<close>

locale controller_loop =
  fixes laws :: bool
    and view :: "'w \<Rightarrow> Request \<Rightarrow> 'x option"
    and event :: "'w \<Rightarrow> 'e \<Rightarrow> 'w \<Rightarrow> bool"
    and wakes :: "'w \<Rightarrow> 'e \<Rightarrow> Request set"
    and act :: "Request \<Rightarrow> 'x \<Rightarrow> 'w \<Rightarrow> bool \<times> 'w"
    and echo :: "Request \<Rightarrow> 'w \<Rightarrow> 'w \<Rightarrow> Request set"
    and achieved :: "'w \<Rightarrow> Request \<Rightarrow> bool"
    and belongs :: "Request \<Rightarrow> 'x \<Rightarrow> bool"
    and pending :: "Request \<Rightarrow> 'x \<Rightarrow> 'w \<Rightarrow> bool"
  assumes view_belongs: "laws \<Longrightarrow> view w r = Some x \<Longrightarrow> belongs r x"
    and event_view: "laws \<Longrightarrow> event w e w' \<Longrightarrow> view w' r \<noteq> view w r \<Longrightarrow>
      r \<in> wakes w' e \<or> (\<exists>x. view w r = Some x \<and> pending r x w' \<and> \<not> achieved w r)"
    and event_keeps: "laws \<Longrightarrow> event w e w' \<Longrightarrow> view w' r = view w r \<Longrightarrow> achieved w r \<Longrightarrow>
      achieved w' r \<or> r \<in> wakes w' e"
    and event_pending: "laws \<Longrightarrow> event w e w' \<Longrightarrow> pending r x w \<Longrightarrow> pending r x w' \<or> r \<in> wakes w' e"
    and act_view: "laws \<Longrightarrow> belongs r x \<Longrightarrow> act r x w = (ok, w') \<Longrightarrow> view w' r' \<noteq> view w r' \<Longrightarrow> r' \<in> echo r w w'"
    and act_keeps: "laws \<Longrightarrow> belongs r x \<Longrightarrow> act r x w = (ok, w') \<Longrightarrow> r' \<noteq> r \<Longrightarrow> view w' r' = view w r' \<Longrightarrow>
      achieved w r' \<Longrightarrow> achieved w' r'"
    and act_pending: "laws \<Longrightarrow> belongs r x \<Longrightarrow> act r x w = (ok, w') \<Longrightarrow> r' \<noteq> r \<Longrightarrow> pending r' y w \<Longrightarrow> pending r' y w'"
    and act_enqueues: "laws \<Longrightarrow> belongs r x \<Longrightarrow> act r x w = (True, w') \<Longrightarrow> pending r x w \<Longrightarrow> r \<in> echo r w w'"
    and act_achieves: "laws \<Longrightarrow> belongs r x \<Longrightarrow> act r x w = (True, w') \<Longrightarrow> view w' r = Some x \<Longrightarrow> achieved w' r"
begin

definition accounted :: "('w, 'x) loop_state \<Rightarrow> bool" where
  "accounted s \<longleftrightarrow> (\<forall>r x. running s r = Some x \<longrightarrow> belongs r x)
     \<and> (\<forall>r x. view (world s) r = Some x \<longrightarrow>
          r \<in> queued s \<or> (\<exists>y. running s r = Some y \<and> (y = x \<or> pending r y (world s)))
          \<or> running s r = None \<and> achieved (world s) r)"

lemma accounted_belongs: "accounted s \<Longrightarrow> running s r = Some x \<Longrightarrow> belongs r x"
  by (simp add: accounted_def)

lemma accountedE:
  assumes "accounted s" and "view (world s) r = Some x" and "r \<notin> queued s"
  obtains (busy) y where "running s r = Some y" "y = x \<or> pending r y (world s)"
  | (idle) "running s r = None" "achieved (world s) r"
proof -
  have "(\<exists>y. running s r = Some y \<and> (y = x \<or> pending r y (world s))) \<or> running s r = None \<and> achieved (world s) r"
    using assms(1)[unfolded accounted_def, THEN conjunct2, rule_format, OF assms(2)] assms(3) by simp
  then show thesis using that by metis
qed

lemma accountedI:
  assumes "\<And>r x. running s r = Some x \<Longrightarrow> belongs r x"
    and "\<And>r x. view (world s) r = Some x \<Longrightarrow> r \<notin> queued s \<Longrightarrow>
      (\<exists>y. running s r = Some y \<and> (y = x \<or> pending r y (world s))) \<or> running s r = None \<and> achieved (world s) r"
  shows "accounted s"
  using assms unfolding accounted_def by blast

lemma event_accounted:
  assumes laws and inv: "accounted s" and event: "event (world s) e w'"
  shows "accounted (s\<lparr>world := w', queued := queued s \<union> wakes w' e\<rparr>)" (is "accounted ?t")
proof (rule accountedI)
  show "belongs r x" if "running ?t r = Some x" for r x using accounted_belongs[OF inv] that by simp
  fix r x assume x: "view (world ?t) r = Some x" and "r \<notin> queued ?t"
  then have r: "r \<notin> queued s" "r \<notin> wakes w' e" by simp_all
  have keep: "pending r y (world s) \<Longrightarrow> pending r y w'" for y using event_pending[OF assms(1) event] r(2) by blast
  show "(\<exists>y. running ?t r = Some y \<and> (y = x \<or> pending r y (world ?t))) \<or> running ?t r = None \<and> achieved (world ?t) r"
  proof (cases "view w' r = view (world s) r")
    case True
    show ?thesis
      by (rule accountedE[OF inv _ r(1), of x]) (use x True keep event_keeps[OF assms(1) event True] r(2) in auto)
  next
    case False
    then obtain y where y: "view (world s) r = Some y" "pending r y w'" "\<not> achieved (world s) r"
      using event_view[OF assms(1) event] r(2) by blast
    show ?thesis by (rule accountedE[OF inv y(1) r(1)]) (use y keep in auto)
  qed
qed

lemma finish_accounted:
  assumes laws and inv: "accounted s" and run: "running s r = Some x" "act r x (world s) = (ok, w')"
  shows "accounted \<lparr>world = w', queued = queued s \<union> echo r (world s) w' \<union> (if ok then {} else {r}),
    running = (running s)(r := None)\<rparr>" (is "accounted ?t")
proof (rule accountedI)
  have b: "belongs r x" by (rule accounted_belongs[OF inv run(1)])
  show "belongs r x" if "running ?t r = Some x" for r x
    using accounted_belongs[OF inv] that by (simp split: if_splits)
  fix r' y assume y: "view (world ?t) r' = Some y" and "r' \<notin> queued ?t"
  then have r': "r' \<notin> queued s" "r' \<notin> echo r (world s) w'" "r' = r \<Longrightarrow> ok" by (auto split: if_splits)
  have same: "view w' r' = view (world s) r'" using act_view[OF assms(1) b run(2)] r'(2) by blast
  then have before: "view (world s) r' = Some y" using y by simp
  show "(\<exists>z. running ?t r' = Some z \<and> (z = y \<or> pending r' z (world ?t))) \<or> running ?t r' = None \<and> achieved (world ?t) r'"
  proof (cases "r' = r")
    case True
    have "x = y \<or> pending r x (world s)"
      by (rule accountedE[OF inv before r'(1)]) (use True run(1) in auto)
    moreover have ok: ok using r'(3) True by blast
    ultimately have "x = y" using act_enqueues[OF assms(1) b] run(2) r'(2) True by auto
    then have "achieved w' r" using act_achieves[OF assms(1) b] run(2) ok y True by simp
    then show ?thesis using True by simp
  next
    case False
    show ?thesis
      by (rule accountedE[OF inv before r'(1)])
         (use False act_pending[OF assms(1) b run(2) False] act_keeps[OF assms(1) b run(2) False same] in auto)
  qed
qed

lemma step_accounted:
  assumes laws and "loop_step view event wakes act echo s t" and inv: "accounted s"
  shows "accounted t"
  using assms(2)
proof cases
  case (changed e w')
  then show ?thesis using event_accounted[OF assms(1) inv] by simp
next
  case (resynced r)
  then show ?thesis using inv by (auto simp: accounted_def)
next
  case (started r x)
  then show ?thesis using inv view_belongs[OF assms(1) started(4)] unfolding accounted_def by auto
next
  case (dropped r)
  then show ?thesis using inv unfolding accounted_def by auto
next
  case (finished r x ok w')
  then show ?thesis using finish_accounted[OF assms(1) inv] by simp
qed

lemma reachable_accounted:
  assumes laws and "loop_reachable view event wakes act echo s"
  shows "accounted s"
  using assms(2)
proof (induction rule: loop_reachable.induct)
  case (listed w q)
  then show ?case by (fastforce simp: accounted_def)
next
  case (stepped s t)
  then show ?case using step_accounted[OF assms(1)] by blast
qed

text \<open>Nothing queued and nothing running: everything is achieved.\<close>

lemma quiescent_achieved:
  assumes laws and "loop_reachable view event wakes act echo s"
    and "view (world s) r = Some x" and "r \<notin> queued s" and "running s r = None"
  shows "achieved (world s) r"
  using reachable_accounted[OF assms(1,2)] assms(3-5) unfolding accounted_def by fastforce

end

end
