(* ===== verification/Agent_System.thy ===== *)
theory Agent_System
  imports Agent_Properties Controller_Loop
begin

text \<open>
  The agent controller as an instance of the loop: its reconciliations interleave with each other and
  with changes of everything an agent depends on. A reconciliation is taken apart into what it reads
  when it begins (the agent and what the agent resolves to) and what it writes when it ends.
\<close>

section \<open>Reading and writing apart\<close>

definition agent_act :: "go_rt \<Rightarrow> 'w kube \<Rightarrow> Agent \<times> agent_resolution \<Rightarrow> 'w \<Rightarrow> go_error option \<times> 'w" where
  "agent_act rt k x w =
     (case agent_writes rt k (snd x) (fst x, w) of
        (Inl err, s) \<Rightarrow>
          (Some err, snd (snd (retryAgent k (updateAgentStatusNotReady k ''ReconciliationFailed'' (Error err)) s)))
      | (Inr gw, s) \<Rightarrow> (let (e, (_, w)) = retryAgent k (updateAgentStatusReady k gw) s in (e, w)))"

text \<open>Without anything in between, the two are the code's \<open>Reconcile\<close>.\<close>

lemma Reconcile_act:
  "getAgent k w req = Inr agent \<Longrightarrow>
     Reconcile rt k req w = agent_act rt k (agent, resolution (uni rt) k w agent) w"
  unfolding Reconcile_def agent_act_def reconcileAgent_writes
  by (auto simp: case_prod_beta Let_def split: sum.split prod.split option.split)

section \<open>What a reconciliation touches\<close>

text \<open>
  From \<open>w\<close> to \<open>w'\<close> nothing changed but the status of the agent \<open>r\<close> and the deployment and the service of
  that name.
\<close>

definition only_own :: "'w kube \<Rightarrow> 'w view \<Rightarrow> Request \<Rightarrow> 'w \<Rightarrow> 'w \<Rightarrow> bool" where
  "only_own k v r w w' \<longleftrightarrow>
     (\<forall>q. q \<noteq> QAgent r \<longrightarrow> answer_agent_query k w' q = answer_agent_query k w q)
     \<and> (\<forall>e. getAgent k w r = Inl e \<longrightarrow> getAgent k w' r = Inl e)
     \<and> (\<forall>r'. r' \<noteq> r \<longrightarrow> v_deployment v w' r' = v_deployment v w r' \<and> v_service v w' r' = v_service v w r')"

lemma only_own_refl [simp]: "only_own k v r w w"
  by (simp add: only_own_def)

lemma only_own_trans: "only_own k v r w w' \<Longrightarrow> only_own k v r w' w'' \<Longrightarrow> only_own k v r w w''"
  unfolding only_own_def by metis

text \<open>The API server's part: a request touches the object it names, and an event is no object.\<close>

definition separate_objects :: "'w kube \<Rightarrow> 'w view \<Rightarrow> bool" where
  "separate_objects k v \<longleftrightarrow>
     (\<forall>obj f w. (\<forall>old new. f old = Inr new \<longrightarrow> request_of (dp_Meta new) = request_of (dp_Meta old)) \<longrightarrow>
        only_own k v (request_of (dp_Meta obj)) w (snd (createOrUpdateDeployment k obj f w)))
     \<and> (\<forall>obj f w. (\<forall>old new. f old = Inr new \<longrightarrow> request_of (sv_Meta new) = request_of (sv_Meta old)) \<longrightarrow>
        only_own k v (request_of (sv_Meta obj)) w (snd (createOrUpdateService k obj f w)))
     \<and> (\<forall>s w. only_own k v (request_of (sv_Meta s)) w (snd (deleteService k s w)))
     \<and> (\<forall>agent w. only_own k v (request_of (ag_Meta agent)) w (snd (snd (updateAgentStatus k agent w))))
     \<and> (\<forall>eventf e r w. recorder k = Some eventf \<longrightarrow> only_own k v r w (eventf e w))"

text \<open>What is read under a key is the object of that key, and it is listed.\<close>

definition reads_by_key :: "'w kube \<Rightarrow> bool" where
  "reads_by_key k \<longleftrightarrow>
     (\<forall>w key s. getService k w key = Inr s \<longrightarrow> request_of (sv_Meta s) = key)
     \<and> (\<forall>w key agent. getAgent k w key = Inr agent \<longrightarrow>
          listed_agent k w agent \<and> request_of (ag_Meta agent) = key)"

lemma separate_event: "separate_objects k v \<Longrightarrow> only_own k v r w (emitEvent k m reason action note w)"
  by (auto simp: separate_objects_def emitEvent_def split: option.split)

lemma ensureDeployment_only_own:
  assumes "separate_objects k v" and "set_owner_ok (setAgentOwner k (fst s))"
  shows "only_own k v (request_of (ag_Meta (fst s))) (snd s) (snd (snd (ensureDeployment rt k subs tools gw cfg s)))"
proof -
  let ?m = "ag_Meta (fst s)"
  let ?obj = "new_deployment (om_Name ?m) (om_Namespace ?m)"
  let ?f = "deployment_closure rt k (fst s) subs tools gw cfg"
  obtain r w' where run: "createOrUpdateDeployment k ?obj ?f (snd s) = (r, w')" by fastforce
  have "only_own k v (request_of (dp_Meta ?obj)) (snd s) (snd (createOrUpdateDeployment k ?obj ?f (snd s)))"
    using assms(1) deployment_closure_key[OF assms(2)] unfolding separate_objects_def by metis
  then have put: "only_own k v (request_of ?m) (snd s) w'"
    unfolding run by (simp add: new_deployment_def request_of_def)
  have ev: "only_own k v (request_of ?m) (snd s) (emitEvent k m reason action nt w')" for m reason action nt
    by (rule only_own_trans[OF put separate_event[OF assms(1)]])
  show ?thesis
    unfolding ensureDeployment_def Let_def case_prod_beta run
    by (cases r) (simp_all add: put ev)
qed

lemma ensureService_only_own:
  assumes "separate_objects k v" and "set_owner_ok (setAgentOwner k (fst s))" and "reads_by_key k"
  shows "only_own k v (request_of (ag_Meta (fst s))) (snd s) (snd (snd (ensureService k s)))"
proof -
  let ?m = "ag_Meta (fst s)"
  let ?obj = "new_service (om_Name ?m) (om_Namespace ?m)"
  obtain r w' where run: "createOrUpdateService k ?obj (service_closure k (fst s)) (snd s) = (r, w')" by fastforce
  have "only_own k v (request_of (sv_Meta ?obj)) (snd s) (snd (createOrUpdateService k ?obj (service_closure k (fst s)) (snd s)))"
    using assms(1) service_closure_key[OF assms(2)] unfolding separate_objects_def by metis
  then have put: "only_own k v (request_of ?m) (snd s) w'"
    unfolding run by (simp add: new_service_def request_of_def)
  have ev: "only_own k v (request_of ?m) (snd s) (emitEvent k m reason action nt w')" for m reason action nt
    by (rule only_own_trans[OF put separate_event[OF assms(1)]])
  have del: "only_own k v (request_of ?m) (snd s) (snd (deleteService k x (snd s)))"
    if "getService k (snd s) (nsname (om_Namespace ?m) (om_Name ?m)) = Inr x" for x
  proof -
    have "request_of (sv_Meta x) = request_of ?m"
      using assms(3) that unfolding reads_by_key_def by (simp add: request_of_def)
    then show ?thesis using assms(1) unfolding separate_objects_def by metis
  qed
  show ?thesis
  proof (cases "length (as_Protocols (ag_Spec (fst s))) = 0")
    case True
    then show ?thesis
      using del unfolding ensureService_def Let_def case_prod_beta
      by (simp split: sum.split option.split)
  next
    case False
    then show ?thesis
      unfolding ensureService_def Let_def case_prod_beta run by (cases r) (simp_all add: put ev)
  qed
qed

lemma write_status_only_own:
  assumes "separate_objects k v"
  shows "only_own k v (request_of (ag_Meta (fst s))) (snd s) (snd (snd (write_agent_status k f s)))"
proof -
  let ?a = "fst s\<lparr>ag_Status := f (fst s)\<rparr>"
  have "only_own k v (request_of (ag_Meta ?a)) (snd s) (snd (snd (updateAgentStatus k ?a (snd s))))"
    using assms unfolding separate_objects_def by blast
  then show ?thesis by (simp add: write_agent_status_def case_prod_beta)
qed

text \<open>A retry of a step that keeps the key.\<close>

lemma retried_only_own:
  assumes "retry_ok retry" and "request_of (ag_Meta (fst s)) = r"
    and "\<And>s. request_of (ag_Meta (fst s)) = r \<Longrightarrow>
      only_own k v r (snd s) (snd (snd (f s))) \<and> request_of (ag_Meta (fst (snd (f s)))) = r"
  shows "only_own k v r (snd s) (snd (snd (retry f s))) \<and> request_of (ag_Meta (fst (snd (retry f s)))) = r"
proof -
  let ?I = "\<lambda>x. request_of (ag_Meta (fst x)) = r \<and> only_own k v r (snd s) (snd x)"
  have "\<exists>s0. ?I s0 \<and> retry f s = f s0"
  proof (rule retry_last_run[OF assms(1)])
    show "?I (snd (f x))" if "?I x" for x
      using that assms(3)[of x] only_own_trans[of k v r "snd s" "snd x"] by simp
  qed (use assms(2) in simp)
  then show ?thesis using assms(3) only_own_trans by metis
qed

section \<open>What the controller relies on\<close>

text \<open>The laws of the libraries, of the API server and of caches that have caught up, in one predicate.\<close>

definition system_ok :: "go_rt \<Rightarrow> 'w kube \<Rightarrow> 'w view \<Rightarrow> bool" where
  "system_ok rt k v \<longleftrightarrow>
     rt_ok rt \<and> retry_ok (retryAgent k) \<and> undisturbed k v
     \<and> (\<forall>agent. set_owner_ok (setAgentOwner k agent)
          \<and> owner_watch_ok (setAgentOwner k agent) (agentOwnerRequests k) (request_of (ag_Meta agent)))
     \<and> written_ok stores_deployment dp_Meta (v_deployment v) (createOrUpdateDeployment k)
     \<and> written_ok stores_service sv_Meta (v_service v) (createOrUpdateService k)
     \<and> status_update_ok (updateAgentStatus k) (readable (getAgent k)) ag_Meta ag_Status
     \<and> set_condition_ok (setStatusCondition k) \<and> separate_objects k v \<and> reads_by_key k"

lemma system_laws:
  assumes "system_ok rt k v"
  shows "rt_ok rt" "retry_ok (retryAgent k)" "undisturbed k v" "set_owner_ok (setAgentOwner k agent)"
    "owner_watch_ok (setAgentOwner k agent) (agentOwnerRequests k) (request_of (ag_Meta agent))"
    "written_ok stores_deployment dp_Meta (v_deployment v) (createOrUpdateDeployment k)"
    "written_ok stores_service sv_Meta (v_service v) (createOrUpdateService k)"
    "status_update_ok (updateAgentStatus k) (readable (getAgent k)) ag_Meta ag_Status"
    "set_condition_ok (setStatusCondition k)" "separate_objects k v" "reads_by_key k"
  using assms by (simp_all add: system_ok_def)

lemma agent_writes_agent:
  assumes "retry_ok (retryAgent k)"
  shows "fst (snd (agent_writes rt k res s)) = fst s"
proof (cases res)
  case (Inr x)
  obtain cfg subs tools gw where x: "x = (cfg, subs, tools, gw)" by (cases x) auto
  obtain e1 s1 where dep: "retryAgent k (ensureDeployment rt k subs tools gw cfg) s = (e1, s1)" by (rule prod.exhaust)
  obtain e2 s2 where svc: "retryAgent k (ensureService k) s1 = (e2, s2)" by (rule prod.exhaust)
  have "fst s1 = fst s" "fst s2 = fst s1"
    using retried_keeps_agent[OF assms, of "ensureDeployment rt k subs tools gw cfg" s]
      retried_keeps_agent[OF assms, of "ensureService k" s1] dep svc
    by (simp_all add: ensureDeployment_agent ensureService_agent)
  then show ?thesis by (simp add: agent_writes_def Inr x dep svc split: option.split)
qed (simp add: agent_writes_def)

lemma write_status_key:
  assumes "status_update_ok (updateAgentStatus k) stored ag_Meta ag_Status"
  shows "request_of (ag_Meta (fst (snd (write_agent_status k f s)))) = request_of (ag_Meta (fst s))"
proof -
  let ?a = "fst s\<lparr>ag_Status := f (fst s)\<rparr>"
  obtain err a' w' where run: "updateAgentStatus k ?a (snd s) = (err, a', w')" by (metis prod.collapse)
  have "request_of (ag_Meta a') = request_of (ag_Meta ?a)"
    using assms run unfolding status_update_ok_def by blast
  then show ?thesis by (simp add: write_agent_status_def run)
qed

lemma agent_writes_only_own:
  assumes "system_ok rt k v" and "request_of (ag_Meta (fst s)) = r"
  shows "only_own k v r (snd s) (snd (snd (agent_writes rt k res s)))
    \<and> request_of (ag_Meta (fst (snd (agent_writes rt k res s)))) = r"
proof (cases res)
  case (Inl err)
  then show ?thesis using assms(2) by (simp add: agent_writes_def)
next
  case (Inr x)
  obtain cfg subs tools gw where x: "x = (cfg, subs, tools, gw)" by (cases x) auto
  note laws = system_laws[OF assms(1)]
  obtain e1 s1 where dep: "retryAgent k (ensureDeployment rt k subs tools gw cfg) s = (e1, s1)" by (rule prod.exhaust)
  obtain e2 s2 where svc: "retryAgent k (ensureService k) s1 = (e2, s2)" by (rule prod.exhaust)
  have "only_own k v r (snd s) (snd (snd (retryAgent k (ensureDeployment rt k subs tools gw cfg) s)))
     \<and> request_of (ag_Meta (fst (snd (retryAgent k (ensureDeployment rt k subs tools gw cfg) s)))) = r"
  proof (rule retried_only_own[OF laws(2) assms(2)])
    fix y :: "Agent \<times> 'a" assume "request_of (ag_Meta (fst y)) = r"
    then show "only_own k v r (snd y) (snd (snd (ensureDeployment rt k subs tools gw cfg y)))
       \<and> request_of (ag_Meta (fst (snd (ensureDeployment rt k subs tools gw cfg y)))) = r"
      using ensureDeployment_only_own[OF laws(10,4), of y rt subs tools gw cfg] by (simp add: ensureDeployment_agent)
  qed
  then have 1: "only_own k v r (snd s) (snd s1)" "request_of (ag_Meta (fst s1)) = r"
    unfolding dep by simp_all
  have "only_own k v r (snd s1) (snd (snd (retryAgent k (ensureService k) s1)))
     \<and> request_of (ag_Meta (fst (snd (retryAgent k (ensureService k) s1)))) = r"
  proof (rule retried_only_own[OF laws(2) 1(2)])
    fix y :: "Agent \<times> 'a" assume "request_of (ag_Meta (fst y)) = r"
    then show "only_own k v r (snd y) (snd (snd (ensureService k y)))
       \<and> request_of (ag_Meta (fst (snd (ensureService k y)))) = r"
      using ensureService_only_own[OF laws(10,4,11), of y] by (simp add: ensureService_agent)
  qed
  then have 2: "only_own k v r (snd s1) (snd s2)" "request_of (ag_Meta (fst s2)) = r"
    unfolding svc by simp_all
  show ?thesis
    using 1 2 only_own_trans[of k v r "snd s" "snd s1" "snd s2"]
    by (simp add: agent_writes_def Inr x dep svc split: option.split)
qed

lemma agent_act_only_own:
  assumes "system_ok rt k v" and "request_of (ag_Meta (fst x)) = r"
  shows "only_own k v r w (snd (agent_act rt k x w))"
proof -
  note laws = system_laws[OF assms(1)]
  obtain res s where run: "agent_writes rt k (snd x) (fst x, w) = (res, s)" by (rule prod.exhaust)
  have s: "only_own k v r w (snd s)" "request_of (ag_Meta (fst s)) = r"
    using agent_writes_only_own[OF assms(1), of "(fst x, w)" r "snd x"] assms(2) run by simp_all
  have st: "only_own k v r w (snd (snd (retryAgent k (write_agent_status k f) s)))" for f
  proof -
    have "only_own k v r (snd s) (snd (snd (retryAgent k (write_agent_status k f) s)))
       \<and> request_of (ag_Meta (fst (snd (retryAgent k (write_agent_status k f) s)))) = r"
    proof (rule retried_only_own[OF laws(2) s(2)])
      fix y :: "Agent \<times> 'a" assume "request_of (ag_Meta (fst y)) = r"
      then show "only_own k v r (snd y) (snd (snd (write_agent_status k f y)))
         \<and> request_of (ag_Meta (fst (snd (write_agent_status k f y)))) = r"
        using write_status_only_own[OF laws(10), of y f] by (simp add: write_status_key[OF laws(8)])
    qed
    then show ?thesis using only_own_trans[OF s(1)] by blast
  qed
  have writers: "updateAgentStatusReady k gw = write_agent_status k (ready_status k gw)"
    "updateAgentStatusNotReady k reason m = write_agent_status k (not_ready_status k reason m)" for gw reason m
    by (intro ext; simp add: updateAgentStatusReady_eq updateAgentStatusNotReady_eq)+
  show ?thesis
    using st by (simp add: agent_act_def run writers Let_def case_prod_beta split: sum.split)
qed

section \<open>The agent controller as a loop\<close>

text \<open>
  A reconciliation starts from the agent and what it resolves to. An event is a list of objects that
  have changed, in their old and new versions: only what these objects are asked for may have
  changed, and a deployment or a service that was there is among them if it is not the same any more.
\<close>

definition agent_view :: "unicode \<Rightarrow> 'w kube \<Rightarrow> 'w \<Rightarrow> Request \<Rightarrow> (Agent \<times> agent_resolution) option" where
  "agent_view u k w r =
     (case getAgent k w r of Inl _ \<Rightarrow> None | Inr agent \<Rightarrow> Some (agent, resolution u k w agent))"

definition agent_event :: "'w kube \<Rightarrow> 'w view \<Rightarrow> 'w \<Rightarrow> client_object list \<Rightarrow> 'w \<Rightarrow> bool" where
  "agent_event k v w e w' \<longleftrightarrow>
     (\<forall>q. q \<notin> \<Union>(agent_touches ` set e) \<longrightarrow> answer_agent_query k w' q = answer_agent_query k w q)
     \<and> (\<forall>r d. v_deployment v w r = Some d \<and> v_deployment v w' r \<noteq> Some d \<longrightarrow> ObjDeployment d \<in> set e)
     \<and> (\<forall>r s. v_service v w r = Some s \<and> v_service v w' r \<noteq> Some s \<longrightarrow> ObjService s \<in> set e)"

definition agent_wakes :: "'w kube \<Rightarrow> 'w \<Rightarrow> client_object list \<Rightarrow> Request set" where
  "agent_wakes k w e = set (concat (map (agent_watch_requests k True w) e))"

definition agent_run :: "go_rt \<Rightarrow> 'w kube \<Rightarrow> Request \<Rightarrow> Agent \<times> agent_resolution \<Rightarrow> 'w \<Rightarrow> bool \<times> 'w" where
  "agent_run rt k r x w = (let (err, w') = agent_act rt k x w in (err = None, w'))"

text \<open>The events of its own writes: on the agent, the deployment and the service, where they changed.\<close>

definition versions :: "('o \<Rightarrow> client_object) \<Rightarrow> 'o option \<Rightarrow> 'o option \<Rightarrow> client_object list" where
  "versions con old new =
     (if old = new then []
      else (case old of None \<Rightarrow> [] | Some x \<Rightarrow> [con x]) @ (case new of None \<Rightarrow> [] | Some x \<Rightarrow> [con x]))"

definition agent_echo :: "'w kube \<Rightarrow> 'w view \<Rightarrow> Request \<Rightarrow> 'w \<Rightarrow> 'w \<Rightarrow> Request set" where
  "agent_echo k v r w w' = agent_wakes k w'
     (versions ObjAgent (readable (getAgent k) w r) (readable (getAgent k) w' r)
      @ versions ObjDeployment (v_deployment v w r) (v_deployment v w' r)
      @ versions ObjService (v_service v w r) (v_service v w' r))"

text \<open>
  What is achieved for an agent: the deployment that runs it and, if it has protocols, the service
  that exposes it, both owned by it and made for what it resolves to now; and its status says so.
\<close>

definition agent_done :: "go_rt \<Rightarrow> 'w kube \<Rightarrow> 'w view \<Rightarrow> 'w \<Rightarrow> Request \<Rightarrow> Agent \<Rightarrow> bool" where
  "agent_done rt k v w r agent \<longleftrightarrow>
     (\<exists>cfg subs tools gw tmpl d c. resolution (uni rt) k w agent = Inr (cfg, subs, tools, gw)
        \<and> buildTemplateEnvironmentVars rt agent subs tools (map_option buildAiGatewayServiceUrl gw) = Inr tmpl
        \<and> v_deployment v w r = Some d \<and> runs_agent agent cfg tmpl d \<and> owned_by (setAgentOwner k agent) (dp_Meta d)
        \<and> (as_Protocols (ag_Spec agent) \<noteq> [] \<longrightarrow> (\<exists>s. v_service v w r = Some s
             \<and> serves_agent agent s \<and> owned_by (setAgentOwner k agent) (sv_Meta s)))
        \<and> ast_Url (ag_Status agent) = buildA2AAgentCardUrl agent
        \<and> findReadyCondition (ast_Conditions (ag_Status agent)) = Some c
        \<and> c_Status c = ConditionTrue \<and> c_ObservedGeneration c = om_Generation (ag_Meta agent))"

definition agent_achieved :: "go_rt \<Rightarrow> 'w kube \<Rightarrow> 'w view \<Rightarrow> 'w \<Rightarrow> Request \<Rightarrow> bool" where
  "agent_achieved rt k v w r =
     (case getAgent k w r of Inl _ \<Rightarrow> True | Inr agent \<Rightarrow> agent_done rt k v w r agent)"

lemma agent_view_Some:
  "agent_view u k w r = Some x \<longleftrightarrow> getAgent k w r = Inr (fst x) \<and> snd x = resolution u k w (fst x)"
  by (cases x) (auto simp: agent_view_def split: sum.splits)

lemma agent_view_None: "agent_view u k w r = None \<longleftrightarrow> isl (getAgent k w r)"
  by (auto simp: agent_view_def split: sum.splits)

lemma wakesI: "obj \<in> set e \<Longrightarrow> r \<in> set (agent_watch_requests k True w obj) \<Longrightarrow> r \<in> agent_wakes k w e"
  by (auto simp: agent_wakes_def)

text \<open>An agent none of whose reads is touched is seen as before; one that is touched is woken.\<close>

lemma view_change_wakes:
  assumes "reads_by_key k"
    and q: "\<And>q. q \<notin> \<Union>(agent_touches ` set e) \<Longrightarrow> answer_agent_query k w' q = answer_agent_query k w q"
    and change: "agent_view u k w' r \<noteq> agent_view u k w r"
  shows "r \<in> agent_wakes k w' e"
proof (cases "QAgent r \<in> \<Union>(agent_touches ` set e)")
  case True
  then obtain x where x: "x \<in> set e" "QAgent r \<in> agent_touches x" by blast
  obtain a where "x = ObjAgent a" "request_of (ag_Meta a) = r"
    using x(2) by (cases x) (simp_all add: image_iff)
  then have "r \<in> set (agent_watch_requests k True w' x)" by (simp add: agent_watch_requests_def)
  then show ?thesis by (rule wakesI[OF x(1)])
next
  case False
  then have same: "getAgent k w' r = getAgent k w r" using q[OF False] by simp
  then obtain a where a: "getAgent k w' r = Inr a" and res: "resolution u k w' a \<noteq> resolution u k w a"
    using change by (auto simp: agent_view_def split: sum.splits)
  have listed: "listed_agent k w' a" "request_of (ag_Meta a) = r"
    using assms(1) a unfolding reads_by_key_def by blast+
  have "agent_reads k a \<inter> \<Union>(agent_touches ` set e) \<noteq> {}"
    using agent_watch.unaffected[of k a "\<Union>(agent_touches ` set e)" w' w u] q res by blast
  then obtain x where "x \<in> set e" "agent_reads k a \<inter> agent_touches x \<noteq> {}" by blast
  then show ?thesis
    using agent_watch.finds_complete[OF listed(1)] listed(2) wakesI by metis
qed

lemma achieved_cong:
  assumes "agent_view (uni rt) k w' r = agent_view (uni rt) k w r"
    and "v_deployment v w' r = v_deployment v w r" and "v_service v w' r = v_service v w r"
  shows "agent_achieved rt k v w' r = agent_achieved rt k v w r"
proof (cases "getAgent k w r")
  case (Inl err)
  then have "isl (getAgent k w' r)" using agent_view_None[of "uni rt" k w' r] agent_view_None[of "uni rt" k w r] assms(1) by simp
  then show ?thesis using Inl by (auto simp: agent_achieved_def isl_def)
next
  case (Inr a)
  then have "agent_view (uni rt) k w' r = Some (a, resolution (uni rt) k w a)"
    unfolding assms(1) by (simp add: agent_view_Some)
  then have eqs: "getAgent k w' r = Inr a" "resolution (uni rt) k w' a = resolution (uni rt) k w a"
    by (simp_all add: agent_view_Some)
  show ?thesis unfolding agent_achieved_def agent_done_def Inr eqs sum.case assms(2,3) ..
qed

text \<open>A deployment or service an agent owns wakes it.\<close>

lemma owner_wakes:
  assumes "system_ok rt k v" and "getAgent k w r = Inr agent"
  shows "owned_by (setAgentOwner k agent) (dp_Meta d) \<Longrightarrow> ObjDeployment d \<in> set e \<Longrightarrow> r \<in> agent_wakes k w' e"
    and "owned_by (setAgentOwner k agent) (sv_Meta s) \<Longrightarrow> ObjService s \<in> set e \<Longrightarrow> r \<in> agent_wakes k w' e"
proof -
  have key: "request_of (ag_Meta agent) = r"
    using system_laws(11)[OF assms(1)] assms(2) unfolding reads_by_key_def by blast
  note watch = system_laws(5)[OF assms(1), of agent, unfolded owner_watch_ok_def key, rule_format]
  show "r \<in> agent_wakes k w' e" if "owned_by (setAgentOwner k agent) (dp_Meta d)" "ObjDeployment d \<in> set e"
    using that(2) by (rule wakesI) (simp add: agent_watch_requests_def watch that(1))
  show "r \<in> agent_wakes k w' e" if "owned_by (setAgentOwner k agent) (sv_Meta s)" "ObjService s \<in> set e"
    using that(2) by (rule wakesI) (simp add: agent_watch_requests_def watch that(1))
qed

lemma event_keeps_achieved:
  assumes "system_ok rt k v" and "agent_event k v w e w'"
    and view: "agent_view (uni rt) k w' r = agent_view (uni rt) k w r" and "agent_achieved rt k v w r"
  shows "agent_achieved rt k v w' r \<or> r \<in> agent_wakes k w' e"
proof (cases "getAgent k w r")
  case (Inl err)
  then have "isl (getAgent k w' r)"
    using agent_view_None[of "uni rt" k w' r] agent_view_None[of "uni rt" k w r] view by simp
  then show ?thesis by (auto simp: agent_achieved_def isl_def)
next
  case (Inr agent)
  have get: "getAgent k w' r = Inr agent"
    using agent_view_Some[of "uni rt" k w' r "(agent, resolution (uni rt) k w agent)"] Inr
    unfolding view by (simp add: agent_view_Some)
  have "agent_done rt k v w r agent" using assms(4) by (simp add: agent_achieved_def Inr)
  then obtain d where d: "v_deployment v w r = Some d" "owned_by (setAgentOwner k agent) (dp_Meta d)"
    and s: "as_Protocols (ag_Spec agent) \<noteq> [] \<Longrightarrow>
      \<exists>s. v_service v w r = Some s \<and> owned_by (setAgentOwner k agent) (sv_Meta s)"
    unfolding agent_done_def by metis
  have dep: "v_deployment v w' r = v_deployment v w r \<or> r \<in> agent_wakes k w' e"
    using assms(2) d owner_wakes(1)[OF assms(1) Inr] unfolding agent_event_def by metis
  show ?thesis
  proof (cases "as_Protocols (ag_Spec agent) = []")
    case True
    have "resolution (uni rt) k w' agent = resolution (uni rt) k w agent"
      using view by (simp add: agent_view_def Inr get)
    then show ?thesis
      using dep assms(4) by (auto simp: agent_achieved_def Inr get agent_done_def True)
  next
    case False
    then have "v_service v w' r = v_service v w r \<or> r \<in> agent_wakes k w' e"
      using assms(2) s owner_wakes(2)[OF assms(1) Inr] unfolding agent_event_def by metis
    then show ?thesis using dep achieved_cong[OF view] assms(4) by metis
  qed
qed

section \<open>A reconciliation in the loop\<close>

lemma echo_wakes:
  "obj \<in> set (versions ObjAgent (readable (getAgent k) w r) (readable (getAgent k) w' r)) \<Longrightarrow>
     r' \<in> agent_wakes k w' [obj] \<Longrightarrow> r' \<in> agent_echo k v r w w'"
  by (auto simp: agent_echo_def agent_wakes_def)

lemma act_view_echo:
  assumes "system_ok rt k v" and "request_of (ag_Meta (fst x)) = r" and "agent_run rt k r x w = (ok, w')"
    and change: "agent_view (uni rt) k w' r' \<noteq> agent_view (uni rt) k w r'"
  shows "r' \<in> agent_echo k v r w w'"
proof -
  have w': "w' = snd (agent_act rt k x w)" using assms(3) by (simp add: agent_run_def Let_def case_prod_beta)
  have own: "only_own k v r w w'" using agent_act_only_own[OF assms(1,2)] by (simp add: w')
  then have q: "\<And>q. q \<noteq> QAgent r \<Longrightarrow> answer_agent_query k w' q = answer_agent_query k w q"
    and lost: "\<And>e. getAgent k w r = Inl e \<Longrightarrow> getAgent k w' r = Inl e"
    unfolding only_own_def by blast+
  have "getAgent k w' r \<noteq> getAgent k w r"
  proof
    assume "getAgent k w' r = getAgent k w r"
    then have "answer_agent_query k w' q = answer_agent_query k w q" for q using q[of q] by (cases "q = QAgent r") auto
    then have "r' \<in> agent_wakes k w' []"
      using change by (intro view_change_wakes[OF system_laws(11)[OF assms(1)]]) auto
    then show False by (simp add: agent_wakes_def)
  qed
  then obtain a where a: "getAgent k w r = Inr a" "readable (getAgent k) w' r \<noteq> Some a"
    using lost by (cases "getAgent k w r") auto
  have key: "request_of (ag_Meta a) = r"
    using system_laws(11)[OF assms(1)] a(1) unfolding reads_by_key_def by blast
  have "r' \<in> agent_wakes k w' [ObjAgent a]"
    using change by (intro view_change_wakes[OF system_laws(11)[OF assms(1)]]) (simp_all add: key q)
  moreover have "ObjAgent a \<in> set (versions ObjAgent (readable (getAgent k) w r) (readable (getAgent k) w' r))"
    using a(1) not_sym[OF a(2)] by (simp add: versions_def readable_def)
  ultimately show ?thesis by (rule echo_wakes[rotated])
qed

lemma act_keeps_others:
  assumes "system_ok rt k v" and "request_of (ag_Meta (fst x)) = r" and "agent_run rt k r x w = (ok, w')"
    and "r' \<noteq> r" and view: "agent_view (uni rt) k w' r' = agent_view (uni rt) k w r'"
    and "agent_achieved rt k v w r'"
  shows "agent_achieved rt k v w' r'"
proof -
  have w': "w' = snd (agent_act rt k x w)" using assms(3) by (simp add: agent_run_def Let_def case_prod_beta)
  have "v_deployment v w' r' = v_deployment v w r'" "v_service v w' r' = v_service v w r'"
    using agent_act_only_own[OF assms(1,2), of w] assms(4) unfolding only_own_def w' by blast+
  then show ?thesis using achieved_cong[OF view] assms(6) by metis
qed

text \<open>
  A run that succeeds, and whose start is still current at the end, has achieved what it is for. In
  particular the status it wrote is the one the agent had already.
\<close>

lemma act_achieves_view:
  assumes "system_ok rt k v" and "request_of (ag_Meta (fst x)) = r" and "agent_run rt k r x w = (True, w')"
    and "agent_view (uni rt) k w' r = Some x"
  shows "agent_achieved rt k v w' r"
proof -
  note laws = system_laws[OF assms(1)]
  obtain agent res where x: "x = (agent, res)" by (rule prod.exhaust)
  have act: "agent_act rt k x w = (None, w')" using assms(3) by (auto simp: agent_run_def Let_def split: prod.splits)
  obtain out s where run: "agent_writes rt k res (agent, w) = (out, s)" by (rule prod.exhaust)
  obtain gw a where out: "out = Inr gw"
    and upd: "retryAgent k (updateAgentStatusReady k gw) s = (None, (a, w'))"
    using act by (auto simp: agent_act_def x run Let_def split: sum.splits prod.splits)
  obtain cfg subs tools gw' where res: "res = Inr (cfg, subs, tools, gw')"
    using run out by (cases res) (auto simp: agent_writes_def)
  note facts = agent_writes_deploys[OF laws(2,3,4,6,7) run[unfolded res out]]
  have key: "request_of (ag_Meta agent) = r" and get: "getAgent k w' r = Inr agent"
    and current: "resolution (uni rt) k w' agent = Inr (cfg, subs, tools, gw)"
    using assms(2,4) by (simp_all add: x agent_view_Some res facts(1))
  have writer: "updateAgentStatusReady k gw = write_agent_status k (ready_status k gw)"
    by (intro ext) (rule updateAgentStatusReady_eq)
  have same: "v_deployment v w' = v_deployment v (snd s)" "v_service v w' = v_service v (snd s)"
    using retried_frame[OF laws(2), of "v_deployment v" "updateAgentStatusReady k gw" s]
      retried_frame[OF laws(2), of "v_service v" "updateAgentStatusReady k gw" s]
      status_frames[OF laws(3)] upd by (simp_all add: writer)
  have agent: "fst s = agent" using agent_writes_agent[OF laws(2), of rt res "(agent, w)"] run by simp
  obtain b y where b: "ag_Meta b = ag_Meta agent" "ag_Spec b = ag_Spec agent"
    and y: "readable (getAgent k) w' r = Some y" "ag_Status y = ready_status k gw b"
    using retried_status_write[OF laws(2,8), of "ready_status k gw" s "(a, w')"] upd agent key
    unfolding writer by auto
  have "y = agent" using y(1) get by simp
  then have url: "ast_Url (ag_Status agent) = buildA2AAgentCardUrl agent"
    using y(2) card_url_cong[OF b] by (simp add: ready_status_def)
  obtain c where c: "findReadyCondition (ast_Conditions (ag_Status agent)) = Some c"
    "c_Status c = ConditionTrue" "c_ObservedGeneration c = om_Generation (ag_Meta agent)"
    using ready_condition[OF laws(9), of gw b] y(2) b(1) \<open>y = agent\<close> by metis
  obtain old new d where dep: "deployment_closure rt k agent subs tools gw cfg old = Inr new"
    and d: "v_deployment v w' r = Some d" "d = new \<or> stores_deployment new d"
    using facts(2) unfolding same key facts(1) by blast
  obtain tmpl where
    tmpl: "buildTemplateEnvironmentVars rt agent subs tools (map_option buildAiGatewayServiceUrl gw) = Inr tmpl"
    and runs: "runs_agent agent cfg tmpl d"
    using closure_runs_agent[OF laws(1,4) dep] d(2) runs_agent_stored by blast
  have owned: "owned_by (setAgentOwner k agent) (dp_Meta d)"
    using closures_owned(1)[OF dep] d(2) stored_owned(1) by blast
  have svc: "\<exists>s. v_service v w' r = Some s \<and> serves_agent agent s \<and> owned_by (setAgentOwner k agent) (sv_Meta s)"
    if prot: "as_Protocols (ag_Spec agent) \<noteq> []"
  proof -
    obtain old' new' z where z: "service_closure k agent old' = Inr new'" "v_service v w' r = Some z"
      "z = new' \<or> stores_service new' z"
      using facts(3)[OF prot] unfolding same key by blast
    then show ?thesis
      using closure_serves_agent[OF laws(4) z(1)] serves_agent_stored closures_owned(2)[OF z(1)] stored_owned(2) by blast
  qed
  show ?thesis
    unfolding agent_achieved_def get sum.case agent_done_def
    using current tmpl d(1) runs owned svc url c by blast
qed

interpretation agent_loop: controller_loop
  "system_ok rt k v" "agent_view (uni rt) k" "agent_event k v" "agent_wakes k" "agent_run rt k"
  "agent_echo k v" "agent_achieved rt k v" "\<lambda>r x. request_of (ag_Meta (fst x)) = r" "\<lambda>_ _ _. False"
  for rt k v
proof unfold_locales
  show "request_of (ag_Meta (fst x)) = r" if "system_ok rt k v" "agent_view (uni rt) k w r = Some x" for w r x
    using system_laws(11)[OF that(1)] that(2) unfolding reads_by_key_def agent_view_Some by blast
  show "r \<in> agent_wakes k w' e \<or> (\<exists>x. agent_view (uni rt) k w r = Some x \<and> False \<and> \<not> agent_achieved rt k v w r)"
    if "system_ok rt k v" "agent_event k v w e w'" "agent_view (uni rt) k w' r \<noteq> agent_view (uni rt) k w r"
    for w e w' r
    by (rule disjI1, rule view_change_wakes[OF system_laws(11)[OF that(1)] _ that(3)])
       (use that(2) in \<open>simp add: agent_event_def\<close>)
qed (rule event_keeps_achieved act_view_echo act_keeps_others act_achieves_view; assumption | simp)+

section \<open>The cluster of \<open>Cluster\<close> satisfies the laws\<close>

lemma sim_answer_agents:
  assumes "cl_routes w' = cl_routes w" "cl_servers w' = cl_servers w" "cl_gateways w' = cl_gateways w"
    "cl_configs w' = cl_configs w" and "q \<noteq> QAgent r"
    and "\<And>r'. r' \<noteq> r \<Longrightarrow> sim_get ag_Meta (cl_agents w') r' = sim_get ag_Meta (cl_agents w) r'"
  shows "answer_agent_query (sim_kube ns) w' q = answer_agent_query (sim_kube ns) w q"
proof (cases q)
  case (QTool t)
  then show ?thesis by (cases t) (simp_all add: assms(1,2))
next
  case (QGateway g)
  then show ?thesis by (cases g) (simp_all add: assms(3))
qed (use assms in auto)

lemma find_sim_put:
  "request_of (meta x) \<noteq> r \<Longrightarrow>
     find (\<lambda>y. request_of (meta y) = r) (sim_put meta x xs) = find (\<lambda>y. request_of (meta y) = r) xs"
proof -
  assume r: "request_of (meta x) \<noteq> r"
  have "find (\<lambda>y. request_of (meta y) = r) (filter (\<lambda>y. request_of (meta y) \<noteq> request_of (meta x)) xs)
     = find (\<lambda>y. request_of (meta y) = r) xs"
    using r by (induction xs) auto
  then show ?thesis using r by (simp add: sim_put_def)
qed

lemma sim_get_put_other:
  assumes "r \<noteq> request_of (meta x)"
  shows "sim_get meta (sim_put meta x xs) r = sim_get meta xs r"
proof -
  have "request_of (meta x) \<noteq> r" using assms by blast
  then show ?thesis by (simp add: sim_get_def find_sim_put)
qed

text \<open>A write under a key, as \<open>CreateOrUpdate\<close> makes it, changes at most the object of that key.\<close>

lemma sim_create_or_update_put:
  assumes "\<And>old new. f old = Inr new \<Longrightarrow> request_of (meta new) = request_of (meta old)"
    and "\<And>x. request_of (meta (created x)) = request_of (meta x)"
  shows "snd (sim_create_or_update meta objs put created obj f w) = w
     \<or> (\<exists>x. request_of (meta x) = request_of (meta obj)
          \<and> snd (sim_create_or_update meta objs put created obj f w) = put (sim_put meta x (objs w)) w)"
proof (cases "sim_get meta (objs w) (request_of (meta obj))")
  case (Inl e)
  show ?thesis
  proof (cases "f obj")
    case (Inr new)
    then have "request_of (meta (created new)) = request_of (meta obj)" by (simp add: assms)
    then show ?thesis using Inl Inr by (intro disjI2 exI[of _ "created new"]) (simp add: sim_create_or_update_def)
  qed (use Inl in \<open>simp add: sim_create_or_update_def\<close>)
next
  case (Inr old)
  have key: "request_of (meta old) = request_of (meta obj)" using Inr by (rule sim_get_key)
  show ?thesis
    using Inr key assms(1)[of old] by (cases "f old") (fastforce simp: sim_create_or_update_def)+
qed

lemma sim_update_status_put:
  assumes "\<And>new old. meta (copy new old) = meta old"
  shows "snd (snd (sim_update_status meta copy objs put obj w)) = w
     \<or> (\<exists>x. request_of (meta x) = request_of (meta obj) \<and> (\<exists>y. sim_get meta (objs w) (request_of (meta obj)) = Inr y)
          \<and> snd (snd (sim_update_status meta copy objs put obj w)) = put (sim_put meta x (objs w)) w)"
proof (cases "sim_get meta (objs w) (request_of (meta obj))")
  case (Inr old)
  then have "request_of (meta (copy obj old)) = request_of (meta obj)" by (simp add: assms sim_get_key)
  then show ?thesis
    using Inr by (intro disjI2 exI[of _ "copy obj old"]) (simp add: sim_update_status_def Let_def)
qed (simp add: sim_update_status_def)

lemma sim_own_deployments:
  "(\<And>r'. r' \<noteq> r \<Longrightarrow> find (\<lambda>x. request_of (dp_Meta x) = r') ds = find (\<lambda>x. request_of (dp_Meta x) = r') (cl_deployments w)) \<Longrightarrow>
     only_own (sim_kube ns) sim_view r w (w\<lparr>cl_deployments := ds\<rparr>)"
  unfolding only_own_def by (intro conjI allI impI sim_answer_agents) (simp_all add: sim_view_def)

lemma sim_own_services:
  "(\<And>r'. r' \<noteq> r \<Longrightarrow> find (\<lambda>x. request_of (sv_Meta x) = r') ss = find (\<lambda>x. request_of (sv_Meta x) = r') (cl_services w)) \<Longrightarrow>
     only_own (sim_kube ns) sim_view r w (w\<lparr>cl_services := ss\<rparr>)"
  unfolding only_own_def by (intro conjI allI impI sim_answer_agents) (simp_all add: sim_view_def)

lemma sim_own_events: "only_own (sim_kube ns) sim_view r w (w\<lparr>cl_events := es\<rparr>)"
  unfolding only_own_def by (intro conjI allI impI sim_answer_agents) (simp_all add: sim_view_def)

lemma sim_own_agent:
  assumes "sim_get ag_Meta (cl_agents w) (request_of (ag_Meta a)) = Inr y"
  shows "only_own (sim_kube ns) sim_view (request_of (ag_Meta a)) w (w\<lparr>cl_agents := sim_put ag_Meta a (cl_agents w)\<rparr>)"
proof -
  have other: "r \<noteq> request_of (ag_Meta a) \<Longrightarrow>
      sim_get ag_Meta (sim_put ag_Meta a (cl_agents w)) r = sim_get ag_Meta (cl_agents w) r" for r
    by (rule sim_get_put_other)
  show ?thesis
    unfolding only_own_def
    by (intro conjI allI impI sim_answer_agents[where r = "request_of (ag_Meta a)"])
       (use assms in \<open>simp_all add: sim_view_def other\<close>)
qed

lemma sim_separate: "separate_objects (sim_kube ns) sim_view"
  unfolding separate_objects_def
proof (intro conjI allI impI)
  fix obj and f :: "Deployment \<Rightarrow> go_error + Deployment" and w :: cluster
  assume keys: "\<forall>old new. f old = Inr new \<longrightarrow> request_of (dp_Meta new) = request_of (dp_Meta old)"
  let ?cou = "sim_create_or_update dp_Meta cl_deployments (\<lambda>ds w. w\<lparr>cl_deployments := ds\<rparr>)
     (\<lambda>d. d\<lparr>dp_Meta := (dp_Meta d)\<lparr>om_Created := True\<rparr>\<rparr>) obj f w"
  have "snd ?cou = w \<or> (\<exists>x. request_of (dp_Meta x) = request_of (dp_Meta obj)
     \<and> snd ?cou = w\<lparr>cl_deployments := sim_put dp_Meta x (cl_deployments w)\<rparr>)"
    by (rule sim_create_or_update_put) (use keys in \<open>simp_all add: request_of_def\<close>)
  then have "only_own (sim_kube ns) sim_view (request_of (dp_Meta obj)) w (snd ?cou)"
    by (auto intro!: sim_own_deployments find_sim_put)
  then show "only_own (sim_kube ns) sim_view (request_of (dp_Meta obj)) w (snd (createOrUpdateDeployment (sim_kube ns) obj f w))"
    by (simp add: sim_kube_def)
next
  fix obj and f :: "Service \<Rightarrow> go_error + Service" and w :: cluster
  assume keys: "\<forall>old new. f old = Inr new \<longrightarrow> request_of (sv_Meta new) = request_of (sv_Meta old)"
  let ?cou = "sim_create_or_update sv_Meta cl_services (\<lambda>ss w. w\<lparr>cl_services := ss\<rparr>)
     (\<lambda>s. s\<lparr>sv_Meta := (sv_Meta s)\<lparr>om_Created := True\<rparr>\<rparr>) obj f w"
  have "snd ?cou = w \<or> (\<exists>x. request_of (sv_Meta x) = request_of (sv_Meta obj)
     \<and> snd ?cou = w\<lparr>cl_services := sim_put sv_Meta x (cl_services w)\<rparr>)"
    by (rule sim_create_or_update_put) (use keys in \<open>simp_all add: request_of_def\<close>)
  then have "only_own (sim_kube ns) sim_view (request_of (sv_Meta obj)) w (snd ?cou)"
    by (auto intro!: sim_own_services find_sim_put)
  then show "only_own (sim_kube ns) sim_view (request_of (sv_Meta obj)) w (snd (createOrUpdateService (sim_kube ns) obj f w))"
    by (simp add: sim_kube_def)
next
  fix s :: Service and w :: cluster
  have other: "find (\<lambda>x. request_of (sv_Meta x) = r) (filter (\<lambda>x. request_of (sv_Meta x) \<noteq> r') xs)
     = find (\<lambda>x. request_of (sv_Meta x) = r) xs" if "r \<noteq> r'" for r r' xs
    using that by (induction xs) auto
  have "only_own (sim_kube ns) sim_view (request_of (sv_Meta s)) w
     (w\<lparr>cl_services := filter (\<lambda>x. request_of (sv_Meta x) \<noteq> request_of (sv_Meta s)) (cl_services w)\<rparr>)"
    by (rule sim_own_services) (rule other)
  then show "only_own (sim_kube ns) sim_view (request_of (sv_Meta s)) w (snd (deleteService (sim_kube ns) s w))"
    by (simp add: sim_kube_def)
next
  fix a :: Agent and w :: cluster
  let ?upd = "sim_update_status ag_Meta (\<lambda>new old. old\<lparr>ag_Status := ag_Status new\<rparr>) cl_agents
     (\<lambda>xs w. w\<lparr>cl_agents := xs\<rparr>) a w"
  have "snd (snd ?upd) = w \<or> (\<exists>x. request_of (ag_Meta x) = request_of (ag_Meta a)
     \<and> (\<exists>y. sim_get ag_Meta (cl_agents w) (request_of (ag_Meta a)) = Inr y)
     \<and> snd (snd ?upd) = w\<lparr>cl_agents := sim_put ag_Meta x (cl_agents w)\<rparr>)"
    by (rule sim_update_status_put) simp
  then have "only_own (sim_kube ns) sim_view (request_of (ag_Meta a)) w (snd (snd ?upd))"
    by (metis only_own_refl sim_own_agent)
  then show "only_own (sim_kube ns) sim_view (request_of (ag_Meta a)) w (snd (snd (updateAgentStatus (sim_kube ns) a w)))"
    by (simp add: sim_kube_def)
next
  fix eventf e r and w :: cluster
  assume "recorder (sim_kube ns) = Some eventf"
  then have "eventf = (\<lambda>e w. w\<lparr>cl_events := cl_events w @ [e]\<rparr>)" by (simp add: sim_kube_def)
  then show "only_own (sim_kube ns) sim_view r w (eventf e w)" by (simp add: sim_own_events)
qed

lemma sim_reads_by_key: "reads_by_key (sim_kube ns)"
  unfolding reads_by_key_def listed_agent_def
  by (auto simp: sim_get_def split: option.splits dest: find_SomeD)

lemma sim_system_ok: "rt_ok rt \<Longrightarrow> system_ok rt (sim_kube ns) sim_view"
  unfolding system_ok_def
  using sim_owner_watch_ok
  by (simp add: sim_retry_ok sim_undisturbed sim_owner_ok sim_deployment_written sim_service_written sim_readable
      sim_agent_status_ok sim_condition_ok sim_separate sim_reads_by_key)

end
