(* ===== verification/Agent_Cycle.thy ===== *)
theory Agent_Cycle
  imports Agent_System
begin

text \<open>
  Agents that refer to each other. A sub-agent resolves to the URL in the status of the agent it
  names, and that URL is written by a reconciliation without an error only: agents without a URL
  that wait for one another in a circle are never reconciled without an error.
\<close>

section \<open>A circle\<close>

definition awaits :: "Agent \<Rightarrow> Request \<Rightarrow> bool" where
  "awaits agent r \<longleftrightarrow> (\<exists>s\<in>set (as_SubAgents (ag_Spec agent)). \<exists>ref. sa_Url s = [] \<and> sa_AgentRef s = Some ref
     \<and> nsname (getNamespaceWithDefault ref (om_Namespace (ag_Meta agent))) (or_Name ref) = r)"

definition waiting_circle :: "'w kube \<Rightarrow> 'w \<Rightarrow> Request set \<Rightarrow> bool" where
  "waiting_circle k w S \<longleftrightarrow>
     (\<forall>r\<in>S. \<exists>a. getAgent k w r = Inr a \<and> ast_Url (ag_Status a) = [] \<and> (\<exists>r'\<in>S. awaits a r'))"

lemma circle_unresolved:
  assumes "waiting_circle k w S" and "r \<in> S" and "getAgent k w r = Inr a"
  shows "isl (resolution u k w a)"
proof -
  obtain r' where r': "r' \<in> S" "awaits a r'" using assms unfolding waiting_circle_def by fastforce
  obtain b where b: "getAgent k w r' = Inr b" "ast_Url (ag_Status b) = []"
    using assms(1) r'(1) unfolding waiting_circle_def by blast
  obtain s ref where s: "s \<in> set (as_SubAgents (ag_Spec a))" "sa_Url s = []" "sa_AgentRef s = Some ref"
    "nsname (getNamespaceWithDefault ref (om_Namespace (ag_Meta a))) (or_Name ref) = r'"
    using r'(2) unfolding awaits_def by blast
  have "isl (resolveSubAgentUrl k w s (om_Namespace (ag_Meta a)))"
    using s b by (simp add: resolveSubAgentUrl_def Let_def)
  then show ?thesis using s(1) resolution_Inr_iff[of u k w a] by blast
qed

section \<open>It stays\<close>

text \<open>
  What the API server documents of the status subresource: of the stored object a request changes
  nothing but the status, if anything, to what was sent.
\<close>

definition status_subresource :: "'w kube \<Rightarrow> bool" where
  "status_subresource k \<longleftrightarrow> (\<forall>a w y. getAgent k w (request_of (ag_Meta a)) = Inr y \<longrightarrow>
     (\<exists>y'. getAgent k (snd (snd (updateAgentStatus k a w))) (request_of (ag_Meta a)) = Inr y'
        \<and> ag_Spec y' = ag_Spec y \<and> (ag_Status y' = ag_Status y \<or> ag_Status y' = ag_Status a)))"

text \<open>A reconciliation that could not resolve leaves the agent without a URL.\<close>

lemma failing_run:
  assumes "system_ok rt k v" and "status_subresource k" and "request_of (ag_Meta (fst x)) = r" and "isl (snd x)"
    and "getAgent k w r = Inr y" and "ast_Url (ag_Status y) = []"
  shows "\<exists>y'. getAgent k (snd (agent_act rt k x w)) r = Inr y' \<and> ag_Spec y' = ag_Spec y \<and> ast_Url (ag_Status y') = []"
proof -
  note laws = system_laws[OF assms(1)]
  obtain a err where x: "x = (a, Inl err)" using assms(4) by (cases x) (auto simp: isl_def)
  let ?f = "write_agent_status k (not_ready_status k ''ReconciliationFailed'' (Error err))"
  let ?I = "\<lambda>s. request_of (ag_Meta (fst s)) = r
     \<and> (\<exists>y'. getAgent k (snd s) r = Inr y' \<and> ag_Spec y' = ag_Spec y \<and> ast_Url (ag_Status y') = [])"
  have keep: "?I (snd (?f s))" if I: "?I s" for s
  proof -
    let ?a = "fst s\<lparr>ag_Status := not_ready_status k ''ReconciliationFailed'' (Error err) (fst s)\<rparr>"
    obtain y1 where y1: "getAgent k (snd s) (request_of (ag_Meta ?a)) = Inr y1" "ag_Spec y1 = ag_Spec y"
      "ast_Url (ag_Status y1) = []"
      using I by auto
    obtain y2 where y2: "getAgent k (snd (snd (updateAgentStatus k ?a (snd s)))) (request_of (ag_Meta ?a)) = Inr y2"
      "ag_Spec y2 = ag_Spec y1" "ag_Status y2 = ag_Status y1 \<or> ag_Status y2 = ag_Status ?a"
      using assms(2) y1(1) unfolding status_subresource_def by blast
    have "ast_Url (ag_Status y2) = []" using y2(3) y1(3) by (auto simp: not_ready_status_def)
    then show ?thesis
      using y2(1,2) y1(2) I write_status_key[OF laws(8), of "not_ready_status k ''ReconciliationFailed'' (Error err)" s]
      by (simp add: write_agent_status_def case_prod_beta)
  qed
  have "?I (a, w)" using assms(3,5,6) by (simp add: x)
  then have "\<exists>s0. ?I s0 \<and> retryAgent k ?f (a, w) = ?f s0" by (rule retry_last_run[OF laws(2)]) (rule keep)
  then have "?I (snd (retryAgent k ?f (a, w)))" using keep by auto
  moreover have "updateAgentStatusNotReady k ''ReconciliationFailed'' (Error err) = ?f"
    by (intro ext) (rule updateAgentStatusNotReady_eq)
  ultimately show ?thesis by (simp add: agent_act_def agent_writes_def x)
qed

text \<open>Events that leave the specifications and the statuses of some agents as they are.\<close>

definition spares :: "'w kube \<Rightarrow> 'w view \<Rightarrow> Request set \<Rightarrow> 'w \<Rightarrow> client_object list \<Rightarrow> 'w \<Rightarrow> bool" where
  "spares k v S w e w' \<longleftrightarrow> agent_event k v w e w' \<and> (\<forall>r\<in>S. \<forall>y. getAgent k w r = Inr y \<longrightarrow>
     (\<exists>y'. getAgent k w' r = Inr y' \<and> ag_Spec y' = ag_Spec y \<and> ag_Status y' = ag_Status y))"

text \<open>The circle and the runs that are under way: those of its agents have not resolved.\<close>

definition stuck :: "'w kube \<Rightarrow> Request set \<Rightarrow> ('w, Agent \<times> agent_resolution) loop_state \<Rightarrow> bool" where
  "stuck k S s \<longleftrightarrow> waiting_circle k (world s) S
     \<and> (\<forall>r x. running s r = Some x \<longrightarrow> request_of (ag_Meta (fst x)) = r \<and> (r \<in> S \<longrightarrow> isl (snd x)))"

lemma circle_kept:
  assumes "reads_by_key k" and "waiting_circle k w S"
    and "\<And>r y. r \<in> S \<Longrightarrow> getAgent k w r = Inr y \<Longrightarrow> ast_Url (ag_Status y) = [] \<Longrightarrow>
      \<exists>y'. getAgent k w' r = Inr y' \<and> ag_Spec y' = ag_Spec y \<and> ast_Url (ag_Status y') = []"
  shows "waiting_circle k w' S"
  unfolding waiting_circle_def
proof
  fix r assume r: "r \<in> S"
  obtain y r' where y: "getAgent k w r = Inr y" "ast_Url (ag_Status y) = []" "r' \<in> S" "awaits y r'"
    using assms(2) r unfolding waiting_circle_def by blast
  obtain y' where y': "getAgent k w' r = Inr y'" "ag_Spec y' = ag_Spec y" "ast_Url (ag_Status y') = []"
    using assms(3)[OF r y(1,2)] by blast
  have "request_of (ag_Meta y') = request_of (ag_Meta y)"
    using assms(1) y(1) y'(1) unfolding reads_by_key_def by metis
  then have "om_Namespace (ag_Meta y') = om_Namespace (ag_Meta y)" by (simp add: request_of_def)
  then have "awaits y' r'" using y(4) y'(2) by (simp add: awaits_def)
  then show "\<exists>a. getAgent k w' r = Inr a \<and> ast_Url (ag_Status a) = [] \<and> (\<exists>r'\<in>S. awaits a r')"
    using y' y(3) by blast
qed

lemma stuck_step:
  assumes "system_ok rt k v" and "status_subresource k" and stuck: "stuck k S s"
    and "loop_step (agent_view (uni rt) k) (spares k v S) (agent_wakes k) (agent_run rt k) (agent_echo k v) s t"
  shows "stuck k S t"
  using assms(4)
proof cases
  case (changed e w')
  have "waiting_circle k w' S"
  proof (rule circle_kept[OF system_laws(11)[OF assms(1)]])
    show "waiting_circle k (world s) S" using stuck by (simp add: stuck_def)
    show "\<exists>y'. getAgent k w' q = Inr y' \<and> ag_Spec y' = ag_Spec y \<and> ast_Url (ag_Status y') = []"
      if q: "q \<in> S" "getAgent k (world s) q = Inr y" "ast_Url (ag_Status y) = []" for q y
      using changed(2) q unfolding spares_def by metis
  qed
  then show ?thesis using stuck changed(1) by (simp add: stuck_def)
next
  case (started r x)
  have get: "getAgent k (world s) r = Inr (fst x)" "snd x = resolution (uni rt) k (world s) (fst x)"
    using started(4) by (simp_all add: agent_view_Some)
  have "request_of (ag_Meta (fst x)) = r"
    using system_laws(11)[OF assms(1)] get(1) unfolding reads_by_key_def by blast
  moreover have "r \<in> S \<Longrightarrow> isl (snd x)"
    using stuck get circle_unresolved[of k "world s" S r "fst x" "uni rt"] by (simp add: stuck_def)
  ultimately show ?thesis using stuck started(1) by (cases x) (simp add: stuck_def)
next
  case (finished r x ok w')
  have x: "request_of (ag_Meta (fst x)) = r" "r \<in> S \<Longrightarrow> isl (snd x)"
    using stuck finished(2) unfolding stuck_def by blast+
  have w': "w' = snd (agent_act rt k x (world s))" using finished(3) by (simp add: agent_run_def Let_def case_prod_beta)
  have "waiting_circle k w' S"
  proof (rule circle_kept[OF system_laws(11)[OF assms(1)]])
    show "waiting_circle k (world s) S" using stuck by (simp add: stuck_def)
    show "\<exists>y'. getAgent k w' q = Inr y' \<and> ag_Spec y' = ag_Spec y \<and> ast_Url (ag_Status y') = []"
      if q: "q \<in> S" "getAgent k (world s) q = Inr y" "ast_Url (ag_Status y) = []" for q y
    proof (cases "q = r")
      case True
      then show ?thesis using failing_run[OF assms(1,2) x(1), of "world s" y] x(2) q by (simp add: w')
    next
      case False
      then have "answer_agent_query k w' (QAgent q) = answer_agent_query k (world s) (QAgent q)"
        using agent_act_only_own[OF assms(1) x(1)] unfolding only_own_def w' by blast
      then show ?thesis using q by simp
    qed
  qed
  then show ?thesis using stuck finished(1) by (simp add: stuck_def)
qed (use stuck in \<open>simp_all add: stuck_def\<close>)

lemma stuck_forever:
  assumes "system_ok rt k v" and "status_subresource k" and "stuck k S s"
    and "(loop_step (agent_view (uni rt) k) (spares k v S) (agent_wakes k) (agent_run rt k) (agent_echo k v))\<^sup>*\<^sup>* s t"
  shows "stuck k S t"
  using assms(4,3) by (induction rule: rtranclp_induct) (use stuck_step[OF assms(1,2)] in blast)+

text \<open>
  C8: Agents in a circle of references never get ready. Take agents without a URL, each of which has
  a sub-agent entry that refers to another of them (or to itself), with nothing under way. As
  long as nobody else edits their specifications or statuses, whatever else changes and in
  whatever order reconciliations run, none of them ever gets a URL, and no
  reconciliation of one of them succeeds: its dependencies never resolve.
\<close>

theorem circle_never_ready:
  assumes "system_ok rt k v" and "status_subresource k"
    and "waiting_circle k (world s) S" and "running s = (\<lambda>_. None)"
    and "(loop_step (agent_view (uni rt) k) (spares k v S) (agent_wakes k) (agent_run rt k) (agent_echo k v))\<^sup>*\<^sup>* s t"
    and "r \<in> S"
  shows "(\<exists>a. getAgent k (world t) r = Inr a \<and> ast_Url (ag_Status a) = [])
    \<and> (\<exists>err. fst (Reconcile rt k r (world t)) = Some err) \<and> \<not> agent_achieved rt k v (world t) r"
proof -
  have "stuck k S s" using assms(3,4) by (simp add: stuck_def)
  then have circle: "waiting_circle k (world t) S" using stuck_forever[OF assms(1,2) _ assms(5)] by (simp add: stuck_def)
  then obtain a where a: "getAgent k (world t) r = Inr a" "ast_Url (ag_Status a) = []"
    using assms(6) unfolding waiting_circle_def by blast
  obtain err where err: "resolution (uni rt) k (world t) a = Inl err"
    using circle_unresolved[OF circle assms(6) a(1), of "uni rt"] by (auto simp: isl_def)
  have "fst (Reconcile rt k r (world t)) = Some err"
    unfolding Reconcile_act[OF a(1)] by (simp add: agent_act_def agent_writes_def err)
  moreover have "\<not> agent_achieved rt k v (world t) r" by (simp add: agent_achieved_def a(1) agent_done_def err)
  ultimately show ?thesis using a by blast
qed

lemma sim_status_subresource: "status_subresource (sim_kube ns)"
  unfolding status_subresource_def
proof (intro allI impI)
  fix a :: Agent and w :: cluster and y
  assume y: "getAgent (sim_kube ns) w (request_of (ag_Meta a)) = Inr y"
  then have key: "request_of (ag_Meta y) = request_of (ag_Meta a)" by (auto dest: sim_get_key)
  let ?y = "y\<lparr>ag_Status := ag_Status a\<rparr>"
  have "snd (snd (updateAgentStatus (sim_kube ns) a w)) = w\<lparr>cl_agents := sim_put ag_Meta ?y (cl_agents w)\<rparr>"
    using y by (simp add: sim_kube_def sim_update_status_def Let_def)
  moreover have "sim_get ag_Meta (sim_put ag_Meta ?y (cl_agents w)) (request_of (ag_Meta a)) = Inr ?y"
    using sim_get_put[of ag_Meta ?y] key by simp
  ultimately show "\<exists>y'. getAgent (sim_kube ns) (snd (snd (updateAgentStatus (sim_kube ns) a w))) (request_of (ag_Meta a)) = Inr y'
     \<and> ag_Spec y' = ag_Spec y \<and> (ag_Status y' = ag_Status y \<or> ag_Status y' = ag_Status a)"
    by (intro exI[of _ ?y]) simp
qed

text \<open>Two new agents that refer to each other; one of them is reconciled.\<close>

definition circle_agent :: "string \<Rightarrow> string \<Rightarrow> Agent" where
  "circle_agent name other = new_agent name ''n'' (empty_agent_spec\<lparr>as_SubAgents :=
     [\<lparr>sa_Name = ''s'', sa_AgentRef = Some (local_ref other), sa_Url = [], sa_InteractionType = ''tool_call''\<rparr>]\<rparr>)"

definition circle_cluster :: cluster where
  "circle_cluster = empty_cluster\<lparr>cl_agents := [circle_agent ''p'' ''q'', circle_agent ''q'' ''p'']\<rparr>"

definition circle_members :: "Request set" where
  "circle_members = {nsname ''n'' ''p'', nsname ''n'' ''q''}"

lemma circle_get:
  "getAgent (sim_kube ''ops'') circle_cluster (nsname ''n'' ''p'') = Inr (circle_agent ''p'' ''q'')"
  "getAgent (sim_kube ''ops'') circle_cluster (nsname ''n'' ''q'') = Inr (circle_agent ''q'' ''p'')"
  by (simp_all add: circle_cluster_def circle_agent_def new_agent_def sim_get_def request_of_def)

lemma circle_waits: "waiting_circle (sim_kube ''ops'') circle_cluster circle_members"
  by (simp add: waiting_circle_def circle_members_def circle_get del: sim_kube_sel)
     (simp add: awaits_def circle_agent_def new_agent_def empty_agent_spec_def local_ref_def getNamespaceWithDefault_def)

theorem circle_never_ready_witness:
  "\<exists>t :: (cluster, Agent \<times> agent_resolution) loop_state.
     world t = snd (Reconcile rt_std (sim_kube ''ops'') (nsname ''n'' ''p'') circle_cluster)
     \<and> (\<exists>err. fst (Reconcile rt_std (sim_kube ''ops'') (nsname ''n'' ''p'') (world t)) = Some err)
     \<and> \<not> agent_achieved rt_std (sim_kube ''ops'') sim_view (world t) (nsname ''n'' ''q'')"
proof -
  let ?k = "sim_kube ''ops''" and ?r = "nsname ''n'' ''p''" and ?S = circle_members
  let ?x = "(circle_agent ''p'' ''q'', resolution (uni rt_std) ?k circle_cluster (circle_agent ''p'' ''q''))"
  let ?s = "\<lparr>world = circle_cluster, queued = UNIV, running = (\<lambda>_. None)\<rparr> :: (cluster, Agent \<times> agent_resolution) loop_state"
  obtain ok w' where run: "agent_run rt_std ?k ?r ?x circle_cluster = (ok, w')" by (rule prod.exhaust)
  then have w': "w' = snd (Reconcile rt_std ?k ?r circle_cluster)"
    unfolding Reconcile_act[OF circle_get(1)] by (simp add: agent_run_def Let_def case_prod_beta)
  have view: "agent_view (uni rt_std) ?k circle_cluster ?r = Some ?x"
    by (simp add: agent_view_Some circle_get del: sim_kube_sel)
  let ?t = "\<lparr>world = w', queued = UNIV - {?r} \<union> agent_echo ?k sim_view ?r circle_cluster w' \<union> (if ok then {} else {?r}),
     running = (\<lambda>_. None)\<rparr> :: (cluster, Agent \<times> agent_resolution) loop_state"
  have steps: "(loop_step (agent_view (uni rt_std) ?k) (spares ?k sim_view ?S) (agent_wakes ?k) (agent_run rt_std ?k)
      (agent_echo ?k sim_view))\<^sup>*\<^sup>* ?s ?t"
    using view run by (intro first_run) simp_all
  have circle: "waiting_circle ?k (world ?s) ?S" "running ?s = (\<lambda>_. None)" using circle_waits by simp_all
  have mem: "?r \<in> ?S" "nsname ''n'' ''q'' \<in> ?S" by (simp_all add: circle_members_def)
  note never = circle_never_ready[OF sim_system_ok[OF rt_std_ok] sim_status_subresource circle steps]
  have 3: "\<exists>err. fst (Reconcile rt_std ?k ?r (world ?t)) = Some err" using never[OF mem(1)] by blast
  have 4: "\<not> agent_achieved rt_std ?k sim_view (world ?t) (nsname ''n'' ''q'')" using never[OF mem(2)] by blast
  show ?thesis by (intro exI[of _ ?t] conjI 3 4) (simp add: w')
qed

end
