(* ===== verification/ToolServer_System.thy ===== *)
theory ToolServer_System
  imports ToolServer_Properties Agent_System
begin

text \<open>
  The tool server controller as an instance of the loop of \<open>Controller_Loop\<close>. A reconciliation
  depends on the tool server alone; it writes its deployment, its service and its status.
\<close>

section \<open>Reading and writing apart\<close>

definition toolserver_act :: "go_rt \<Rightarrow> 'w kube \<Rightarrow> ToolServer \<Rightarrow> 'w \<Rightarrow> go_error option \<times> 'w" where
  "toolserver_act rt k x w =
     (case reconcileToolServer rt k x w of
        (Some err, w) \<Rightarrow>
          (Some err, snd (snd (retryToolServer k
             (updateToolServerStatusNotReady k ''ReconciliationFailed'' (Error err)) (x, w))))
      | (None, w) \<Rightarrow> (let (e, (_, w)) = retryToolServer k (updateToolServerStatusReady k) (x, w) in (e, w)))"

lemma Reconcile_ts_act: "getToolServer k w req = Inr x \<Longrightarrow> Reconcile_ts rt k req w = toolserver_act rt k x w"
  unfolding Reconcile_ts_def toolserver_act_def
  by (auto simp: case_prod_beta Let_def split: prod.split option.split)

section \<open>What a reconciliation touches\<close>

definition only_own_server :: "'w kube \<Rightarrow> 'w view \<Rightarrow> Request \<Rightarrow> 'w \<Rightarrow> 'w \<Rightarrow> bool" where
  "only_own_server k v r w w' \<longleftrightarrow>
     (\<forall>r'. r' \<noteq> r \<longrightarrow> getToolServer k w' r' = getToolServer k w r'
        \<and> v_deployment v w' r' = v_deployment v w r' \<and> v_service v w' r' = v_service v w r')
     \<and> (\<forall>e. getToolServer k w r = Inl e \<longrightarrow> getToolServer k w' r = Inl e)"

lemma only_own_server_refl [simp]: "only_own_server k v r w w"
  by (simp add: only_own_server_def)

lemma only_own_server_trans:
  "only_own_server k v r w w' \<Longrightarrow> only_own_server k v r w' w'' \<Longrightarrow> only_own_server k v r w w''"
  unfolding only_own_server_def by metis

definition separate_objects_ts :: "'w kube \<Rightarrow> 'w view \<Rightarrow> bool" where
  "separate_objects_ts k v \<longleftrightarrow>
     (\<forall>obj f w. (\<forall>old new. f old = Inr new \<longrightarrow> request_of (dp_Meta new) = request_of (dp_Meta old)) \<longrightarrow>
        only_own_server k v (request_of (dp_Meta obj)) w (snd (createOrUpdateDeployment k obj f w)))
     \<and> (\<forall>obj f w. (\<forall>old new. f old = Inr new \<longrightarrow> request_of (sv_Meta new) = request_of (sv_Meta old)) \<longrightarrow>
        only_own_server k v (request_of (sv_Meta obj)) w (snd (createOrUpdateService k obj f w)))
     \<and> (\<forall>x w. only_own_server k v (request_of (tsv_Meta x)) w (snd (snd (updateToolServerStatus k x w))))
     \<and> (\<forall>w key x. getToolServer k w key = Inr x \<longrightarrow> request_of (tsv_Meta x) = key)"

definition system_ok_ts :: "go_rt \<Rightarrow> 'w kube \<Rightarrow> 'w view \<Rightarrow> bool" where
  "system_ok_ts rt k v \<longleftrightarrow>
     rt_ok rt \<and> retry_ok (retryToolServer k) \<and> undisturbed_ts k v
     \<and> (\<forall>x. set_owner_ok (setToolServerOwner k x)
          \<and> owner_watch_ok (setToolServerOwner k x) (toolServerOwnerRequests k) (request_of (tsv_Meta x)))
     \<and> written_ok stores_deployment dp_Meta (v_deployment v) (createOrUpdateDeployment k)
     \<and> written_ok stores_service sv_Meta (v_service v) (createOrUpdateService k)
     \<and> status_update_ok (updateToolServerStatus k) (readable (getToolServer k)) tsv_Meta tsv_Status
     \<and> set_condition_ok (setStatusCondition k) \<and> separate_objects_ts k v"

lemma system_laws_ts:
  assumes "system_ok_ts rt k v"
  shows "rt_ok rt" "retry_ok (retryToolServer k)" "undisturbed_ts k v" "set_owner_ok (setToolServerOwner k x)"
    "owner_watch_ok (setToolServerOwner k x) (toolServerOwnerRequests k) (request_of (tsv_Meta x))"
    "written_ok stores_deployment dp_Meta (v_deployment v) (createOrUpdateDeployment k)"
    "written_ok stores_service sv_Meta (v_service v) (createOrUpdateService k)"
    "status_update_ok (updateToolServerStatus k) (readable (getToolServer k)) tsv_Meta tsv_Status"
    "set_condition_ok (setStatusCondition k)" "separate_objects_ts k v"
    "getToolServer k w key = Inr y \<Longrightarrow> request_of (tsv_Meta y) = key"
  using assms by (simp_all add: system_ok_ts_def separate_objects_ts_def)

lemma reconcileToolServer_only_own:
  assumes "system_ok_ts rt k v"
  shows "only_own_server k v (request_of (tsv_Meta x)) w (snd (reconcileToolServer rt k x w))"
proof -
  note laws = system_laws_ts[OF assms]
  let ?d = "new_deployment (om_Name (tsv_Meta x)) (om_Namespace (tsv_Meta x))"
  let ?s = "new_service (om_Name (tsv_Meta x)) (om_Namespace (tsv_Meta x))"
  have key: "request_of (dp_Meta ?d) = request_of (tsv_Meta x)" "request_of (sv_Meta ?s) = request_of (tsv_Meta x)"
    by (simp_all add: new_deployment_def new_service_def request_of_def)
  obtain r1 w1 where dep: "createOrUpdateDeployment k ?d (deployment_closure_ts rt k x) w = (r1, w1)" by (rule prod.exhaust)
  obtain r2 w2 where svc: "createOrUpdateService k ?s (service_closure_ts k x) w1 = (r2, w2)" by (rule prod.exhaust)
  have 1: "only_own_server k v (request_of (tsv_Meta x)) w w1"
    using laws(10) closure_ts_keys(1)[OF laws(4)] dep unfolding separate_objects_ts_def key(1)[symmetric] by (metis snd_conv)
  have 2: "only_own_server k v (request_of (tsv_Meta x)) w1 w2"
    using laws(10) closure_ts_keys(2)[OF laws(4)] svc unfolding separate_objects_ts_def key(2)[symmetric] by (metis snd_conv)
  show ?thesis
    using 1 only_own_server_trans[OF 1 2]
    by (simp add: reconcileToolServer_def ensureDeployment_ts_def ensureService_ts_def dep svc split: sum.split option.split)
qed

lemma retried_status_only_own:
  assumes "system_ok_ts rt k v"
  shows "only_own_server k v (request_of (tsv_Meta (fst s))) (snd s)
    (snd (snd (retryToolServer k (write_toolserver_status k f) s)))"
proof -
  note laws = system_laws_ts[OF assms]
  let ?w = "write_toolserver_status k f" and ?r = "request_of (tsv_Meta (fst s))"
  have one: "only_own_server k v ?r (snd y) (snd (snd (?w y))) \<and> request_of (tsv_Meta (fst (snd (?w y)))) = ?r"
    if "request_of (tsv_Meta (fst y)) = ?r" for y
  proof -
    let ?x = "fst y\<lparr>tsv_Status := f (fst y)\<rparr>"
    obtain err x' w' where run: "updateToolServerStatus k ?x (snd y) = (err, x', w')" by (metis prod.collapse)
    have "request_of (tsv_Meta x') = request_of (tsv_Meta ?x)"
      using laws(8) run unfolding status_update_ok_def by blast
    moreover have "only_own_server k v (request_of (tsv_Meta ?x)) (snd y) (snd (snd (updateToolServerStatus k ?x (snd y))))"
      using laws(10) unfolding separate_objects_ts_def by blast
    ultimately show ?thesis using that by (simp add: write_toolserver_status_def run)
  qed
  let ?I = "\<lambda>y. request_of (tsv_Meta (fst y)) = ?r \<and> only_own_server k v ?r (snd s) (snd y)"
  have "\<exists>s0. ?I s0 \<and> retryToolServer k ?w s = ?w s0"
  proof (rule retry_last_run[OF laws(2)])
    show "?I (snd (?w y))" if "?I y" for y
      using that one[of y] only_own_server_trans[of k v ?r "snd s" "snd y"] by simp
  qed simp
  then show ?thesis using one only_own_server_trans by metis
qed

lemma toolserver_act_only_own:
  assumes "system_ok_ts rt k v"
  shows "only_own_server k v (request_of (tsv_Meta x)) w (snd (toolserver_act rt k x w))"
proof -
  obtain res w1 where run: "reconcileToolServer rt k x w = (res, w1)" by (rule prod.exhaust)
  have 1: "only_own_server k v (request_of (tsv_Meta x)) w w1"
    using reconcileToolServer_only_own[OF assms, of x w] by (simp add: run)
  have st: "only_own_server k v (request_of (tsv_Meta x)) w
      (snd (snd (retryToolServer k (write_toolserver_status k f) (x, w1))))" for f
    using only_own_server_trans[OF 1] retried_status_only_own[OF assms, of "(x, w1)" f] by simp
  have writers: "updateToolServerStatusReady k = write_toolserver_status k (ready_status_ts k)"
    "updateToolServerStatusNotReady k reason m = write_toolserver_status k (not_ready_status_ts k reason m)" for reason m
    by (intro ext; simp add: updateToolServerStatusReady_eq updateToolServerStatusNotReady_eq)+
  show ?thesis
    using st by (simp add: toolserver_act_def run writers Let_def case_prod_beta split: option.split)
qed

section \<open>The tool server controller as a loop\<close>

definition toolserver_view :: "'w kube \<Rightarrow> 'w \<Rightarrow> Request \<Rightarrow> ToolServer option" where
  "toolserver_view k w r = readable (getToolServer k) w r"

definition toolserver_event :: "'w kube \<Rightarrow> 'w view \<Rightarrow> 'w \<Rightarrow> client_object list \<Rightarrow> 'w \<Rightarrow> bool" where
  "toolserver_event k v w e w' \<longleftrightarrow>
     (\<forall>r. getToolServer k w' r \<noteq> getToolServer k w r \<longrightarrow> (\<exists>x. ObjToolServer x \<in> set e \<and> request_of (tsv_Meta x) = r))
     \<and> (\<forall>r d. v_deployment v w r = Some d \<and> v_deployment v w' r \<noteq> Some d \<longrightarrow> ObjDeployment d \<in> set e)
     \<and> (\<forall>r s. v_service v w r = Some s \<and> v_service v w' r \<noteq> Some s \<longrightarrow> ObjService s \<in> set e)"

definition toolserver_wakes :: "'w kube \<Rightarrow> 'w \<Rightarrow> client_object list \<Rightarrow> Request set" where
  "toolserver_wakes k w e = set (concat (map (toolserver_watch_requests k) e))"

definition toolserver_run :: "go_rt \<Rightarrow> 'w kube \<Rightarrow> Request \<Rightarrow> ToolServer \<Rightarrow> 'w \<Rightarrow> bool \<times> 'w" where
  "toolserver_run rt k r x w = (let (err, w') = toolserver_act rt k x w in (err = None, w'))"

definition toolserver_echo :: "'w kube \<Rightarrow> 'w view \<Rightarrow> Request \<Rightarrow> 'w \<Rightarrow> 'w \<Rightarrow> Request set" where
  "toolserver_echo k v r w w' = toolserver_wakes k w'
     (versions ObjToolServer (readable (getToolServer k) w r) (readable (getToolServer k) w' r)
      @ versions ObjDeployment (v_deployment v w r) (v_deployment v w' r)
      @ versions ObjService (v_service v w r) (v_service v w' r))"

definition toolserver_done :: "'w kube \<Rightarrow> 'w view \<Rightarrow> 'w \<Rightarrow> Request \<Rightarrow> ToolServer \<Rightarrow> bool" where
  "toolserver_done k v w r x \<longleftrightarrow>
     (\<exists>d s c. v_deployment v w r = Some d \<and> runs_toolserver x d \<and> owned_by (setToolServerOwner k x) (dp_Meta d)
        \<and> v_service v w r = Some s \<and> serves_toolserver x s \<and> owned_by (setToolServerOwner k x) (sv_Meta s)
        \<and> tst_Url (tsv_Status x) = (if ts_TransportType (tsv_Spec x) \<in> {''http'', ''sse''} then toolserver_url x else [])
        \<and> findReadyCondition (tst_Conditions (tsv_Status x)) = Some c \<and> c_Status c = ConditionTrue)"

definition toolserver_achieved :: "'w kube \<Rightarrow> 'w view \<Rightarrow> 'w \<Rightarrow> Request \<Rightarrow> bool" where
  "toolserver_achieved k v w r = (case getToolServer k w r of Inl _ \<Rightarrow> True | Inr x \<Rightarrow> toolserver_done k v w r x)"

lemma toolserver_view_Some: "toolserver_view k w r = Some x \<longleftrightarrow> getToolServer k w r = Inr x"
  by (simp add: toolserver_view_def)

lemma toolserver_wakesI: "obj \<in> set e \<Longrightarrow> r \<in> set (toolserver_watch_requests k obj) \<Longrightarrow> r \<in> toolserver_wakes k w e"
  by (auto simp: toolserver_wakes_def)

lemma toolserver_achieved_view:
  assumes "toolserver_view k w' r = toolserver_view k w r"
  shows "toolserver_achieved k v w' r \<longleftrightarrow>
    (\<forall>x. getToolServer k w r = Inr x \<longrightarrow> toolserver_done k v w' r x)"
proof (cases "getToolServer k w r")
  case (Inl err)
  then have "toolserver_view k w' r = None" using assms by (simp add: toolserver_view_def readable_def)
  then have "isl (getToolServer k w' r)" by (auto simp: toolserver_view_def readable_def split: sum.splits)
  then show ?thesis using Inl by (auto simp: toolserver_achieved_def isl_def)
next
  case (Inr x)
  then have "getToolServer k w' r = Inr x" using assms toolserver_view_Some by metis
  then show ?thesis using Inr by (simp add: toolserver_achieved_def)
qed

lemma owner_wakes_ts:
  assumes "system_ok_ts rt k v" and "getToolServer k w r = Inr x"
  shows "owned_by (setToolServerOwner k x) (dp_Meta d) \<Longrightarrow> ObjDeployment d \<in> set e \<Longrightarrow> r \<in> toolserver_wakes k w' e"
    and "owned_by (setToolServerOwner k x) (sv_Meta s) \<Longrightarrow> ObjService s \<in> set e \<Longrightarrow> r \<in> toolserver_wakes k w' e"
proof -
  have key: "request_of (tsv_Meta x) = r" by (rule system_laws_ts(11)[OF assms])
  note watch = system_laws_ts(5)[OF assms(1), of x, unfolded owner_watch_ok_def key, rule_format]
  show "r \<in> toolserver_wakes k w' e" if "owned_by (setToolServerOwner k x) (dp_Meta d)" "ObjDeployment d \<in> set e"
    using that(2) by (rule toolserver_wakesI) (simp add: toolserver_watch_requests_def watch that(1))
  show "r \<in> toolserver_wakes k w' e" if "owned_by (setToolServerOwner k x) (sv_Meta s)" "ObjService s \<in> set e"
    using that(2) by (rule toolserver_wakesI) (simp add: toolserver_watch_requests_def watch that(1))
qed

lemma event_keeps_achieved_ts:
  assumes "system_ok_ts rt k v" and "toolserver_event k v w e w'"
    and view: "toolserver_view k w' r = toolserver_view k w r" and "toolserver_achieved k v w r"
  shows "toolserver_achieved k v w' r \<or> r \<in> toolserver_wakes k w' e"
proof (cases "getToolServer k w r")
  case (Inl err)
  then show ?thesis by (simp add: toolserver_achieved_view[OF view])
next
  case (Inr x)
  have before: "toolserver_done k v w r x" using assms(4) by (simp add: toolserver_achieved_def Inr)
  then obtain d s where d: "v_deployment v w r = Some d" "owned_by (setToolServerOwner k x) (dp_Meta d)"
    and s: "v_service v w r = Some s" "owned_by (setToolServerOwner k x) (sv_Meta s)"
    unfolding toolserver_done_def by blast
  have "v_deployment v w' r = v_deployment v w r \<or> r \<in> toolserver_wakes k w' e"
    using assms(2) d owner_wakes_ts(1)[OF assms(1) Inr] unfolding toolserver_event_def by metis
  moreover have "v_service v w' r = v_service v w r \<or> r \<in> toolserver_wakes k w' e"
    using assms(2) s owner_wakes_ts(2)[OF assms(1) Inr] unfolding toolserver_event_def by metis
  moreover have "toolserver_done k v w' r x"
    if "v_deployment v w' r = v_deployment v w r" "v_service v w' r = v_service v w r"
    using before unfolding toolserver_done_def that .
  ultimately show ?thesis by (auto simp: toolserver_achieved_view[OF view] Inr)
qed

lemma act_view_echo_ts:
  assumes "system_ok_ts rt k v" and "request_of (tsv_Meta x) = r" and "toolserver_run rt k r x w = (ok, w')"
    and change: "toolserver_view k w' r' \<noteq> toolserver_view k w r'"
  shows "r' \<in> toolserver_echo k v r w w'"
proof -
  have own: "only_own_server k v r w w'"
    using toolserver_act_only_own[OF assms(1), of x w] assms(2,3) by (simp add: toolserver_run_def Let_def case_prod_beta)
  have "r' = r"
  proof (rule ccontr)
    assume "r' \<noteq> r"
    then have "getToolServer k w' r' = getToolServer k w r'" using own unfolding only_own_server_def by blast
    then show False using change by (simp add: toolserver_view_def readable_def)
  qed
  have differ: "readable (getToolServer k) w r \<noteq> readable (getToolServer k) w' r"
    using not_sym[OF change] \<open>r' = r\<close> by (simp add: toolserver_view_def)
  obtain y where y: "getToolServer k w r = Inr y"
  proof (cases "getToolServer k w r")
    case (Inl err)
    then have "getToolServer k w' r = Inl err" using own unfolding only_own_server_def by blast
    then show thesis using differ Inl by (simp add: readable_def)
  qed
  have old: "readable (getToolServer k) w r = Some y" using y by simp
  have "ObjToolServer y \<in> set (versions ObjToolServer (readable (getToolServer k) w r) (readable (getToolServer k) w' r))"
    using differ unfolding old versions_def by simp
  moreover have "r \<in> set (toolserver_watch_requests k (ObjToolServer y))"
    using system_laws_ts(11)[OF assms(1) y] by (simp add: toolserver_watch_requests_def)
  ultimately have "r \<in> toolserver_echo k v r w w'"
    unfolding toolserver_echo_def by (intro toolserver_wakesI[of "ObjToolServer y"]) simp_all
  then show ?thesis using \<open>r' = r\<close> by simp
qed

lemma act_keeps_others_ts:
  assumes "system_ok_ts rt k v" and "request_of (tsv_Meta x) = r" and "toolserver_run rt k r x w = (ok, w')"
    and "r' \<noteq> r" and view: "toolserver_view k w' r' = toolserver_view k w r'" and "toolserver_achieved k v w r'"
  shows "toolserver_achieved k v w' r'"
proof -
  have "only_own_server k v r w w'"
    using toolserver_act_only_own[OF assms(1), of x w] assms(2,3) by (simp add: toolserver_run_def Let_def case_prod_beta)
  then have same: "v_deployment v w' r' = v_deployment v w r'" "v_service v w' r' = v_service v w r'"
    using assms(4) unfolding only_own_server_def by blast+
  have "toolserver_done k v w' r' x \<longleftrightarrow> toolserver_done k v w r' x" for x unfolding toolserver_done_def same ..
  then show ?thesis
    using assms(6) unfolding toolserver_achieved_view[OF view]
    by (cases "getToolServer k w r'") (simp_all add: toolserver_achieved_def)
qed

lemma act_achieves_view_ts:
  assumes "system_ok_ts rt k v" and "request_of (tsv_Meta x) = r" and "toolserver_run rt k r x w = (True, w')"
    and "toolserver_view k w' r = Some x"
  shows "toolserver_achieved k v w' r"
proof -
  note laws = system_laws_ts[OF assms(1)]
  have get: "getToolServer k w' r = Inr x" using assms(4) by (simp add: toolserver_view_Some)
  have act: "toolserver_act rt k x w = (None, w')" using assms(3) by (auto simp: toolserver_run_def Let_def split: prod.splits)
  obtain w1 a where run: "reconcileToolServer rt k x w = (None, w1)"
    and upd: "retryToolServer k (updateToolServerStatusReady k) (x, w1) = (None, (a, w'))"
    using act by (auto simp: toolserver_act_def Let_def split: prod.splits option.splits)
  have ready: "updateToolServerStatusReady k = write_toolserver_status k (ready_status_ts k)"
    by (intro ext) (rule updateToolServerStatusReady_eq)
  have same: "v_deployment v w' = v_deployment v w1" "v_service v w' = v_service v w1"
    using retried_frame[OF laws(2), of "v_deployment v" "updateToolServerStatusReady k" "(x, w1)"]
      retried_frame[OF laws(2), of "v_service v" "updateToolServerStatusReady k" "(x, w1)"]
      status_frames_ts[OF laws(3)] upd by (simp_all add: ready)
  obtain b y where b: "tsv_Meta b = tsv_Meta x" "tsv_Spec b = tsv_Spec x"
    and y: "readable (getToolServer k) w' r = Some y" "tsv_Status y = ready_status_ts k b"
    using retried_toolserver_write[OF laws(2,8), of "\<lambda>_. True" "ready_status_ts k" "(x, w1)" "(a, w')"] upd assms(2)
    unfolding ready by auto
  have status: "tsv_Status x = ready_status_ts k b" using y get by simp
  have "tst_Url (tsv_Status x) = (if ts_TransportType (tsv_Spec x) \<in> {''http'', ''sse''} then toolserver_url x else [])"
    unfolding status ready_status_ts_url by (simp add: b toolserver_url_def)
  then show ?thesis
    using reconcileToolServer_deploys[OF laws(1,3,4,6,7) run] ready_condition_ts[OF laws(9), of b]
    unfolding toolserver_achieved_def get sum.case toolserver_done_def same assms(2) status by blast
qed

interpretation toolserver_loop: controller_loop
  "system_ok_ts rt k v" "toolserver_view k" "toolserver_event k v" "toolserver_wakes k" "toolserver_run rt k"
  "toolserver_echo k v" "toolserver_achieved k v" "\<lambda>r x. request_of (tsv_Meta x) = r" "\<lambda>_ _ _. False"
  for rt k v
proof unfold_locales
  show "request_of (tsv_Meta x) = r" if "system_ok_ts rt k v" "toolserver_view k w r = Some x" for w r x
    using system_laws_ts(11)[OF that(1)] that(2) by (simp add: toolserver_view_Some)
  show "r \<in> toolserver_wakes k w' e \<or> (\<exists>x. toolserver_view k w r = Some x \<and> False \<and> \<not> toolserver_achieved k v w r)"
    if "system_ok_ts rt k v" and event: "toolserver_event k v w e w'"
      and view: "toolserver_view k w' r \<noteq> toolserver_view k w r" for w e w' r
  proof (rule disjI1)
    have "getToolServer k w' r \<noteq> getToolServer k w r" using view by (auto simp: toolserver_view_def readable_def)
    then obtain x where "ObjToolServer x \<in> set e" "request_of (tsv_Meta x) = r"
      using event unfolding toolserver_event_def by blast
    then show "r \<in> toolserver_wakes k w' e" by (auto intro: toolserver_wakesI simp: toolserver_watch_requests_def)
  qed
qed (rule event_keeps_achieved_ts act_view_echo_ts act_keeps_others_ts act_achieves_view_ts; assumption | simp)+

section \<open>The cluster of \<open>Cluster\<close> satisfies the laws\<close>

lemma sim_own_server_deployments:
  "(\<And>r'. r' \<noteq> r \<Longrightarrow> find (\<lambda>x. request_of (dp_Meta x) = r') ds = find (\<lambda>x. request_of (dp_Meta x) = r') (cl_deployments w)) \<Longrightarrow>
     only_own_server (sim_kube ns) sim_view r w (w\<lparr>cl_deployments := ds\<rparr>)"
  by (simp add: only_own_server_def sim_view_def)

lemma sim_own_server_services:
  "(\<And>r'. r' \<noteq> r \<Longrightarrow> find (\<lambda>x. request_of (sv_Meta x) = r') ss = find (\<lambda>x. request_of (sv_Meta x) = r') (cl_services w)) \<Longrightarrow>
     only_own_server (sim_kube ns) sim_view r w (w\<lparr>cl_services := ss\<rparr>)"
  by (simp add: only_own_server_def sim_view_def)

lemma sim_own_server:
  assumes "sim_get tsv_Meta (cl_servers w) (request_of (tsv_Meta a)) = Inr y"
  shows "only_own_server (sim_kube ns) sim_view (request_of (tsv_Meta a)) w (w\<lparr>cl_servers := sim_put tsv_Meta a (cl_servers w)\<rparr>)"
proof -
  have other: "r \<noteq> request_of (tsv_Meta a) \<Longrightarrow>
      sim_get tsv_Meta (sim_put tsv_Meta a (cl_servers w)) r = sim_get tsv_Meta (cl_servers w) r" for r
    by (rule sim_get_put_other)
  show ?thesis using assms by (simp add: only_own_server_def sim_view_def other)
qed

lemma sim_separate_ts: "separate_objects_ts (sim_kube ns) sim_view"
  unfolding separate_objects_ts_def
proof (intro conjI allI impI)
  fix obj and f :: "Deployment \<Rightarrow> go_error + Deployment" and w :: cluster
  assume keys: "\<forall>old new. f old = Inr new \<longrightarrow> request_of (dp_Meta new) = request_of (dp_Meta old)"
  let ?cou = "sim_create_or_update dp_Meta cl_deployments (\<lambda>ds w. w\<lparr>cl_deployments := ds\<rparr>)
     (\<lambda>d. d\<lparr>dp_Meta := (dp_Meta d)\<lparr>om_Created := True\<rparr>\<rparr>) obj f w"
  have "snd ?cou = w \<or> (\<exists>x. request_of (dp_Meta x) = request_of (dp_Meta obj)
     \<and> snd ?cou = w\<lparr>cl_deployments := sim_put dp_Meta x (cl_deployments w)\<rparr>)"
    by (rule sim_create_or_update_put) (use keys in \<open>simp_all add: request_of_def\<close>)
  then have "only_own_server (sim_kube ns) sim_view (request_of (dp_Meta obj)) w (snd ?cou)"
    by (auto intro!: sim_own_server_deployments find_sim_put)
  then show "only_own_server (sim_kube ns) sim_view (request_of (dp_Meta obj)) w (snd (createOrUpdateDeployment (sim_kube ns) obj f w))"
    by (simp add: sim_kube_def)
next
  fix obj and f :: "Service \<Rightarrow> go_error + Service" and w :: cluster
  assume keys: "\<forall>old new. f old = Inr new \<longrightarrow> request_of (sv_Meta new) = request_of (sv_Meta old)"
  let ?cou = "sim_create_or_update sv_Meta cl_services (\<lambda>ss w. w\<lparr>cl_services := ss\<rparr>)
     (\<lambda>s. s\<lparr>sv_Meta := (sv_Meta s)\<lparr>om_Created := True\<rparr>\<rparr>) obj f w"
  have "snd ?cou = w \<or> (\<exists>x. request_of (sv_Meta x) = request_of (sv_Meta obj)
     \<and> snd ?cou = w\<lparr>cl_services := sim_put sv_Meta x (cl_services w)\<rparr>)"
    by (rule sim_create_or_update_put) (use keys in \<open>simp_all add: request_of_def\<close>)
  then have "only_own_server (sim_kube ns) sim_view (request_of (sv_Meta obj)) w (snd ?cou)"
    by (auto intro!: sim_own_server_services find_sim_put)
  then show "only_own_server (sim_kube ns) sim_view (request_of (sv_Meta obj)) w (snd (createOrUpdateService (sim_kube ns) obj f w))"
    by (simp add: sim_kube_def)
next
  fix a :: ToolServer and w :: cluster
  let ?upd = "sim_update_status tsv_Meta (\<lambda>new old. old\<lparr>tsv_Status := tsv_Status new\<rparr>) cl_servers
     (\<lambda>xs w. w\<lparr>cl_servers := xs\<rparr>) a w"
  have "snd (snd ?upd) = w \<or> (\<exists>x. request_of (tsv_Meta x) = request_of (tsv_Meta a)
     \<and> (\<exists>y. sim_get tsv_Meta (cl_servers w) (request_of (tsv_Meta a)) = Inr y)
     \<and> snd (snd ?upd) = w\<lparr>cl_servers := sim_put tsv_Meta x (cl_servers w)\<rparr>)"
    by (rule sim_update_status_put) simp
  then have "only_own_server (sim_kube ns) sim_view (request_of (tsv_Meta a)) w (snd (snd ?upd))"
    by (metis only_own_server_refl sim_own_server)
  then show "only_own_server (sim_kube ns) sim_view (request_of (tsv_Meta a)) w (snd (snd (updateToolServerStatus (sim_kube ns) a w)))"
    by (simp add: sim_kube_def)
next
  fix w key x assume "getToolServer (sim_kube ns) w key = Inr x"
  then show "request_of (tsv_Meta x) = key" by (auto dest: sim_get_key)
qed

lemma sim_system_ok_ts: "rt_ok rt \<Longrightarrow> system_ok_ts rt (sim_kube ns) sim_view"
  unfolding system_ok_ts_def
  using sim_owner_watch_ok
  by (simp add: sim_retry_ok sim_undisturbed_ts sim_owner_ok sim_deployment_written sim_service_written sim_readable
      sim_tool_server_status_ok sim_condition_ok sim_separate_ts)

end
