(* ===== verification/Workforce_System.thy ===== *)
theory Workforce_System
  imports Workforce_Properties Agent_System
begin

text \<open>
  The workforce controller as an instance of the loop of \<open>Controller_Loop\<close>. Its watch looks at the
  status, which is written at the end of a reconciliation only: a change of an agent that the
  running reconciliation has just discovered enqueues nothing. It is not lost, since the status that
  is written then differs from the one that is stored, and the event of this write enqueues the
  workforce.
\<close>

section \<open>More depth, the same result\<close>

lemma traverse_more_fuel:
  shows "traverseAgent n k w ns name s = Some r \<Longrightarrow> n \<le> n' \<Longrightarrow> traverseAgent n' k w ns name s = Some r"
    and "traverse_subAgents m k w agentNs subs t = Some t' \<Longrightarrow> m \<le> m' \<Longrightarrow> traverse_subAgents m' k w agentNs subs t = Some t'"
proof (induction n k w ns name s and m k w agentNs subs t arbitrary: r n' and t' m'
    rule: traverseAgent_traverse_subAgents.induct)
  case (1 n k w ns name visited tools)
  show ?case
  proof (cases "fmlookup visited (agent_key ns name) = None")
    case False
    then show ?thesis using "1.prems" by (simp add: traverseAgent.simps)
  next
    case unseen: True
    show ?thesis
    proof (cases "getAgent k w (nsname ns name)")
      case (Inl err)
      then show ?thesis using "1.prems" unseen by (simp add: traverseAgent.simps Let_def)
    next
      case (Inr agent)
      then obtain m where n: "n = Suc m" using "1.prems" unseen by (cases n) (simp_all add: traverseAgent.simps Let_def)
      obtain m' where n': "n' = Suc m'" "m \<le> m'" using "1.prems"(2) n by (cases n') simp_all
      show ?thesis
        using "1.prems"(1) "1.IH"[OF refl _ refl Inr n _ n'(2)] unseen Inr n n'(1)
        by (auto simp: traverseAgent.simps Let_def)
    qed
  qed
next
  case (3 m k w agentNs sub subs s)
  show ?case
  proof (cases "sa_AgentRef sub")
    case (Some ref)
    then obtain e s1 where 1: "traverseAgent m k w (getNamespaceWithDefault ref agentNs) (or_Name ref) s = Some (e, s1)"
      and 2: "traverse_subAgents m k w agentNs subs s1 = Some t'"
      using "3.prems" by (auto split: option.splits)
    show ?thesis
      using "3.IH"(3)[OF Some 1 "3.prems"(2)] "3.IH"(4)[OF Some 1 refl 2 "3.prems"(2)] Some by simp
  next
    case None
    obtain v t where s: "s = (v, t)" by (cases s)
    show ?thesis
    proof (cases "sa_Url sub = []")
      case True
      then show ?thesis using "3.IH"(2)[OF None _ _ "3.prems"(2)] "3.prems"(1) None by simp
    next
      case False
      then show ?thesis using "3.IH"(1)[OF None False refl s[symmetric] _ "3.prems"(2)] "3.prems"(1) None s by simp
    qed
  qed
qed simp

lemma collect_entries_more_fuel:
  "collect_entries n k w ns refs s = Some t \<Longrightarrow> n \<le> n' \<Longrightarrow> collect_entries n' k w ns refs s = Some t"
proof (induction n k w ns refs s rule: collect_entries.induct)
  case (3 n k w ns ref refs s)
  then obtain e s1 where 1: "traverseAgent n k w (getNamespaceWithDefault ref ns) (or_Name ref) s = Some (e, s1)"
    by (auto split: option.splits)
  then show ?case using 3 traverse_more_fuel(1)[OF 1 "3.prems"(2)] by simp
qed simp_all

section \<open>Reading and writing apart\<close>

text \<open>What a reconciliation computes before it writes, at a depth that is enough.\<close>

type_synonym workforce_facts = "(bool \<times> string list) \<times> tstate option"

definition wf_facts :: "'w kube \<Rightarrow> 'w \<Rightarrow> AgenticWorkforce \<Rightarrow> workforce_facts" where
  "wf_facts k w workforce =
     (validateEntryPointAgents k w workforce,
      collect_entries (card (existing k w)) k w (om_Namespace (wf_Meta workforce))
        (ws_EntryPointAgents (wf_Spec workforce)) (fmempty, fmempty))"

definition wf_new_status :: "wf_orders \<Rightarrow> 'w kube \<Rightarrow> AgenticWorkforce \<Rightarrow> bool \<times> string list \<Rightarrow> tstate \<Rightarrow> AgenticWorkforceStatus" where
  "wf_new_status ords k workforce v s =
     (let condition =
        (if fst v
         then \<lparr>c_Type = conditionTypeReady, c_Status = ConditionTrue,
           c_ObservedGeneration = om_Generation (wf_Meta workforce), c_LastTransitionTime = [],
           c_Reason = ''AllAgentsReady'', c_Message = ''All entry point agents are available''\<rparr>
         else \<lparr>c_Type = conditionTypeReady, c_Status = ConditionFalse,
           c_ObservedGeneration = om_Generation (wf_Meta workforce), c_LastTransitionTime = [],
           c_Reason = ''AgentsMissing'', c_Message = ''Missing agents: '' @ show_strings (snd v)\<rparr>)
      in (wf_Status workforce)\<lparr>
           wst_Conditions := setStatusCondition k (wst_Conditions (wf_Status workforce)) condition,
           wst_TransitiveAgents := map snd (go_range (order_visited ords) (fst s)),
           wst_TransitiveTools := go_keys (order_allTools ords) (snd s)\<rparr>)"

definition wf_act :: "wf_orders \<Rightarrow> 'w kube \<Rightarrow> AgenticWorkforce \<times> workforce_facts \<Rightarrow> 'w \<Rightarrow> go_error option \<times> 'w" where
  "wf_act ords k x w =
     (case snd (snd x) of
        None \<Rightarrow> (Some (Errorf ''the depth is not enough''), w)
      | Some s \<Rightarrow>
          (let (err, _, w) = updateWorkforceStatus k
             ((fst x)\<lparr>wf_Status := wf_new_status ords k (fst x) (fst (snd x)) s\<rparr>) w
           in (err, w)))"

text \<open>With a depth of the number of agents this is the code's \<open>Reconcile\<close>; the error of the last case never occurs.\<close>

lemma wf_facts_Some:
  assumes "finite (existing k w)"
  obtains s where "snd (wf_facts k w workforce) = Some s"
proof -
  obtain r where "collectTransitiveAgentsAndTools std_orders (card (existing k w)) k w workforce = Some r"
    using collect_terminates[OF assms order_refl] by blast
  then show thesis using that
    by (cases "snd (wf_facts k w workforce)") (auto simp: collectTransitiveAgentsAndTools_def wf_facts_def)
qed

lemma collect_facts:
  "snd (wf_facts k w workforce) = Some s \<Longrightarrow>
     collectTransitiveAgentsAndTools ords (card (existing k w)) k w workforce =
       Some (map snd (go_range (order_visited ords) (fst s)), go_keys (order_allTools ords) (snd s))"
  by (cases s) (simp add: collectTransitiveAgentsAndTools_def wf_facts_def)

lemma Reconcile_wf_act:
  assumes "finite (existing k w)" and "getWorkforce k w r = Inr workforce"
  shows "Reconcile_wf ords (card (existing k w)) k r w = Some (wf_act ords k (workforce, wf_facts k w workforce) w)"
proof -
  obtain s where s: "snd (wf_facts k w workforce) = Some s" using assms(1) by (rule wf_facts_Some)
  obtain ready missing where v: "validateEntryPointAgents k w workforce = (ready, missing)" by (rule prod.exhaust)
  have fv: "fst (wf_facts k w workforce) = (ready, missing)" by (simp add: wf_facts_def v)
  show ?thesis
    unfolding Reconcile_wf_def assms(2) sum.case Let_def v collect_facts[OF s] prod.case option.case wf_act_def
      fst_conv snd_conv s fv wf_new_status_def
    by (auto split: prod.splits option.splits)
qed

section \<open>The workforce controller as a loop\<close>

definition wf_view :: "'w kube \<Rightarrow> 'w \<Rightarrow> Request \<Rightarrow> (AgenticWorkforce \<times> workforce_facts) option" where
  "wf_view k w r = map_option (\<lambda>x. (x, wf_facts k w x)) (readable (getWorkforce k) w r)"

text \<open>The names in a cluster of admitted objects.\<close>

definition wf_names_ok :: "'w kube \<Rightarrow> 'w \<Rightarrow> bool" where
  "wf_names_ok k w \<longleftrightarrow> cluster_names_ok k w
     \<and> (\<forall>r x. getWorkforce k w r = Inr x \<longrightarrow> (\<forall>e\<in>entry_nodes x. dns_ok e))"

definition wf_event :: "'w kube \<Rightarrow> 'w \<Rightarrow> client_object list \<Rightarrow> 'w \<Rightarrow> bool" where
  "wf_event k w e w' \<longleftrightarrow> wf_names_ok k w \<and> wf_names_ok k w'
     \<and> (\<forall>q. getAgent k w' q \<noteq> getAgent k w q \<longrightarrow> (\<exists>a. ObjAgent a \<in> set e \<and> request_of (ag_Meta a) = q))
     \<and> (\<forall>r. getWorkforce k w' r \<noteq> getWorkforce k w r \<longrightarrow> (\<exists>x. ObjWorkforce x \<in> set e \<and> request_of (wf_Meta x) = r))"

definition wf_wakes :: "'w kube \<Rightarrow> 'w \<Rightarrow> client_object list \<Rightarrow> Request set" where
  "wf_wakes k w e = set (concat (map (workforce_watch_requests k w) e))"

text \<open>Each run has orders of its own.\<close>

definition wf_run ::
  "(Request \<Rightarrow> 'w \<Rightarrow> wf_orders) \<Rightarrow> 'w kube \<Rightarrow> Request \<Rightarrow> AgenticWorkforce \<times> workforce_facts \<Rightarrow> 'w \<Rightarrow> bool \<times> 'w" where
  "wf_run ords k r x w = (let (err, w') = wf_act (ords r w) k x w in (err = None, w'))"

definition wf_echo :: "'w kube \<Rightarrow> Request \<Rightarrow> 'w \<Rightarrow> 'w \<Rightarrow> Request set" where
  "wf_echo k r w w' = (case getWorkforce k w r of
     Inl _ \<Rightarrow> {} | Inr x \<Rightarrow> if getWorkforce k w' r = Inr x then {} else wf_wakes k w' [ObjWorkforce x])"

text \<open>What the status has to say: what the traversal found, and whether every entry point exists.\<close>

definition wf_done :: "AgenticWorkforce \<Rightarrow> workforce_facts \<Rightarrow> bool" where
  "wf_done x facts \<longleftrightarrow> (\<exists>s c. snd facts = Some s
     \<and> set (wst_TransitiveAgents (wf_Status x)) = {ta. \<exists>key. fmlookup (fst s) key = Some ta}
     \<and> set (wst_TransitiveTools (wf_Status x)) = fmdom' (snd s) \<and> distinct (wst_TransitiveTools (wf_Status x))
     \<and> findReadyCondition (wst_Conditions (wf_Status x)) = Some c
     \<and> c_Status c = (if fst (fst facts) then ConditionTrue else ConditionFalse))"

definition wf_achieved :: "'w kube \<Rightarrow> 'w \<Rightarrow> Request \<Rightarrow> bool" where
  "wf_achieved k w r = (case wf_view k w r of None \<Rightarrow> True | Some x \<Rightarrow> wf_done (fst x) (snd x))"

text \<open>The run has found an agent that the stored status does not list.\<close>

definition wf_pending :: "'w kube \<Rightarrow> Request \<Rightarrow> AgenticWorkforce \<times> workforce_facts \<Rightarrow> 'w \<Rightarrow> bool" where
  "wf_pending k r x w \<longleftrightarrow> (\<exists>y s key ta. getWorkforce k w r = Inr y \<and> snd (snd x) = Some s
     \<and> fmlookup (fst s) key = Some ta \<and> ta \<notin> set (wst_TransitiveAgents (wf_Status y)))"

text \<open>What a run starts from depends on the reachable agents only.\<close>

lemma wf_facts_local:
  assumes "finite (existing k w)" and "finite (existing k w')"
    and same: "\<forall>a\<in>reach k w (entry_nodes x). getAgent k w a = getAgent k w' a"
  shows "wf_facts k w x = wf_facts k w' x"
proof -
  let ?ns = "om_Namespace (wf_Meta x)" and ?refs = "ws_EntryPointAgents (wf_Spec x)"
  let ?N = "max (card (existing k w)) (card (existing k w'))"
  have same': "\<forall>a\<in>reach k w (entry_set ?ns ?refs). getAgent k w a = getAgent k w' a"
    using same unfolding entry_nodes_set .
  obtain s where s: "snd (wf_facts k w x) = Some s" using assms(1) by (rule wf_facts_Some)
  obtain s' where s': "snd (wf_facts k w' x) = Some s'" using assms(2) by (rule wf_facts_Some)
  have "collect_entries ?N k w ?ns ?refs (fmempty, fmempty) = Some s"
    using s by (intro collect_entries_more_fuel[OF _ max.cobounded1]) (simp add: wf_facts_def)
  moreover have "collect_entries ?N k w' ?ns ?refs (fmempty, fmempty) = Some s'"
    using s' by (intro collect_entries_more_fuel[OF _ max.cobounded2]) (simp add: wf_facts_def)
  ultimately have "s = s'" using collect_entries_local[OF same', of ?N "(fmempty, fmempty)"] by simp
  moreover have "validateEntryPointAgents k w x = validateEntryPointAgents k w' x"
    unfolding validateEntryPointAgents_def using same' by (intro validate_local ballI) (blast intro: reach.entry)
  ultimately show ?thesis using s s' by (simp add: wf_facts_def)
qed

text \<open>The map a run computes holds an entry of every reachable agent.\<close>

lemma wf_facts_adds:
  assumes "wf_names_ok k w" and "getWorkforce k w r = Inr x" and "snd (wf_facts k w x) = Some s"
  shows "adds k w (entry_nodes x) {} {} (fmempty, fmempty) s"
proof -
  have "cluster_names_ok k w" and "\<forall>e\<in>entry_nodes x. dns_ok e"
    using assms(1,2) unfolding wf_names_ok_def by (blast, blast)
  then show ?thesis
    using collect_entries_adds[OF assms(3)[unfolded wf_facts_def snd_conv]] unfolding entry_nodes_set by blast
qed

lemma wf_facts_reach:
  assumes "wf_names_ok k w" and "getWorkforce k w r = Inr x" and "snd (wf_facts k w x) = Some s"
    and "a \<in> reach k w (entry_nodes x)"
  shows "fmlookup (fst s) (node_key a) = Some (cluster_entry a)"
proof -
  note final = adds_from_empty[OF wf_facts_adds[OF assms(1-3)]]
  have "a \<in> nodes s" using assms(4) final(2) by simp
  then obtain ta where ta: "dns_ok a" "fmlookup (fst s) (node_key a) = Some ta" by (auto simp: nodes_def)
  then show ?thesis
    using final(1) node_key_inj[OF ta(1)] url_not_key[OF ta(1)] unfolding tstate_ok_def by metis
qed

section \<open>What the controller relies on\<close>

text \<open>
  Besides the laws of the status subresource: each run has the orders of its map loops, the cluster
  has finitely many agents, a listing holds every workforce, and a status update leaves other
  workforces alone, creates none and deletes none.
\<close>

definition system_ok_wf :: "(Request \<Rightarrow> 'w \<Rightarrow> wf_orders) \<Rightarrow> 'w kube \<Rightarrow> bool" where
  "system_ok_wf ords k \<longleftrightarrow>
     (\<forall>r w. wf_orders_ok (ords r w)) \<and> (\<forall>w. finite (existing k w))
     \<and> status_update_ok (updateWorkforceStatus k) (readable (getWorkforce k)) wf_Meta wf_Status
     \<and> set_condition_ok (setStatusCondition k) \<and> workforce_status_subresource k
     \<and> (\<forall>w key x. getWorkforce k w key = Inr x \<longrightarrow>
          request_of (wf_Meta x) = key \<and> (\<exists>items. listWorkforces k w = Inr items \<and> x \<in> set items))
     \<and> (\<forall>x w w' r. w' = snd (snd (updateWorkforceStatus k x w)) \<longrightarrow>
          (r \<noteq> request_of (wf_Meta x) \<longrightarrow> getWorkforce k w' r = getWorkforce k w r)
          \<and> (\<forall>e. getWorkforce k w r = Inl e \<longrightarrow> getWorkforce k w' r = Inl e))"

lemma system_laws_wf:
  assumes "system_ok_wf ords k"
  shows "wf_orders_ok (ords r w)" "finite (existing k w)"
    "status_update_ok (updateWorkforceStatus k) (readable (getWorkforce k)) wf_Meta wf_Status"
    "set_condition_ok (setStatusCondition k)" "workforce_status_subresource k"
    "getWorkforce k w key = Inr x \<Longrightarrow> request_of (wf_Meta x) = key"
    "getWorkforce k w key = Inr x \<Longrightarrow> \<exists>items. listWorkforces k w = Inr items \<and> x \<in> set items"
    "key \<noteq> request_of (wf_Meta x) \<Longrightarrow> getWorkforce k (snd (snd (updateWorkforceStatus k x w))) key = getWorkforce k w key"
    "getWorkforce k w key = Inl e \<Longrightarrow> getWorkforce k (snd (snd (updateWorkforceStatus k x w))) key = Inl e"
  using assms by (simp_all add: system_ok_wf_def)

lemma wf_run_frame:
  assumes "system_ok_wf ords k" and "request_of (wf_Meta (fst x)) = r" and "wf_run ords k r x w = (ok, w')"
  shows "getAgent k w' q = getAgent k w q"
    and "r' \<noteq> r \<Longrightarrow> getWorkforce k w' r' = getWorkforce k w r'"
    and "getWorkforce k w r' = Inl e \<Longrightarrow> getWorkforce k w' r' = Inl e"
proof -
  note laws = system_laws_wf[OF assms(1)]
  have w': "w' = snd (wf_act (ords r w) k x w)" using assms(3) by (auto simp: wf_run_def Let_def split: prod.splits)
  consider "w' = w" | z where "request_of (wf_Meta z) = r" "w' = snd (snd (updateWorkforceStatus k z w))"
  proof (cases "snd (snd x)")
    case (Some s)
    let ?z = "(fst x)\<lparr>wf_Status := wf_new_status (ords r w) k (fst x) (fst (snd x)) s\<rparr>"
    show thesis using assms(2) by (intro that(2)[of ?z]) (simp_all add: w' wf_act_def Some Let_def case_prod_beta)
  qed (simp add: w' wf_act_def)
  then show "getAgent k w' q = getAgent k w q"
    and "r' \<noteq> r \<Longrightarrow> getWorkforce k w' r' = getWorkforce k w r'"
    and "getWorkforce k w r' = Inl e \<Longrightarrow> getWorkforce k w' r' = Inl e"
    using laws(8,9) laws(5)[unfolded workforce_status_subresource_def, rule_format, OF refl, THEN conjunct1, rule_format]
    by (cases; simp)+
qed

lemma wf_run_facts:
  assumes "system_ok_wf ords k" and "request_of (wf_Meta (fst x)) = r" and "wf_run ords k r x w = (ok, w')"
  shows "wf_facts k w' y = wf_facts k w y"
  using wf_run_frame(1)[OF assms] system_laws_wf(2)[OF assms(1)] by (intro wf_facts_local) auto

text \<open>A run that succeeds stores the status of what it found.\<close>

lemma wf_run_found: "wf_run ords k r x w = (True, w') \<Longrightarrow> \<exists>s. snd (snd x) = Some s"
  by (cases "snd (snd x)") (simp_all add: wf_run_def wf_act_def)

lemma wf_run_stores:
  assumes "system_ok_wf ords k" and "request_of (wf_Meta (fst x)) = r" and "wf_run ords k r x w = (True, w')"
    and "snd (snd x) = Some s"
  obtains y where "getWorkforce k w' r = Inr y" "wf_Status y = wf_new_status (ords r w) k (fst x) (fst (snd x)) s"
proof -
  let ?z = "(fst x)\<lparr>wf_Status := wf_new_status (ords r w) k (fst x) (fst (snd x)) s\<rparr>"
  obtain z' where "updateWorkforceStatus k ?z w = (None, z', w')"
    using assms(3) by (auto simp: wf_run_def wf_act_def assms(4) Let_def split: prod.splits)
  then obtain y where "readable (getWorkforce k) w' (request_of (wf_Meta ?z)) = Some y" "wf_Status y = wf_Status ?z"
    using system_laws_wf(3)[OF assms(1)] unfolding status_update_ok_def by blast
  then show thesis using that assms(2) by simp
qed

section \<open>The laws of the loop\<close>

lemma wf_view_Some: "wf_view k w r = Some z \<longleftrightarrow> (\<exists>x. getWorkforce k w r = Inr x \<and> z = (x, wf_facts k w x))"
  by (auto simp: wf_view_def)

lemma wf_wakesI: "obj \<in> set e \<Longrightarrow> r \<in> set (workforce_watch_requests k w obj) \<Longrightarrow> r \<in> wf_wakes k w e"
  by (auto simp: wf_wakes_def)

lemma wf_event_wakes:
  assumes "wf_event k w e w'" and "getWorkforce k w' r \<noteq> getWorkforce k w r"
  shows "r \<in> wf_wakes k w' e"
proof -
  obtain x where "ObjWorkforce x \<in> set e" "request_of (wf_Meta x) = r"
    using assms unfolding wf_event_def by blast
  then show ?thesis by (auto intro: wf_wakesI simp: workforce_watch_requests_def)
qed

lemma wf_listed_wakes:
  assumes "system_ok_wf ords k" and "getWorkforce k w' r = Inr x" and "ObjAgent a \<in> set e"
    and "cluster_entry (request_of (ag_Meta a)) \<in> set (wst_TransitiveAgents (wf_Status x))"
  shows "r \<in> wf_wakes k w' e"
proof (rule wf_wakesI[OF assms(3)])
  obtain items where items: "listWorkforces k w' = Inr items" "x \<in> set items"
    using system_laws_wf(7)[OF assms(1,2)] by blast
  have "workforce_matches a x"
    unfolding workforce_matches_def status_references_def list_ex_iff
    using assms(4) by (intro disjI2 bexI[of _ "cluster_entry (request_of (ag_Meta a))"]) (simp_all add: request_of_def)
  then show "r \<in> set (workforce_watch_requests k w' (ObjAgent a))"
    using findWorkforces_spec(1)[OF items(1), of a] items(2) system_laws_wf(6)[OF assms(1,2)]
    unfolding workforce_watch_requests_def by auto
qed

lemma wf_event_view:
  assumes "system_ok_wf ords k" and event: "wf_event k w e w'" and view: "wf_view k w' r \<noteq> wf_view k w r"
  shows "r \<in> wf_wakes k w' e \<or> (\<exists>z. wf_view k w r = Some z \<and> wf_pending k r z w' \<and> \<not> wf_achieved k w r)"
proof (cases "getWorkforce k w' r = getWorkforce k w r")
  case same: True
  obtain x where x: "getWorkforce k w r = Inr x"
    using view same by (cases "getWorkforce k w r") (simp_all add: wf_view_def readable_def)
  have "wf_facts k w x \<noteq> wf_facts k w' x" using view same x by (auto simp: wf_view_def readable_def)
  then obtain q where q: "q \<in> reach k w (entry_nodes x)" "getAgent k w' q \<noteq> getAgent k w q"
    using wf_facts_local system_laws_wf(2)[OF assms(1)] by metis
  obtain a where a: "ObjAgent a \<in> set e" "request_of (ag_Meta a) = q"
    using event q(2) unfolding wf_event_def by blast
  obtain s where s: "snd (wf_facts k w x) = Some s" by (rule wf_facts_Some[OF system_laws_wf(2)[OF assms(1)]])
  have entry: "fmlookup (fst s) (node_key q) = Some (cluster_entry q)"
    using event wf_facts_reach[OF _ x s q(1)] unfolding wf_event_def by blast
  show ?thesis
  proof (cases "cluster_entry q \<in> set (wst_TransitiveAgents (wf_Status x))")
    case True
    then show ?thesis using wf_listed_wakes[OF assms(1) _ a(1), of w' r x] same x a(2) by simp
  next
    case False
    have start: "wf_view k w r = Some (x, wf_facts k w x)" using x by (simp add: wf_view_Some)
    moreover have "wf_pending k r (x, wf_facts k w x) w'"
      unfolding wf_pending_def using same x s entry False by auto
    moreover have "\<not> wf_achieved k w r"
      using False entry s by (auto simp: wf_achieved_def start wf_done_def)
    ultimately show ?thesis by blast
  qed
qed (simp add: wf_event_wakes[OF event])

lemma wf_event_pending:
  assumes "wf_event k w e w'" and "wf_pending k r z w"
  shows "wf_pending k r z w' \<or> r \<in> wf_wakes k w' e"
proof (cases "getWorkforce k w' r = getWorkforce k w r")
  case True
  then show ?thesis using assms(2) unfolding wf_pending_def by simp
qed (simp add: wf_event_wakes[OF assms(1)])

lemma wf_event_keeps:
  "wf_view k w' r = wf_view k w r \<Longrightarrow> wf_achieved k w r \<Longrightarrow> wf_achieved k w' r \<or> r \<in> wf_wakes k w' e"
  by (simp add: wf_achieved_def)

lemma wf_run_keeps: "wf_view k w' r = wf_view k w r \<Longrightarrow> wf_achieved k w r \<Longrightarrow> wf_achieved k w' r"
  by (simp add: wf_achieved_def)

lemma wf_changed_echo:
  assumes "system_ok_wf ords k" and "getWorkforce k w r = Inr x" and "getWorkforce k w' r \<noteq> Inr x"
  shows "r \<in> wf_echo k r w w'"
  using assms(2,3) system_laws_wf(6)[OF assms(1,2)]
  by (auto simp: wf_echo_def workforce_watch_requests_def intro!: wf_wakesI)

lemma wf_run_view:
  assumes "system_ok_wf ords k" and "request_of (wf_Meta (fst x)) = r" and "wf_run ords k r x w = (ok, w')"
    and view: "wf_view k w' r' \<noteq> wf_view k w r'"
  shows "r' \<in> wf_echo k r w w'"
proof -
  have differ: "getWorkforce k w' r' \<noteq> getWorkforce k w r'"
    using view wf_run_facts[OF assms(1-3)] by (auto simp: wf_view_def readable_def)
  then have r: "r' = r" using wf_run_frame(2)[OF assms(1-3)] by blast
  obtain y where "getWorkforce k w r = Inr y"
    using differ wf_run_frame(3)[OF assms(1-3)] r by (cases "getWorkforce k w r") auto
  then show ?thesis using wf_changed_echo[OF assms(1)] differ r by auto
qed

lemma wf_run_pending:
  assumes "system_ok_wf ords k" and "request_of (wf_Meta (fst x)) = r" and "wf_run ords k r x w = (ok, w')"
    and "r' \<noteq> r" and "wf_pending k r' y w"
  shows "wf_pending k r' y w'"
  using assms(5) unfolding wf_pending_def wf_run_frame(2)[OF assms(1-4)] .

lemma wf_new_status_lists:
  assumes "wf_orders_ok ords"
  shows "set (wst_TransitiveAgents (wf_new_status ords k x v s)) = {ta. \<exists>key. fmlookup (fst s) key = Some ta}"
    and "set (wst_TransitiveTools (wf_new_status ords k x v s)) = fmdom' (snd s)"
    and "distinct (wst_TransitiveTools (wf_new_status ords k x v s))"
proof -
  have ords: "is_order (order_visited ords)" "is_order (order_allTools ords)"
    using assms by (simp_all add: wf_orders_ok_def)
  show "set (wst_TransitiveAgents (wf_new_status ords k x v s)) = {ta. \<exists>key. fmlookup (fst s) key = Some ta}"
    using go_range_values[OF ords(1), of _ "fst s"] by (auto simp: wf_new_status_def Let_def)
  show "set (wst_TransitiveTools (wf_new_status ords k x v s)) = fmdom' (snd s)"
    and "distinct (wst_TransitiveTools (wf_new_status ords k x v s))"
    using ords(2) by (simp_all add: wf_new_status_def Let_def)
qed

lemma wf_new_status_condition:
  assumes "set_condition_ok (setStatusCondition k)"
  shows "\<exists>c. findReadyCondition (wst_Conditions (wf_new_status ords k x v s)) = Some c
    \<and> c_Status c = (if fst v then ConditionTrue else ConditionFalse)"
proof -
  have set: "\<exists>d. find_condition conditionTypeReady (setStatusCondition k cs c) = Some d \<and> c_Status d = st"
    if "c_Type c = conditionTypeReady" "c_Status c = st" for cs c st
    using assms that unfolding set_condition_ok_def by metis
  show ?thesis
    unfolding findReadyCondition_find wf_new_status_def Let_def by (cases "fst v") (auto intro!: set)
qed

lemma wf_run_enqueues:
  assumes "system_ok_wf ords k" and "request_of (wf_Meta (fst x)) = r" and "wf_run ords k r x w = (True, w')"
    and "wf_pending k r x w"
  shows "r \<in> wf_echo k r w w'"
proof -
  obtain y s key ta where y: "getWorkforce k w r = Inr y" "snd (snd x) = Some s"
    "fmlookup (fst s) key = Some ta" "ta \<notin> set (wst_TransitiveAgents (wf_Status y))"
    using assms(4) unfolding wf_pending_def by blast
  obtain y' where y': "getWorkforce k w' r = Inr y'"
    "wf_Status y' = wf_new_status (ords r w) k (fst x) (fst (snd x)) s"
    by (rule wf_run_stores[OF assms(1-3) y(2)])
  have "ta \<in> set (wst_TransitiveAgents (wf_Status y'))"
    unfolding y'(2) wf_new_status_lists(1)[OF system_laws_wf(1)[OF assms(1)]] using y(3) by blast
  then have "getWorkforce k w' r \<noteq> Inr y" using y'(1) y(4) by auto
  then show ?thesis by (rule wf_changed_echo[OF assms(1) y(1)])
qed

lemma wf_run_achieves:
  assumes "system_ok_wf ords k" and "request_of (wf_Meta (fst x)) = r" and "wf_run ords k r x w = (True, w')"
    and view: "wf_view k w' r = Some x"
  shows "wf_achieved k w' r"
proof -
  obtain s where s: "snd (snd x) = Some s" using wf_run_found[OF assms(3)] by blast
  obtain y where y: "getWorkforce k w' r = Inr y"
    and st: "wf_Status y = wf_new_status (ords r w) k (fst x) (fst (snd x)) s"
    by (rule wf_run_stores[OF assms(1-3) s])
  have "fst x = y" using view y by (auto simp: wf_view_Some)
  note laws = system_laws_wf[OF assms(1)]
  have "wf_done y (snd x)"
    unfolding wf_done_def st s wf_new_status_lists[OF laws(1)]
    using wf_new_status_lists(3)[OF laws(1)] wf_new_status_condition[OF laws(4)] by simp
  then show ?thesis by (simp add: wf_achieved_def view \<open>fst x = y\<close>)
qed

interpretation workforce_loop: controller_loop
  "system_ok_wf ords k" "wf_view k" "wf_event k" "wf_wakes k" "wf_run ords k"
  "wf_echo k" "wf_achieved k" "\<lambda>r x. request_of (wf_Meta (fst x)) = r" "wf_pending k"
  for ords k
proof unfold_locales
  show "request_of (wf_Meta (fst x)) = r" if "system_ok_wf ords k" "wf_view k w r = Some x" for w r x
    using system_laws_wf(6)[OF that(1)] that(2) by (auto simp: wf_view_Some)
qed (rule wf_event_view wf_event_keeps wf_event_pending wf_run_view wf_run_keeps wf_run_pending wf_run_enqueues
    wf_run_achieves; assumption)+

section \<open>What is achieved\<close>

text \<open>
  With admitted names the status is that of the graph: the agents reachable from the entry points,
  the remote agents and tools these name, and whether every entry point exists.
\<close>

definition workforce_done :: "'w kube \<Rightarrow> 'w \<Rightarrow> AgenticWorkforce \<Rightarrow> bool" where
  "workforce_done k w x \<longleftrightarrow> (\<exists>c. findReadyCondition (wst_Conditions (wf_Status x)) = Some c
     \<and> c_Status c = (if entry_nodes x \<subseteq> existing k w then ConditionTrue else ConditionFalse)
     \<and> {ta \<in> set (wst_TransitiveAgents (wf_Status x)). ta_Url ta = []} = cluster_entry ` reach k w (entry_nodes x)
     \<and> ta_Url ` {ta \<in> set (wst_TransitiveAgents (wf_Status x)). ta_Url ta \<noteq> []}
         = (\<Union>a\<in>reach k w (entry_nodes x). node_urls k w a)
     \<and> set (wst_TransitiveTools (wf_Status x)) = (\<Union>a\<in>reach k w (entry_nodes x). node_tools k w a)
     \<and> distinct (wst_TransitiveTools (wf_Status x)))"

lemma wf_done_reach:
  assumes "wf_names_ok k w" and "getWorkforce k w r = Inr x" and "wf_done x (wf_facts k w x)"
  shows "workforce_done k w x"
proof -
  obtain s c where s: "snd (wf_facts k w x) = Some s"
    and agents: "set (wst_TransitiveAgents (wf_Status x)) = {ta. \<exists>key. fmlookup (fst s) key = Some ta}"
    and tools: "set (wst_TransitiveTools (wf_Status x)) = fmdom' (snd s)" "distinct (wst_TransitiveTools (wf_Status x))"
    and c: "findReadyCondition (wst_Conditions (wf_Status x)) = Some c"
    "c_Status c = (if fst (fst (wf_facts k w x)) then ConditionTrue else ConditionFalse)"
    using assms(3) unfolding wf_done_def by blast
  note final = adds_from_empty[OF wf_facts_adds[OF assms(1,2) s]]
  have list: "set (wst_TransitiveAgents (wf_Status x)) = snd ` set (go_range (\<lambda>ks. ks) (fst s))"
    unfolding agents using go_range_values[of "\<lambda>ks. ks" _ "fst s"] by auto
  have "fst (fst (wf_facts k w x)) \<longleftrightarrow> entry_nodes x \<subseteq> existing k w"
    by (auto simp: wf_facts_def validateEntryPointAgents_def validate_loop_eq entry_nodes_set existing_def)
  moreover have "set (wst_TransitiveTools (wf_Status x)) = (\<Union>a\<in>reach k w (entry_nodes x). node_tools k w a)"
    using tools(1) final(4) by (simp add: tools_of_def)
  ultimately show ?thesis
    unfolding workforce_done_def list tstate_values[OF final(1) is_order_id(1)] final(2,3) using c tools(2) by simp
qed

section \<open>The cluster of \<open>Cluster\<close> satisfies the laws\<close>

lemma sim_workforce_frame:
  fixes w :: cluster and ns :: string
  defines "upd x \<equiv> snd (snd (updateWorkforceStatus (sim_kube ns) x w))"
  shows "r \<noteq> request_of (wf_Meta x) \<Longrightarrow> getWorkforce (sim_kube ns) (upd x) r = getWorkforce (sim_kube ns) w r"
    and "getWorkforce (sim_kube ns) w r = Inl e \<Longrightarrow> getWorkforce (sim_kube ns) (upd x) r = Inl e"
proof -
  have upd: "upd x = snd (snd (sim_update_status wf_Meta (\<lambda>new old. old\<lparr>wf_Status := wf_Status new\<rparr>) cl_workforces
      (\<lambda>xs w. w\<lparr>cl_workforces := xs\<rparr>) x w))"
    by (simp add: upd_def sim_kube_def)
  consider "upd x = w" | z y where "request_of (wf_Meta z) = request_of (wf_Meta x)"
      "sim_get wf_Meta (cl_workforces w) (request_of (wf_Meta x)) = Inr y"
      "upd x = w\<lparr>cl_workforces := sim_put wf_Meta z (cl_workforces w)\<rparr>"
    using sim_update_status_put[of wf_Meta "\<lambda>new old. old\<lparr>wf_Status := wf_Status new\<rparr>" cl_workforces
        "\<lambda>xs w. w\<lparr>cl_workforces := xs\<rparr>" x w] unfolding upd by auto
  then have "(r \<noteq> request_of (wf_Meta x) \<longrightarrow> getWorkforce (sim_kube ns) (upd x) r = getWorkforce (sim_kube ns) w r)
      \<and> (getWorkforce (sim_kube ns) w r = Inl e \<longrightarrow> getWorkforce (sim_kube ns) (upd x) r = Inl e)" for e
  proof cases
    case 2
    then show ?thesis using sim_get_put_other[of r wf_Meta z] by (cases "r = request_of (wf_Meta x)") simp_all
  qed simp
  then show "r \<noteq> request_of (wf_Meta x) \<Longrightarrow> getWorkforce (sim_kube ns) (upd x) r = getWorkforce (sim_kube ns) w r"
    and "getWorkforce (sim_kube ns) w r = Inl e \<Longrightarrow> getWorkforce (sim_kube ns) (upd x) r = Inl e" by blast+
qed

lemma sim_system_ok_wf: "(\<And>r w. wf_orders_ok (ords r w)) \<Longrightarrow> system_ok_wf ords (sim_kube ns)"
proof -
  assume ords: "\<And>r w. wf_orders_ok (ords r w)"
  have listed: "request_of (wf_Meta x) = key \<and> (\<exists>items. listWorkforces (sim_kube ns) w = Inr items \<and> x \<in> set items)"
    if "getWorkforce (sim_kube ns) w key = Inr x" for w key x
    using that by (auto simp: sim_get_def dest!: find_SomeD split: option.splits)
  have "status_update_ok (updateWorkforceStatus (sim_kube ns)) (readable (getWorkforce (sim_kube ns))) wf_Meta wf_Status"
    unfolding sim_readable_workforce by (rule sim_workforce_status_ok)
  moreover have "set_condition_ok (setStatusCondition (sim_kube ns))" by (simp add: sim_condition_ok)
  ultimately show ?thesis
    unfolding system_ok_wf_def
    using ords sim_existing_finite(1) sim_workforce_subresource listed sim_workforce_frame by blast
qed

text \<open>The workforce of the example, reconciled once.\<close>

lemma demo_workforce_run:
  obtains v y where
    "Reconcile_wf std_orders (card (existing wf_kube workforce_cluster)) wf_kube (nsname ''n'' ''w'') workforce_cluster
       = Some (None, v)"
    "getWorkforce wf_kube v (nsname ''n'' ''w'') = Inr y" "wf_names_ok wf_kube v"
proof -
  let ?k = wf_kube and ?w = workforce_cluster and ?r = "nsname ''n'' ''w''"
  let ?x = "(demo_workforce, wf_facts ?k ?w demo_workforce)"
  have ok: "system_ok_wf (\<lambda>_ _. std_orders) ?k" by (rule sim_system_ok_wf) (rule std_orders_ok)
  note laws = system_laws_wf[OF ok]
  obtain s where s: "snd (wf_facts ?k ?w demo_workforce) = Some s" by (rule wf_facts_Some[OF sim_existing_finite(1)])
  have "fst (updateWorkforceStatus ?k (demo_workforce\<lparr>wf_Status := st\<rparr>) ?w) = None" for st
    by (simp add: sim_kube_def sim_update_status_def sim_get_def workforce_cluster_def Let_def)
  then have "fst (wf_act std_orders ?k ?x ?w) = None" by (simp add: wf_act_def s Let_def case_prod_beta del: sim_kube_sel)
  then obtain v where v: "wf_act std_orders ?k ?x ?w = (None, v)" by (metis prod.collapse)
  have run: "Reconcile_wf std_orders (card (existing ?k ?w)) ?k ?r ?w = Some (None, v)"
    unfolding Reconcile_wf_act[OF sim_existing_finite(1) demo_workforce_get(1)] v ..
  have frame: "getAgent ?k v q = getAgent ?k ?w q" "r' \<noteq> ?r \<Longrightarrow> getWorkforce ?k v r' = getWorkforce ?k ?w r'" for q r'
    by (rule wf_run_frame[OF ok, of ?x ?r ?w True v]; simp add: wf_run_def v)+
  obtain y where y: "getWorkforce ?k v ?r = Inr y" "request_of (wf_Meta y) = ?r" "wf_Spec y = wf_Spec demo_workforce"
    using reconcile_wf_stores[OF laws(3-5) demo_workforce_get collect_facts[OF s] run] by blast
  have nodes: "entry_nodes y = entry_nodes demo_workforce"
    using y(2,3) demo_workforce_get(2) by (simp add: entry_nodes_def request_of_def)
  have "\<forall>e\<in>entry_nodes x. dns_ok e" if "getWorkforce ?k v r = Inr x" for r x
  proof (cases "r = ?r")
    case True
    then show ?thesis using that y(1) demo_names_ok(2) nodes by simp
  next
    case False
    then have "getWorkforce ?k ?w r = Inr x" using frame(2) that by simp
    then show ?thesis using False by (auto simp: sim_get_def workforce_cluster_def split: if_splits)
  qed
  moreover have "cluster_names_ok ?k v" using demo_names_ok(1) unfolding cluster_names_ok_def frame(1) .
  ultimately show thesis using that run y(1) unfolding wf_names_ok_def by blast
qed

end
