(* ===== verification/System_Properties.thy ===== *)
theory System_Properties
  imports Agent_Cycle ToolServer_System Workforce_System
begin

text \<open>
  The controllers at work: what holds in every state that interleaved reconciliations and changes
  by others can reach.
\<close>

section \<open>No change is lost\<close>

abbreviation agent_reachable where
  "agent_reachable rt k v \<equiv>
     loop_reachable (agent_view (uni rt) k) (agent_event k v) (agent_wakes k) (agent_run rt k) (agent_echo k v)"

abbreviation toolserver_reachable where
  "toolserver_reachable rt k v \<equiv>
     loop_reachable (toolserver_view k) (toolserver_event k v) (toolserver_wakes k) (toolserver_run rt k) (toolserver_echo k v)"

abbreviation workforce_reachable where
  "workforce_reachable ords k \<equiv>
     loop_reachable (wf_view k) (wf_event k) (wf_wakes k) (wf_run ords k) (wf_echo k)"



end
