(* ===== verification/Spec2Isabelle.thy ===== *)
theory Spec2Isabelle
  imports Deployment_Properties Resolution_Properties ToolServer_Properties Workforce_Properties Webhook_Properties Manager
    Api_Properties System_Properties
begin

text \<open>
  \<^bold>\<open>The program.\<close> The agent runtime operator is a Kubernetes operator with three controllers
  (\<open>internal/controller\<close>) and three admission webhooks (\<open>internal/webhook/v1alpha1\<close>) for the
  resources of \<open>api/v1alpha1\<close>. The agent controller resolves what an agent depends on (runtime
  configuration, sub-agents, tools, AI gateway), keeps a deployment and a service for it and
  writes a status with the URL under which other agents resolve it in turn. The tool server
  controller does the same for a tool server, whose URL the tools of agents resolve. The
  workforce controller walks the sub-agent references from the entry points of a workforce and
  writes what it reaches into the status. Each controller watches the objects its result
  depends on. The webhooks fill in defaults and reject invalid agents and tool servers, so the
  controllers see completed and checked objects. All of them work on objects read from a shared
  cache and rely on the generated deep copies of the types, and on the scheme the types are
  registered with when the process starts (\<open>cmd/main.go\<close>).

  \<^bold>\<open>The theories.\<close>
  \<^item> \<open>Prelude\<close>: machine integers, Go's maps and the iteration over them, generic lemmas.
  \<^item> \<open>Go_Strings\<close>, \<open>Go_Json\<close>, \<open>Go_Path\<close>, \<open>Go_Url\<close>: what the source uses of the standard library
    (runes, \<open>%d\<close>, \<open>%q\<close>, trimming; \<open>json.Marshal\<close>; \<open>filepath.Clean\<close>; \<open>url.Parse\<close>). \<open>Json_Reader\<close> reads
    back what \<open>json.Marshal\<close> writes.
  \<^item> \<open>Kube_Types\<close>, \<open>Api_Types\<close>: the Kubernetes objects and the resources of \<open>api/v1alpha1\<close>, field by
    field; a pointer is an \<open>option\<close>, an \<open>int32\<close> a 32-bit word.
  \<^item> \<open>Kube\<close>: the client, the library helpers and the runtime's choices as records of functions
    over an abstract cluster, and the documented laws of these functions (below).
  \<^item> \<open>Interfaces\<close>: the shared contracts as locales: a loop that resolves all references, a
    computation and the watch that has to wake it, a defaulter, a managed object. Each is
    interpreted on the code's definitions in the theory that provides it.
  \<^item> \<open>Util\<close> (\<open>util.go\<close>), \<open>Agent_SubAgent\<close>, \<open>Agent_Tool\<close>, \<open>Agent_AiGateway\<close>, \<open>Agent_Config\<close> (with
    \<open>agent_probe.go\<close>), \<open>Agent_Status\<close>, \<open>Agent_Reconciler\<close>: the agent controller, one theory per
    file, one definition per function and closure. \<open>Managed\<close> has the lemmas on the metadata and
    containers both deployments share, \<open>Agent_Desired\<close> the abstract description of the
    deployment and service an agent should have, with the refinement.
  \<^item> \<open>ToolServer_Reconciler\<close>; \<open>Workforce\<close> (the workforce controller) and \<open>Workforce_Traversal\<close> (its
    traversal against reachability in the graph of references).
  \<^item> \<open>Agent_Webhook\<close>, \<open>ToolServer_Webhook\<close> (with the agent gateway's); \<open>Manager\<close> (\<open>cmd/main.go\<close>).
  \<^item> \<open>Cluster\<close>: an executable API server that satisfies every law, on which the witnesses run.
  \<^item> \<open>Deep_Copy\<close>: values, an explicit heap and the statements deep copies are made of; \<open>Deep_Copy_Laws\<close>:
    that each statement is deep; \<open>Deep_Copy_Types\<close>: every struct of \<open>api/v1alpha1\<close>, field by field;
    \<open>Deep_Copy_Api\<close>: every function of \<open>zz_generated.deepcopy.go\<close>; \<open>Deep_Copy_Correct\<close>: each of them is
    deep. \<open>Scheme\<close>: \<open>groupversion_info.go\<close> and the \<open>init\<close> functions.
  \<^item> \<open>Controller_Loop\<close>: a controller as a step relation over the cluster, the work queue and the running
    reconciliations, with the contract of a controller as a locale. \<open>Agent_System\<close>, \<open>ToolServer_System\<close>
    and \<open>Workforce_System\<close> take the reconcilers apart into what they read and what they write, show what a
    run leaves alone, and interpret the locale on them. \<open>Agent_Cycle\<close>: circles of references.
  \<^item> \<open>Agent_Properties\<close> (C1 to C6), \<open>System_Properties\<close> (C7), \<open>Agent_Cycle\<close> (C8), \<open>Deployment_Properties\<close>
    (C9 to C17), \<open>Resolution_Properties\<close> (C18 to C20), \<open>ToolServer_Properties\<close> (C21 to C23),
    \<open>Workforce_Properties\<close> (C24 to C27), \<open>Webhook_Properties\<close> (C28 to C32), \<open>Manager\<close> (C33),
    \<open>Api_Properties\<close> (C34, C35); this theory has those that span components (C36 to C40).

  \<^bold>\<open>State and effects.\<close> A controller's step takes the object it fetched and the cluster and
  returns an error, if any, and both, since the code changes the fetched object in place and a
  retry runs on the changed one. Reads within one resolution see one state of the cluster.
  Between the reads of a reconciliation and its writes, and between two reconciliations, anything
  may happen in \<open>Controller_Loop\<close>: other agents' reconciliations end, and others change objects.
  There the informer caches are up to date and one worker at a time has a given request, as
  controller-runtime documents.
  Every error return of the source is a branch; wrapped errors keep their cause. Where Go
  leaves an order open (ranging over a map, ties of an unstable sort) the order is an argument,
  and the theorems hold for every admissible one or say what depends on it.

  \<^bold>\<open>Laws assumed.\<close> Named predicates state what the libraries document: \<open>retry_ok\<close> (a retry runs the
  function at least once and returns its last result), \<open>status_update_ok\<close>, \<open>create_or_update_ok\<close>
  and \<open>written_ok\<close> (what is stored, and that an unchanged object is not written), \<open>set_owner_ok\<close>
  and \<open>owner_watch_ok\<close> (an object's controller is the one that was set, and is enqueued),
  \<open>set_condition_ok\<close>, \<open>delete_ok\<close>, \<open>undisturbed\<close> (a write of one kind of object leaves the others),
  \<open>rt_ok\<close> (a map loop visits every key once; the sort sorts). \<open>Cluster\<close> satisfies all of them.
  \<open>separate_objects\<close>, \<open>reads_by_key\<close> and \<open>status_subresource\<close>: a request touches the object it names,
  and a status write its status. \<open>system_ok\<close>, \<open>system_ok_ts\<close> and \<open>system_ok_wf\<close> collect what each
  controller relies on.
  \<open>optimistic\<close> is the API server's answer to an outdated status write, a conflict.
  \<open>library_ok\<close> and \<open>machinery_ok\<close> are what the API package relies on: the copies of the libraries'
  own types are deep, a builder runs what was registered, and a scheme takes kinds it has not.

  \<^bold>\<open>Groups of lemmas.\<close> A reconciliation reports its outcome and leaves the wanted objects in the
  cluster (refinement), is a fixed point once they are there, and writes nothing when a
  dependency is missing; what the updates own and what they leave alone; the environment and
  its independence of map orders; the watches are complete, and no interleaving of reconciliations
  and changes loses one; agents that wait for each other never get ready; the traversal terminates and
  computes reachability; the webhooks complete, and admit exactly the valid, objects; what the
  agent's container is told can be read back; a copy shares nothing with its original.

  \<^bold>\<open>Bounds and fuel.\<close> The only recursion without a structural measure is the workforce traversal,
  over references that may be cyclic. It carries a depth; C24 shows that the number of agents in
  the cluster is enough, because every deeper call marks another existing agent as visited.
  The JSON reader's fuel is the length of its text.

  \<^bold>\<open>Not modelled.\<close> Logging. The controllers' and webhooks' own copies of objects: on the values of
  their model a copy is the value, and the deep copies are modelled on a heap of their own, where
  a slice is its elements (its capacity and shared backing arrays are left out). The schema
  validation generated from the markers of the types is done by the API server; a theorem that
  needs it says so.
\<close>

section \<open>Status writes on a stale object\<close>

text \<open>
  The API server's optimistic concurrency: a status update with another version than the stored
  object's is a conflict, which changes neither the object in memory nor anything stored.
\<close>

definition outdated :: "ObjectMeta \<Rightarrow> ObjectMeta \<Rightarrow> bool" where
  "outdated m current \<longleftrightarrow> om_ResourceVersion m \<noteq> [] \<and> om_ResourceVersion m \<noteq> om_ResourceVersion current"

definition optimistic ::
  "('o \<Rightarrow> 'w \<Rightarrow> go_error option \<times> 'o \<times> 'w) \<Rightarrow> ('w \<Rightarrow> NamespacedName \<Rightarrow> 'o option) \<Rightarrow> ('o \<Rightarrow> ObjectMeta) \<Rightarrow> bool"
  where
  "optimistic upd stored meta \<longleftrightarrow> (\<forall>obj w y. stored w (request_of (meta obj)) = Some y
     \<longrightarrow> outdated (meta obj) (meta y) \<longrightarrow> (\<exists>err. upd obj w = (Some err, obj, w)))"

text \<open>However often it is run again, the write conflicts again, since it does not fetch the object.\<close>

lemma retried_conflict:
  assumes "retry_ok retry" and "optimistic upd stored meta"
    and f: "\<And>s. f s = (let (err, s') = upd (h (fst s)) (snd s) in (map_option g err, s'))"
    and h: "\<And>x. meta (h x) = meta x"
    and y: "stored w (request_of (meta obj)) = Some y" "outdated (meta obj) (meta y)"
  shows "\<exists>err obj'. retry f (obj, w) = (Some err, (obj', w))"
proof -
  let ?I = "\<lambda>s. meta (fst s) = meta obj \<and> snd s = w"
  have conflict: "\<exists>err. f s = (Some err, (h (fst s), w))" if I: "?I s" for s
  proof -
    have "stored w (request_of (meta (h (fst s)))) = Some y" "outdated (meta (h (fst s))) (meta y)"
      using I y by (simp_all add: h)
    then obtain err where "upd (h (fst s)) w = (Some err, h (fst s), w)"
      using assms(2) unfolding optimistic_def by blast
    then show ?thesis using I by (simp add: f)
  qed
  have "\<exists>s0. ?I s0 \<and> retry f (obj, w) = f s0"
  proof (rule retry_last_run[OF assms(1)])
    show "?I (snd (f s))" if "?I s" for s using conflict[OF that] that h by auto
  qed simp
  then show ?thesis using conflict by metis
qed

text \<open>
  C36: A retry does not help a status write. When the object has been changed since the
  reconciler fetched it (its stored version is another one), every attempt
  \<open>retry.RetryOnConflict\<close> makes conflicts, because the closure sends the object it has and does not
  fetch it again. Whatever the outcome of the reconciliation was, it returns an error and the status
  is not written: of an agent and of a tool server.
\<close>

theorem stale_status_not_written:
  assumes "retry_ok (retryAgent k)" and "optimistic (updateAgentStatus k) stored ag_Meta"
    and "retry_ok (retryToolServer k)" and "optimistic (updateToolServerStatus k) stored' tsv_Meta"
  shows "(\<forall>agent y r s. getAgent k w req = Inr agent \<and> reconcileAgent rt k (agent, w) = (r, s)
        \<and> stored (snd s) (request_of (ag_Meta agent)) = Some y \<and> outdated (ag_Meta agent) (ag_Meta y) \<longrightarrow>
        (\<exists>err. Reconcile rt k req w = (Some err, snd s)))
    \<and> (\<forall>x y e w1. getToolServer k w req = Inr x \<and> reconcileToolServer rt k x w = (e, w1)
        \<and> stored' w1 (request_of (tsv_Meta x)) = Some y \<and> outdated (tsv_Meta x) (tsv_Meta y) \<longrightarrow>
        (\<exists>err. Reconcile_ts rt k req w = (Some err, w1)))"
proof (intro conjI allI impI; elim conjE)
  fix agent y r s
  assume get: "getAgent k w req = Inr agent" and run: "reconcileAgent rt k (agent, w) = (r, s)"
    and y: "stored (snd s) (request_of (ag_Meta agent)) = Some y" "outdated (ag_Meta agent) (ag_Meta y)"
  have s: "s = (agent, snd s)" using reconcileAgent_agent[OF assms(1), of rt "(agent, w)"] run by (simp add: prod_eq_iff)
  have conflict: "\<exists>err obj'. retryAgent k (write_agent_status k f) s = (Some err, (obj', snd s))" for f
    by (subst s, rule retried_conflict[OF assms(1,2) _ _ y, where h = "\<lambda>x. x\<lparr>ag_Status := f x\<rparr>"])
       (simp_all add: write_agent_status_def)
  have writers: "updateAgentStatusReady k gw = write_agent_status k (ready_status k gw)"
    "updateAgentStatusNotReady k reason m = write_agent_status k (not_ready_status k reason m)" for gw reason m
    by (intro ext; simp add: updateAgentStatusReady_eq updateAgentStatusNotReady_eq)+
  show "\<exists>err. Reconcile rt k req w = (Some err, snd s)"
  proof (cases r)
    case (Inl e)
    then show ?thesis using get run conflict[of "not_ready_status k ''ReconciliationFailed'' (Error e)"]
      by (auto simp: Reconcile_def writers)
  next
    case (Inr gw)
    then show ?thesis using get run conflict[of "ready_status k gw"] by (auto simp: Reconcile_def writers)
  qed
next
  fix x y e w1
  assume get: "getToolServer k w req = Inr x" and run: "reconcileToolServer rt k x w = (e, w1)"
    and y: "stored' w1 (request_of (tsv_Meta x)) = Some y" "outdated (tsv_Meta x) (tsv_Meta y)"
  have conflict: "\<exists>err obj'. retryToolServer k (write_toolserver_status k f) (x, w1) = (Some err, (obj', w1))" for f
    by (rule retried_conflict[OF assms(3,4) _ _ y, where h = "\<lambda>x. x\<lparr>tsv_Status := f x\<rparr>"])
       (simp_all add: write_toolserver_status_def)
  have writers: "updateToolServerStatusReady k = write_toolserver_status k (ready_status_ts k)"
    "updateToolServerStatusNotReady k reason m = write_toolserver_status k (not_ready_status_ts k reason m)" for reason m
    by (intro ext; simp add: updateToolServerStatusReady_eq updateToolServerStatusNotReady_eq)+
  show "\<exists>err. Reconcile_ts rt k req w = (Some err, w1)"
  proof (cases e)
    case None
    then show ?thesis using get run conflict[of "ready_status_ts k"] by (auto simp: Reconcile_ts_def writers)
  next
    case (Some err)
    then show ?thesis using get run conflict[of "not_ready_status_ts k ''ReconciliationFailed'' (Error err)"]
      by (auto simp: Reconcile_ts_def writers)
  qed
qed

text \<open>
  An API server that checks versions, an agent whose cached version is an older one, and an
  operator without a namespace, so that its reconciliation fails and has to be reported.
\<close>

definition versioned ::
  "('o \<Rightarrow> 'w \<Rightarrow> go_error option \<times> 'o \<times> 'w) \<Rightarrow> ('w \<Rightarrow> NamespacedName \<Rightarrow> 'o option) \<Rightarrow> ('o \<Rightarrow> ObjectMeta)
    \<Rightarrow> 'o \<Rightarrow> 'w \<Rightarrow> go_error option \<times> 'o \<times> 'w" where
  "versioned upd stored meta obj w =
     (case stored w (request_of (meta obj)) of
        None \<Rightarrow> upd obj w
      | Some y \<Rightarrow>
          if om_ResourceVersion (meta obj) \<noteq> [] \<and> om_ResourceVersion (meta obj) \<noteq> om_ResourceVersion (meta y)
          then (Some (LibErr 409 ''conflict''), obj, w) else upd obj w)"

lemma versioned_optimistic: "optimistic (versioned upd stored meta) stored meta"
  by (simp add: optimistic_def versioned_def outdated_def)

definition at_version :: "string \<Rightarrow> Agent" where
  "at_version v = demo_agent\<lparr>ag_Meta := (ag_Meta demo_agent)\<lparr>om_ResourceVersion := v\<rparr>\<rparr>"

definition versioned_cluster :: cluster where
  "versioned_cluster = empty_cluster\<lparr>cl_agents := [at_version ''2'']\<rparr>"

definition versioned_kube :: "cluster kube" where
  "versioned_kube = (sim_kube [])\<lparr>getAgent := (\<lambda>_ _. Inr (at_version ''1'')),
     updateAgentStatus := versioned (updateAgentStatus (sim_kube [])) stored_agent ag_Meta,
     updateToolServerStatus := versioned (updateToolServerStatus (sim_kube [])) stored_tool_server tsv_Meta\<rparr>"

theorem stale_status_not_written_witness:
  "\<exists>err. Reconcile rt_std versioned_kube (nsname ''n'' ''a'') versioned_cluster = (Some err, versioned_cluster)"
proof -
  let ?k = versioned_kube and ?a = "at_version ''1''" and ?w = versioned_cluster
  have laws: "retry_ok (retryAgent ?k)" "optimistic (updateAgentStatus ?k) stored_agent ag_Meta"
    "retry_ok (retryToolServer ?k)" "optimistic (updateToolServerStatus ?k) stored_tool_server tsv_Meta"
    by (simp_all add: versioned_kube_def sim_retry_ok versioned_optimistic)
  have "isl (getAgentRuntimeConfiguration ?k ?w)"
    by (simp add: getAgentRuntimeConfiguration_def versioned_kube_def)
  then obtain err where "resolution (uni rt_std) ?k ?w ?a = Inl err"
    using resolution_Inr_iff[of "uni rt_std" ?k ?w ?a] by (auto simp: isl_def)
  then have run: "reconcileAgent rt_std ?k (?a, ?w) = (Inl err, (?a, ?w))"
    by (intro reconcileAgent_fail_fast) simp
  have get: "getAgent ?k ?w (nsname ''n'' ''a'') = Inr ?a" by (simp add: versioned_kube_def)
  have key: "request_of (ag_Meta (at_version v)) = nsname ''n'' ''a''" for v
    using demo_meta(1) by (simp add: at_version_def request_of_def)
  have y: "stored_agent (snd (?a, ?w)) (request_of (ag_Meta ?a)) = Some (at_version ''2'')"
    unfolding key by (simp add: stored_agent_def versioned_cluster_def sim_get_def key)
  have old: "outdated (ag_Meta ?a) (ag_Meta (at_version ''2''))" by (simp add: outdated_def at_version_def)
  show ?thesis
    using stale_status_not_written[OF laws, of ?w "nsname ''n'' ''a''" rt_std, THEN conjunct1] get run y old
    by (metis snd_conv)
qed

section \<open>Admission and the workforce controller\<close>

lemma scheme_scan_colon:
  "scheme_scan seen cs = Some (Some (scheme, rest)) \<Longrightarrow>
     \<exists>pre. cs = pre @ CHR '':'' # rest \<and> CHR ''/'' \<notin> set pre"
proof (induction seen cs rule: scheme_scan.induct)
  case (2 seen c cs)
  have slash: "\<not> is_letter (CHR ''/'')" "\<not> is_digit (CHR ''/'')"
    by (simp_all add: is_letter_def is_lower_letter_def is_upper_letter_def is_digit_def less_eq_char_def)
  show ?case
  proof (cases "c = CHR '':''")
    case True
    have "\<not> is_letter (CHR '':'')" "\<not> is_digit (CHR '':'')"
      by (simp_all add: is_letter_def is_lower_letter_def is_upper_letter_def is_digit_def less_eq_char_def)
    then show ?thesis using 2 True by (auto split: if_splits intro!: exI[of _ "[]"])
  next
    case False
    then obtain pre where "cs = pre @ CHR '':'' # rest" "CHR ''/'' \<notin> set pre" "c \<noteq> CHR ''/''"
      using 2 slash by (auto split: if_splits)
    then show ?thesis by (intro exI[of _ "c # pre"]) simp
  qed
qed simp

lemma parse_url_scheme:
  assumes "parse_url lit s = Some url" and "u_Scheme url \<noteq> []"
  shows "\<exists>scheme rest. scheme_scan [] s = Some (Some (scheme, rest))"
proof (rule ccontr)
  assume "\<not> ?thesis"
  then have "getScheme s = None \<or> getScheme s = Some ([], s)"
    unfolding getScheme_def by (auto split: option.split)
  moreover have "u_Scheme url = map lower_char scheme"
    if "getScheme s = Some (scheme, rest)" "s \<noteq> ''*''" for scheme rest
    using assms(1) that
    by (auto simp only: parse_url_def Let_def option.case prod.case if_False map_option_eq_Some
        url.select_convs option.inject option.distinct split: if_split_asm option.split_asm)
  moreover have "getScheme s \<noteq> None" "s \<noteq> ''*''"
    using assms
    by (cases "getScheme s"; auto simp only: parse_url_def option.case option.distinct option.inject url.select_convs
        simp_thms if_True split: if_split_asm)+
  ultimately show False using assms(2) by (metis list.map(1))
qed

lemma parsed_url_ok:
  assumes "url_Parse lit s = Some url" and "u_Scheme url \<noteq> []"
  shows "url_ok s"
proof -
  let ?u = "takeWhile (\<lambda>c. c \<noteq> CHR ''#'') s"
  have "parse_url lit ?u = Some url"
    using assms(1)
    by (auto simp only: url_Parse_def cut_def Let_def prod.case option.inject option.distinct
        split: option.split_asm if_split_asm)
  then obtain scheme rest where "scheme_scan [] ?u = Some (Some (scheme, rest))"
    using parse_url_scheme assms(2) by blast
  then obtain pre where pre: "?u = pre @ CHR '':'' # rest" "CHR ''/'' \<notin> set pre"
    using scheme_scan_colon by blast
  have colon: "CHR '':'' \<in> set (takeWhile (\<lambda>c. c \<noteq> CHR ''/'') (pre @ CHR '':'' # ys))" for ys
    using pre(2) by (induction pre) auto
  have "s = pre @ CHR '':'' # rest @ dropWhile (\<lambda>c. c \<noteq> CHR ''#'') s"
    using takeWhile_dropWhile_id[of "\<lambda>c. c \<noteq> CHR ''#''" s] unfolding pre(1) by simp
  then show ?thesis unfolding url_ok_def by (metis colon)
qed

text \<open>
  C37: What the admission webhook asks of agents is what the workforce controller relies on. In
  a cluster of admitted agents whose namespaces, their own and those their references name,
  are DNS labels, the strings under which the controller records agents and remote agents are
  never confused: the condition under which its status is shown to be reachability.
\<close>

theorem admitted_agents_names_ok:
  assumes "\<And>key agent. getAgent k w key = Inr agent \<Longrightarrow> ValidateCreate lit u agent = []"
    and "\<And>key agent. getAgent k w key = Inr agent \<Longrightarrow> dns_ok (request_of (ag_Meta agent))"
    and "\<And>key agent s ref. getAgent k w key = Inr agent \<Longrightarrow> s \<in> set (as_SubAgents (ag_Spec agent))
      \<Longrightarrow> sa_AgentRef s = Some ref \<Longrightarrow> dns_ok (nsname (or_Namespace ref) (or_Name ref))"
  shows "cluster_names_ok k w"
proof -
  have refs: "dns_ok r" if "getAgent k w key = Inr agent" "r \<in> sub_refs agent" for key agent r
    using assms(2)[OF that(1)] assms(3)[OF that(1)] that(2)
    by (auto simp: sub_refs_def getNamespaceWithDefault_def dns_ok_def request_of_def split: if_splits)
  have urls: "url_ok url" if get: "getAgent k w key = Inr agent" and url: "url \<in> remote_urls agent" for key agent url
  proof -
    have "\<forall>s\<in>set (as_SubAgents (ag_Spec agent)). subAgent_valid lit s"
      using assms(1)[OF get] unfolding ValidateCreate_def validateAgent_ok_iff by blast
    then have "\<exists>x. url_Parse lit url = Some x \<and> u_Scheme x \<in> {''http'', ''https''}"
      using url by (fastforce simp: remote_urls_def subAgent_valid_def)
    then obtain x where "url_Parse lit url = Some x" "u_Scheme x \<in> {''http'', ''https''}" by blast
    then show ?thesis by (intro parsed_url_ok) auto
  qed
  show ?thesis using refs urls unfolding cluster_names_ok_def by blast
qed

lemma demo_url: "url_Parse lit ''http://r'' = Some \<lparr>u_Scheme = ''http'', u_Host = ''r'', u_Path = []\<rparr>"
proof -
  have scheme: "getScheme ''http://r'' = Some (''http'', ''//r'')"
    by (simp add: getScheme_def is_letter_def is_lower_letter_def is_upper_letter_def is_digit_def less_eq_char_def)
  have lower: "map lower_char ''http'' = ''http''"
    by (simp add: lower_char_def is_upper_letter_def less_eq_char_def)
  have host: "parseAuthority lit sch ''r'' = Some ''r''" for sch
    by (simp add: parseAuthority_def parseHost_def host_char_def is_letter_def is_lower_letter_def
        is_upper_letter_def less_eq_char_def)
  have "parse_url lit ''http://r'' = Some \<lparr>u_Scheme = ''http'', u_Host = ''r'', u_Path = []\<rparr>"
    unfolding parse_url_def scheme Let_def option.case prod.case lower
    by (simp add: cut_def has_prefix_def host)
  then show ?thesis by (simp add: url_Parse_def cut_def)
qed

lemma demo_workforce_agents: "getAgent wf_kube workforce_cluster key = Inr agent \<Longrightarrow> agent = agent_p \<or> agent = agent_q"
  by (auto simp: sim_get_def workforce_cluster_def split: option.splits if_splits)

theorem admitted_agents_names_ok_witness: "cluster_names_ok wf_kube workforce_cluster"
proof (rule admitted_agents_names_ok)
  note agents = agent_p_def agent_q_def new_agent_def new_meta_def empty_agent_spec_def local_ref_def
  fix key agent
  assume "getAgent wf_kube workforce_cluster key = Inr agent"
  then have agent: "agent = agent_p \<or> agent = agent_q" by (rule demo_workforce_agents)
  show "ValidateCreate lit u agent = []"
    using agent unfolding ValidateCreate_def validateAgent_ok_iff
    by (auto simp: agents subAgent_valid_def tool_valid_def demo_url)
  show "dns_ok (request_of (ag_Meta agent))"
    using agent by (auto simp: agents dns_ok_def request_of_def)
  fix s ref
  assume "s \<in> set (as_SubAgents (ag_Spec agent))" "sa_AgentRef s = Some ref"
  then show "dns_ok (nsname (or_Namespace ref) (or_Name ref))"
    using agent by (auto simp: agents dns_ok_def)
qed

section \<open>What a client of a reconciled object resolves\<close>

text \<open>
  C38: A tool finds its server. Once a tool server with an HTTP or SSE transport has been
  reconciled without an error and the caches have caught up, a tool of any agent that refers
  to it resolves to the address of the service the API server holds for it, at a port this
  service exposes and with the tool server's path.
\<close>

theorem tool_resolves_to_service:
  assumes "rt_ok rt" and "retry_ok (retryToolServer k)" and "undisturbed_ts k v"
    and "set_owner_ok (setToolServerOwner k x)"
    and "written_ok stores_deployment dp_Meta (v_deployment v) (createOrUpdateDeployment k)"
    and "written_ok stores_service sv_Meta (v_service v) (createOrUpdateService k)"
    and "status_update_ok (updateToolServerStatus k) (readable (getToolServer k)) tsv_Meta tsv_Status"
    and "getToolServer k w (ref_key ns ref) = Inr x" and "request_of (tsv_Meta x) = ref_key ns ref"
    and "ts_TransportType (tsv_Spec x) \<in> {''http'', ''sse''}" and "or_Name ref \<noteq> []"
    and "tu_ToolRouteRef (at_Upstream t) = None" and "tu_ToolServerRef (at_Upstream t) = Some ref"
    and "Reconcile_ts rt k (ref_key ns ref) w = (None, w')"
  shows "\<exists>s port. v_service v w' (ref_key ns ref) = Some s \<and> port \<in> set (ss_Ports (sv_Spec s))
    \<and> resolveToolUrl k w' t ns = Inr (''http://'' @ or_Name ref @ ''.'' @ getNamespaceWithDefault ref ns
        @ ''.svc.cluster.local:'' @ show_int32 (sp_Port port) @ ts_Path (tsv_Spec x))"
proof -
  have key: "om_Name (tsv_Meta x) = or_Name ref" "om_Namespace (tsv_Meta x) = getNamespaceWithDefault ref ns"
    using assms(9) by (simp_all add: ref_key_def request_of_def)
  obtain d s where s: "v_service v w' (ref_key ns ref) = Some s" "serves_toolserver x s"
    using Reconcile_ts_deploys[OF assms(1-6,8,14)] assms(9) by auto
  then obtain port where port: "port \<in> set (ss_Ports (sv_Spec s))" "sp_Port port = ts_Port (tsv_Spec x)"
    by (auto simp: serves_toolserver_def)
  obtain b y where b: "tsv_Meta b = tsv_Meta x" "tsv_Spec b = tsv_Spec x"
    and y: "getToolServer k w' (ref_key ns ref) = Inr y" "tsv_Status y = ready_status_ts k b"
    using Reconcile_ts_status[OF assms(2,7,8,14)] assms(9) by auto
  have "resolveToolServerUrl k w' ref ns = Inr (''http://'' @ or_Name ref @ ''.'' @ getNamespaceWithDefault ref ns
      @ ''.svc.cluster.local:'' @ show_int32 (sp_Port port) @ ts_Path (tsv_Spec x))"
    using y b assms(10,11) unfolding resolveToolServerUrl_Inr port(2) by (auto simp: ready_status_ts_url key)
  then show ?thesis using s(1) port(1) assms(12,13) by (auto simp: resolveToolUrl_def)
qed

theorem tool_resolves_to_service_witness:
  "\<exists>w' s. Reconcile_ts rt_std (sim_kube ''ops'') (nsname ''n'' ''t'') server_cluster = (None, w')
     \<and> v_service sim_view w' (nsname ''n'' ''t'') = Some s
     \<and> (\<exists>port\<in>set (ss_Ports (sv_Spec s)). resolveToolUrl (sim_kube ''ops'') w'
          \<lparr>at_Name = ''t'', at_Upstream = \<lparr>tu_ToolRouteRef = None, tu_ToolServerRef = Some (local_ref ''t''),
             tu_External = None\<rparr>, at_PropagatedHeaders = []\<rparr> ''n''
          = Inr (''http://t.n.svc.cluster.local:'' @ show_int32 (sp_Port port) @ ''/mcp''))"
proof -
  let ?k = "sim_kube ''ops''" and ?ref = "local_ref ''t''"
  let ?t = "\<lparr>at_Name = ''t'', at_Upstream = \<lparr>tu_ToolRouteRef = None, tu_ToolServerRef = Some ?ref,
      tu_External = None\<rparr>, at_PropagatedHeaders = []\<rparr>"
  have key: "ref_key ''n'' ?ref = nsname ''n'' ''t''"
    by (simp add: ref_key_def local_ref_def getNamespaceWithDefault_def)
  obtain w' where w': "Reconcile_ts rt_std ?k (nsname ''n'' ''t'') server_cluster = (None, w')"
    using sim_reconcile_ts[OF demo_server_get(1)] by blast
  have laws: "retry_ok (retryToolServer ?k)" "set_owner_ok (setToolServerOwner ?k demo_server)"
    "status_update_ok (updateToolServerStatus ?k) (readable (getToolServer ?k)) tsv_Meta tsv_Status"
    by (simp_all add: sim_retry_ok sim_owner_ok sim_readable sim_tool_server_status_ok)
  have "\<exists>s port. v_service sim_view w' (ref_key ''n'' ?ref) = Some s \<and> port \<in> set (ss_Ports (sv_Spec s))
    \<and> resolveToolUrl ?k w' ?t ''n'' = Inr (''http://'' @ or_Name ?ref @ ''.'' @ getNamespaceWithDefault ?ref ''n''
        @ ''.svc.cluster.local:'' @ show_int32 (sp_Port port) @ ts_Path (tsv_Spec demo_server))"
    by (rule tool_resolves_to_service[where w = server_cluster, OF rt_std_ok laws(1) sim_undisturbed_ts laws(2) sim_deployment_written
          sim_service_written laws(3)])
       (simp_all add: key w' del: sim_kube_sel, simp_all add: demo_server_def new_tool_server_def local_ref_def)
  then show ?thesis
    using w' unfolding key
    by (fastforce simp: local_ref_def getNamespaceWithDefault_def demo_server_def new_tool_server_def)
qed

text \<open>
  C39: A sub-agent finds its agent. Once an agent with an A2A protocol has been reconciled
  without an error and the caches have caught up, a sub-agent of any agent that refers to it
  resolves to its card at the address of the service the API server holds for it, at a port
  this service exposes.
\<close>

theorem subagent_resolves_to_service:
  assumes "rt_ok rt" and "retry_ok (retryAgent k)" and "undisturbed k v"
    and "set_owner_ok (setAgentOwner k b)"
    and "written_ok stores_deployment dp_Meta (v_deployment v) (createOrUpdateDeployment k)"
    and "written_ok stores_service sv_Meta (v_service v) (createOrUpdateService k)"
    and "status_update_ok (updateAgentStatus k) (readable (getAgent k)) ag_Meta ag_Status"
    and "getAgent k w (ref_key ns ref) = Inr b" and "request_of (ag_Meta b) = ref_key ns ref"
    and "findA2AProtocol b = Some p"
    and "sa_Url s = []" and "sa_AgentRef s = Some ref"
    and "Reconcile rt k (ref_key ns ref) w = (None, w')"
  shows "\<exists>x port. v_service v w' (ref_key ns ref) = Some x \<and> port \<in> set (ss_Ports (sv_Spec x))
    \<and> resolveSubAgentUrl k w' s ns = Inr (''http://'' @ or_Name ref @ ''.'' @ getNamespaceWithDefault ref ns
        @ ''.svc.cluster.local:'' @ show_int32 (sp_Port port) @ ap_Path p @ ''/.well-known/agent-card.json'')"
proof -
  have key: "om_Name (ag_Meta b) = or_Name ref" "om_Namespace (ag_Meta b) = getNamespaceWithDefault ref ns"
    using assms(9) by (simp_all add: ref_key_def request_of_def)
  have p: "p \<in> set (as_Protocols (ag_Spec b))"
    using assms(10) find_SomeD[of _ _ p] unfolding findA2AProtocol_def by blast
  then have "as_Protocols (ag_Spec b) \<noteq> []" by auto
  then obtain x where x: "v_service v w' (ref_key ns ref) = Some x" "serves_agent b x"
    using Reconcile_deploys[OF assms(1-6,8) _ assms(13)] assms(9) by auto
  then have port: "service_port p \<in> set (ss_Ports (sv_Spec x))" "sp_Port (service_port p) = ap_Port p"
    using p by (simp_all add: serves_agent_def service_port_def)
  obtain gw c y where c: "ag_Meta c = ag_Meta b" "ag_Spec c = ag_Spec b"
    and y: "getAgent k w' (ref_key ns ref) = Inr y" "ag_Status y = ready_status k gw c"
    using Reconcile_status[OF assms(2,7,8,13)] assms(9) by auto
  have "ast_Url (ag_Status y) = ''http://'' @ or_Name ref @ ''.'' @ getNamespaceWithDefault ref ns
      @ ''.svc.cluster.local:'' @ show_int32 (ap_Port p) @ ap_Path p @ ''/.well-known/agent-card.json''"
    using card_url_cong[OF c] assms(10) y(2)
    by (simp add: ready_status_def buildA2AAgentCardUrl_eq a2a_url_def agentCardEndpoint_def key)
  then show ?thesis
    using x(1) port y(1) assms(11,12) by (intro exI[of _ x] exI[of _ "service_port p"]) (simp add: resolveSubAgentUrl_Inr)
qed

theorem subagent_resolves_to_service_witness:
  "\<exists>w' x. Reconcile rt_std demo_kube (nsname ''n'' ''a'') demo_cluster = (None, w')
     \<and> v_service sim_view w' (nsname ''n'' ''a'') = Some x
     \<and> (\<exists>port\<in>set (ss_Ports (sv_Spec x)). resolveSubAgentUrl demo_kube w'
          \<lparr>sa_Name = ''s'', sa_AgentRef = Some (local_ref ''a''), sa_Url = [], sa_InteractionType = ''tool_call''\<rparr> ''n''
          = Inr (''http://a.n.svc.cluster.local:'' @ show_int32 (sp_Port port) @ ''/.well-known/agent-card.json''))"
proof -
  let ?ref = "local_ref ''a''" and ?p = "\<lparr>ap_Name = ''a2a-8000'', ap_Type = A2AProtocol, ap_Port = 8000, ap_Path = []\<rparr>"
  let ?s = "\<lparr>sa_Name = ''s'', sa_AgentRef = Some ?ref, sa_Url = [], sa_InteractionType = ''tool_call''\<rparr>"
  have key: "ref_key ''n'' ?ref = nsname ''n'' ''a''"
    by (simp add: ref_key_def local_ref_def getNamespaceWithDefault_def)
  have prot: "as_Protocols (ag_Spec demo_agent) \<noteq> []" by (simp add: demo_agent_def new_agent_def)
  have "\<exists>w'. Reconcile rt_std demo_kube (nsname ''n'' ''a'') demo_cluster = (None, w')"
  proof (rule sim_reconcile[OF rt_std_ok demo_get(1)])
    show "resolution (uni rt_std) demo_kube demo_cluster demo_agent = Inr (None, fmempty, fmempty, None)"
      by (rule demo_resolution)
  qed (simp_all add: typed_subs_def prot)
  then obtain w' where w': "Reconcile rt_std demo_kube (nsname ''n'' ''a'') demo_cluster = (None, w')" ..
  have laws: "retry_ok (retryAgent demo_kube)" "set_owner_ok (setAgentOwner demo_kube demo_agent)"
    "status_update_ok (updateAgentStatus demo_kube) (readable (getAgent demo_kube)) ag_Meta ag_Status"
    by (simp_all add: sim_retry_ok sim_owner_ok sim_readable sim_agent_status_ok)
  have p: "findA2AProtocol demo_agent = Some ?p"
    by (simp add: findA2AProtocol_def demo_agent_def new_agent_def empty_agent_spec_def A2AProtocol_def)
  have "\<exists>x port. v_service sim_view w' (ref_key ''n'' ?ref) = Some x \<and> port \<in> set (ss_Ports (sv_Spec x))
    \<and> resolveSubAgentUrl demo_kube w' ?s ''n'' = Inr (''http://'' @ or_Name ?ref @ ''.'' @ getNamespaceWithDefault ?ref ''n''
        @ ''.svc.cluster.local:'' @ show_int32 (sp_Port port) @ ap_Path ?p @ ''/.well-known/agent-card.json'')"
    by (rule subagent_resolves_to_service[where w = demo_cluster, OF rt_std_ok laws(1) sim_undisturbed laws(2)
          sim_deployment_written sim_service_written laws(3) _ _ p])
       (simp_all add: key w' del: sim_kube_sel)
  then show ?thesis
    using w' unfolding key by (fastforce simp: local_ref_def getNamespaceWithDefault_def)
qed

section \<open>Admission and the images of agents\<close>

text \<open>
  C40: An admitted agent always gets a real image. If the agent passed the admission webhook
  and the runtime configuration's default framework is one of those its schema allows, the
  container's image is the agent's own, or the configured template of the effective framework,
  or the built-in template of that framework; the placeholder \<open>invalid\<close> is never reached.
\<close>

theorem admitted_agent_image:
  assumes "ValidateCreate lit u agent = []"
    and "configured_framework cfg \<in> {[], ''google-adk'', ''msaf''}"
    and "rt_ok rt" and "set_owner_ok (setAgentOwner k agent)"
    and "deployment_closure rt k agent subs tools gw cfg d = Inr d'"
  shows "\<exists>c framework. container_named ''agent'' (pt_Spec (ds_Template (dp_Spec d'))) = Some c
    \<and> framework = resolveEffectiveFramework agent cfg
    \<and> ct_Image c = first_set [as_Image (ag_Spec agent), configured_template cfg framework,
         if framework = ''msaf'' then ''ghcr.io/agentic-layer/agent-template-msaf:0.1.0''
         else ''ghcr.io/agentic-layer/agent-template-adk:0.8.0'']"
proof -
  let ?fw = "resolveEffectiveFramework agent cfg"
  obtain c where c: "container_named ''agent'' (pt_Spec (ds_Template (dp_Spec d'))) = Some c"
    "ct_Image c = first_set [as_Image (ag_Spec agent), configured_template cfg ?fw, builtin_template_image ?fw]"
    using closure_runs_agent[OF assms(3,4,5)] by (auto simp: runs_agent_def Let_def agentContainerName_def)
  have fw: "as_Image (ag_Spec agent) = [] \<Longrightarrow> ?fw \<in> {''google-adk'', ''msaf''}"
    using assms(1,2) unfolding ValidateCreate_def validateAgent_ok_iff resolveEffectiveFramework_eq by auto
  have "builtin_template_image ?fw = (if ?fw = ''msaf'' then ''ghcr.io/agentic-layer/agent-template-msaf:0.1.0''
      else ''ghcr.io/agentic-layer/agent-template-adk:0.8.0'')" if "?fw \<in> {''google-adk'', ''msaf''}"
    using that by (auto simp: builtin_template_image_def googleAdkFramework_def msafFramework_def
        defaultTemplateImageAdk_def defaultTemplateImageMsaf_def)
  then show ?thesis using c fw by (cases "as_Image (ag_Spec agent) = []") auto
qed

theorem admitted_agent_image_witness:
  "\<exists>d' c. deployment_closure rt_std demo_kube demo_agent fmempty fmempty None None (new_deployment ''a'' ''n'') = Inr d'
     \<and> container_named ''agent'' (pt_Spec (ds_Template (dp_Spec d'))) = Some c
     \<and> ct_Image c = ''ghcr.io/agentic-layer/agent-template-adk:0.8.0''"
proof -
  obtain d' where d': "deployment_closure rt_std demo_kube demo_agent fmempty fmempty None None (new_deployment ''a'' ''n'') = Inr d'"
    by (rule demo_closure)
  have owner: "set_owner_ok (setAgentOwner demo_kube demo_agent)" by (simp add: sim_owner_ok)
  have valid: "ValidateCreate lit u demo_agent = []" for lit u
    unfolding ValidateCreate_def validateAgent_ok_iff by (simp add: demo_agent_def new_agent_def empty_agent_spec_def)
  have fw: "configured_framework None \<in> {[], ''google-adk'', ''msaf''}" "configured_template None fw = []"
    "resolveEffectiveFramework demo_agent None = ''google-adk''" "as_Image (ag_Spec demo_agent) = []" for fw
    by (simp_all add: configured_framework_def configured_template_def resolveEffectiveFramework_eq
        demo_agent_def new_agent_def empty_agent_spec_def)
  show ?thesis
    using d' admitted_agent_image[OF valid fw(1) rt_std_ok owner d'] by (simp add: fw)
qed

end
